theory Spec2Isabelle
  imports Complex_Main
begin

section \<open>The skill catalogue of my-fullstack-boilerplate\<close>

text \<open>
  The repository is a catalogue of code-generation skills written in TypeScript.  Each
  skill module declares a Zod schema, a handler that builds source text from the validated
  arguments by template interpolation, and a \<open>SkillDefinition\<close> holding both under a name.
  The frontend index file aggregates definitions into \<open>frontendSkills\<close>.

  This theory embeds the schemas, the handlers and the registry.  Some files of the sources
  hold several modules one after the other; each subsection below is named after its module
  and says where the module stands in the sources.  Every template of the
  sources is embedded character by character; where a handler interpolates a value, the
  embedding applies the corresponding operation of the JavaScript runtime, defined in the
  next subsection.
\<close>

subsection \<open>JavaScript values and the string operations the handlers use\<close>

text \<open>
  A JavaScript string is embedded as a \<open>string\<close>: the list of its characters, a character
  beyond ASCII being the bytes of its UTF-8 encoding.  The case conversions and the white
  space tests below are the ASCII part of the JavaScript operations; the templates only
  apply them to identifiers.

  A JavaScript number accepted by \<open>z.number()\<close> is embedded as a rational (every finite
  double is one).  Values of type \<open>any\<close>, the \<open>data\<close> and \<open>metadata\<close> of a result and the
  untyped input of a schema are \<open>jsval\<close>s; an object is the list of its own enumerable
  properties in enumeration order.
\<close>

type_synonym number = rat

datatype jsval =
    JUndefined
  | JNull
  | JBool bool
  | JNum number
  | JStr string
  | JArr "jsval list"
  | JObj "(string \<times> jsval) list"

datatype js_error = RangeError string | TypeError string

text \<open>
  The runtime a handler runs in: the clock read by \<open>Date.now()\<close> (milliseconds), the text
  \<open>Number.prototype.toString\<close> gives for numbers that are not integers of ordinary size, and
  whether \<open>new URL(s)\<close> accepts a string (what \<open>z.string().url()\<close> checks).
\<close>

record runtime =
  Date_now :: int
  number_text :: "number \<Rightarrow> string"
  URL_accepts :: "string \<Rightarrow> bool"

definition is_integer :: "number \<Rightarrow> bool" where
  "is_integer q = (of_int \<lfloor>q\<rfloor> = q)"

definition digit_char :: "nat \<Rightarrow> char" where
  "digit_char d = ''0123456789abcdef'' ! d"

fun nat_toString :: "nat \<Rightarrow> string" where
  "nat_toString n = (if n < 10 then [digit_char n] else nat_toString (n div 10) @ [digit_char (n mod 10)])"

declare nat_toString.simps [simp del]

definition int_toString :: "int \<Rightarrow> string" where
  "int_toString i = (if i < 0 then CHR ''-'' # nat_toString (nat (- i)) else nat_toString (nat i))"

definition number_toString :: "runtime \<Rightarrow> number \<Rightarrow> string" where
  \<comment> \<open>Number::toString: decimal digits for an integer below 10^21, the runtime's text otherwise.\<close>
  "number_toString rt q =
     (if is_integer q \<and> \<bar>q\<bar> < 10 ^ 21 then int_toString \<lfloor>q\<rfloor> else number_text rt q)"

definition boolean_toString :: "bool \<Rightarrow> string" where
  "boolean_toString b = (if b then ''true'' else ''false'')"

definition optional_toString :: "string option \<Rightarrow> string" where
  \<comment> \<open>a template prints an absent optional value as \<open>undefined\<close>\<close>
  "optional_toString s = (case s of None \<Rightarrow> ''undefined'' | Some t \<Rightarrow> t)"

definition truthy_optional :: "string option \<Rightarrow> bool" where
  \<comment> \<open>\<open>undefined\<close> and the empty string are falsy\<close>
  "truthy_optional s = (case s of None \<Rightarrow> False | Some t \<Rightarrow> t \<noteq> [])"

fun join :: "string list \<Rightarrow> string \<Rightarrow> string" where
  "join [] sep = []"
| "join [x] sep = x"
| "join (x # y # ys) sep = x @ sep @ join (y # ys) sep"

definition toUpperCase_char :: "char \<Rightarrow> char" where
  "toUpperCase_char c =
     (case map_of (zip ''abcdefghijklmnopqrstuvwxyz'' ''ABCDEFGHIJKLMNOPQRSTUVWXYZ'') c of
        Some u \<Rightarrow> u | None \<Rightarrow> c)"

definition toLowerCase_char :: "char \<Rightarrow> char" where
  "toLowerCase_char c =
     (case map_of (zip ''ABCDEFGHIJKLMNOPQRSTUVWXYZ'' ''abcdefghijklmnopqrstuvwxyz'') c of
        Some l \<Rightarrow> l | None \<Rightarrow> c)"

definition toUpperCase :: "string \<Rightarrow> string" where
  "toUpperCase s = map toUpperCase_char s"

definition toLowerCase :: "string \<Rightarrow> string" where
  "toLowerCase s = map toLowerCase_char s"

definition charAt :: "string \<Rightarrow> nat \<Rightarrow> string" where
  "charAt s i = (if i < length s then [s ! i] else [])"

definition slice :: "string \<Rightarrow> nat \<Rightarrow> string" where
  "slice s i = drop i s"

fun startsWith :: "string \<Rightarrow> string \<Rightarrow> bool" where
  "startsWith s [] = True"
| "startsWith [] (p # ps) = False"
| "startsWith (c # cs) (p # ps) = (c = p \<and> startsWith cs ps)"

fun String_includes :: "string \<Rightarrow> string \<Rightarrow> bool" where
  "String_includes [] sub = (sub = [])"
| "String_includes (c # cs) sub = (startsWith (c # cs) sub \<or> String_includes cs sub)"

definition is_whitespace :: "char \<Rightarrow> bool" where
  \<comment> \<open>\<open>\s\<close> and \<open>trim\<close>: tab, line feed, vertical tab, form feed, carriage return, space\<close>
  "is_whitespace c = (let n = (of_char c :: nat) in (9 \<le> n \<and> n \<le> 13) \<or> n = 32)"

definition trim :: "string \<Rightarrow> string" where
  "trim s = rev (dropWhile is_whitespace (rev (dropWhile is_whitespace s)))"

fun endsWith :: "string \<Rightarrow> string \<Rightarrow> bool" where
  "endsWith s suffix = startsWith (rev s) (rev suffix)"

fun replace_first :: "string \<Rightarrow> string \<Rightarrow> string \<Rightarrow> string" where
  \<comment> \<open>\<open>s.replace(pattern, replacement)\<close> for a pattern string: the first occurrence\<close>
  "replace_first [] pat rep = (if pat = [] then rep else [])"
| "replace_first (c # cs) pat rep =
     (if startsWith (c # cs) pat then rep @ drop (length pat) (c # cs)
      else c # replace_first cs pat rep)"

definition remove_prefix :: "string \<Rightarrow> string \<Rightarrow> string" where
  \<comment> \<open>\<open>s.replace(/^prefix/, '')\<close>\<close>
  "remove_prefix p s = (if startsWith s p then drop (length p) s else s)"

definition remove_suffix :: "string \<Rightarrow> string \<Rightarrow> string" where
  \<comment> \<open>\<open>s.replace(/suffix$/, '')\<close>\<close>
  "remove_suffix p s = (if endsWith s p then take (length s - length p) s else s)"

definition remove_whitespace :: "string \<Rightarrow> string" where
  \<comment> \<open>\<open>s.replace(/\s/g, '')\<close>\<close>
  "remove_whitespace s = filter (\<lambda>c. \<not> is_whitespace c) s"

fun split_on :: "char \<Rightarrow> string \<Rightarrow> string list" where
  \<comment> \<open>\<open>s.split(c)\<close> for a one-character separator\<close>
  "split_on sep [] = [[]]"
| "split_on sep (c # cs) =
     (if c = sep then [] # split_on sep cs
      else (case split_on sep cs of [] \<Rightarrow> [[c]] | p # ps \<Rightarrow> (c # p) # ps))"

subsubsection \<open>JSON.stringify\<close>

definition json_escape_char :: "char \<Rightarrow> string" where
  "json_escape_char c =
     (let n = (of_char c :: nat) in
      if c = CHR 0x22 then [CHR 0x5C, CHR 0x22]
      else if c = CHR 0x5C then [CHR 0x5C, CHR 0x5C]
      else if n = 8 then [CHR 0x5C, CHR ''b'']
      else if n = 9 then [CHR 0x5C, CHR ''t'']
      else if n = 10 then [CHR 0x5C, CHR ''n'']
      else if n = 12 then [CHR 0x5C, CHR ''f'']
      else if n = 13 then [CHR 0x5C, CHR ''r'']
      else if n < 32 then [CHR 0x5C, CHR ''u'', CHR ''0'', CHR ''0'', digit_char (n div 16), digit_char (n mod 16)]
      else [c])"

definition json_quote :: "string \<Rightarrow> string" where
  "json_quote s = [CHR 0x22] @ concat (map json_escape_char s) @ [CHR 0x22]"

definition JSON_stringify_strings :: "string list \<Rightarrow> string" where
  \<comment> \<open>\<open>JSON.stringify\<close> of an array of strings\<close>
  "JSON_stringify_strings xs = ''['' @ join (map json_quote xs) '','' @ '']''"

fun json_text :: "runtime \<Rightarrow> jsval \<Rightarrow> string"
  and json_elements :: "runtime \<Rightarrow> jsval list \<Rightarrow> string list"
  and json_members :: "runtime \<Rightarrow> (string \<times> jsval) list \<Rightarrow> string list" where
  "json_text rt JUndefined = ''null''"
| "json_text rt JNull = ''null''"
| "json_text rt (JBool b) = boolean_toString b"
| "json_text rt (JNum q) = number_toString rt q"
| "json_text rt (JStr s) = json_quote s"
| "json_text rt (JArr xs) = ''['' @ join (json_elements rt xs) '','' @ '']''"
| "json_text rt (JObj kvs) = ''{'' @ join (json_members rt kvs) '','' @ ''}''"
| "json_elements rt [] = []"
| "json_elements rt (x # xs) = json_text rt x # json_elements rt xs"
| "json_members rt [] = []"
| "json_members rt ((k, v) # kvs) =
     (if v = JUndefined then json_members rt kvs
      else (json_quote k @ '':'' @ json_text rt v) # json_members rt kvs)"

definition JSON_stringify :: "runtime \<Rightarrow> jsval \<Rightarrow> string option" where
  \<comment> \<open>\<open>JSON.stringify(undefined)\<close> is \<open>undefined\<close>; inside an array \<open>undefined\<close> prints as
      \<open>null\<close>, inside an object the property is left out\<close>
  "JSON_stringify rt v = (if v = JUndefined then None else Some (json_text rt v))"

fun ToString :: "runtime \<Rightarrow> jsval \<Rightarrow> string"
  and ToString_elements :: "runtime \<Rightarrow> jsval list \<Rightarrow> string list" where
  "ToString rt JUndefined = ''undefined''"
| "ToString rt JNull = ''null''"
| "ToString rt (JBool b) = boolean_toString b"
| "ToString rt (JNum q) = number_toString rt q"
| "ToString rt (JStr s) = s"
| "ToString rt (JArr xs) = join (ToString_elements rt xs) '',''"
| "ToString rt (JObj kvs) = ''[object Object]''"
| "ToString_elements rt [] = []"
| "ToString_elements rt (x # xs) =
     (if x = JUndefined \<or> x = JNull then [] else ToString rt x) # ToString_elements rt xs"

definition ToBoolean :: "jsval \<Rightarrow> bool" where
  "ToBoolean v =
     (case v of JUndefined \<Rightarrow> False | JNull \<Rightarrow> False | JBool b \<Rightarrow> b
      | JNum q \<Rightarrow> q \<noteq> 0 | JStr s \<Rightarrow> s \<noteq> [] | JArr xs \<Rightarrow> True | JObj kvs \<Rightarrow> True)"

subsubsection \<open>Objects\<close>

fun lookup :: "(string \<times> 'v) list \<Rightarrow> string \<Rightarrow> 'v option" where
  "lookup [] k = None"
| "lookup ((k', v) # kvs) k = (if k' = k then Some v else lookup kvs k)"

fun assign :: "(string \<times> 'v) list \<Rightarrow> string \<Rightarrow> 'v \<Rightarrow> (string \<times> 'v) list" where
  \<comment> \<open>\<open>obj[k] = v\<close>: an existing property keeps its place, a new one goes last\<close>
  "assign [] k v = [(k, v)]"
| "assign ((k', v') # kvs) k v = (if k' = k then (k, v) # kvs else (k', v') # assign kvs k v)"

definition Object_keys :: "(string \<times> 'v) list \<Rightarrow> string list" where
  "Object_keys kvs = map fst kvs"

definition files_data :: "(string \<times> string) list \<Rightarrow> jsval" where
  \<comment> \<open>a \<open>Record<string, string>\<close> of generated files as a value\<close>
  "files_data files = JObj (map (\<lambda>(k, v). (k, JStr v)) files)"

definition strings :: "string list \<Rightarrow> jsval" where
  "strings xs = JArr (map JStr xs)"

subsection \<open>Results and issues\<close>

record SkillResult =
  success :: bool
  data :: "jsval option"
  error :: "string option"
  metadata :: "jsval option"

record ZodIssue =
  code :: string
  path :: "string list"
  message :: string

subsection \<open>Regular expressions of the schemas\<close>

text \<open>
  The regular expressions the schemas declare are anchored (\<open>^ ... $\<close>) and use only
  literals, character classes, alternation, options and counted repetition.  For such an
  expression \<open>test\<close> is membership in its language, decided here by derivatives.
\<close>

datatype rexp =
    Nothing
  | Empty
  | Class "char list"
  | Seq rexp rexp
  | Alt rexp rexp
  | Star rexp

fun literal :: "string \<Rightarrow> rexp" where
  "literal [] = Empty"
| "literal (c # cs) = Seq (Class [c]) (literal cs)"

definition Opt :: "rexp \<Rightarrow> rexp" where
  "Opt r = Alt r Empty"

fun Times :: "nat \<Rightarrow> rexp \<Rightarrow> rexp" where
  "Times 0 r = Empty"
| "Times (Suc n) r = Seq r (Times n r)"

fun nullable :: "rexp \<Rightarrow> bool" where
  "nullable Nothing = False"
| "nullable Empty = True"
| "nullable (Class cs) = False"
| "nullable (Seq r s) = (nullable r \<and> nullable s)"
| "nullable (Alt r s) = (nullable r \<or> nullable s)"
| "nullable (Star r) = True"

fun deriv :: "char \<Rightarrow> rexp \<Rightarrow> rexp" where
  "deriv c Nothing = Nothing"
| "deriv c Empty = Nothing"
| "deriv c (Class cs) = (if c \<in> set cs then Empty else Nothing)"
| "deriv c (Seq r s) =
     (if nullable r then Alt (Seq (deriv c r) s) (deriv c s) else Seq (deriv c r) s)"
| "deriv c (Alt r s) = Alt (deriv c r) (deriv c s)"
| "deriv c (Star r) = Seq (deriv c r) (Star r)"

fun matches :: "rexp \<Rightarrow> string \<Rightarrow> bool" where
  "matches r [] = nullable r"
| "matches r (c # cs) = matches (deriv c r) cs"

subsection \<open>Schemas: the part of Zod the catalogue uses\<close>

text \<open>
  A schema is the declaration the source writes, as a value: \<open>z.object({...})\<close> is
  \<open>ZObject\<close> with the shape's keys in order, \<open>s.default(d)\<close> is \<open>ZDefault s d\<close>, and so on;
  \<open>describe\<close> only attaches documentation and is left out.  \<open>zparse\<close> is Zod 3's
  \<open>safeParse\<close>: a missing value is the input \<open>undefined\<close>; a default replaces an
  \<open>undefined\<close> input and is parsed in its place; an object parses every key of its shape,
  collects the issues of all of them under the key's path and drops unknown keys; an array
  parses every element.
\<close>

datatype zschema =
    ZString
  | ZRegex rexp string
  | ZUrl
  | ZNumber
  | ZBoolean
  | ZAny
  | ZEnum "string list"
  | ZArray zschema
  | ZRecord zschema
  | ZObject "(string \<times> zschema) list"
  | ZOptional zschema
  | ZDefault zschema jsval
  | ZUnion "zschema list"

definition issue :: "string \<Rightarrow> string \<Rightarrow> ZodIssue list" where
  "issue c m = [\<lparr>code = c, path = [], message = m\<rparr>]"

definition at_path :: "string \<Rightarrow> ZodIssue list + 'a \<Rightarrow> ZodIssue list + 'a" where
  "at_path k r = (case r of Inl is \<Rightarrow> Inl (map (\<lambda>i. i\<lparr>path := k # path i\<rparr>) is) | Inr a \<Rightarrow> Inr a)"

definition wrong_type :: "string \<Rightarrow> jsval \<Rightarrow> ZodIssue list + 'a" where
  "wrong_type expected v =
     (if v = JUndefined then Inl (issue ''invalid_type'' ''Required'')
      else Inl (issue ''invalid_type'' (''Expected '' @ expected)))"

definition property :: "(string \<times> jsval) list \<Rightarrow> string \<Rightarrow> jsval" where
  \<comment> \<open>\<open>obj[k]\<close>: \<open>undefined\<close> for a missing key\<close>
  "property obj k = (case lookup obj k of None \<Rightarrow> JUndefined | Some v \<Rightarrow> v)"

fun collect :: "(ZodIssue list + 'a) list \<Rightarrow> ZodIssue list + 'a list" where
  \<comment> \<open>the results when all parses succeed, else the issues of all that fail\<close>
  "collect [] = Inr []"
| "collect (r # rs) =
     (case r of
        Inr a \<Rightarrow> (case collect rs of Inr as \<Rightarrow> Inr (a # as) | Inl is \<Rightarrow> Inl is)
      | Inl is1 \<Rightarrow> (case collect rs of Inr as \<Rightarrow> Inl is1 | Inl is2 \<Rightarrow> Inl (is1 @ is2)))"

fun first_success :: "(ZodIssue list + 'a) list \<Rightarrow> ZodIssue list + 'a" where
  "first_success [] = Inl (issue ''invalid_union'' ''Invalid input'')"
| "first_success (r # rs) = (case r of Inr a \<Rightarrow> Inr a | Inl is \<Rightarrow> first_success rs)"

definition present :: "(string \<times> jsval) list \<Rightarrow> (string \<times> jsval) list" where
  \<comment> \<open>an object's output holds no key whose value is \<open>undefined\<close>\<close>
  "present kvs = filter (\<lambda>kv. snd kv \<noteq> JUndefined) kvs"

definition keyed :: "string \<Rightarrow> ZodIssue list + jsval \<Rightarrow> ZodIssue list + (string \<times> jsval)" where
  "keyed k r = (case at_path k r of Inl is \<Rightarrow> Inl is | Inr v \<Rightarrow> Inr (k, v))"

fun zparse :: "runtime \<Rightarrow> zschema \<Rightarrow> jsval \<Rightarrow> ZodIssue list + jsval" where
  "zparse rt ZString v = (case v of JStr s \<Rightarrow> Inr v | _ \<Rightarrow> wrong_type ''string'' v)"
| "zparse rt (ZRegex re msg) v =
     (case v of
        JStr s \<Rightarrow> if matches re s then Inr v else Inl (issue ''invalid_string'' msg)
      | _ \<Rightarrow> wrong_type ''string'' v)"
| "zparse rt ZUrl v =
     (case v of
        JStr s \<Rightarrow> if URL_accepts rt s then Inr v else Inl (issue ''invalid_string'' ''Invalid url'')
      | _ \<Rightarrow> wrong_type ''string'' v)"
| "zparse rt ZNumber v = (case v of JNum q \<Rightarrow> Inr v | _ \<Rightarrow> wrong_type ''number'' v)"
| "zparse rt ZBoolean v = (case v of JBool b \<Rightarrow> Inr v | _ \<Rightarrow> wrong_type ''boolean'' v)"
| "zparse rt ZAny v = Inr v"
| "zparse rt (ZEnum values) v =
     (case v of
        JStr s \<Rightarrow> if s \<in> set values then Inr v
                  else Inl (issue ''invalid_enum_value'' (''Invalid enum value. Expected '' @ join values '' | ''))
      | _ \<Rightarrow> wrong_type ''string'' v)"
| "zparse rt (ZArray element) v =
     (case v of
        JArr xs \<Rightarrow>
          (case collect (map (\<lambda>(i, x). at_path (nat_toString i) (zparse rt element x)) (enumerate 0 xs)) of
             Inl is \<Rightarrow> Inl is | Inr ys \<Rightarrow> Inr (JArr ys))
      | _ \<Rightarrow> wrong_type ''array'' v)"
| "zparse rt (ZRecord element) v =
     (case v of
        JObj obj \<Rightarrow>
          (case collect (map (\<lambda>(k, x). keyed k (zparse rt element x)) obj) of
             Inl is \<Rightarrow> Inl is | Inr kvs \<Rightarrow> Inr (JObj kvs))
      | _ \<Rightarrow> wrong_type ''object'' v)"
| "zparse rt (ZObject shape) v =
     (case v of
        JObj obj \<Rightarrow>
          (case collect (map (\<lambda>(k, s). keyed k (zparse rt s (property obj k))) shape) of
             Inl is \<Rightarrow> Inl is | Inr kvs \<Rightarrow> Inr (JObj (present kvs)))
      | _ \<Rightarrow> wrong_type ''object'' v)"
| "zparse rt (ZOptional s) v = (if v = JUndefined then Inr JUndefined else zparse rt s v)"
| "zparse rt (ZDefault s d) v = zparse rt s (if v = JUndefined then d else v)"
| "zparse rt (ZUnion options) v = first_success (map (\<lambda>s. zparse rt s v) options)"

subsubsection \<open>The typed view of a validated value\<close>

text \<open>
  A handler is typed \<open>(args: z.infer<typeof Schema>)\<close>: it reads the validated value as an
  object of typed fields.  The functions below are that reading; each is only applied to
  the field of a value its schema has validated.
\<close>

definition as_string :: "jsval \<Rightarrow> string" where
  "as_string v = (case v of JStr s \<Rightarrow> s | _ \<Rightarrow> [])"

definition as_number :: "jsval \<Rightarrow> number" where
  "as_number v = (case v of JNum q \<Rightarrow> q | _ \<Rightarrow> 0)"

definition as_boolean :: "jsval \<Rightarrow> bool" where
  "as_boolean v = (case v of JBool b \<Rightarrow> b | _ \<Rightarrow> False)"

definition as_array :: "(jsval \<Rightarrow> 'a) \<Rightarrow> jsval \<Rightarrow> 'a list" where
  "as_array element v = (case v of JArr xs \<Rightarrow> map element xs | _ \<Rightarrow> [])"

definition as_record :: "(jsval \<Rightarrow> 'a) \<Rightarrow> jsval \<Rightarrow> (string \<times> 'a) list" where
  "as_record element v = (case v of JObj kvs \<Rightarrow> map (\<lambda>(k, x). (k, element x)) kvs | _ \<Rightarrow> [])"

definition as_optional :: "(jsval \<Rightarrow> 'a) \<Rightarrow> jsval \<Rightarrow> 'a option" where
  "as_optional element v = (if v = JUndefined then None else Some (element v))"

definition field :: "jsval \<Rightarrow> string \<Rightarrow> jsval" where
  \<comment> \<open>\<open>v.k\<close> of an object\<close>
  "field v k = (case v of JObj obj \<Rightarrow> property obj k | _ \<Rightarrow> JUndefined)"

subsection \<open>The skill contract (types.ts)\<close>

text \<open>
  \<open>SkillDefinition\<close> as the source declares it.  The \<open>handler\<close> of a definition takes the
  validated value; a handler that throws returns the error.
\<close>

record SkillDefinition =
  name :: string
  description :: string
  parameters :: zschema
  handler :: "runtime \<Rightarrow> jsval \<Rightarrow> js_error + SkillResult"

text \<open>
  An invocation of a skill.  types.ts declares \<open>parameters: T\<close> as the ``Zod Schema for
  validation'' and types the handler on its output, \<open>handler: (args: z.infer<T>) => ...\<close>: the
  argument of the handler is what the schema's \<open>parse\<close> returns for the input.  An input the
  schema rejects yields the issues and never reaches the handler; a validated one is given to
  it, and the handler returns a result or throws.
\<close>

datatype outcome = Rejected "ZodIssue list" | Threw js_error | Returned SkillResult

definition invoke :: "runtime \<Rightarrow> SkillDefinition \<Rightarrow> jsval \<Rightarrow> outcome" where
  "invoke rt skill input =
     (case zparse rt (parameters skill) input of
        Inl issues \<Rightarrow> Rejected issues
      | Inr args \<Rightarrow> (case handler skill rt args of Inl e \<Rightarrow> Threw e | Inr r \<Rightarrow> Returned r))"

section \<open>Backend skills\<close>

subsection \<open>backend/security/role\_guard\_generator.ts\<close>

text \<open>Source: \<open>src/backend/security/role_guard_generator.ts\<close>, lines 1 to 79.\<close>

record RoleGuardGeneratorArgs =
  rolesEnumName :: string
  defaultRoles :: "string list"
  jwtPayloadType :: string

definition RoleGuardGeneratorSchema :: zschema where
  "RoleGuardGeneratorSchema = ZObject
     [(''rolesEnumName'', ZDefault ZString (JStr ''UserRole'')),
      (''defaultRoles'', ZDefault (ZArray ZString) (strings [''admin'', ''user''])),
      (''jwtPayloadType'', ZDefault ZString (JStr ''JwtPayload''))]"

definition RoleGuardGeneratorArgs_of :: "jsval \<Rightarrow> RoleGuardGeneratorArgs" where
  "RoleGuardGeneratorArgs_of v = RoleGuardGeneratorArgs.make
     (as_string (field v ''rolesEnumName''))
     (as_array as_string (field v ''defaultRoles''))
     (as_string (field v ''jwtPayloadType''))"

definition role_guard_generator_decoratorCode :: "string \<Rightarrow> string" where
  \<open>role_guard_generator_decoratorCode = (\<lambda>rolesEnumName.
    (''import { SetMetadata } from '@nestjs/common';\<newline>'' @
       ''import { '' @ rolesEnumName @ '' } from './roles.enum';\<newline>'' @
       ''\<newline>'' @
       ''export const ROLES_KEY = 'roles';\<newline>'' @
       ''export const Roles = (...roles: '' @ rolesEnumName @ ''[]) => SetMetadata(ROLES_KEY, roles);\<newline>''))\<close>

definition role_guard_generator_enumCode :: "string \<Rightarrow> string list \<Rightarrow> string" where
  \<open>role_guard_generator_enumCode = (\<lambda>rolesEnumName defaultRoles.
    (''export enum '' @ rolesEnumName @ '' {\<newline>'' @
       (join (map (\<lambda>r. (''  '' @ (toUpperCase r) @ '' = '' @ [CHR 0x27] @ r @ [CHR 0x27] @ '','')) defaultRoles) ''\<newline>'') @ ''\<newline>'' @
       ''}''))\<close>

definition role_guard_generator_guardCode :: "string \<Rightarrow> string \<Rightarrow> string" where
  \<open>role_guard_generator_guardCode = (\<lambda>rolesEnumName jwtPayloadType.
    (''import { Injectable, CanActivate, ExecutionContext, ForbiddenException } from '@nestjs/common';\<newline>'' @
       ''import { Reflector } from '@nestjs/core';\<newline>'' @
       ''import { ROLES_KEY, '' @ rolesEnumName @ '' } from './roles.decorator';\<newline>'' @
       ''import { '' @ jwtPayloadType @ '' } from '../auth/interfaces/jwt-payload.interface'; // Adjust path as needed\<newline>'' @
       ''\<newline>'' @
       ''@Injectable()\<newline>'' @
       ''export class RolesGuard implements CanActivate {\<newline>'' @
       ''  constructor(private reflector: Reflector) {}\<newline>'' @
       ''\<newline>'' @
       ''  canActivate(context: ExecutionContext): boolean {\<newline>'' @
       ''    const requiredRoles = this.reflector.getAllAndOverride<'' @ rolesEnumName @ ''[]>(ROLES_KEY, [\<newline>'' @
       ''      context.getHandler(),\<newline>'' @
       ''      context.getClass(),\<newline>'' @
       ''    ]);\<newline>'' @
       ''\<newline>'' @
       ''    if (!requiredRoles) {\<newline>'' @
       ''      return true; // No roles required, access granted (or rely on jwt guard)\<newline>'' @
       ''    }\<newline>'' @
       ''\<newline>'' @
       ''    const { user } = context.switchToHttp().getRequest();\<newline>'' @
       ''    if (!user) {\<newline>'' @
       ''        throw new ForbiddenException('No user attached to request. Ensure JwtAuthGuard is running before RolesGuard.');\<newline>'' @
       ''    }\<newline>'' @
       ''    \<newline>'' @
       ''    // Logic: User must have at least one of the required roles\<newline>'' @
       ''    // Adjust 'user.role' based on your actual JWT structure\<newline>'' @
       ''    const hasRole = requiredRoles.some((role) => user.role === role);\<newline>'' @
       ''    \<newline>'' @
       ''    return hasRole;\<newline>'' @
       ''  }\<newline>'' @
       ''}\<newline>''))\<close>

definition role_guard_generator_handler :: "RoleGuardGeneratorArgs \<Rightarrow> SkillResult" where
  "role_guard_generator_handler args =
     (let rolesEnumName = RoleGuardGeneratorArgs.rolesEnumName args;
          defaultRoles = RoleGuardGeneratorArgs.defaultRoles args;
          jwtPayloadType = RoleGuardGeneratorArgs.jwtPayloadType args;
          decoratorCode = role_guard_generator_decoratorCode rolesEnumName;
          enumCode = role_guard_generator_enumCode rolesEnumName defaultRoles;
          guardCode = role_guard_generator_guardCode rolesEnumName jwtPayloadType
      in \<lparr>success = True,
          data = Some (JObj [(''roles.enum.ts'', JStr enumCode),
                             (''roles.decorator.ts'', JStr decoratorCode),
                             (''roles.guard.ts'', JStr guardCode)]),
          error = None,
          metadata = Some (JObj [(''guardName'', JStr ''RolesGuard''),
                                 (''strategies'', strings [''jwt'', ''reflector''])])\<rparr>)"

definition roleGuardGeneratorSkillDefinition :: SkillDefinition where
  \<open>roleGuardGeneratorSkillDefinition =
     \<lparr>SkillDefinition.name = ''role_guard_generator'',
      SkillDefinition.description = ''Generates NestJS RolesGuard, Decorator, and Enum for RBAC.'',
      parameters = RoleGuardGeneratorSchema,
      handler = (\<lambda>rt v. Inr (role_guard_generator_handler (RoleGuardGeneratorArgs_of v)))\<rparr>\<close>

subsection \<open>backend/security/access\_list\_manager.ts\<close>

text \<open>Source: \<open>src/backend/security/access_list_manager.ts\<close>, lines 1 to 80.\<close>

record AccessListManagerArgs =
  type :: string
  ips :: "string list"
  action :: string

definition ipv4_octet :: rexp where
  \<comment> \<open>\<open>25[0-5]|2[0-4][0-9]|[01]?[0-9][0-9]?\<close>\<close>
  "ipv4_octet =
     Alt (Seq (literal ''25'') (Class ''012345''))
         (Alt (Seq (literal ''2'') (Seq (Class ''01234'') (Class ''0123456789'')))
              (Seq (Opt (Class ''01'')) (Seq (Class ''0123456789'') (Opt (Class ''0123456789'')))))"

definition ipv4_regex :: rexp where
  \<comment> \<open>\<open>^(?:(?:octet)\.){3}(?:octet)$\<close>\<close>
  "ipv4_regex = Seq (Times 3 (Seq ipv4_octet (Class ''.''))) ipv4_octet"

definition AccessListManagerSchema :: zschema where
  "AccessListManagerSchema = ZObject
     [(''type'', ZEnum [''whitelist'', ''blacklist'']),
      (''ips'', ZArray (ZRegex ipv4_regex ''Invalid IP address format'')),
      (''action'', ZDefault (ZEnum [''allow'', ''deny'', ''log_only'']) (JStr ''deny''))]"

definition AccessListManagerArgs_of :: "jsval \<Rightarrow> AccessListManagerArgs" where
  "AccessListManagerArgs_of v = AccessListManagerArgs.make
     (as_string (field v ''type''))
     (as_array as_string (field v ''ips''))
     (as_string (field v ''action''))"

definition access_list_manager_code :: "string \<Rightarrow> string \<Rightarrow> string \<Rightarrow> string \<Rightarrow> string" where
  \<open>access_list_manager_code = (\<lambda>type action guardName ipsString.
    (''import { Injectable, CanActivate, ExecutionContext, ForbiddenException, Logger } from '@nestjs/common';\<newline>'' @
       ''import { Request } from 'express';\<newline>'' @
       ''\<newline>'' @
       ''@Injectable()\<newline>'' @
       ''export class '' @ guardName @ '' implements CanActivate {\<newline>'' @
       ''  private readonly logger = new Logger('' @ guardName @ ''.name);\<newline>'' @
       ''  private readonly restrictedIps = '' @ ipsString @ '';\<newline>'' @
       ''\<newline>'' @
       ''  canActivate(context: ExecutionContext): boolean {\<newline>'' @
       ''    const request = context.switchToHttp().getRequest<Request>();\<newline>'' @
       ''    const clientIp = request.ip || request.connection.remoteAddress;\<newline>'' @
       ''\<newline>'' @
       ''    if (!clientIp) {\<newline>'' @
       ''      this.logger.warn('Could not determine client IP');\<newline>'' @
       ''      return false; // Fail safe\<newline>'' @
       ''    }\<newline>'' @
       ''\<newline>'' @
       ''    '' @ (if (type = ''whitelist'') then (''\<newline>'' @
         ''    // Whitelist Logic: Allow ONLY if in list\<newline>'' @
         ''    const isAllowed = this.restrictedIps.includes(clientIp);\<newline>'' @
         ''    if (!isAllowed) {\<newline>'' @
         ''      '' @ (if (action = ''log_only'') then (''\<newline>'' @
           ''      this.logger.warn(`Access from unauthorized IP: ${clientIp}`);\<newline>'' @
           ''      return true;\<newline>'' @
           ''      '')
           else (''\<newline>'' @
           ''      this.logger.warn(`Blocked access from unauthorized IP: ${clientIp}`);\<newline>'' @
           ''      throw new ForbiddenException('Access denied from your IP address');\<newline>'' @
           ''      '')) @
         ''\<newline>'' @
         ''    }\<newline>'' @
         ''    return true;\<newline>'' @
         ''    '')
         else (''\<newline>'' @
         ''    // Blacklist Logic: Deny if IN list\<newline>'' @
         ''    const isBlocked = this.restrictedIps.includes(clientIp);\<newline>'' @
         ''    if (isBlocked) {\<newline>'' @
         ''       '' @ (if (action = ''log_only'') then (''\<newline>'' @
           ''       this.logger.warn(`Detected blacklisted IP: ${clientIp}`);\<newline>'' @
           ''       return true;\<newline>'' @
           ''       '')
           else (''\<newline>'' @
           ''       this.logger.warn(`Blocked blacklisted IP: ${clientIp}`);\<newline>'' @
           ''       throw new ForbiddenException('Your IP address has been blocked');\<newline>'' @
           ''       '')) @
         ''\<newline>'' @
         ''    }\<newline>'' @
         ''    return true;\<newline>'' @
         ''    '')) @
       ''\<newline>'' @
       ''  }\<newline>'' @
       ''}\<newline>''))\<close>

definition access_list_manager_handler :: "AccessListManagerArgs \<Rightarrow> SkillResult" where
  "access_list_manager_handler args =
     (let type = AccessListManagerArgs.type args;
          ips = AccessListManagerArgs.ips args;
          action = AccessListManagerArgs.action args;
          guardName = (if type = ''whitelist'' then ''IpWhitelistGuard'' else ''IpBlacklistGuard'');
          ipsString = JSON_stringify_strings ips;
          code = access_list_manager_code type action guardName ipsString
      in \<lparr>success = True,
          data = Some (JStr code),
          error = None,
          metadata = Some (JObj [(''guard'', JStr guardName),
                                 (''config'', JObj [(''type'', JStr type),
                                                    (''count'', JNum (of_nat (length ips))),
                                                    (''action'', JStr action)])])\<rparr>)"

definition accessListManagerSkillDefinition :: SkillDefinition where
  \<open>accessListManagerSkillDefinition =
     \<lparr>SkillDefinition.name = ''access_list_manager'',
      SkillDefinition.description = ''Generates security guards to filter traffic based on IP patterns (Whitelist/Blacklist).'',
      parameters = AccessListManagerSchema,
      handler = (\<lambda>rt v. Inr (access_list_manager_handler (AccessListManagerArgs_of v)))\<rparr>\<close>

subsection \<open>backend/security/token\_blacklist.ts\<close>

text \<open>Source: \<open>src/unnamed/part_001\<close>, lines 1 to 98.\<close>

record TokenBlacklistArgs =
  redisHost :: string
  redisPort :: number
  tokenExpirySeconds :: number

definition TokenBlacklistSchema :: zschema where
  "TokenBlacklistSchema = ZObject
     [(''redisHost'', ZDefault ZString (JStr ''localhost'')),
      (''redisPort'', ZDefault ZNumber (JNum 6379)),
      (''tokenExpirySeconds'', ZDefault ZNumber (JNum 3600))]"

definition TokenBlacklistArgs_of :: "jsval \<Rightarrow> TokenBlacklistArgs" where
  "TokenBlacklistArgs_of v = TokenBlacklistArgs.make
     (as_string (field v ''redisHost''))
     (as_number (field v ''redisPort''))
     (as_number (field v ''tokenExpirySeconds''))"

definition token_blacklist_serviceCode :: "runtime \<Rightarrow> number \<Rightarrow> string" where
  \<open>token_blacklist_serviceCode = (\<lambda>rt tokenExpirySeconds.
    (''import { Injectable, Inject, UnauthorizedException } from '@nestjs/common';\<newline>'' @
       ''import { CACHE_MANAGER } from '@nestjs/cache-manager';\<newline>'' @
       ''import { Cache } from 'cache-manager';\<newline>'' @
       ''\<newline>'' @
       ''@Injectable()\<newline>'' @
       ''export class AuthService {\<newline>'' @
       ''  constructor(@Inject(CACHE_MANAGER) private cacheManager: Cache) {}\<newline>'' @
       ''\<newline>'' @
       ''  async logout(token: string) {\<newline>'' @
       ''    // Add token to blacklist with expiry\<newline>'' @
       ''    // Key prefix: blacklist:token_signature\<newline>'' @
       ''    await this.cacheManager.set(`blacklist:${token}`, true, '' @ (number_toString rt tokenExpirySeconds) @ '' * 1000); // cache-manager v5 uses milliseconds usually, check version\<newline>'' @
       ''  }\<newline>'' @
       ''\<newline>'' @
       ''  async isBlacklisted(token: string): Promise<boolean> {\<newline>'' @
       ''    const isListed = await this.cacheManager.get(`blacklist:${token}`);\<newline>'' @
       ''    return !!isListed;\<newline>'' @
       ''  }\<newline>'' @
       ''}\<newline>''))\<close>

definition token_blacklist_guardCode :: string where
  \<open>token_blacklist_guardCode =
    (''import { Injectable, CanActivate, ExecutionContext, UnauthorizedException } from '@nestjs/common';\<newline>'' @
       ''import { AuthService } from './auth.service';\<newline>'' @
       ''\<newline>'' @
       ''@Injectable()\<newline>'' @
       ''export class JwtBlacklistGuard implements CanActivate {\<newline>'' @
       ''  constructor(private authService: AuthService) {}\<newline>'' @
       ''\<newline>'' @
       ''  async canActivate(context: ExecutionContext): Promise<boolean> {\<newline>'' @
       ''    const request = context.switchToHttp().getRequest();\<newline>'' @
       ''    const token = request.headers.authorization?.split(' ')[1];\<newline>'' @
       ''\<newline>'' @
       ''    if (token) {\<newline>'' @
       ''      const isBlacklisted = await this.authService.isBlacklisted(token);\<newline>'' @
       ''      if (isBlacklisted) {\<newline>'' @
       ''        throw new UnauthorizedException('Token has been revoked');\<newline>'' @
       ''      }\<newline>'' @
       ''    }\<newline>'' @
       ''    \<newline>'' @
       ''    // Continue to standard JWT signature check (usually handled by Passport strategy or subsequent guard)\<newline>'' @
       ''    return true;\<newline>'' @
       ''  }\<newline>'' @
       ''}\<newline>'')\<close>

definition token_blacklist_moduleSetup :: "runtime \<Rightarrow> string \<Rightarrow> number \<Rightarrow> string" where
  \<open>token_blacklist_moduleSetup = (\<lambda>rt redisHost redisPort.
    (''\<newline>'' @
       ''// In your AuthModule or AppModule, ensure you import CacheModule with Redis store\<newline>'' @
       ''/*\<newline>'' @
       ''import { CacheModule } from '@nestjs/cache-manager';\<newline>'' @
       ''import * as redisStore from 'cache-manager-redis-store';\<newline>'' @
       ''\<newline>'' @
       ''@Module({\<newline>'' @
       ''  imports: [\<newline>'' @
       ''    CacheModule.register({\<newline>'' @
       ''      store: redisStore,\<newline>'' @
       ''      host: '' @ [CHR 0x27] @ redisHost @ [CHR 0x27] @ '',\<newline>'' @
       ''      port: '' @ (number_toString rt redisPort) @ '',\<newline>'' @
       ''    }),\<newline>'' @
       ''  ],\<newline>'' @
       ''  providers: [AuthService, JwtBlacklistGuard],\<newline>'' @
       ''  exports: [AuthService, JwtBlacklistGuard]\<newline>'' @
       ''})\<newline>'' @
       ''*/\<newline>''))\<close>

definition token_blacklist_handler :: "runtime \<Rightarrow> TokenBlacklistArgs \<Rightarrow> SkillResult" where
  "token_blacklist_handler rt args =
     (let redisHost = TokenBlacklistArgs.redisHost args;
          redisPort = TokenBlacklistArgs.redisPort args;
          tokenExpirySeconds = TokenBlacklistArgs.tokenExpirySeconds args;
          serviceCode = token_blacklist_serviceCode rt tokenExpirySeconds;
          guardCode = token_blacklist_guardCode;
          moduleSetup = token_blacklist_moduleSetup rt redisHost redisPort
      in \<lparr>success = True,
          data = Some (JObj [(''auth.service.ts'', JStr serviceCode),
                             (''jwt-blacklist.guard.ts'', JStr guardCode),
                             (''setup-instructions.txt'', JStr moduleSetup)]),
          error = None,
          metadata = Some (JObj [(''integration'', JStr ''Redis''),
                                 (''cacheManager'', JStr ''nestjs/cache-manager'')])\<rparr>)"

definition tokenBlacklistSkillDefinition :: SkillDefinition where
  \<open>tokenBlacklistSkillDefinition =
     \<lparr>SkillDefinition.name = ''token_blacklist'',
      SkillDefinition.description = ''Generates logic for JWT revocation using Redis blacklist.'',
      parameters = TokenBlacklistSchema,
      handler = (\<lambda>rt v. Inr (token_blacklist_handler rt (TokenBlacklistArgs_of v)))\<rparr>\<close>

subsection \<open>backend/api/rate\_limit\_setup.ts\<close>

text \<open>Source: \<open>src/backend/api/rate_limit_setup.ts\<close>, lines 1 to 52.\<close>

record RateLimitSetupArgs =
  ttl :: number
  limit :: number

definition RateLimitSetupSchema :: zschema where
  "RateLimitSetupSchema = ZObject
     [(''ttl'', ZDefault ZNumber (JNum 60)),
      (''limit'', ZDefault ZNumber (JNum 10))]"

definition RateLimitSetupArgs_of :: "jsval \<Rightarrow> RateLimitSetupArgs" where
  "RateLimitSetupArgs_of v = RateLimitSetupArgs.make
     (as_number (field v ''ttl''))
     (as_number (field v ''limit''))"

definition rate_limit_setup_code :: "runtime \<Rightarrow> number \<Rightarrow> number \<Rightarrow> string" where
  \<open>rate_limit_setup_code = (\<lambda>rt ttl limit.
    (''import { Module } from '@nestjs/common';\<newline>'' @
       ''import { APP_GUARD } from '@nestjs/core';\<newline>'' @
       ''import { ThrottlerModule, ThrottlerGuard } from '@nestjs/throttler';\<newline>'' @
       ''\<newline>'' @
       ''@Module({\<newline>'' @
       ''  imports: [\<newline>'' @
       ''    ThrottlerModule.forRoot([{\<newline>'' @
       ''      ttl: '' @ (number_toString rt ttl) @ '',\<newline>'' @
       ''      limit: '' @ (number_toString rt limit) @ '',\<newline>'' @
       ''    }]),\<newline>'' @
       ''  ],\<newline>'' @
       ''  providers: [\<newline>'' @
       ''    {\<newline>'' @
       ''      provide: APP_GUARD,\<newline>'' @
       ''      useClass: ThrottlerGuard,\<newline>'' @
       ''    },\<newline>'' @
       ''  ],\<newline>'' @
       ''})\<newline>'' @
       ''export class RateLimiterModule {}\<newline>'' @
       ''\<newline>'' @
       ''// To override on specific controllers/methods:\<newline>'' @
       ''// @SkipThrottle()\<newline>'' @
       ''// @Throttle({ default: { limit: 3, ttl: 60 } })\<newline>''))\<close>

definition rate_limit_setup_handler :: "runtime \<Rightarrow> RateLimitSetupArgs \<Rightarrow> SkillResult" where
  "rate_limit_setup_handler rt args =
     (let ttl = RateLimitSetupArgs.ttl args;
          limit = RateLimitSetupArgs.limit args;
          code = rate_limit_setup_code rt ttl limit
      in \<lparr>success = True,
          data = Some (JStr code),
          error = None,
          metadata = Some (JObj [(''dependencies'', strings [''@nestjs/throttler'']),
                                 (''defaultConfig'', JObj [(''ttl'', JNum ttl), (''limit'', JNum limit)])])\<rparr>)"

definition rateLimitSetupSkillDefinition :: SkillDefinition where
  \<open>rateLimitSetupSkillDefinition =
     \<lparr>SkillDefinition.name = ''rate_limit_setup'',
      SkillDefinition.description = ''Generates RateLimiterModule configuration using @nestjs/throttler.'',
      parameters = RateLimitSetupSchema,
      handler = (\<lambda>rt v. Inr (rate_limit_setup_handler rt (RateLimitSetupArgs_of v)))\<rparr>\<close>

subsection \<open>backend/api/swagger\_doc\_helper.ts\<close>

text \<open>Source: \<open>src/backend/api/swagger_doc_helper.ts\<close>, lines 1 to 59.\<close>

record SwaggerProperty =
  name :: string
  type :: string
  description :: "string option"
  example :: jsval
  required :: bool

record SwaggerDocHelperArgs =
  properties :: "SwaggerProperty list"
  className :: string

definition SwaggerDocHelperSchema :: zschema where
  "SwaggerDocHelperSchema = ZObject
     [(''properties'', ZArray (ZObject
         [(''name'', ZString),
          (''type'', ZString),
          (''description'', ZOptional ZString),
          (''example'', ZOptional ZAny),
          (''required'', ZDefault ZBoolean (JBool True))])),
      (''className'', ZDefault ZString (JStr ''GeneratedDto''))]"

definition SwaggerProperty_of :: "jsval \<Rightarrow> SwaggerProperty" where
  "SwaggerProperty_of v = SwaggerProperty.make
     (as_string (field v ''name''))
     (as_string (field v ''type''))
     (as_optional as_string (field v ''description''))
     (field v ''example'')
     (as_boolean (field v ''required''))"

definition SwaggerDocHelperArgs_of :: "jsval \<Rightarrow> SwaggerDocHelperArgs" where
  "SwaggerDocHelperArgs_of v = SwaggerDocHelperArgs.make
     (as_array SwaggerProperty_of (field v ''properties''))
     (as_string (field v ''className''))"

definition swagger_doc_helper_apiPropOptions :: "runtime \<Rightarrow> SwaggerProperty \<Rightarrow> string list" where
  \<open>swagger_doc_helper_apiPropOptions = (\<lambda>rt prop.
     (if truthy_optional (SwaggerProperty.description prop)
      then [(''description: '' @ [CHR 0x27] @ (optional_toString (SwaggerProperty.description prop)) @ [CHR 0x27])] else []) @
     (if SwaggerProperty.example prop \<noteq> JUndefined
      then [(''example: '' @ (optional_toString (JSON_stringify rt (SwaggerProperty.example prop))))] else []) @
     (if SwaggerProperty.required prop = False
      then [''required: false''] else []))\<close>

definition swagger_doc_helper_propertyCode :: "runtime \<Rightarrow> SwaggerProperty \<Rightarrow> string" where
  \<open>swagger_doc_helper_propertyCode = (\<lambda>rt prop.
     (let apiPropOptions = swagger_doc_helper_apiPropOptions rt prop;
          optionsStr = (if apiPropOptions \<noteq> [] then (''{ '' @ (join apiPropOptions '', '') @ '' }'') else []);
          optionalMark = (if SwaggerProperty.required prop then [] else ''?'');
          exclamationMark = (if SwaggerProperty.required prop then ''!'' else [])
      in (''\<newline>'' @
         ''  @ApiProperty('' @ optionsStr @ '')\<newline>'' @
         ''  '' @ (SwaggerProperty.name prop) @ optionalMark @ '': '' @ (SwaggerProperty.type prop) @ '';'')))\<close>

definition swagger_doc_helper_code :: "string \<Rightarrow> string \<Rightarrow> string" where
  \<open>swagger_doc_helper_code = (\<lambda>className propertyCodes.
    (''import { ApiProperty } from '@nestjs/swagger';\<newline>'' @
       ''\<newline>'' @
       ''export class '' @ className @ '' {\<newline>'' @
       propertyCodes @ ''\<newline>'' @
       ''}\<newline>''))\<close>

definition swagger_doc_helper_handler :: "runtime \<Rightarrow> SwaggerDocHelperArgs \<Rightarrow> SkillResult" where
  "swagger_doc_helper_handler rt args =
     (let properties = SwaggerDocHelperArgs.properties args;
          className = SwaggerDocHelperArgs.className args;
          propertyCodes = join (map (swagger_doc_helper_propertyCode rt) properties) ''\<newline>'';
          code = swagger_doc_helper_code className propertyCodes
      in \<lparr>success = True,
          data = Some (JStr code),
          error = None,
          metadata = Some (JObj [(''documentation'', JStr ''NestJS Swagger DTO''),
                                 (''decoratedProperties'', strings (map SwaggerProperty.name properties))])\<rparr>)"

definition swaggerDocHelperSkillDefinition :: SkillDefinition where
  \<open>swaggerDocHelperSkillDefinition =
     \<lparr>SkillDefinition.name = ''swagger_doc_helper'',
      SkillDefinition.description = ''Generates a DTO class with @ApiProperty decorators for Swagger documentation.'',
      parameters = SwaggerDocHelperSchema,
      handler = (\<lambda>rt v. Inr (swagger_doc_helper_handler rt (SwaggerDocHelperArgs_of v)))\<rparr>\<close>

subsection \<open>backend/api/versioning\_manager.ts\<close>

text \<open>Source: \<open>src/backend/api/versioning_manager.ts\<close>, lines 1 to 46.\<close>

record VersioningManagerArgs =
  type :: string
  defaultVersion :: string
  prefix :: string

definition VersioningManagerSchema :: zschema where
  "VersioningManagerSchema = ZObject
     [(''type'', ZDefault (ZEnum [''URI'', ''HEADER'', ''MEDIA_TYPE'']) (JStr ''URI'')),
      (''defaultVersion'', ZDefault ZString (JStr ''1'')),
      (''prefix'', ZDefault ZString (JStr ''api/v''))]"

definition VersioningManagerArgs_of :: "jsval \<Rightarrow> VersioningManagerArgs" where
  "VersioningManagerArgs_of v = VersioningManagerArgs.make
     (as_string (field v ''type''))
     (as_string (field v ''defaultVersion''))
     (as_string (field v ''prefix''))"

definition versioning_manager_code :: "string \<Rightarrow> string \<Rightarrow> string" where
  \<open>versioning_manager_code = (\<lambda>type defaultVersion.
    (''import { VersioningType } from '@nestjs/common';\<newline>'' @
       ''import { NestFactory } from '@nestjs/core';\<newline>'' @
       ''import { AppModule } from './app.module';\<newline>'' @
       ''\<newline>'' @
       ''async function bootstrap() {\<newline>'' @
       ''  const app = await NestFactory.create(AppModule);\<newline>'' @
       ''\<newline>'' @
       ''  // Enable Versioning\<newline>'' @
       ''  app.enableVersioning({\<newline>'' @
       ''    type: VersioningType.'' @ type @ '',\<newline>'' @
       ''    defaultVersion: '' @ [CHR 0x27] @ defaultVersion @ [CHR 0x27] @ '',\<newline>'' @
       ''  });\<newline>'' @
       ''\<newline>'' @
       ''  await app.listen(3000);\<newline>'' @
       ''}\<newline>'' @
       ''bootstrap();\<newline>''))\<close>

definition versioning_manager_handler :: "VersioningManagerArgs \<Rightarrow> SkillResult" where
  "versioning_manager_handler args =
     (let type = VersioningManagerArgs.type args;
          defaultVersion = VersioningManagerArgs.defaultVersion args;
          code = versioning_manager_code type defaultVersion
      in \<lparr>success = True,
          data = Some (JStr code),
          error = None,
          metadata = Some (JObj [(''versioningType'', JStr type),
                                 (''defaultVersion'', JStr defaultVersion)])\<rparr>)"

definition versioningManagerSkillDefinition :: SkillDefinition where
  \<open>versioningManagerSkillDefinition =
     \<lparr>SkillDefinition.name = ''versioning_manager'',
      SkillDefinition.description = ''Generates bootstrap code for enabling global API versioning in NestJS.'',
      parameters = VersioningManagerSchema,
      handler = (\<lambda>rt v. Inr (versioning_manager_handler (VersioningManagerArgs_of v)))\<rparr>\<close>

subsection \<open>backend/api/generate\_nest\_resource.ts\<close>

text \<open>Source: \<open>src/backend/api/versioning_manager.ts\<close>, lines 47 to 175.\<close>

record GenerateNestResourceArgs =
  resourceName :: string
  path :: string
  components :: "string list"
  isCrud :: bool

definition generateNestResourceSchema :: zschema where
  "generateNestResourceSchema = ZObject
     [(''resourceName'', ZString),
      (''path'', ZDefault ZString (JStr ''src'')),
      (''components'', ZDefault (ZArray (ZEnum [''module'', ''controller'', ''service'', ''dto'', ''entity'']))
                                (strings [''module'', ''controller'', ''service''])),
      (''isCrud'', ZDefault ZBoolean (JBool True))]"

definition GenerateNestResourceArgs_of :: "jsval \<Rightarrow> GenerateNestResourceArgs" where
  "GenerateNestResourceArgs_of v = GenerateNestResourceArgs.make
     (as_string (field v ''resourceName''))
     (as_string (field v ''path''))
     (as_array as_string (field v ''components''))
     (as_boolean (field v ''isCrud''))"

definition capitalize :: "string \<Rightarrow> string" where
  "capitalize s = toUpperCase (charAt s 0) @ slice s 1"

definition generate_nest_resource_basePath :: "string \<Rightarrow> string \<Rightarrow> string" where
  \<open>generate_nest_resource_basePath = (\<lambda>path resourceName.
    (path @ ''/'' @ resourceName))\<close>

definition generate_nest_resource_controller :: "string \<Rightarrow> string \<Rightarrow> string list \<Rightarrow> bool \<Rightarrow> string" where
  \<open>generate_nest_resource_controller = (\<lambda>resourceName className components isCrud.
    (''\<newline>'' @
       ''import { Controller, Get, Post, Body, Patch, Param, Delete } from '@nestjs/common';\<newline>'' @
       ''import { '' @ className @ ''Service } from './'' @ resourceName @ ''.service';\<newline>'' @
       (if (''dto'' \<in> set components) then (''import { Create'' @ className @ ''Dto } from './dto/create-'' @ resourceName @ ''.dto';'')
         else []) @
       ''\<newline>'' @
       (if (''dto'' \<in> set components) then (''import { Update'' @ className @ ''Dto } from './dto/update-'' @ resourceName @ ''.dto';'')
         else []) @
       ''\<newline>'' @
       ''\<newline>'' @
       ''@Controller('' @ [CHR 0x27] @ resourceName @ [CHR 0x27] @ '')\<newline>'' @
       ''export class '' @ className @ ''Controller {\<newline>'' @
       ''  constructor(private readonly '' @ resourceName @ ''Service: '' @ className @ ''Service) {}\<newline>'' @
       ''\<newline>'' @
       ''  '' @ (if isCrud then (''\<newline>'' @
         ''  @Post()\<newline>'' @
         ''  create(@Body() create'' @ className @ ''Dto: '' @ (if (''dto'' \<in> set components) then (''Create'' @ className @ ''Dto'')
           else ''any'') @
         '') {\<newline>'' @
         ''    return this.'' @ resourceName @ ''Service.create(create'' @ className @ ''Dto);\<newline>'' @
         ''  }\<newline>'' @
         ''\<newline>'' @
         ''  @Get()\<newline>'' @
         ''  findAll() {\<newline>'' @
         ''    return this.'' @ resourceName @ ''Service.findAll();\<newline>'' @
         ''  }\<newline>'' @
         ''\<newline>'' @
         ''  @Get(':id')\<newline>'' @
         ''  findOne(@Param('id') id: string) {\<newline>'' @
         ''    return this.'' @ resourceName @ ''Service.findOne(+id);\<newline>'' @
         ''  }\<newline>'' @
         ''\<newline>'' @
         ''  @Patch(':id')\<newline>'' @
         ''  update(@Param('id') id: string, @Body() update'' @ className @ ''Dto: '' @ (if (''dto'' \<in> set components) then (''Update'' @ className @ ''Dto'')
           else ''any'') @
         '') {\<newline>'' @
         ''    return this.'' @ resourceName @ ''Service.update(+id, update'' @ className @ ''Dto);\<newline>'' @
         ''  }\<newline>'' @
         ''\<newline>'' @
         ''  @Delete(':id')\<newline>'' @
         ''  remove(@Param('id') id: string) {\<newline>'' @
         ''    return this.'' @ resourceName @ ''Service.remove(+id);\<newline>'' @
         ''  }'')
         else []) @
       ''\<newline>'' @
       ''}\<newline>''))\<close>

definition generate_nest_resource_service :: "string \<Rightarrow> string \<Rightarrow> string list \<Rightarrow> bool \<Rightarrow> string" where
  \<open>generate_nest_resource_service = (\<lambda>resourceName className components isCrud.
    (''\<newline>'' @
       ''import { Injectable } from '@nestjs/common';\<newline>'' @
       (if (''dto'' \<in> set components) then (''import { Create'' @ className @ ''Dto } from './dto/create-'' @ resourceName @ ''.dto';'')
         else []) @
       ''\<newline>'' @
       (if (''dto'' \<in> set components) then (''import { Update'' @ className @ ''Dto } from './dto/update-'' @ resourceName @ ''.dto';'')
         else []) @
       ''\<newline>'' @
       ''\<newline>'' @
       ''@Injectable()\<newline>'' @
       ''export class '' @ className @ ''Service {\<newline>'' @
       ''  '' @ (if isCrud then (''\<newline>'' @
         ''  create(create'' @ className @ ''Dto: '' @ (if (''dto'' \<in> set components) then (''Create'' @ className @ ''Dto'')
           else ''any'') @
         '') {\<newline>'' @
         ''    return 'This action adds a new '' @ resourceName @ [CHR 0x27] @ '';\<newline>'' @
         ''  }\<newline>'' @
         ''\<newline>'' @
         ''  findAll() {\<newline>'' @
         ''    return `This action returns all '' @ resourceName @ ''`;\<newline>'' @
         ''  }\<newline>'' @
         ''\<newline>'' @
         ''  findOne(id: number) {\<newline>'' @
         ''    return `This action returns a #${id} '' @ resourceName @ ''`;\<newline>'' @
         ''  }\<newline>'' @
         ''\<newline>'' @
         ''  update(id: number, update'' @ className @ ''Dto: '' @ (if (''dto'' \<in> set components) then (''Update'' @ className @ ''Dto'')
           else ''any'') @
         '') {\<newline>'' @
         ''    return `This action updates a #${id} '' @ resourceName @ ''`;\<newline>'' @
         ''  }\<newline>'' @
         ''\<newline>'' @
         ''  remove(id: number) {\<newline>'' @
         ''    return `This action removes a #${id} '' @ resourceName @ ''`;\<newline>'' @
         ''  }'')
         else []) @
       ''\<newline>'' @
       ''}\<newline>''))\<close>

definition generate_nest_resource_module :: "string \<Rightarrow> string \<Rightarrow> string" where
  \<open>generate_nest_resource_module = (\<lambda>resourceName className.
    (''\<newline>'' @
       ''import { Module } from '@nestjs/common';\<newline>'' @
       ''import { '' @ className @ ''Service } from './'' @ resourceName @ ''.service';\<newline>'' @
       ''import { '' @ className @ ''Controller } from './'' @ resourceName @ ''.controller';\<newline>'' @
       ''\<newline>'' @
       ''@Module({\<newline>'' @
       ''  controllers: ['' @ className @ ''Controller],\<newline>'' @
       ''  providers: ['' @ className @ ''Service],\<newline>'' @
       ''})\<newline>'' @
       ''export class '' @ className @ ''Module {}\<newline>''))\<close>

definition generate_nest_resource_handler :: "GenerateNestResourceArgs \<Rightarrow> SkillResult" where
  \<open>generate_nest_resource_handler args =
     (let resourceName = GenerateNestResourceArgs.resourceName args;
          path = GenerateNestResourceArgs.path args;
          components = GenerateNestResourceArgs.components args;
          isCrud = GenerateNestResourceArgs.isCrud args;
          className = capitalize resourceName;
          files = [];
          basePath = generate_nest_resource_basePath path resourceName;
          files = (if ''controller'' \<in> set components
                   then assign files (basePath @ ''/'' @ resourceName @ ''.controller.ts'')
                          (generate_nest_resource_controller resourceName className components isCrud)
                   else files);
          files = (if ''service'' \<in> set components
                   then assign files (basePath @ ''/'' @ resourceName @ ''.service.ts'')
                          (generate_nest_resource_service resourceName className components isCrud)
                   else files);
          files = (if ''module'' \<in> set components
                   then assign files (basePath @ ''/'' @ resourceName @ ''.module.ts'')
                          (generate_nest_resource_module resourceName className)
                   else files);
          files = (if ''dto'' \<in> set components
                   then assign
                          (assign files (basePath @ ''/dto/create-'' @ resourceName @ ''.dto.ts'')
                             (''export class Create'' @ className @ ''Dto {}''))
                          (basePath @ ''/dto/update-'' @ resourceName @ ''.dto.ts'')
                          (''import { PartialType } from '@nestjs/mapped-types';\<newline>'' @
                             ''import { Create'' @ className @ ''Dto } from './create-'' @ resourceName @ ''.dto';\<newline>'' @
                             ''\<newline>'' @
                             ''export class Update'' @ className @ ''Dto extends PartialType(Create'' @ className @ ''Dto) {}'')
                   else files)
      in \<lparr>success = True,
          data = Some (files_data files),
          error = None,
          metadata = Some (JObj [(''generatedFiles'', strings (Object_keys files)),
                                 (''description'', JStr (''Generated NestJS resource for '' @ resourceName))])\<rparr>)\<close>

definition generateNestResource :: SkillDefinition where
  \<open>generateNestResource =
     \<lparr>SkillDefinition.name = ''generate_nest_resource'',
      SkillDefinition.description = ''Generates NestJS module, controller, and service files following modular architecture.'',
      parameters = generateNestResourceSchema,
      handler = (\<lambda>rt v. Inr (generate_nest_resource_handler (GenerateNestResourceArgs_of v)))\<rparr>\<close>

subsection \<open>backend/database/migration\_expert.ts\<close>

text \<open>Source: \<open>src/backend/database/migration_expert.ts\<close>, lines 1 to 45.\<close>

record MigrationExpertArgs =
  migrationName :: string

definition MigrationExpertSchema :: zschema where
  "MigrationExpertSchema = ZObject [(''migrationName'', ZString)]"

definition MigrationExpertArgs_of :: "jsval \<Rightarrow> MigrationExpertArgs" where
  "MigrationExpertArgs_of v = MigrationExpertArgs.make (as_string (field v ''migrationName''))"

definition migration_expert_className :: "runtime \<Rightarrow> string \<Rightarrow> number \<Rightarrow> string" where
  \<open>migration_expert_className = (\<lambda>rt migrationName timestamp.
    (migrationName @ (number_toString rt timestamp)))\<close>

definition migration_expert_code :: "string \<Rightarrow> string" where
  \<open>migration_expert_code = (\<lambda>className.
    (''import { MigrationInterface, QueryRunner } from "typeorm";\<newline>'' @
       ''\<newline>'' @
       ''export class '' @ className @ '' implements MigrationInterface {\<newline>'' @
       ''    name = '' @ [CHR 0x27] @ className @ [CHR 0x27] @ ''\<newline>'' @
       ''\<newline>'' @
       ''    public async up(queryRunner: QueryRunner): Promise<void> {\<newline>'' @
       ''        // Example: await queryRunner.query(`CREATE TABLE "user" ... `);\<newline>'' @
       ''        // Add your schema changes here\<newline>'' @
       ''    }\<newline>'' @
       ''\<newline>'' @
       ''    public async down(queryRunner: QueryRunner): Promise<void> {\<newline>'' @
       ''        // Example: await queryRunner.query(`DROP TABLE "user"`);\<newline>'' @
       ''        // Revert your schema changes here\<newline>'' @
       ''    }\<newline>'' @
       ''}\<newline>''))\<close>

definition migration_expert_handler :: "runtime \<Rightarrow> MigrationExpertArgs \<Rightarrow> SkillResult" where
  "migration_expert_handler rt args =
     (let migrationName = MigrationExpertArgs.migrationName args;
          timestamp = of_int (Date_now rt);
          className = migration_expert_className rt migrationName timestamp;
          code = migration_expert_code className
      in \<lparr>success = True,
          data = Some (JStr code),
          error = None,
          metadata = Some (JObj [(''migrationClass'', JStr className),
                                 (''timestamp'', JNum timestamp)])\<rparr>)"

definition migrationExpertSkillDefinition :: SkillDefinition where
  \<open>migrationExpertSkillDefinition =
     \<lparr>SkillDefinition.name = ''migration_expert'',
      SkillDefinition.description = ''Generates a TypeORM migration class template with up/down methods and timestamping.'',
      parameters = MigrationExpertSchema,
      handler = (\<lambda>rt v. Inr (migration_expert_handler rt (MigrationExpertArgs_of v)))\<rparr>\<close>

subsection \<open>backend/database/entity\_creator.ts\<close>

text \<open>Source: \<open>src/backend/database/migration_expert.ts\<close>, lines 46 to 172.\<close>

record EntityColumn =
  name :: string
  type :: string
  isPrimary :: "bool option"
  isNullable :: "bool option"
  default_value :: jsval

record EntityRelation =
  type :: string
  targetEntity :: string
  inverseSide :: "string option"
  joinColumn :: "bool option"

record EntityCreatorArgs =
  entityName :: string
  tableName :: "string option"
  columns :: "EntityColumn list"
  relations :: "EntityRelation list option"

definition EntityCreatorSchema :: zschema where
  "EntityCreatorSchema = ZObject
     [(''entityName'', ZString),
      (''tableName'', ZOptional ZString),
      (''columns'', ZArray (ZObject
         [(''name'', ZString),
          (''type'', ZString),
          (''isPrimary'', ZOptional ZBoolean),
          (''isNullable'', ZOptional ZBoolean),
          (''default'', ZOptional (ZUnion [ZString, ZNumber, ZBoolean]))])),
      (''relations'', ZOptional (ZArray (ZObject
         [(''type'', ZEnum [''OneToMany'', ''ManyToOne'', ''OneToOne'', ''ManyToMany'']),
          (''targetEntity'', ZString),
          (''inverseSide'', ZOptional ZString),
          (''joinColumn'', ZOptional ZBoolean)])))]"

definition EntityColumn_of :: "jsval \<Rightarrow> EntityColumn" where
  "EntityColumn_of v = EntityColumn.make
     (as_string (field v ''name''))
     (as_string (field v ''type''))
     (as_optional as_boolean (field v ''isPrimary''))
     (as_optional as_boolean (field v ''isNullable''))
     (field v ''default'')"

definition EntityRelation_of :: "jsval \<Rightarrow> EntityRelation" where
  "EntityRelation_of v = EntityRelation.make
     (as_string (field v ''type''))
     (as_string (field v ''targetEntity''))
     (as_optional as_string (field v ''inverseSide''))
     (as_optional as_boolean (field v ''joinColumn''))"

definition EntityCreatorArgs_of :: "jsval \<Rightarrow> EntityCreatorArgs" where
  "EntityCreatorArgs_of v = EntityCreatorArgs.make
     (as_string (field v ''entityName''))
     (as_optional as_string (field v ''tableName''))
     (as_array EntityColumn_of (field v ''columns''))
     (as_optional (as_array EntityRelation_of) (field v ''relations''))"

definition Set_add :: "string list \<Rightarrow> string \<Rightarrow> string list" where
  \<comment> \<open>\<open>set.add(x)\<close> on a \<open>Set\<close> kept in insertion order\<close>
  "Set_add xs x = (if x \<in> set xs then xs else xs @ [x])"

definition entity_creator_imports :: "EntityRelation list option \<Rightarrow> string list" where
  "entity_creator_imports = (\<lambda>relations.
     (let imports = [''Entity'', ''PrimaryGeneratedColumn'', ''Column'', ''CreateDateColumn'', ''UpdateDateColumn'']
      in case relations of
           None \<Rightarrow> imports
         | Some rels \<Rightarrow>
             if rels \<noteq> [] then
               (let imports = fold (\<lambda>r imports. Set_add imports (EntityRelation.type r)) rels imports
                in if list_ex (\<lambda>r. EntityRelation.joinColumn r = Some True) rels
                   then Set_add imports ''JoinColumn'' else imports)
             else imports))"

definition entity_creator_importString :: "string list \<Rightarrow> string" where
  \<open>entity_creator_importString = (\<lambda>imports.
    (''import { '' @ (join imports '', '') @ '' } from 'typeorm';''))\<close>

definition entity_creator_optionsParts :: "runtime \<Rightarrow> EntityColumn \<Rightarrow> string list" where
  \<open>entity_creator_optionsParts = (\<lambda>rt col.
     (if EntityColumn.isNullable col = Some True
      then [''nullable: true''] else []) @
     (if EntityColumn.default_value col \<noteq> JUndefined
      then (let defVal = (case EntityColumn.default_value col of
                            JStr s \<Rightarrow> [CHR 0x27] @ s @ [CHR 0x27]
                          | d \<Rightarrow> ToString rt d)
            in [(''default: '' @ defVal)])
      else []))\<close>

definition entity_creator_tsType :: "string \<Rightarrow> string" where
  "entity_creator_tsType = (\<lambda>type.
     (let tsType = ''string'';
          tsType = (if type \<in> set [''int'', ''integer'', ''float'', ''decimal'', ''double''] then ''number'' else tsType);
          tsType = (if type \<in> set [''boolean'', ''bool''] then ''boolean'' else tsType);
          tsType = (if type \<in> set [''timestamp'', ''date'', ''datetime''] then ''Date'' else tsType)
      in tsType))"

definition entity_creator_columnDefinition :: "runtime \<Rightarrow> EntityColumn \<Rightarrow> string" where
  \<open>entity_creator_columnDefinition = (\<lambda>rt col.
     if EntityColumn.isPrimary col = Some True
     then (''\<newline>'' @
        ''  @PrimaryGeneratedColumn('uuid')\<newline>'' @
        ''  '' @ (EntityColumn.name col) @ '': string;'')
     else (let optionsParts = entity_creator_optionsParts rt col;
               options = (if optionsParts \<noteq> [] then (''{ '' @ (join optionsParts '', '') @ '' }'') else []);
               tsType = entity_creator_tsType (EntityColumn.type col)
           in (''\<newline>'' @
              ''  @Column('' @ [CHR 0x27] @ (EntityColumn.type col) @ [CHR 0x27] @ '', '' @ options @ '')\<newline>'' @
              ''  '' @ (EntityColumn.name col) @ '': '' @ tsType @ '';'')))\<close>

definition entity_creator_relationDefinition :: "EntityRelation \<Rightarrow> string" where
  \<open>entity_creator_relationDefinition = (\<lambda>rel.
     (let decoratorArgs = (''() => '' @ (EntityRelation.targetEntity rel));
          decoratorArgs = (if truthy_optional (EntityRelation.inverseSide rel)
                           then decoratorArgs @ ('', (related) => related.'' @ (optional_toString (EntityRelation.inverseSide rel)))
                           else decoratorArgs);
          propCode = (''\<newline>'' @
             ''  @'' @ (EntityRelation.type rel) @ ''('' @ decoratorArgs @ '')\<newline>'' @
             ''  @JoinColumn()\<newline>'' @
             ''  '' @ (toLowerCase (EntityRelation.targetEntity rel)) @ '': '' @ (EntityRelation.targetEntity rel) @ '';'');
          propCode = (if EntityRelation.joinColumn rel \<noteq> Some True
                      then replace_first propCode (''@JoinColumn()\<newline>'' @ ''  '') []
                      else propCode);
          propCode = (if EntityRelation.type rel = ''OneToMany''
                      then (''\<newline>'' @
                         ''  @'' @ (EntityRelation.type rel) @ ''('' @ decoratorArgs @ '')\<newline>'' @
                         ''  '' @ (toLowerCase (EntityRelation.targetEntity rel)) @ ''s: '' @ (EntityRelation.targetEntity rel) @ ''[];'')
                      else propCode)
      in propCode))\<close>

definition entity_creator_tableOption :: "string option \<Rightarrow> string" where
  \<open>entity_creator_tableOption = (\<lambda>tableName.
     if truthy_optional tableName then (''name: '' @ [CHR 0x27] @ (optional_toString tableName) @ [CHR 0x27]) else [])\<close>

definition entity_creator_code :: "string \<Rightarrow> string \<Rightarrow> string \<Rightarrow> string \<Rightarrow> string \<Rightarrow> string" where
  \<open>entity_creator_code = (\<lambda>importString tableOption entityName columnDefinitions relationDefinitions.
    (importString @ ''\<newline>'' @
       ''\<newline>'' @
       ''@Entity({ '' @ tableOption @ '' })\<newline>'' @
       ''export class '' @ entityName @ '' {\<newline>'' @
       columnDefinitions @ ''\<newline>'' @
       relationDefinitions @ ''\<newline>'' @
       ''\<newline>'' @
       ''  @CreateDateColumn()\<newline>'' @
       ''  createdAt: Date;\<newline>'' @
       ''\<newline>'' @
       ''  @UpdateDateColumn()\<newline>'' @
       ''  updatedAt: Date;\<newline>'' @
       ''}\<newline>''))\<close>

definition entity_creator_handler :: "runtime \<Rightarrow> EntityCreatorArgs \<Rightarrow> SkillResult" where
  "entity_creator_handler rt args =
     (let entityName = EntityCreatorArgs.entityName args;
          tableName = EntityCreatorArgs.tableName args;
          columns = EntityCreatorArgs.columns args;
          relations = EntityCreatorArgs.relations args;
          imports = entity_creator_imports relations;
          importString = entity_creator_importString imports;
          columnDefinitions = join (map (entity_creator_columnDefinition rt) columns) ''\<newline>'';
          relationDefinitions =
            (case relations of
               None \<Rightarrow> []
             | Some rels \<Rightarrow>
                 (let joined = join (map entity_creator_relationDefinition rels) ''\<newline>''
                  in if joined \<noteq> [] then joined else []));
          tableOption = entity_creator_tableOption tableName;
          code = entity_creator_code importString tableOption entityName columnDefinitions relationDefinitions
      in \<lparr>success = True,
          data = Some (JStr code),
          error = None,
          metadata = Some (JObj [(''entity'', JStr entityName),
                                 (''table'', JStr (if truthy_optional tableName then the tableName
                                                   else toLowerCase entityName)),
                                 (''typeormVersion'', JStr ''0.3.x'')])\<rparr>)"

definition entityCreatorSkillDefinition :: SkillDefinition where
  \<open>entityCreatorSkillDefinition =
     \<lparr>SkillDefinition.name = ''entity_creator'',
      SkillDefinition.description = ''Generates a TypeORM entity with columns, decorators, and relations.'',
      parameters = EntityCreatorSchema,
      handler = (\<lambda>rt v. Inr (entity_creator_handler rt (EntityCreatorArgs_of v)))\<rparr>\<close>

subsection \<open>backend/infrastructure/cache\_manager.ts\<close>

text \<open>Source: \<open>src/unnamed/part_004\<close>, lines 1 to 238.\<close>

record CacheManagerArgs =
  cacheType :: string
  defaultTTL :: number
  keyPrefix :: string
  generateDecorator :: bool
  generateInterceptor :: bool

definition CacheManagerSchema :: zschema where
  "CacheManagerSchema = ZObject
     [(''cacheType'', ZDefault (ZEnum [''redis'', ''memory'']) (JStr ''redis'')),
      (''defaultTTL'', ZDefault ZNumber (JNum 3600)),
      (''keyPrefix'', ZDefault ZString (JStr ''app'')),
      (''generateDecorator'', ZDefault ZBoolean (JBool True)),
      (''generateInterceptor'', ZDefault ZBoolean (JBool True))]"

definition CacheManagerArgs_of :: "jsval \<Rightarrow> CacheManagerArgs" where
  "CacheManagerArgs_of v = CacheManagerArgs.make
     (as_string (field v ''cacheType''))
     (as_number (field v ''defaultTTL''))
     (as_string (field v ''keyPrefix''))
     (as_boolean (field v ''generateDecorator''))
     (as_boolean (field v ''generateInterceptor''))"

definition cache_manager_module :: "runtime \<Rightarrow> string \<Rightarrow> number \<Rightarrow> string" where
  \<open>cache_manager_module = (\<lambda>rt cacheType defaultTTL.
    (''import { Module, Global } from '@nestjs/common';\<newline>'' @
       ''import { CacheModule as NestCacheModule } from '@nestjs/cache-manager';\<newline>'' @
       (if (cacheType = ''redis'') then ''import * as redisStore from 'cache-manager-redis-store';''
         else []) @
       ''\<newline>'' @
       ''import { CacheService } from './cache.service';\<newline>'' @
       ''\<newline>'' @
       ''@Global()\<newline>'' @
       ''@Module({\<newline>'' @
       ''  imports: [\<newline>'' @
       ''    NestCacheModule.register({\<newline>'' @
       ''      '' @ (if (cacheType = ''redis'') then (''store: redisStore,\<newline>'' @
         ''      host: process.env.REDIS_HOST || 'localhost',\<newline>'' @
         ''      port: parseInt(process.env.REDIS_PORT || '6379'),\<newline>'' @
         ''      password: process.env.REDIS_PASSWORD,'')
         else []) @
       ''\<newline>'' @
       ''      ttl: '' @ (number_toString rt defaultTTL) @ '',\<newline>'' @
       ''      max: 100, // max items in cache\<newline>'' @
       ''    }),\<newline>'' @
       ''  ],\<newline>'' @
       ''  providers: [CacheService],\<newline>'' @
       ''  exports: [CacheService, NestCacheModule],\<newline>'' @
       ''})\<newline>'' @
       ''export class CacheModule {}\<newline>''))\<close>

definition cache_manager_service :: "runtime \<Rightarrow> string \<Rightarrow> number \<Rightarrow> string" where
  \<open>cache_manager_service = (\<lambda>rt keyPrefix defaultTTL.
    (''import { Injectable, Inject } from '@nestjs/common';\<newline>'' @
       ''import { CACHE_MANAGER } from '@nestjs/cache-manager';\<newline>'' @
       ''import { Cache } from 'cache-manager';\<newline>'' @
       ''\<newline>'' @
       ''@Injectable()\<newline>'' @
       ''export class CacheService {\<newline>'' @
       ''  private readonly prefix = '' @ [CHR 0x27] @ keyPrefix @ [CHR 0x27] @ '';\<newline>'' @
       ''\<newline>'' @
       ''  constructor(@Inject(CACHE_MANAGER) private cacheManager: Cache) {}\<newline>'' @
       ''\<newline>'' @
       ''  private buildKey(key: string): string {\<newline>'' @
       ''    return `${this.prefix}:${key}`;\<newline>'' @
       ''  }\<newline>'' @
       ''\<newline>'' @
       ''  async get<T>(key: string): Promise<T | undefined> {\<newline>'' @
       ''    return this.cacheManager.get<T>(this.buildKey(key));\<newline>'' @
       ''  }\<newline>'' @
       ''\<newline>'' @
       ''  async set<T>(key: string, value: T, ttl?: number): Promise<void> {\<newline>'' @
       ''    await this.cacheManager.set(this.buildKey(key), value, ttl || '' @ (number_toString rt defaultTTL) @ '');\<newline>'' @
       ''  }\<newline>'' @
       ''\<newline>'' @
       ''  async del(key: string): Promise<void> {\<newline>'' @
       ''    await this.cacheManager.del(this.buildKey(key));\<newline>'' @
       ''  }\<newline>'' @
       ''\<newline>'' @
       ''  async reset(): Promise<void> {\<newline>'' @
       ''    await this.cacheManager.reset();\<newline>'' @
       ''  }\<newline>'' @
       ''\<newline>'' @
       ''  /**\<newline>'' @
       ''   * Cache-aside pattern: Get from cache or fetch and cache\<newline>'' @
       ''   */\<newline>'' @
       ''  async getOrSet<T>(\<newline>'' @
       ''    key: string,\<newline>'' @
       ''    fetcher: () => Promise<T>,\<newline>'' @
       ''    ttl?: number,\<newline>'' @
       ''  ): Promise<T> {\<newline>'' @
       ''    const cached = await this.get<T>(key);\<newline>'' @
       ''    if (cached !== undefined) {\<newline>'' @
       ''      return cached;\<newline>'' @
       ''    }\<newline>'' @
       ''\<newline>'' @
       ''    const fresh = await fetcher();\<newline>'' @
       ''    await this.set(key, fresh, ttl);\<newline>'' @
       ''    return fresh;\<newline>'' @
       ''  }\<newline>'' @
       ''\<newline>'' @
       ''  /**\<newline>'' @
       ''   * Invalidate multiple keys by pattern (useful for entity updates)\<newline>'' @
       ''   */\<newline>'' @
       ''  async invalidateByPattern(pattern: string): Promise<void> {\<newline>'' @
       ''    // Note: Pattern invalidation requires Redis with SCAN command\<newline>'' @
       ''    // For memory cache, you'd need to track keys manually\<newline>'' @
       ''    console.log(`Invalidating keys matching: ${this.prefix}:${pattern}`);\<newline>'' @
       ''  }\<newline>'' @
       ''}\<newline>''))\<close>

definition cache_manager_decorator :: string where
  \<open>cache_manager_decorator =
    (''import { SetMetadata } from '@nestjs/common';\<newline>'' @
       ''\<newline>'' @
       ''export const CACHE_KEY_METADATA = 'cache:key';\<newline>'' @
       ''export const CACHE_TTL_METADATA = 'cache:ttl';\<newline>'' @
       ''\<newline>'' @
       ''export interface CacheableOptions {\<newline>'' @
       ''  key?: string;\<newline>'' @
       ''  ttl?: number;\<newline>'' @
       ''}\<newline>'' @
       ''\<newline>'' @
       ''/**\<newline>'' @
       '' * @Cacheable decorator for automatic caching\<newline>'' @
       '' * Use with CacheInterceptor\<newline>'' @
       '' * \<newline>'' @
       '' * @example\<newline>'' @
       '' * @Cacheable({ key: 'users:all', ttl: 300 })\<newline>'' @
       '' * async findAll() { ... }\<newline>'' @
       '' */\<newline>'' @
       ''export const Cacheable = (options: CacheableOptions = {}) => {\<newline>'' @
       ''  return (target: any, propertyKey: string, descriptor: PropertyDescriptor) => {\<newline>'' @
       ''    SetMetadata(CACHE_KEY_METADATA, options.key || `${target.constructor.name}:${propertyKey}`)(target, propertyKey, descriptor);\<newline>'' @
       ''    if (options.ttl) {\<newline>'' @
       ''      SetMetadata(CACHE_TTL_METADATA, options.ttl)(target, propertyKey, descriptor);\<newline>'' @
       ''    }\<newline>'' @
       ''    return descriptor;\<newline>'' @
       ''  };\<newline>'' @
       ''};\<newline>'')\<close>

definition cache_manager_interceptor :: string where
  \<open>cache_manager_interceptor =
    (''import {\<newline>'' @
       ''  Injectable,\<newline>'' @
       ''  NestInterceptor,\<newline>'' @
       ''  ExecutionContext,\<newline>'' @
       ''  CallHandler,\<newline>'' @
       ''} from '@nestjs/common';\<newline>'' @
       ''import { Observable, of } from 'rxjs';\<newline>'' @
       ''import { tap } from 'rxjs/operators';\<newline>'' @
       ''import { Reflector } from '@nestjs/core';\<newline>'' @
       ''import { CacheService } from './cache.service';\<newline>'' @
       ''import { CACHE_KEY_METADATA, CACHE_TTL_METADATA } from './cacheable.decorator';\<newline>'' @
       ''\<newline>'' @
       ''@Injectable()\<newline>'' @
       ''export class CustomCacheInterceptor implements NestInterceptor {\<newline>'' @
       ''  constructor(\<newline>'' @
       ''    private cacheService: CacheService,\<newline>'' @
       ''    private reflector: Reflector,\<newline>'' @
       ''  ) {}\<newline>'' @
       ''\<newline>'' @
       ''  async intercept(\<newline>'' @
       ''    context: ExecutionContext,\<newline>'' @
       ''    next: CallHandler,\<newline>'' @
       ''  ): Promise<Observable<any>> {\<newline>'' @
       ''    const cacheKey = this.reflector.get<string>(\<newline>'' @
       ''      CACHE_KEY_METADATA,\<newline>'' @
       ''      context.getHandler(),\<newline>'' @
       ''    );\<newline>'' @
       ''\<newline>'' @
       ''    if (!cacheKey) {\<newline>'' @
       ''      return next.handle();\<newline>'' @
       ''    }\<newline>'' @
       ''\<newline>'' @
       ''    const ttl = this.reflector.get<number>(CACHE_TTL_METADATA, context.getHandler());\<newline>'' @
       ''    const request = context.switchToHttp().getRequest();\<newline>'' @
       ''    \<newline>'' @
       ''    // Build dynamic key with query params if needed\<newline>'' @
       ''    const dynamicKey = request.query.id \<newline>'' @
       ''      ? `${cacheKey}:${request.query.id}`\<newline>'' @
       ''      : cacheKey;\<newline>'' @
       ''\<newline>'' @
       ''    const cachedResponse = await this.cacheService.get(dynamicKey);\<newline>'' @
       ''    if (cachedResponse) {\<newline>'' @
       ''      return of(cachedResponse);\<newline>'' @
       ''    }\<newline>'' @
       ''\<newline>'' @
       ''    return next.handle().pipe(\<newline>'' @
       ''      tap(async (response) => {\<newline>'' @
       ''        await this.cacheService.set(dynamicKey, response, ttl);\<newline>'' @
       ''      }),\<newline>'' @
       ''    );\<newline>'' @
       ''  }\<newline>'' @
       ''}\<newline>'')\<close>

definition cache_manager_example :: string where
  \<open>cache_manager_example =
    (''// Example usage in a service or controller\<newline>'' @
       ''import { Cacheable } from './cacheable.decorator';\<newline>'' @
       ''import { UseInterceptors } from '@nestjs/common';\<newline>'' @
       ''import { CustomCacheInterceptor } from './cache.interceptor';\<newline>'' @
       ''\<newline>'' @
       ''@Controller('products')\<newline>'' @
       ''@UseInterceptors(CustomCacheInterceptor)\<newline>'' @
       ''export class ProductsController {\<newline>'' @
       ''  \<newline>'' @
       ''  @Get()\<newline>'' @
       ''  @Cacheable({ key: 'products:all', ttl: 300 }) // 5 minutes\<newline>'' @
       ''  findAll() {\<newline>'' @
       ''    return this.productsService.findAll();\<newline>'' @
       ''  }\<newline>'' @
       ''\<newline>'' @
       ''  @Get(':id')\<newline>'' @
       ''  @Cacheable({ key: 'products:single', ttl: 600 }) // 10 minutes\<newline>'' @
       ''  findOne(@Param('id') id: string) {\<newline>'' @
       ''    return this.productsService.findOne(id);\<newline>'' @
       ''  }\<newline>'' @
       ''\<newline>'' @
       ''  @Post()\<newline>'' @
       ''  async create(@Body() dto: CreateProductDto) {\<newline>'' @
       ''    const product = await this.productsService.create(dto);\<newline>'' @
       ''    // Invalidate list cache\<newline>'' @
       ''    await this.cacheService.del('products:all');\<newline>'' @
       ''    return product;\<newline>'' @
       ''  }\<newline>'' @
       ''}\<newline>'')\<close>

definition cache_manager_handler :: "runtime \<Rightarrow> CacheManagerArgs \<Rightarrow> SkillResult" where
  "cache_manager_handler rt args =
     (let cacheType = CacheManagerArgs.cacheType args;
          defaultTTL = CacheManagerArgs.defaultTTL args;
          keyPrefix = CacheManagerArgs.keyPrefix args;
          generateDecorator = CacheManagerArgs.generateDecorator args;
          generateInterceptor = CacheManagerArgs.generateInterceptor args;
          files = [];
          files = assign files ''cache.module.ts'' (cache_manager_module rt cacheType defaultTTL);
          files = assign files ''cache.service.ts'' (cache_manager_service rt keyPrefix defaultTTL);
          files = (if generateDecorator then assign files ''cacheable.decorator.ts'' cache_manager_decorator
                   else files);
          files = (if generateInterceptor then assign files ''cache.interceptor.ts'' cache_manager_interceptor
                   else files);
          files = assign files ''cache.example.ts'' cache_manager_example
      in \<lparr>success = True,
          data = Some (files_data files),
          error = None,
          metadata = Some (JObj [(''cacheType'', JStr cacheType),
                                 (''defaultTTL'', JNum defaultTTL),
                                 (''generatedFiles'', strings (Object_keys files))])\<rparr>)"

definition cacheManagerSkillDefinition :: SkillDefinition where
  \<open>cacheManagerSkillDefinition =
     \<lparr>SkillDefinition.name = ''cache_manager'',
      SkillDefinition.description = ''Generates NestJS caching infrastructure with Redis/Memory support, decorators, and interceptors.'',
      parameters = CacheManagerSchema,
      handler = (\<lambda>rt v. Inr (cache_manager_handler rt (CacheManagerArgs_of v)))\<rparr>\<close>

subsection \<open>backend/infrastructure/email\_service.ts\<close>

text \<open>Source: \<open>src/backend/infrastructure/email_service.ts\<close>, lines 1 to 410.\<close>

record EmailServiceArgs =
  provider :: string
  templateEngine :: string
  includeTemplates :: bool
  queueSupport :: bool

definition EmailServiceSchema :: zschema where
  "EmailServiceSchema = ZObject
     [(''provider'', ZDefault (ZEnum [''nodemailer'', ''sendgrid'', ''resend'']) (JStr ''nodemailer'')),
      (''templateEngine'', ZDefault (ZEnum [''handlebars'', ''ejs'', ''none'']) (JStr ''handlebars'')),
      (''includeTemplates'', ZDefault ZBoolean (JBool True)),
      (''queueSupport'', ZDefault ZBoolean (JBool False))]"

definition EmailServiceArgs_of :: "jsval \<Rightarrow> EmailServiceArgs" where
  "EmailServiceArgs_of v = EmailServiceArgs.make
     (as_string (field v ''provider''))
     (as_string (field v ''templateEngine''))
     (as_boolean (field v ''includeTemplates''))
     (as_boolean (field v ''queueSupport''))"

definition email_service_module :: "bool \<Rightarrow> string" where
  \<open>email_service_module = (\<lambda>queueSupport.
    (''import { Module, Global } from '@nestjs/common';\<newline>'' @
       ''import { EmailService } from './email.service';\<newline>'' @
       (if queueSupport then (''import { BullModule } from '@nestjs/bull';\<newline>'' @
         ''import { EmailProcessor } from './email.processor';'')
         else []) @
       ''\<newline>'' @
       ''\<newline>'' @
       ''@Global()\<newline>'' @
       ''@Module({\<newline>'' @
       ''  '' @ (if queueSupport then (''imports: [\<newline>'' @
         ''    BullModule.registerQueue({\<newline>'' @
         ''      name: 'email',\<newline>'' @
         ''    }),\<newline>'' @
         ''  ],'')
         else []) @
       ''\<newline>'' @
       ''  providers: [EmailService'' @ (if queueSupport then '', EmailProcessor''
         else []) @
       ''],\<newline>'' @
       ''  exports: [EmailService],\<newline>'' @
       ''})\<newline>'' @
       ''export class EmailModule {}\<newline>''))\<close>

definition email_service_nodemailer :: "string \<Rightarrow> bool \<Rightarrow> string" where
  \<open>email_service_nodemailer = (\<lambda>templateEngine queueSupport.
    (''import { Injectable, Logger } from '@nestjs/common';\<newline>'' @
       ''import * as nodemailer from 'nodemailer';\<newline>'' @
       (if (templateEngine = ''handlebars'') then (''import * as handlebars from 'handlebars';\<newline>'' @
         ''import * as fs from 'fs';\<newline>'' @
         ''import * as path from 'path';'')
         else []) @
       ''\<newline>'' @
       (if queueSupport then (''import { InjectQueue } from '@nestjs/bull';\<newline>'' @
         ''import { Queue } from 'bull';'')
         else []) @
       ''\<newline>'' @
       ''\<newline>'' @
       ''export interface SendEmailOptions {\<newline>'' @
       ''  to: string | string[];\<newline>'' @
       ''  subject: string;\<newline>'' @
       ''  text?: string;\<newline>'' @
       ''  html?: string;\<newline>'' @
       ''  template?: string;\<newline>'' @
       ''  context?: Record<string, any>;\<newline>'' @
       ''  attachments?: Array<{\<newline>'' @
       ''    filename: string;\<newline>'' @
       ''    content?: Buffer | string;\<newline>'' @
       ''    path?: string;\<newline>'' @
       ''  }>;\<newline>'' @
       ''}\<newline>'' @
       ''\<newline>'' @
       ''@Injectable()\<newline>'' @
       ''export class EmailService {\<newline>'' @
       ''  private transporter: nodemailer.Transporter;\<newline>'' @
       ''  private readonly logger = new Logger(EmailService.name);\<newline>'' @
       ''\<newline>'' @
       ''  constructor(\<newline>'' @
       ''    '' @ (if queueSupport then ''@InjectQueue('email') private emailQueue: Queue,''
         else []) @
       ''\<newline>'' @
       ''  ) {\<newline>'' @
       ''    this.transporter = nodemailer.createTransport({\<newline>'' @
       ''      host: process.env.SMTP_HOST || 'smtp.gmail.com',\<newline>'' @
       ''      port: parseInt(process.env.SMTP_PORT || '587'),\<newline>'' @
       ''      secure: process.env.SMTP_SECURE === 'true',\<newline>'' @
       ''      auth: {\<newline>'' @
       ''        user: process.env.SMTP_USER,\<newline>'' @
       ''        pass: process.env.SMTP_PASS,\<newline>'' @
       ''      },\<newline>'' @
       ''    });\<newline>'' @
       ''  }\<newline>'' @
       ''\<newline>'' @
       ''  '' @ (if (templateEngine = ''handlebars'') then (''\<newline>'' @
         ''  private compileTemplate(templateName: string, context: Record<string, any>): string {\<newline>'' @
         ''    const templatePath = path.join(__dirname, 'templates', `${templateName}.hbs`);\<newline>'' @
         ''    const templateSource = fs.readFileSync(templatePath, 'utf-8');\<newline>'' @
         ''    const template = handlebars.compile(templateSource);\<newline>'' @
         ''    return template(context);\<newline>'' @
         ''  }'')
         else []) @
       ''\<newline>'' @
       ''\<newline>'' @
       ''  async send(options: SendEmailOptions): Promise<boolean> {\<newline>'' @
       ''    try {\<newline>'' @
       ''      let html = options.html;\<newline>'' @
       ''\<newline>'' @
       ''      '' @ (if (templateEngine = ''handlebars'') then (''\<newline>'' @
         ''      if (options.template && options.context) {\<newline>'' @
         ''        html = this.compileTemplate(options.template, options.context);\<newline>'' @
         ''      }'')
         else []) @
       ''\<newline>'' @
       ''\<newline>'' @
       ''      const mailOptions = {\<newline>'' @
       ''        from: process.env.SMTP_FROM || '"App" <noreply@app.com>',\<newline>'' @
       ''        to: Array.isArray(options.to) ? options.to.join(', ') : options.to,\<newline>'' @
       ''        subject: options.subject,\<newline>'' @
       ''        text: options.text,\<newline>'' @
       ''        html,\<newline>'' @
       ''        attachments: options.attachments,\<newline>'' @
       ''      };\<newline>'' @
       ''\<newline>'' @
       ''      await this.transporter.sendMail(mailOptions);\<newline>'' @
       ''      this.logger.log(`Email sent to ${options.to}`);\<newline>'' @
       ''      return true;\<newline>'' @
       ''    } catch (error) {\<newline>'' @
       ''      this.logger.error(`Failed to send email: ${error.message}`);\<newline>'' @
       ''      return false;\<newline>'' @
       ''    }\<newline>'' @
       ''  }\<newline>'' @
       ''\<newline>'' @
       ''  '' @ (if queueSupport then (''\<newline>'' @
         ''  async sendAsync(options: SendEmailOptions): Promise<void> {\<newline>'' @
         ''    await this.emailQueue.add('send', options, {\<newline>'' @
         ''      attempts: 3,\<newline>'' @
         ''      backoff: {\<newline>'' @
         ''        type: 'exponential',\<newline>'' @
         ''        delay: 2000,\<newline>'' @
         ''      },\<newline>'' @
         ''    });\<newline>'' @
         ''    this.logger.log(`Email queued for ${options.to}`);\<newline>'' @
         ''  }'')
         else []) @
       ''\<newline>'' @
       ''\<newline>'' @
       ''  // Convenience methods\<newline>'' @
       ''  async sendWelcome(to: string, name: string): Promise<boolean> {\<newline>'' @
       ''    return this.send({\<newline>'' @
       ''      to,\<newline>'' @
       ''      subject: 'Welcome to our platform!',\<newline>'' @
       ''      template: 'welcome',\<newline>'' @
       ''      context: { name, year: new Date().getFullYear() },\<newline>'' @
       ''    });\<newline>'' @
       ''  }\<newline>'' @
       ''\<newline>'' @
       ''  async sendPasswordReset(to: string, resetUrl: string): Promise<boolean> {\<newline>'' @
       ''    return this.send({\<newline>'' @
       ''      to,\<newline>'' @
       ''      subject: 'Reset your password',\<newline>'' @
       ''      template: 'password-reset',\<newline>'' @
       ''      context: { resetUrl, expiresIn: '1 hour' },\<newline>'' @
       ''    });\<newline>'' @
       ''  }\<newline>'' @
       ''\<newline>'' @
       ''  async sendOrderConfirmation(to: string, order: any): Promise<boolean> {\<newline>'' @
       ''    return this.send({\<newline>'' @
       ''      to,\<newline>'' @
       ''      subject: `Order Confirmation #${order.id}`,\<newline>'' @
       ''      template: 'order-confirmation',\<newline>'' @
       ''      context: { order },\<newline>'' @
       ''    });\<newline>'' @
       ''  }\<newline>'' @
       ''}\<newline>''))\<close>

definition email_service_resend :: string where
  \<open>email_service_resend =
    (''import { Injectable, Logger } from '@nestjs/common';\<newline>'' @
       ''import { Resend } from 'resend';\<newline>'' @
       ''\<newline>'' @
       ''export interface SendEmailOptions {\<newline>'' @
       ''  to: string | string[];\<newline>'' @
       ''  subject: string;\<newline>'' @
       ''  text?: string;\<newline>'' @
       ''  html?: string;\<newline>'' @
       ''  react?: React.ReactElement;\<newline>'' @
       ''}\<newline>'' @
       ''\<newline>'' @
       ''@Injectable()\<newline>'' @
       ''export class EmailService {\<newline>'' @
       ''  private resend: Resend;\<newline>'' @
       ''  private readonly logger = new Logger(EmailService.name);\<newline>'' @
       ''\<newline>'' @
       ''  constructor() {\<newline>'' @
       ''    this.resend = new Resend(process.env.RESEND_API_KEY);\<newline>'' @
       ''  }\<newline>'' @
       ''\<newline>'' @
       ''  async send(options: SendEmailOptions): Promise<boolean> {\<newline>'' @
       ''    try {\<newline>'' @
       ''      await this.resend.emails.send({\<newline>'' @
       ''        from: process.env.EMAIL_FROM || 'onboarding@resend.dev',\<newline>'' @
       ''        to: options.to,\<newline>'' @
       ''        subject: options.subject,\<newline>'' @
       ''        text: options.text,\<newline>'' @
       ''        html: options.html,\<newline>'' @
       ''      });\<newline>'' @
       ''      this.logger.log(`Email sent to ${options.to}`);\<newline>'' @
       ''      return true;\<newline>'' @
       ''    } catch (error) {\<newline>'' @
       ''      this.logger.error(`Failed to send email: ${error.message}`);\<newline>'' @
       ''      return false;\<newline>'' @
       ''    }\<newline>'' @
       ''  }\<newline>'' @
       ''}\<newline>'')\<close>

definition email_service_sendgrid :: string where
  \<open>email_service_sendgrid =
    (''import { Injectable, Logger } from '@nestjs/common';\<newline>'' @
       ''import * as sgMail from '@sendgrid/mail';\<newline>'' @
       ''\<newline>'' @
       ''export interface SendEmailOptions {\<newline>'' @
       ''  to: string | string[];\<newline>'' @
       ''  subject: string;\<newline>'' @
       ''  text?: string;\<newline>'' @
       ''  html?: string;\<newline>'' @
       ''  templateId?: string;\<newline>'' @
       ''  dynamicTemplateData?: Record<string, any>;\<newline>'' @
       ''}\<newline>'' @
       ''\<newline>'' @
       ''@Injectable()\<newline>'' @
       ''export class EmailService {\<newline>'' @
       ''  private readonly logger = new Logger(EmailService.name);\<newline>'' @
       ''\<newline>'' @
       ''  constructor() {\<newline>'' @
       ''    sgMail.setApiKey(process.env.SENDGRID_API_KEY || '' @ [CHR 0x27, CHR 0x27] @ '');\<newline>'' @
       ''  }\<newline>'' @
       ''\<newline>'' @
       ''  async send(options: SendEmailOptions): Promise<boolean> {\<newline>'' @
       ''    try {\<newline>'' @
       ''      const msg: any = {\<newline>'' @
       ''        to: options.to,\<newline>'' @
       ''        from: process.env.SENDGRID_FROM || 'noreply@app.com',\<newline>'' @
       ''        subject: options.subject,\<newline>'' @
       ''      };\<newline>'' @
       ''\<newline>'' @
       ''      if (options.templateId) {\<newline>'' @
       ''        msg.templateId = options.templateId;\<newline>'' @
       ''        msg.dynamicTemplateData = options.dynamicTemplateData;\<newline>'' @
       ''      } else {\<newline>'' @
       ''        msg.text = options.text;\<newline>'' @
       ''        msg.html = options.html;\<newline>'' @
       ''      }\<newline>'' @
       ''\<newline>'' @
       ''      await sgMail.send(msg);\<newline>'' @
       ''      this.logger.log(`Email sent to ${options.to}`);\<newline>'' @
       ''      return true;\<newline>'' @
       ''    } catch (error) {\<newline>'' @
       ''      this.logger.error(`Failed to send email: ${error.message}`);\<newline>'' @
       ''      return false;\<newline>'' @
       ''    }\<newline>'' @
       ''  }\<newline>'' @
       ''}\<newline>'')\<close>

definition email_service_processor :: string where
  \<open>email_service_processor =
    (''import { Process, Processor } from '@nestjs/bull';\<newline>'' @
       ''import { Logger } from '@nestjs/common';\<newline>'' @
       ''import { Job } from 'bull';\<newline>'' @
       ''import { EmailService, SendEmailOptions } from './email.service';\<newline>'' @
       ''\<newline>'' @
       ''@Processor('email')\<newline>'' @
       ''export class EmailProcessor {\<newline>'' @
       ''  private readonly logger = new Logger(EmailProcessor.name);\<newline>'' @
       ''\<newline>'' @
       ''  constructor(private emailService: EmailService) {}\<newline>'' @
       ''\<newline>'' @
       ''  @Process('send')\<newline>'' @
       ''  async handleSend(job: Job<SendEmailOptions>) {\<newline>'' @
       ''    this.logger.log(`Processing email job ${job.id}`);\<newline>'' @
       ''    \<newline>'' @
       ''    const result = await this.emailService.send(job.data);\<newline>'' @
       ''    \<newline>'' @
       ''    if (!result) {\<newline>'' @
       ''      throw new Error('Email sending failed');\<newline>'' @
       ''    }\<newline>'' @
       ''    \<newline>'' @
       ''    return result;\<newline>'' @
       ''  }\<newline>'' @
       ''}\<newline>'')\<close>

definition email_service_welcome :: string where
  \<open>email_service_welcome =
    (''<!DOCTYPE html>\<newline>'' @
       ''<html>\<newline>'' @
       ''<head>\<newline>'' @
       ''  <meta charset="utf-8">\<newline>'' @
       ''  <style>\<newline>'' @
       ''    body { font-family: Arial, sans-serif; line-height: 1.6; color: #333; }\<newline>'' @
       ''    .container { max-width: 600px; margin: 0 auto; padding: 20px; }\<newline>'' @
       ''    .header { background: linear-gradient(135deg, #667eea 0%, #764ba2 100%); color: white; padding: 30px; text-align: center; border-radius: 8px 8px 0 0; }\<newline>'' @
       ''    .content { background: #f9f9f9; padding: 30px; border-radius: 0 0 8px 8px; }\<newline>'' @
       ''    .button { display: inline-block; background: #667eea; color: white; padding: 12px 24px; text-decoration: none; border-radius: 6px; margin: 20px 0; }\<newline>'' @
       ''    .footer { text-align: center; color: #666; font-size: 12px; margin-top: 20px; }\<newline>'' @
       ''  </style>\<newline>'' @
       ''</head>\<newline>'' @
       ''<body>\<newline>'' @
       ''  <div class="container">\<newline>'' @
       ''    <div class="header">\<newline>'' @
       ''      <h1>Welcome, {{name}}! '' @ [CHR 0xF0, CHR 0x9F, CHR 0x8E, CHR 0x89] @ ''</h1>\<newline>'' @
       ''    </div>\<newline>'' @
       ''    <div class="content">\<newline>'' @
       ''      <p>Thanks for joining us! We're excited to have you on board.</p>\<newline>'' @
       ''      <p>Here's what you can do next:</p>\<newline>'' @
       ''      <ul>\<newline>'' @
       ''        <li>Complete your profile</li>\<newline>'' @
       ''        <li>Explore our features</li>\<newline>'' @
       ''        <li>Connect with the community</li>\<newline>'' @
       ''      </ul>\<newline>'' @
       ''      <a href="{{dashboardUrl}}" class="button">Get Started</a>\<newline>'' @
       ''    </div>\<newline>'' @
       ''    <div class="footer">\<newline>'' @
       ''      <p>&copy; {{year}} Your Company. All rights reserved.</p>\<newline>'' @
       ''    </div>\<newline>'' @
       ''  </div>\<newline>'' @
       ''</body>\<newline>'' @
       ''</html>\<newline>'')\<close>

definition email_service_password_reset :: string where
  \<open>email_service_password_reset =
    (''<!DOCTYPE html>\<newline>'' @
       ''<html>\<newline>'' @
       ''<head>\<newline>'' @
       ''  <meta charset="utf-8">\<newline>'' @
       ''  <style>\<newline>'' @
       ''    body { font-family: Arial, sans-serif; line-height: 1.6; color: #333; }\<newline>'' @
       ''    .container { max-width: 600px; margin: 0 auto; padding: 20px; }\<newline>'' @
       ''    .header { background: #dc3545; color: white; padding: 30px; text-align: center; border-radius: 8px 8px 0 0; }\<newline>'' @
       ''    .content { background: #f9f9f9; padding: 30px; border-radius: 0 0 8px 8px; }\<newline>'' @
       ''    .button { display: inline-block; background: #dc3545; color: white; padding: 12px 24px; text-decoration: none; border-radius: 6px; margin: 20px 0; }\<newline>'' @
       ''    .warning { background: #fff3cd; border: 1px solid #ffc107; padding: 10px; border-radius: 4px; margin: 15px 0; }\<newline>'' @
       ''  </style>\<newline>'' @
       ''</head>\<newline>'' @
       ''<body>\<newline>'' @
       ''  <div class="container">\<newline>'' @
       ''    <div class="header">\<newline>'' @
       ''      <h1>Password Reset Request</h1>\<newline>'' @
       ''    </div>\<newline>'' @
       ''    <div class="content">\<newline>'' @
       ''      <p>We received a request to reset your password.</p>\<newline>'' @
       ''      <p>Click the button below to create a new password:</p>\<newline>'' @
       ''      <a href="{{resetUrl}}" class="button">Reset Password</a>\<newline>'' @
       ''      <div class="warning">\<newline>'' @
       ''        '' @ [CHR 0xE2, CHR 0x9A, CHR 0xA0, CHR 0xEF, CHR 0xB8, CHR 0x8F] @ '' This link will expire in {{expiresIn}}.\<newline>'' @
       ''      </div>\<newline>'' @
       ''      <p>If you didn't request this, you can safely ignore this email.</p>\<newline>'' @
       ''    </div>\<newline>'' @
       ''  </div>\<newline>'' @
       ''</body>\<newline>'' @
       ''</html>\<newline>'')\<close>

definition email_service_order_confirmation :: string where
  \<open>email_service_order_confirmation =
    (''<!DOCTYPE html>\<newline>'' @
       ''<html>\<newline>'' @
       ''<head>\<newline>'' @
       ''  <meta charset="utf-8">\<newline>'' @
       ''  <style>\<newline>'' @
       ''    body { font-family: Arial, sans-serif; line-height: 1.6; color: #333; }\<newline>'' @
       ''    .container { max-width: 600px; margin: 0 auto; padding: 20px; }\<newline>'' @
       ''    .header { background: #28a745; color: white; padding: 30px; text-align: center; border-radius: 8px 8px 0 0; }\<newline>'' @
       ''    .content { background: #f9f9f9; padding: 30px; border-radius: 0 0 8px 8px; }\<newline>'' @
       ''    table { width: 100%; border-collapse: collapse; margin: 20px 0; }\<newline>'' @
       ''    th, td { padding: 12px; text-align: left; border-bottom: 1px solid #ddd; }\<newline>'' @
       ''    th { background: #f1f1f1; }\<newline>'' @
       ''    .total { font-size: 1.2em; font-weight: bold; }\<newline>'' @
       ''  </style>\<newline>'' @
       ''</head>\<newline>'' @
       ''<body>\<newline>'' @
       ''  <div class="container">\<newline>'' @
       ''    <div class="header">\<newline>'' @
       ''      <h1>Order Confirmed! '' @ [CHR 0xE2, CHR 0x9C, CHR 0x93] @ ''</h1>\<newline>'' @
       ''      <p>Order #{{order.id}}</p>\<newline>'' @
       ''    </div>\<newline>'' @
       ''    <div class="content">\<newline>'' @
       ''      <p>Thank you for your order!</p>\<newline>'' @
       ''      <table>\<newline>'' @
       ''        <tr>\<newline>'' @
       ''          <th>Item</th>\<newline>'' @
       ''          <th>Qty</th>\<newline>'' @
       ''          <th>Price</th>\<newline>'' @
       ''        </tr>\<newline>'' @
       ''        {{#each order.items}}\<newline>'' @
       ''        <tr>\<newline>'' @
       ''          <td>{{this.name}}</td>\<newline>'' @
       ''          <td>{{this.quantity}}</td>\<newline>'' @
       ''          <td>${{this.price}}</td>\<newline>'' @
       ''        </tr>\<newline>'' @
       ''        {{/each}}\<newline>'' @
       ''        <tr class="total">\<newline>'' @
       ''          <td colspan="2">Total</td>\<newline>'' @
       ''          <td>${{order.total}}</td>\<newline>'' @
       ''        </tr>\<newline>'' @
       ''      </table>\<newline>'' @
       ''    </div>\<newline>'' @
       ''  </div>\<newline>'' @
       ''</body>\<newline>'' @
       ''</html>\<newline>'')\<close>

definition email_service_handler :: "EmailServiceArgs \<Rightarrow> SkillResult" where
  "email_service_handler args =
     (let provider = EmailServiceArgs.provider args;
          templateEngine = EmailServiceArgs.templateEngine args;
          includeTemplates = EmailServiceArgs.includeTemplates args;
          queueSupport = EmailServiceArgs.queueSupport args;
          files = [];
          files = assign files ''email.module.ts'' (email_service_module queueSupport);
          serviceCode = ([] :: string);
          serviceCode = (if provider = ''nodemailer'' then email_service_nodemailer templateEngine queueSupport
                         else if provider = ''resend'' then email_service_resend
                         else email_service_sendgrid);
          files = assign files ''email.service.ts'' serviceCode;
          files = (if queueSupport then assign files ''email.processor.ts'' email_service_processor else files);
          files = (if includeTemplates \<and> templateEngine = ''handlebars''
                   then assign (assign (assign files
                          ''templates/welcome.hbs'' email_service_welcome)
                          ''templates/password-reset.hbs'' email_service_password_reset)
                          ''templates/order-confirmation.hbs'' email_service_order_confirmation
                   else files)
      in \<lparr>success = True,
          data = Some (files_data files),
          error = None,
          metadata = Some (JObj [(''provider'', JStr provider),
                                 (''templateEngine'', JStr templateEngine),
                                 (''queueSupport'', JBool queueSupport),
                                 (''generatedFiles'', strings (Object_keys files))])\<rparr>)"

definition emailServiceSkillDefinition :: SkillDefinition where
  \<open>emailServiceSkillDefinition =
     \<lparr>SkillDefinition.name = ''email_service_generator'',
      SkillDefinition.description = ''Generates NestJS email service with Nodemailer/SendGrid/Resend, templates, and optional queue support.'',
      parameters = EmailServiceSchema,
      handler = (\<lambda>rt v. Inr (email_service_handler (EmailServiceArgs_of v)))\<rparr>\<close>

subsection \<open>backend/infrastructure/health\_check\_builder.ts\<close>

text \<open>Source: \<open>src/backend/infrastructure/health_check_builder.ts\<close>, lines 1 to 67.\<close>

record HealthCheckBuilderArgs =
  checkDatabase :: bool
  checkMemory :: bool
  memoryThresholdMB :: number

definition HealthCheckBuilderSchema :: zschema where
  "HealthCheckBuilderSchema = ZObject
     [(''checkDatabase'', ZDefault ZBoolean (JBool True)),
      (''checkMemory'', ZDefault ZBoolean (JBool True)),
      (''memoryThresholdMB'', ZDefault ZNumber (JNum 150))]"

definition HealthCheckBuilderArgs_of :: "jsval \<Rightarrow> HealthCheckBuilderArgs" where
  "HealthCheckBuilderArgs_of v = HealthCheckBuilderArgs.make
     (as_boolean (field v ''checkDatabase''))
     (as_boolean (field v ''checkMemory''))
     (as_number (field v ''memoryThresholdMB''))"

definition health_check_builder_imports :: "bool \<Rightarrow> bool \<Rightarrow> string list" where
  \<open>health_check_builder_imports = (\<lambda>checkDatabase checkMemory.
     [''import { Controller, Get } from '@nestjs/common';'',
      ''import { HealthCheck, HealthCheckService, HealthCheckResult } from '@nestjs/terminus';''] @
     (if checkDatabase then [''import { TypeOrmHealthIndicator } from '@nestjs/terminus';''] else []) @
     (if checkMemory then [''import { MemoryHealthIndicator } from '@nestjs/terminus';''] else []))\<close>

definition health_check_builder_constructorArgs :: "bool \<Rightarrow> bool \<Rightarrow> string list" where
  \<open>health_check_builder_constructorArgs = (\<lambda>checkDatabase checkMemory.
     [''private health: HealthCheckService''] @
     (if checkDatabase then [''private db: TypeOrmHealthIndicator''] else []) @
     (if checkMemory then [''private memory: MemoryHealthIndicator''] else []))\<close>

definition health_check_builder_checks :: "runtime \<Rightarrow> bool \<Rightarrow> bool \<Rightarrow> number \<Rightarrow> string list" where
  \<open>health_check_builder_checks = (\<lambda>rt checkDatabase checkMemory memoryThresholdMB.
     (if checkDatabase then [''() => this.db.pingCheck('database')''] else []) @
     (if checkMemory then [(''() => this.memory.checkHeap('memory_heap', '' @ (number_toString rt memoryThresholdMB) @ '' * 1024 * 1024)'')] else []))\<close>

definition health_check_builder_code :: "string list \<Rightarrow> string list \<Rightarrow> string list \<Rightarrow> string" where
  \<open>health_check_builder_code = (\<lambda>imports constructorArgs checks.
    ((join imports ''\<newline>'') @ ''\<newline>'' @
       ''\<newline>'' @
       ''@Controller('health')\<newline>'' @
       ''export class HealthController {\<newline>'' @
       ''  constructor(\<newline>'' @
       ''    '' @ (join constructorArgs ('',\<newline>'' @ ''    '')) @ ''\<newline>'' @
       ''  ) {}\<newline>'' @
       ''\<newline>'' @
       ''  @Get()\<newline>'' @
       ''  @HealthCheck()\<newline>'' @
       ''  check(): Promise<HealthCheckResult> {\<newline>'' @
       ''    return this.health.check([\<newline>'' @
       ''      '' @ (join checks ('',\<newline>'' @ ''      '')) @ ''\<newline>'' @
       ''    ]);\<newline>'' @
       ''  }\<newline>'' @
       ''}\<newline>''))\<close>

definition health_check_builder_handler :: "runtime \<Rightarrow> HealthCheckBuilderArgs \<Rightarrow> SkillResult" where
  "health_check_builder_handler rt args =
     (let checkDatabase = HealthCheckBuilderArgs.checkDatabase args;
          checkMemory = HealthCheckBuilderArgs.checkMemory args;
          memoryThresholdMB = HealthCheckBuilderArgs.memoryThresholdMB args;
          imports = health_check_builder_imports checkDatabase checkMemory;
          constructorArgs = health_check_builder_constructorArgs checkDatabase checkMemory;
          checks = health_check_builder_checks rt checkDatabase checkMemory memoryThresholdMB;
          code = health_check_builder_code imports constructorArgs checks
      in \<lparr>success = True,
          data = Some (JStr code),
          error = None,
          metadata = Some (JObj [(''dependencies'', strings [''@nestjs/terminus'', ''@nestjs/axios'']),
                                 (''endpoint'', JStr ''/health'')])\<rparr>)"

definition healthCheckBuilderSkillDefinition :: SkillDefinition where
  \<open>healthCheckBuilderSkillDefinition =
     \<lparr>SkillDefinition.name = ''health_check_builder'',
      SkillDefinition.description = ''Generates a HealthController using NestJS Terminus for DB and Memory checks.'',
      parameters = HealthCheckBuilderSchema,
      handler = (\<lambda>rt v. Inr (health_check_builder_handler rt (HealthCheckBuilderArgs_of v)))\<rparr>\<close>

subsection \<open>backend/infrastructure/logger\_provider.ts\<close>

text \<open>Source: \<open>src/backend/infrastructure/logger_provider.ts\<close>, lines 1 to 71.\<close>

record LoggerProviderArgs =
  library :: string
  contextName :: string

definition LoggerProviderSchema :: zschema where
  "LoggerProviderSchema = ZObject
     [(''library'', ZDefault (ZEnum [''winston'', ''pino'']) (JStr ''winston'')),
      (''contextName'', ZDefault ZString (JStr ''MyApp''))]"

definition LoggerProviderArgs_of :: "jsval \<Rightarrow> LoggerProviderArgs" where
  "LoggerProviderArgs_of v = LoggerProviderArgs.make
     (as_string (field v ''library''))
     (as_string (field v ''contextName''))"

definition logger_provider_winston :: "string \<Rightarrow> string" where
  \<open>logger_provider_winston = (\<lambda>contextName.
    (''import { WinstonModule, utilities as nestWinstonModuleUtilities } from 'nest-winston';\<newline>'' @
       ''import * as winston from 'winston';\<newline>'' @
       ''\<newline>'' @
       ''export const loggerConfig = WinstonModule.createLogger({\<newline>'' @
       ''  transports: [\<newline>'' @
       ''    new winston.transports.Console({\<newline>'' @
       ''      format: winston.format.combine(\<newline>'' @
       ''        winston.format.timestamp(),\<newline>'' @
       ''        winston.format.ms(),\<newline>'' @
       ''        nestWinstonModuleUtilities.format.nestLike('' @ [CHR 0x27] @ contextName @ [CHR 0x27] @ '', {\<newline>'' @
       ''          colors: true,\<newline>'' @
       ''          prettyPrint: true,\<newline>'' @
       ''        }),\<newline>'' @
       ''      ),\<newline>'' @
       ''    }),\<newline>'' @
       ''    // Add File transport here if needed\<newline>'' @
       ''    // new winston.transports.File({ filename: 'error.log', level: 'error' }),\<newline>'' @
       ''  ],\<newline>'' @
       ''});\<newline>'' @
       ''\<newline>'' @
       ''// Usage in main.ts:\<newline>'' @
       ''// app.useLogger(loggerConfig);\<newline>''))\<close>

definition logger_provider_pino :: "string \<Rightarrow> string" where
  \<open>logger_provider_pino = (\<lambda>contextName.
    (''import { LoggerErrorInterceptor } from 'nestjs-pino';\<newline>'' @
       ''// Make sure to import LoggerModule from 'nestjs-pino' in AppModule\<newline>'' @
       ''\<newline>'' @
       ''export const pinoConfig = {\<newline>'' @
       ''  pinoHttp: {\<newline>'' @
       ''    name: '' @ [CHR 0x27] @ contextName @ [CHR 0x27] @ '',\<newline>'' @
       ''    level: process.env.NODE_ENV !== 'production' ? 'debug' : 'info',\<newline>'' @
       ''    transport: process.env.NODE_ENV !== 'production'' @ [CHR 0x27] @ ''\<newline>'' @
       ''      ? { target: 'pino-pretty' }\<newline>'' @
       ''      : undefined,\<newline>'' @
       ''  },\<newline>'' @
       ''};\<newline>''))\<close>

definition logger_provider_handler :: "LoggerProviderArgs \<Rightarrow> SkillResult" where
  "logger_provider_handler args =
     (let library = LoggerProviderArgs.library args;
          contextName = LoggerProviderArgs.contextName args;
          code = ([] :: string);
          code = (if library = ''winston'' then logger_provider_winston contextName
                  else logger_provider_pino contextName)
      in \<lparr>success = True,
          data = Some (JStr code),
          error = None,
          metadata = Some (JObj [(''library'', JStr library),
                                 (''recommendedDependencies'',
                                    (if library = ''winston'' then strings [''nest-winston'', ''winston'']
                                     else strings [''nestjs-pino'', ''pino-http'', ''pino-pretty'']))])\<rparr>)"

definition loggerProviderSkillDefinition :: SkillDefinition where
  \<open>loggerProviderSkillDefinition =
     \<lparr>SkillDefinition.name = ''logger_provider'',
      SkillDefinition.description = ''Generates configuration for structured logging (Winston or Pino).'',
      parameters = LoggerProviderSchema,
      handler = (\<lambda>rt v. Inr (logger_provider_handler (LoggerProviderArgs_of v)))\<rparr>\<close>

subsection \<open>backend/infrastructure/websocket\_gateway.ts\<close>

text \<open>Source: \<open>src/backend/infrastructure/websocket_gateway.ts\<close>, lines 1 to 328.\<close>

record WebSocketEvent =
  name :: string
  hasPayload :: bool
  broadcast :: bool

record WebSocketGatewayArgs =
  gatewayName :: string
  namespace :: "string option"
  events :: "WebSocketEvent list"
  withAuth :: bool
  withRooms :: bool

definition WebSocketGatewaySchema :: zschema where
  "WebSocketGatewaySchema = ZObject
     [(''gatewayName'', ZDefault ZString (JStr ''Events'')),
      (''namespace'', ZOptional ZString),
      (''events'', ZDefault
         (ZArray (ZObject
            [(''name'', ZString),
             (''hasPayload'', ZDefault ZBoolean (JBool True)),
             (''broadcast'', ZDefault ZBoolean (JBool False))]))
         (JArr [JObj [(''name'', JStr ''message''), (''hasPayload'', JBool True), (''broadcast'', JBool True)],
                JObj [(''name'', JStr ''join''), (''hasPayload'', JBool True), (''broadcast'', JBool False)]])),
      (''withAuth'', ZDefault ZBoolean (JBool True)),
      (''withRooms'', ZDefault ZBoolean (JBool True))]"

definition WebSocketEvent_of :: "jsval \<Rightarrow> WebSocketEvent" where
  "WebSocketEvent_of v = WebSocketEvent.make
     (as_string (field v ''name''))
     (as_boolean (field v ''hasPayload''))
     (as_boolean (field v ''broadcast''))"

definition WebSocketGatewayArgs_of :: "jsval \<Rightarrow> WebSocketGatewayArgs" where
  "WebSocketGatewayArgs_of v = WebSocketGatewayArgs.make
     (as_string (field v ''gatewayName''))
     (as_optional as_string (field v ''namespace''))
     (as_array WebSocketEvent_of (field v ''events''))
     (as_boolean (field v ''withAuth''))
     (as_boolean (field v ''withRooms''))"

definition websocket_gateway_eventHandler :: "string \<Rightarrow> bool \<Rightarrow> WebSocketEvent \<Rightarrow> string" where
  \<open>websocket_gateway_eventHandler = (\<lambda>gatewayName withRooms event.
    (''\<newline>'' @
       ''  @SubscribeMessage('' @ [CHR 0x27] @ (WebSocketEvent.name event) @ [CHR 0x27] @ '')\<newline>'' @
       ''  handle'' @ ((toUpperCase (charAt (WebSocketEvent.name event) 0)) @ (slice (WebSocketEvent.name event) 1)) @ ''(\<newline>'' @
       ''    @ConnectedSocket() client: Socket,\<newline>'' @
       ''    '' @ (if (WebSocketEvent.hasPayload event) then ''@MessageBody() payload: any,''
         else []) @
       ''\<newline>'' @
       ''  ) {\<newline>'' @
       ''    console.log(`['' @ gatewayName @ ''] '' @ (WebSocketEvent.name event) @ '' from ${client.id}`'' @ (if (WebSocketEvent.hasPayload event) then '', payload''
         else []) @
       '');\<newline>'' @
       ''    \<newline>'' @
       ''    '' @ (if (WebSocketEvent.broadcast event) then (''// Broadcast to all clients'' @ (if withRooms then '' in the room''
           else []) @
         ''\<newline>'' @
         ''    '' @ (if withRooms then (''const room = payload.room || 'general';\<newline>'' @
           ''    this.server.to(room).emit('' @ [CHR 0x27] @ (WebSocketEvent.name event) @ [CHR 0x27] @ '', {\<newline>'' @
           ''      from: client.id,\<newline>'' @
           ''      ...payload,\<newline>'' @
           ''      timestamp: new Date().toISOString(),\<newline>'' @
           ''    });'')
           else (''this.server.emit('' @ [CHR 0x27] @ (WebSocketEvent.name event) @ [CHR 0x27] @ '', {\<newline>'' @
           ''      from: client.id,\<newline>'' @
           ''      '' @ (if (WebSocketEvent.hasPayload event) then ''...payload,''
             else []) @
           ''\<newline>'' @
           ''      timestamp: new Date().toISOString(),\<newline>'' @
           ''    });'')))
         else (''// Acknowledge to sender\<newline>'' @
         ''    return { event: '' @ [CHR 0x27] @ (WebSocketEvent.name event) @ [CHR 0x27] @ '', status: 'received' };'')) @
       ''\<newline>'' @
       ''  }''))\<close>

definition websocket_gateway_gateway :: "string \<Rightarrow> string option \<Rightarrow> bool \<Rightarrow> bool \<Rightarrow> string \<Rightarrow> string" where
  \<open>websocket_gateway_gateway = (\<lambda>gatewayName namespace withAuth withRooms eventHandlers.
    (''import {\<newline>'' @
       ''  WebSocketGateway,\<newline>'' @
       ''  WebSocketServer,\<newline>'' @
       ''  SubscribeMessage,\<newline>'' @
       ''  OnGatewayInit,\<newline>'' @
       ''  OnGatewayConnection,\<newline>'' @
       ''  OnGatewayDisconnect,\<newline>'' @
       ''  ConnectedSocket,\<newline>'' @
       ''  MessageBody,\<newline>'' @
       ''} from '@nestjs/websockets';\<newline>'' @
       ''import { Server, Socket } from 'socket.io';\<newline>'' @
       ''import { Logger'' @ (if withAuth then '', UseGuards''
         else []) @
       '' } from '@nestjs/common';\<newline>'' @
       (if withAuth then ''import { WsJwtGuard } from './ws-jwt.guard';''
         else []) @
       ''\<newline>'' @
       ''\<newline>'' @
       ''@WebSocketGateway({\<newline>'' @
       ''  '' @ (if (truthy_optional namespace) then (''namespace: '' @ [CHR 0x27] @ (optional_toString namespace) @ [CHR 0x27] @ '','')
         else []) @
       ''\<newline>'' @
       ''  cors: {\<newline>'' @
       ''    origin: process.env.FRONTEND_URL || '*',\<newline>'' @
       ''    credentials: true,\<newline>'' @
       ''  },\<newline>'' @
       ''})\<newline>'' @
       (if withAuth then ''@UseGuards(WsJwtGuard)''
         else []) @
       ''\<newline>'' @
       ''export class '' @ gatewayName @ ''Gateway\<newline>'' @
       ''  implements OnGatewayInit, OnGatewayConnection, OnGatewayDisconnect\<newline>'' @
       ''{\<newline>'' @
       ''  @WebSocketServer()\<newline>'' @
       ''  server: Server;\<newline>'' @
       ''\<newline>'' @
       ''  private readonly logger = new Logger('' @ gatewayName @ ''Gateway.name);\<newline>'' @
       ''  private connectedClients: Map<string, { id: string; userId?: string }> = new Map();\<newline>'' @
       ''\<newline>'' @
       ''  afterInit() {\<newline>'' @
       ''    this.logger.log('WebSocket Gateway initialized');\<newline>'' @
       ''  }\<newline>'' @
       ''\<newline>'' @
       ''  handleConnection(client: Socket) {\<newline>'' @
       ''    this.logger.log(`Client connected: ${client.id}`);\<newline>'' @
       ''    this.connectedClients.set(client.id, { id: client.id });\<newline>'' @
       ''    \<newline>'' @
       ''    // Notify others\<newline>'' @
       ''    client.broadcast.emit('user:connected', { clientId: client.id });\<newline>'' @
       ''  }\<newline>'' @
       ''\<newline>'' @
       ''  handleDisconnect(client: Socket) {\<newline>'' @
       ''    this.logger.log(`Client disconnected: ${client.id}`);\<newline>'' @
       ''    this.connectedClients.delete(client.id);\<newline>'' @
       ''    \<newline>'' @
       ''    // Notify others\<newline>'' @
       ''    this.server.emit('user:disconnected', { clientId: client.id });\<newline>'' @
       ''  }\<newline>'' @
       ''\<newline>'' @
       ''  '' @ eventHandlers @ ''\<newline>'' @
       ''\<newline>'' @
       ''  '' @ (if withRooms then (''\<newline>'' @
         ''  @SubscribeMessage('room:join')\<newline>'' @
         ''  handleJoinRoom(\<newline>'' @
         ''    @ConnectedSocket() client: Socket,\<newline>'' @
         ''    @MessageBody() payload: { room: string },\<newline>'' @
         ''  ) {\<newline>'' @
         ''    client.join(payload.room);\<newline>'' @
         ''    this.logger.log(`Client ${client.id} joined room: ${payload.room}`);\<newline>'' @
         ''    \<newline>'' @
         ''    // Notify room members\<newline>'' @
         ''    this.server.to(payload.room).emit('room:joined', {\<newline>'' @
         ''      clientId: client.id,\<newline>'' @
         ''      room: payload.room,\<newline>'' @
         ''    });\<newline>'' @
         ''    \<newline>'' @
         ''    return { event: 'room:join', room: payload.room, status: 'joined' };\<newline>'' @
         ''  }\<newline>'' @
         ''\<newline>'' @
         ''  @SubscribeMessage('room:leave')\<newline>'' @
         ''  handleLeaveRoom(\<newline>'' @
         ''    @ConnectedSocket() client: Socket,\<newline>'' @
         ''    @MessageBody() payload: { room: string },\<newline>'' @
         ''  ) {\<newline>'' @
         ''    client.leave(payload.room);\<newline>'' @
         ''    this.logger.log(`Client ${client.id} left room: ${payload.room}`);\<newline>'' @
         ''    \<newline>'' @
         ''    // Notify room members\<newline>'' @
         ''    this.server.to(payload.room).emit('room:left', {\<newline>'' @
         ''      clientId: client.id,\<newline>'' @
         ''      room: payload.room,\<newline>'' @
         ''    });\<newline>'' @
         ''    \<newline>'' @
         ''    return { event: 'room:leave', room: payload.room, status: 'left' };\<newline>'' @
         ''  }\<newline>'' @
         ''  '')
         else []) @
       ''\<newline>'' @
       ''\<newline>'' @
       ''  /**\<newline>'' @
       ''   * Utility: Send to specific client\<newline>'' @
       ''   */\<newline>'' @
       ''  sendToClient(clientId: string, event: string, data: any) {\<newline>'' @
       ''    this.server.to(clientId).emit(event, data);\<newline>'' @
       ''  }\<newline>'' @
       ''\<newline>'' @
       ''  /**\<newline>'' @
       ''   * Utility: Broadcast to all\<newline>'' @
       ''   */\<newline>'' @
       ''  broadcast(event: string, data: any) {\<newline>'' @
       ''    this.server.emit(event, data);\<newline>'' @
       ''  }\<newline>'' @
       ''\<newline>'' @
       ''  /**\<newline>'' @
       ''   * Utility: Get connected clients count\<newline>'' @
       ''   */\<newline>'' @
       ''  getConnectedClientsCount(): number {\<newline>'' @
       ''    return this.connectedClients.size;\<newline>'' @
       ''  }\<newline>'' @
       ''}\<newline>''))\<close>

definition websocket_gateway_guard :: string where
  \<open>websocket_gateway_guard =
    (''import { CanActivate, ExecutionContext, Injectable } from '@nestjs/common';\<newline>'' @
       ''import { JwtService } from '@nestjs/jwt';\<newline>'' @
       ''import { WsException } from '@nestjs/websockets';\<newline>'' @
       ''import { Socket } from 'socket.io';\<newline>'' @
       ''\<newline>'' @
       ''@Injectable()\<newline>'' @
       ''export class WsJwtGuard implements CanActivate {\<newline>'' @
       ''  constructor(private jwtService: JwtService) {}\<newline>'' @
       ''\<newline>'' @
       ''  async canActivate(context: ExecutionContext): Promise<boolean> {\<newline>'' @
       ''    try {\<newline>'' @
       ''      const client: Socket = context.switchToWs().getClient();\<newline>'' @
       ''      const token = this.extractToken(client);\<newline>'' @
       ''\<newline>'' @
       ''      if (!token) {\<newline>'' @
       ''        throw new WsException('Unauthorized: No token provided');\<newline>'' @
       ''      }\<newline>'' @
       ''\<newline>'' @
       ''      const payload = await this.jwtService.verifyAsync(token, {\<newline>'' @
       ''        secret: process.env.JWT_SECRET,\<newline>'' @
       ''      });\<newline>'' @
       ''\<newline>'' @
       ''      // Attach user to socket data\<newline>'' @
       ''      client.data.user = payload;\<newline>'' @
       ''      return true;\<newline>'' @
       ''    } catch (error) {\<newline>'' @
       ''      throw new WsException('Unauthorized: Invalid token');\<newline>'' @
       ''    }\<newline>'' @
       ''  }\<newline>'' @
       ''\<newline>'' @
       ''  private extractToken(client: Socket): string | undefined {\<newline>'' @
       ''    // Try auth header first\<newline>'' @
       ''    const authHeader = client.handshake.headers.authorization;\<newline>'' @
       ''    if (authHeader?.startsWith('Bearer ')) {\<newline>'' @
       ''      return authHeader.slice(7);\<newline>'' @
       ''    }\<newline>'' @
       ''\<newline>'' @
       ''    // Try query param\<newline>'' @
       ''    return client.handshake.query.token as string;\<newline>'' @
       ''  }\<newline>'' @
       ''}\<newline>'')\<close>

definition websocket_gateway_module :: "string \<Rightarrow> string \<Rightarrow> bool \<Rightarrow> string" where
  \<open>websocket_gateway_module = (\<lambda>gatewayName lowerName withAuth.
    (''import { Module } from '@nestjs/common';\<newline>'' @
       ''import { '' @ gatewayName @ ''Gateway } from './'' @ lowerName @ ''.gateway';\<newline>'' @
       (if withAuth then ''import { JwtModule } from '@nestjs/jwt';''
         else []) @
       ''\<newline>'' @
       ''\<newline>'' @
       ''@Module({\<newline>'' @
       ''  '' @ (if withAuth then (''imports: [\<newline>'' @
         ''    JwtModule.register({\<newline>'' @
         ''      secret: process.env.JWT_SECRET,\<newline>'' @
         ''      signOptions: { expiresIn: '7d' },\<newline>'' @
         ''    }),\<newline>'' @
         ''  ],'')
         else []) @
       ''\<newline>'' @
       ''  providers: ['' @ gatewayName @ ''Gateway],\<newline>'' @
       ''  exports: ['' @ gatewayName @ ''Gateway],\<newline>'' @
       ''})\<newline>'' @
       ''export class '' @ gatewayName @ ''Module {}\<newline>''))\<close>

definition websocket_gateway_hook :: "string option \<Rightarrow> string" where
  \<open>websocket_gateway_hook = (\<lambda>namespace.
    (''import { useEffect, useState, useCallback } from 'react';\<newline>'' @
       ''import { io, Socket } from 'socket.io-client';\<newline>'' @
       ''\<newline>'' @
       ''const SOCKET_URL = process.env.NEXT_PUBLIC_API_URL || 'http://localhost:3000';\<newline>'' @
       ''\<newline>'' @
       ''interface UseSocketOptions {\<newline>'' @
       ''  namespace?: string;\<newline>'' @
       ''  token?: string;\<newline>'' @
       ''  autoConnect?: boolean;\<newline>'' @
       ''}\<newline>'' @
       ''\<newline>'' @
       ''export function useSocket(options: UseSocketOptions = {}) {\<newline>'' @
       ''  const { namespace = '' @ [CHR 0x27] @ (if truthy_optional namespace then the namespace else ''/'') @ [CHR 0x27] @ '', token, autoConnect = true } = options;\<newline>'' @
       ''  const [socket, setSocket] = useState<Socket | null>(null);\<newline>'' @
       ''  const [isConnected, setIsConnected] = useState(false);\<newline>'' @
       ''\<newline>'' @
       ''  useEffect(() => {\<newline>'' @
       ''    if (!autoConnect) return;\<newline>'' @
       ''\<newline>'' @
       ''    const socketInstance = io(`${SOCKET_URL}${namespace}`, {\<newline>'' @
       ''      auth: token ? { token } : undefined,\<newline>'' @
       ''      query: token ? { token } : undefined,\<newline>'' @
       ''      transports: ['websocket', 'polling'],\<newline>'' @
       ''    });\<newline>'' @
       ''\<newline>'' @
       ''    socketInstance.on('connect', () => {\<newline>'' @
       ''      console.log('Socket connected:', socketInstance.id);\<newline>'' @
       ''      setIsConnected(true);\<newline>'' @
       ''    });\<newline>'' @
       ''\<newline>'' @
       ''    socketInstance.on('disconnect', () => {\<newline>'' @
       ''      console.log('Socket disconnected');\<newline>'' @
       ''      setIsConnected(false);\<newline>'' @
       ''    });\<newline>'' @
       ''\<newline>'' @
       ''    setSocket(socketInstance);\<newline>'' @
       ''\<newline>'' @
       ''    return () => {\<newline>'' @
       ''      socketInstance.disconnect();\<newline>'' @
       ''    };\<newline>'' @
       ''  }, [namespace, token, autoConnect]);\<newline>'' @
       ''\<newline>'' @
       ''  const emit = useCallback(\<newline>'' @
       ''    (event: string, data?: any) => {\<newline>'' @
       ''      socket?.emit(event, data);\<newline>'' @
       ''    },\<newline>'' @
       ''    [socket]\<newline>'' @
       ''  );\<newline>'' @
       ''\<newline>'' @
       ''  const on = useCallback(\<newline>'' @
       ''    (event: string, callback: (data: any) => void) => {\<newline>'' @
       ''      socket?.on(event, callback);\<newline>'' @
       ''      return () => {\<newline>'' @
       ''        socket?.off(event, callback);\<newline>'' @
       ''      };\<newline>'' @
       ''    },\<newline>'' @
       ''    [socket]\<newline>'' @
       ''  );\<newline>'' @
       ''\<newline>'' @
       ''  const joinRoom = useCallback(\<newline>'' @
       ''    (room: string) => {\<newline>'' @
       ''      socket?.emit('room:join', { room });\<newline>'' @
       ''    },\<newline>'' @
       ''    [socket]\<newline>'' @
       ''  );\<newline>'' @
       ''\<newline>'' @
       ''  const leaveRoom = useCallback(\<newline>'' @
       ''    (room: string) => {\<newline>'' @
       ''      socket?.emit('room:leave', { room });\<newline>'' @
       ''    },\<newline>'' @
       ''    [socket]\<newline>'' @
       ''  );\<newline>'' @
       ''\<newline>'' @
       ''  return {\<newline>'' @
       ''    socket,\<newline>'' @
       ''    isConnected,\<newline>'' @
       ''    emit,\<newline>'' @
       ''    on,\<newline>'' @
       ''    joinRoom,\<newline>'' @
       ''    leaveRoom,\<newline>'' @
       ''  };\<newline>'' @
       ''}\<newline>''))\<close>

definition websocket_gateway_handler :: "WebSocketGatewayArgs \<Rightarrow> SkillResult" where
  \<open>websocket_gateway_handler args =
     (let gatewayName = WebSocketGatewayArgs.gatewayName args;
          namespace = WebSocketGatewayArgs.namespace args;
          events = WebSocketGatewayArgs.events args;
          withAuth = WebSocketGatewayArgs.withAuth args;
          withRooms = WebSocketGatewayArgs.withRooms args;
          files = [];
          lowerName = toLowerCase gatewayName;
          eventHandlers = join (map (websocket_gateway_eventHandler gatewayName withRooms) events) ''\<newline>'';
          files = assign files (lowerName @ ''.gateway.ts'')
                    (websocket_gateway_gateway gatewayName namespace withAuth withRooms eventHandlers);
          files = (if withAuth then assign files ''ws-jwt.guard.ts'' websocket_gateway_guard else files);
          files = assign files (lowerName @ ''.module.ts'')
                    (websocket_gateway_module gatewayName lowerName withAuth);
          files = assign files ''use-socket.hook.ts'' (websocket_gateway_hook namespace)
      in \<lparr>success = True,
          data = Some (files_data files),
          error = None,
          metadata = Some (JObj [(''gateway'', JStr gatewayName),
                                 (''namespace'', (case namespace of None \<Rightarrow> JUndefined | Some s \<Rightarrow> JStr s)),
                                 (''events'', strings (map WebSocketEvent.name events)),
                                 (''generatedFiles'', strings (Object_keys files))])\<rparr>)\<close>

definition websocketGatewaySkillDefinition :: SkillDefinition where
  \<open>websocketGatewaySkillDefinition =
     \<lparr>SkillDefinition.name = ''websocket_gateway_generator'',
      SkillDefinition.description = ''Generates NestJS WebSocket gateway with Socket.IO, JWT auth, rooms, and React hook.'',
      parameters = WebSocketGatewaySchema,
      handler = (\<lambda>rt v. Inr (websocket_gateway_handler (WebSocketGatewayArgs_of v)))\<rparr>\<close>

subsection \<open>backend/integrations/google\_oauth.ts\<close>

text \<open>Source: \<open>src/unnamed/part_002\<close>, lines 1 to 166.\<close>

record GoogleOAuthArgs =
  strategyName :: string
  callbackPath :: string
  frontendCallbackUrl :: string
  scopes :: "string list"

definition GoogleOAuthSchema :: zschema where
  "GoogleOAuthSchema = ZObject
     [(''strategyName'', ZDefault ZString (JStr ''google'')),
      (''callbackPath'', ZDefault ZString (JStr ''/auth/google/callback'')),
      (''frontendCallbackUrl'', ZDefault ZString (JStr ''http://localhost:5173/auth/callback'')),
      (''scopes'', ZDefault (ZArray ZString) (strings [''email'', ''profile'']))]"

definition GoogleOAuthArgs_of :: "jsval \<Rightarrow> GoogleOAuthArgs" where
  "GoogleOAuthArgs_of v = GoogleOAuthArgs.make
     (as_string (field v ''strategyName''))
     (as_string (field v ''callbackPath''))
     (as_string (field v ''frontendCallbackUrl''))
     (as_array as_string (field v ''scopes''))"

definition google_oauth_strategy :: "string \<Rightarrow> string \<Rightarrow> string list \<Rightarrow> string" where
  \<open>google_oauth_strategy = (\<lambda>strategyName callbackPath scopes.
    (''import { Injectable } from '@nestjs/common';\<newline>'' @
       ''import { PassportStrategy } from '@nestjs/passport';\<newline>'' @
       ''import { Strategy, VerifyCallback, Profile } from 'passport-google-oauth20';\<newline>'' @
       ''\<newline>'' @
       ''@Injectable()\<newline>'' @
       ''export class GoogleStrategy extends PassportStrategy(Strategy, '' @ [CHR 0x27] @ strategyName @ [CHR 0x27] @ '') {\<newline>'' @
       ''  constructor() {\<newline>'' @
       ''    super({\<newline>'' @
       ''      clientID: process.env.GOOGLE_CLIENT_ID,\<newline>'' @
       ''      clientSecret: process.env.GOOGLE_CLIENT_SECRET,\<newline>'' @
       ''      callbackURL: process.env.API_URL + '' @ [CHR 0x27] @ callbackPath @ [CHR 0x27] @ '',\<newline>'' @
       ''      scope: '' @ (JSON_stringify_strings scopes) @ '',\<newline>'' @
       ''    });\<newline>'' @
       ''  }\<newline>'' @
       ''\<newline>'' @
       ''  async validate(\<newline>'' @
       ''    accessToken: string,\<newline>'' @
       ''    refreshToken: string,\<newline>'' @
       ''    profile: Profile,\<newline>'' @
       ''    done: VerifyCallback,\<newline>'' @
       ''  ): Promise<any> {\<newline>'' @
       ''    const { id, emails, photos, displayName } = profile;\<newline>'' @
       ''    \<newline>'' @
       ''    const user = {\<newline>'' @
       ''      googleId: id,\<newline>'' @
       ''      email: emails?.[0]?.value,\<newline>'' @
       ''      name: displayName,\<newline>'' @
       ''      picture: photos?.[0]?.value,\<newline>'' @
       ''      accessToken,\<newline>'' @
       ''    };\<newline>'' @
       ''    \<newline>'' @
       ''    done(null, user);\<newline>'' @
       ''  }\<newline>'' @
       ''}''))\<close>

definition google_oauth_guard :: "string \<Rightarrow> string" where
  \<open>google_oauth_guard = (\<lambda>strategyName.
    (''import { Injectable } from '@nestjs/common';\<newline>'' @
       ''import { AuthGuard } from '@nestjs/passport';\<newline>'' @
       ''\<newline>'' @
       ''@Injectable()\<newline>'' @
       ''export class GoogleAuthGuard extends AuthGuard('' @ [CHR 0x27] @ strategyName @ [CHR 0x27] @ '') {}''))\<close>

definition google_oauth_controller :: "string \<Rightarrow> string" where
  \<open>google_oauth_controller = (\<lambda>frontendCallbackUrl.
    (''import { Controller, Get, Req, Res, UseGuards } from '@nestjs/common';\<newline>'' @
       ''import { GoogleAuthGuard } from './google-auth.guard';\<newline>'' @
       ''import { AuthService } from './auth.service';\<newline>'' @
       ''import { Response } from 'express';\<newline>'' @
       ''\<newline>'' @
       ''@Controller('auth')\<newline>'' @
       ''export class AuthController {\<newline>'' @
       ''  constructor(private authService: AuthService) {}\<newline>'' @
       ''\<newline>'' @
       ''  @Get('google')\<newline>'' @
       ''  @UseGuards(GoogleAuthGuard)\<newline>'' @
       ''  async googleAuth() {\<newline>'' @
       ''    // Redirects to Google\<newline>'' @
       ''  }\<newline>'' @
       ''\<newline>'' @
       ''  @Get('google/callback')\<newline>'' @
       ''  @UseGuards(GoogleAuthGuard)\<newline>'' @
       ''  async googleCallback(@Req() req: any, @Res() res: Response) {\<newline>'' @
       ''    // User data from Google is in req.user\<newline>'' @
       ''    const { token, user } = await this.authService.handleGoogleLogin(req.user);\<newline>'' @
       ''    \<newline>'' @
       ''    // Redirect to frontend with token\<newline>'' @
       ''    const params = new URLSearchParams({\<newline>'' @
       ''      token,\<newline>'' @
       ''      user: JSON.stringify(user),\<newline>'' @
       ''    });\<newline>'' @
       ''    \<newline>'' @
       ''    res.redirect(`'' @ frontendCallbackUrl @ ''?${params}`);\<newline>'' @
       ''  }\<newline>'' @
       ''}''))\<close>

definition google_oauth_service :: string where
  \<open>google_oauth_service =
    (''import { Injectable } from '@nestjs/common';\<newline>'' @
       ''import { JwtService } from '@nestjs/jwt';\<newline>'' @
       ''import { InjectRepository } from '@nestjs/typeorm';\<newline>'' @
       ''import { Repository } from 'typeorm';\<newline>'' @
       ''// import { User } from './user.entity';\<newline>'' @
       ''\<newline>'' @
       ''interface GoogleUser {\<newline>'' @
       ''  googleId: string;\<newline>'' @
       ''  email: string;\<newline>'' @
       ''  name: string;\<newline>'' @
       ''  picture: string;\<newline>'' @
       ''}\<newline>'' @
       ''\<newline>'' @
       ''@Injectable()\<newline>'' @
       ''export class AuthService {\<newline>'' @
       ''  constructor(\<newline>'' @
       ''    private jwtService: JwtService,\<newline>'' @
       ''    // @InjectRepository(User) private userRepo: Repository<User>,\<newline>'' @
       ''  ) {}\<newline>'' @
       ''\<newline>'' @
       ''  async handleGoogleLogin(googleUser: GoogleUser) {\<newline>'' @
       ''    // Find or create user\<newline>'' @
       ''    // let user = await this.userRepo.findOne({ where: { email: googleUser.email } });\<newline>'' @
       ''    // if (!user) {\<newline>'' @
       ''    //   user = await this.userRepo.save({\<newline>'' @
       ''    //     email: googleUser.email,\<newline>'' @
       ''    //     name: googleUser.name,\<newline>'' @
       ''    //     picture: googleUser.picture,\<newline>'' @
       ''    //     googleId: googleUser.googleId,\<newline>'' @
       ''    //   });\<newline>'' @
       ''    // }\<newline>'' @
       ''\<newline>'' @
       ''    const payload = { email: googleUser.email, sub: googleUser.googleId };\<newline>'' @
       ''    const token = this.jwtService.sign(payload);\<newline>'' @
       ''\<newline>'' @
       ''    return {\<newline>'' @
       ''      token,\<newline>'' @
       ''      user: {\<newline>'' @
       ''        email: googleUser.email,\<newline>'' @
       ''        name: googleUser.name,\<newline>'' @
       ''        picture: googleUser.picture,\<newline>'' @
       ''      },\<newline>'' @
       ''    };\<newline>'' @
       ''  }\<newline>'' @
       ''}'')\<close>

definition google_oauth_module :: string where
  \<open>google_oauth_module =
    (''import { Module } from '@nestjs/common';\<newline>'' @
       ''import { PassportModule } from '@nestjs/passport';\<newline>'' @
       ''import { JwtModule } from '@nestjs/jwt';\<newline>'' @
       ''import { GoogleStrategy } from './google.strategy';\<newline>'' @
       ''import { AuthController } from './auth.controller';\<newline>'' @
       ''import { AuthService } from './auth.service';\<newline>'' @
       ''\<newline>'' @
       ''@Module({\<newline>'' @
       ''  imports: [\<newline>'' @
       ''    PassportModule.register({ defaultStrategy: 'jwt' }),\<newline>'' @
       ''    JwtModule.register({\<newline>'' @
       ''      secret: process.env.JWT_SECRET,\<newline>'' @
       ''      signOptions: { expiresIn: '7d' },\<newline>'' @
       ''    }),\<newline>'' @
       ''  ],\<newline>'' @
       ''  providers: [GoogleStrategy, AuthService],\<newline>'' @
       ''  controllers: [AuthController],\<newline>'' @
       ''  exports: [AuthService],\<newline>'' @
       ''})\<newline>'' @
       ''export class AuthModule {}'')\<close>

definition google_oauth_handler :: "GoogleOAuthArgs \<Rightarrow> SkillResult" where
  "google_oauth_handler args =
     (let strategyName = GoogleOAuthArgs.strategyName args;
          callbackPath = GoogleOAuthArgs.callbackPath args;
          frontendCallbackUrl = GoogleOAuthArgs.frontendCallbackUrl args;
          scopes = GoogleOAuthArgs.scopes args;
          files = [];
          files = assign files ''google.strategy.ts'' (google_oauth_strategy strategyName callbackPath scopes);
          files = assign files ''google-auth.guard.ts'' (google_oauth_guard strategyName);
          files = assign files ''auth.controller.ts'' (google_oauth_controller frontendCallbackUrl);
          files = assign files ''auth.service.ts'' google_oauth_service;
          files = assign files ''auth.module.ts'' google_oauth_module
      in \<lparr>success = True,
          data = Some (files_data files),
          error = None,
          metadata = Some (JObj [(''strategyName'', JStr strategyName),
                                 (''callbackPath'', JStr callbackPath),
                                 (''generatedFiles'', strings (Object_keys files))])\<rparr>)"

definition googleOAuthSkillDefinition :: SkillDefinition where
  \<open>googleOAuthSkillDefinition =
     \<lparr>SkillDefinition.name = ''google_oauth_generator'',
      SkillDefinition.description = ''Generates NestJS Google OAuth2 strategy with Passport.'',
      parameters = GoogleOAuthSchema,
      handler = (\<lambda>rt v. Inr (google_oauth_handler (GoogleOAuthArgs_of v)))\<rparr>\<close>

subsection \<open>backend/integrations/s3\_upload.ts\<close>

text \<open>Source: \<open>src/backend/integrations/s3_upload.ts\<close>, lines 1 to 131.\<close>

record S3UploadArgs =
  provider :: string
  bucketEnvVar :: string
  generatePresignedUrls :: bool
  allowedTypes :: "string list"

definition S3UploadSchema :: zschema where
  "S3UploadSchema = ZObject
     [(''provider'', ZDefault (ZEnum [''s3'', ''r2'', ''supabase'']) (JStr ''s3'')),
      (''bucketEnvVar'', ZDefault ZString (JStr ''S3_BUCKET'')),
      (''generatePresignedUrls'', ZDefault ZBoolean (JBool True)),
      (''allowedTypes'', ZDefault (ZArray ZString)
         (strings [''image/jpeg'', ''image/png'', ''image/webp'', ''application/pdf'']))]"

definition S3UploadArgs_of :: "jsval \<Rightarrow> S3UploadArgs" where
  "S3UploadArgs_of v = S3UploadArgs.make
     (as_string (field v ''provider''))
     (as_string (field v ''bucketEnvVar''))
     (as_boolean (field v ''generatePresignedUrls''))
     (as_array as_string (field v ''allowedTypes''))"

definition s3_upload_module :: string where
  \<open>s3_upload_module =
    (''import { Module } from '@nestjs/common';\<newline>'' @
       ''import { UploadService } from './upload.service';\<newline>'' @
       ''import { UploadController } from './upload.controller';\<newline>'' @
       ''\<newline>'' @
       ''@Module({\<newline>'' @
       ''  providers: [UploadService],\<newline>'' @
       ''  controllers: [UploadController],\<newline>'' @
       ''  exports: [UploadService],\<newline>'' @
       ''})\<newline>'' @
       ''export class UploadModule {}'')\<close>

definition s3_upload_service :: "string \<Rightarrow> string \<Rightarrow> bool \<Rightarrow> string list \<Rightarrow> string" where
  \<open>s3_upload_service = (\<lambda>provider bucketEnvVar generatePresignedUrls allowedTypes.
    (''import { Injectable, BadRequestException } from '@nestjs/common';\<newline>'' @
       ''import { S3Client, PutObjectCommand, GetObjectCommand, DeleteObjectCommand } from '@aws-sdk/client-s3';\<newline>'' @
       ''import { getSignedUrl } from '@aws-sdk/s3-request-presigner';\<newline>'' @
       ''import { v4 as uuid } from 'uuid';\<newline>'' @
       ''\<newline>'' @
       ''@Injectable()\<newline>'' @
       ''export class UploadService {\<newline>'' @
       ''  private s3: S3Client;\<newline>'' @
       ''  private bucket = process.env.'' @ bucketEnvVar @ '';\<newline>'' @
       ''  private allowedTypes = '' @ (JSON_stringify_strings allowedTypes) @ '';\<newline>'' @
       ''\<newline>'' @
       ''  constructor() {\<newline>'' @
       ''    this.s3 = new S3Client({\<newline>'' @
       ''      region: process.env.AWS_REGION || 'us-east-1',\<newline>'' @
       ''      '' @ (if (provider = ''r2'') then ''endpoint: process.env.R2_ENDPOINT,''
         else []) @
       ''\<newline>'' @
       ''      credentials: {\<newline>'' @
       ''        accessKeyId: process.env.AWS_ACCESS_KEY_ID || '' @ [CHR 0x27, CHR 0x27] @ '',\<newline>'' @
       ''        secretAccessKey: process.env.AWS_SECRET_ACCESS_KEY || '' @ [CHR 0x27, CHR 0x27] @ '',\<newline>'' @
       ''      },\<newline>'' @
       ''    });\<newline>'' @
       ''  }\<newline>'' @
       ''\<newline>'' @
       ''  async upload(file: Express.Multer.File, folder = 'uploads'): Promise<{ url: string; key: string }> {\<newline>'' @
       ''    if (!this.allowedTypes.includes(file.mimetype)) {\<newline>'' @
       ''      throw new BadRequestException(`File type ${file.mimetype} not allowed`);\<newline>'' @
       ''    }\<newline>'' @
       ''\<newline>'' @
       ''    const ext = file.originalname.split('.').pop();\<newline>'' @
       ''    const key = `${folder}/${uuid()}.${ext}`;\<newline>'' @
       ''\<newline>'' @
       ''    await this.s3.send(new PutObjectCommand({\<newline>'' @
       ''      Bucket: this.bucket,\<newline>'' @
       ''      Key: key,\<newline>'' @
       ''      Body: file.buffer,\<newline>'' @
       ''      ContentType: file.mimetype,\<newline>'' @
       ''    }));\<newline>'' @
       ''\<newline>'' @
       ''    return {\<newline>'' @
       ''      url: `https://${this.bucket}.s3.amazonaws.com/${key}`,\<newline>'' @
       ''      key,\<newline>'' @
       ''    };\<newline>'' @
       ''  }\<newline>'' @
       ''\<newline>'' @
       ''  '' @ (if generatePresignedUrls then (''async getPresignedUploadUrl(filename: string, contentType: string): Promise<{ uploadUrl: string; key: string }> {\<newline>'' @
         ''    const ext = filename.split('.').pop();\<newline>'' @
         ''    const key = `uploads/${uuid()}.${ext}`;\<newline>'' @
         ''\<newline>'' @
         ''    const command = new PutObjectCommand({\<newline>'' @
         ''      Bucket: this.bucket,\<newline>'' @
         ''      Key: key,\<newline>'' @
         ''      ContentType: contentType,\<newline>'' @
         ''    });\<newline>'' @
         ''\<newline>'' @
         ''    const uploadUrl = await getSignedUrl(this.s3, command, { expiresIn: 3600 });\<newline>'' @
         ''    return { uploadUrl, key };\<newline>'' @
         ''  }\<newline>'' @
         ''\<newline>'' @
         ''  async getPresignedDownloadUrl(key: string): Promise<string> {\<newline>'' @
         ''    const command = new GetObjectCommand({ Bucket: this.bucket, Key: key });\<newline>'' @
         ''    return getSignedUrl(this.s3, command, { expiresIn: 3600 });\<newline>'' @
         ''  }'')
         else []) @
       ''\<newline>'' @
       ''\<newline>'' @
       ''  async delete(key: string): Promise<void> {\<newline>'' @
       ''    await this.s3.send(new DeleteObjectCommand({ Bucket: this.bucket, Key: key }));\<newline>'' @
       ''  }\<newline>'' @
       ''}''))\<close>

definition s3_upload_controller :: "bool \<Rightarrow> string" where
  \<open>s3_upload_controller = (\<lambda>generatePresignedUrls.
    (''import { Controller, Post, UploadedFile, UseInterceptors, Get, Query, Delete, Param } from '@nestjs/common';\<newline>'' @
       ''import { FileInterceptor } from '@nestjs/platform-express';\<newline>'' @
       ''import { UploadService } from './upload.service';\<newline>'' @
       ''\<newline>'' @
       ''@Controller('upload')\<newline>'' @
       ''export class UploadController {\<newline>'' @
       ''  constructor(private uploadService: UploadService) {}\<newline>'' @
       ''\<newline>'' @
       ''  @Post()\<newline>'' @
       ''  @UseInterceptors(FileInterceptor('file'))\<newline>'' @
       ''  async upload(@UploadedFile() file: Express.Multer.File) {\<newline>'' @
       ''    return this.uploadService.upload(file);\<newline>'' @
       ''  }\<newline>'' @
       ''\<newline>'' @
       ''  '' @ (if generatePresignedUrls then (''@Get('presigned')\<newline>'' @
         ''  async getPresigned(@Query('filename') filename: string, @Query('contentType') contentType: string) {\<newline>'' @
         ''    return this.uploadService.getPresignedUploadUrl(filename, contentType);\<newline>'' @
         ''  }'')
         else []) @
       ''\<newline>'' @
       ''\<newline>'' @
       ''  @Delete(':key')\<newline>'' @
       ''  async delete(@Param('key') key: string) {\<newline>'' @
       ''    await this.uploadService.delete(key);\<newline>'' @
       ''    return { success: true };\<newline>'' @
       ''  }\<newline>'' @
       ''}''))\<close>

definition s3_upload_handler :: "S3UploadArgs \<Rightarrow> SkillResult" where
  "s3_upload_handler args =
     (let provider = S3UploadArgs.provider args;
          bucketEnvVar = S3UploadArgs.bucketEnvVar args;
          generatePresignedUrls = S3UploadArgs.generatePresignedUrls args;
          allowedTypes = S3UploadArgs.allowedTypes args;
          files = [];
          files = assign files ''upload.module.ts'' s3_upload_module;
          files = assign files ''upload.service.ts''
                    (s3_upload_service provider bucketEnvVar generatePresignedUrls allowedTypes);
          files = assign files ''upload.controller.ts'' (s3_upload_controller generatePresignedUrls)
      in \<lparr>success = True,
          data = Some (files_data files),
          error = None,
          metadata = Some (JObj [(''provider'', JStr provider),
                                 (''generatedFiles'', strings (Object_keys files))])\<rparr>)"

definition s3UploadSkillDefinition :: SkillDefinition where
  \<open>s3UploadSkillDefinition =
     \<lparr>SkillDefinition.name = ''s3_upload_manager'',
      SkillDefinition.description = ''Generates S3/R2/Supabase file upload service with presigned URLs.'',
      parameters = S3UploadSchema,
      handler = (\<lambda>rt v. Inr (s3_upload_handler (S3UploadArgs_of v)))\<rparr>\<close>

subsection \<open>backend/logic/file\_upload\_manager.ts\<close>

text \<open>Source: \<open>src/backend/logic/file_upload_manager.ts\<close>, lines 1 to 72.\<close>

record FileUploadManagerArgs =
  provider :: string
  folderName :: string
  allowedMimeTypes :: "string list"

definition FileUploadManagerSchema :: zschema where
  "FileUploadManagerSchema = ZObject
     [(''provider'', ZDefault (ZEnum [''cloudinary'', ''s3'']) (JStr ''cloudinary'')),
      (''folderName'', ZDefault ZString (JStr ''uploads'')),
      (''allowedMimeTypes'', ZDefault (ZArray ZString)
         (strings [''image/jpeg'', ''image/png'', ''application/pdf'']))]"

definition FileUploadManagerArgs_of :: "jsval \<Rightarrow> FileUploadManagerArgs" where
  "FileUploadManagerArgs_of v = FileUploadManagerArgs.make
     (as_string (field v ''provider''))
     (as_string (field v ''folderName''))
     (as_array as_string (field v ''allowedMimeTypes''))"

definition file_upload_manager_cloudinary :: "string \<Rightarrow> string" where
  \<open>file_upload_manager_cloudinary = (\<lambda>folderName.
    (''import { Injectable } from '@nestjs/common';\<newline>'' @
       ''import { v2 as cloudinary } from 'cloudinary';\<newline>'' @
       ''import { CloudinaryResponse } from './cloudinary-response'; // Interface needed\<newline>'' @
       ''import * as streamifier from 'streamifier';\<newline>'' @
       ''\<newline>'' @
       ''@Injectable()\<newline>'' @
       ''export class CloudinaryService {\<newline>'' @
       ''  uploadFile(file: Express.Multer.File): Promise<CloudinaryResponse> {\<newline>'' @
       ''    return new Promise<CloudinaryResponse>((resolve, reject) => {\<newline>'' @
       ''      const uploadStream = cloudinary.uploader.upload_stream(\<newline>'' @
       ''        { folder: '' @ [CHR 0x27] @ folderName @ [CHR 0x27] @ '' },\<newline>'' @
       ''        (error, result) => {\<newline>'' @
       ''          if (error) return reject(error);\<newline>'' @
       ''          resolve(result);\<newline>'' @
       ''        },\<newline>'' @
       ''      );\<newline>'' @
       ''      streamifier.createReadStream(file.buffer).pipe(uploadStream);\<newline>'' @
       ''    });\<newline>'' @
       ''  }\<newline>'' @
       ''}\<newline>''))\<close>

definition file_upload_manager_s3 :: string where
  \<open>file_upload_manager_s3 =
    ''// AWS S3 implementation would go here using @aws-sdk/client-s3''\<close>

definition file_upload_manager_providerSetup :: "string \<Rightarrow> string" where
  \<open>file_upload_manager_providerSetup = (\<lambda>provider.
     if provider = ''cloudinary'' then (''\<newline>'' @
        ''export const CloudinaryProvider = {\<newline>'' @
        ''  provide: 'CLOUDINARY',\<newline>'' @
        ''  useFactory: () => {\<newline>'' @
        ''    return cloudinary.config({\<newline>'' @
        ''      cloud_name: process.env.CLOUDINARY_NAME,\<newline>'' @
        ''      api_key: process.env.CLOUDINARY_API_KEY,\<newline>'' @
        ''      api_secret: process.env.CLOUDINARY_API_SECRET,\<newline>'' @
        ''    });\<newline>'' @
        ''  },\<newline>'' @
        ''};'') else [])\<close>

definition file_upload_manager_handler :: "FileUploadManagerArgs \<Rightarrow> SkillResult" where
  "file_upload_manager_handler args =
     (let provider = FileUploadManagerArgs.provider args;
          folderName = FileUploadManagerArgs.folderName args;
          serviceCode = ([] :: string);
          serviceCode = (if provider = ''cloudinary'' then file_upload_manager_cloudinary folderName
                         else file_upload_manager_s3);
          providerSetup = file_upload_manager_providerSetup provider
      in \<lparr>success = True,
          data = Some (JObj [(''file-upload.service.ts'', JStr serviceCode),
                             (''provider.ts'', JStr providerSetup)]),
          error = None,
          metadata = Some (JObj [(''provider'', JStr provider),
                                 (''dependencies'',
                                    (if provider = ''cloudinary''
                                     then strings [''cloudinary'', ''streamifier'', ''@types/streamifier'']
                                     else strings [''@aws-sdk/client-s3'']))])\<rparr>)"

definition fileUploadManagerSkillDefinition :: SkillDefinition where
  \<open>fileUploadManagerSkillDefinition =
     \<lparr>SkillDefinition.name = ''file_upload_manager'',
      SkillDefinition.description = ''Generates a file upload service for Cloudinary or S3.'',
      parameters = FileUploadManagerSchema,
      handler = (\<lambda>rt v. Inr (file_upload_manager_handler (FileUploadManagerArgs_of v)))\<rparr>\<close>

subsection \<open>backend/logic/gemini\_integration.ts\<close>

text \<open>Source: \<open>src/unnamed/part_003\<close>, lines 1 to 86.\<close>

record GeminiIntegrationArgs =
  serviceName :: string
  apiKeyEnvVar :: string
  modelName :: string

definition GeminiIntegrationSchema :: zschema where
  "GeminiIntegrationSchema = ZObject
     [(''serviceName'', ZDefault ZString (JStr ''GeminiService'')),
      (''apiKeyEnvVar'', ZDefault ZString (JStr ''GEMINI_API_KEY'')),
      (''modelName'', ZDefault ZString (JStr ''gemini-pro''))]"

definition GeminiIntegrationArgs_of :: "jsval \<Rightarrow> GeminiIntegrationArgs" where
  "GeminiIntegrationArgs_of v = GeminiIntegrationArgs.make
     (as_string (field v ''serviceName''))
     (as_string (field v ''apiKeyEnvVar''))
     (as_string (field v ''modelName''))"

definition gemini_integration_code :: "string \<Rightarrow> string \<Rightarrow> string \<Rightarrow> string" where
  \<open>gemini_integration_code = (\<lambda>serviceName apiKeyEnvVar modelName.
    (''import { Injectable, InternalServerErrorException } from '@nestjs/common';\<newline>'' @
       ''import { ConfigService } from '@nestjs/config';\<newline>'' @
       ''import { GoogleGenerativeAI, GenerativeModel, ChatSession } from '@google/generative-ai';\<newline>'' @
       ''\<newline>'' @
       ''@Injectable()\<newline>'' @
       ''export class '' @ serviceName @ '' {\<newline>'' @
       ''  private genAI: GoogleGenerativeAI;\<newline>'' @
       ''  private model: GenerativeModel;\<newline>'' @
       ''\<newline>'' @
       ''  constructor(private configService: ConfigService) {\<newline>'' @
       ''    const apiKey = this.configService.get<string>('' @ [CHR 0x27] @ apiKeyEnvVar @ [CHR 0x27] @ '');\<newline>'' @
       ''    if (!apiKey) {\<newline>'' @
       ''      throw new Error('' @ [CHR 0x27] @ apiKeyEnvVar @ '' is not defined in environment variables');\<newline>'' @
       ''    }\<newline>'' @
       ''    this.genAI = new GoogleGenerativeAI(apiKey);\<newline>'' @
       ''    this.model = this.genAI.getGenerativeModel({ model: '' @ [CHR 0x27] @ modelName @ [CHR 0x27] @ '' });\<newline>'' @
       ''  }\<newline>'' @
       ''\<newline>'' @
       ''  async generateText(prompt: string): Promise<string> {\<newline>'' @
       ''    try {\<newline>'' @
       ''      const result = await this.model.generateContent(prompt);\<newline>'' @
       ''      const response = await result.response;\<newline>'' @
       ''      return response.text();\<newline>'' @
       ''    } catch (error) {\<newline>'' @
       ''      console.error('Error generating content:', error);\<newline>'' @
       ''      throw new InternalServerErrorException('Failed to generate content from Gemini');\<newline>'' @
       ''    }\<newline>'' @
       ''  }\<newline>'' @
       ''\<newline>'' @
       ''  async generateStream(prompt: string) {\<newline>'' @
       ''    try {\<newline>'' @
       ''      const result = await this.model.generateContentStream(prompt);\<newline>'' @
       ''      return result.stream;\<newline>'' @
       ''    } catch (error) {\<newline>'' @
       ''      console.error('Error generating stream:', error);\<newline>'' @
       ''      throw new InternalServerErrorException('Failed to generate stream from Gemini');\<newline>'' @
       ''    }\<newline>'' @
       ''  }\<newline>'' @
       ''\<newline>'' @
       ''  startChat(history: { role: 'user' | 'model'; parts: string }[] = []): ChatSession {\<newline>'' @
       ''    return this.model.startChat({\<newline>'' @
       ''      history: history.map(h => ({ role: h.role, parts: [{ text: h.parts }] })),\<newline>'' @
       ''    });\<newline>'' @
       ''  }\<newline>'' @
       ''\<newline>'' @
       ''  async chatMessage(session: ChatSession, message: string): Promise<string> {\<newline>'' @
       ''    try {\<newline>'' @
       ''      const result = await session.sendMessage(message);\<newline>'' @
       ''      const response = await result.response;\<newline>'' @
       ''      return response.text();\<newline>'' @
       ''    } catch (error) {\<newline>'' @
       ''      console.error('Error in chat message:', error);\<newline>'' @
       ''      throw new InternalServerErrorException('Failed to send message to Gemini');\<newline>'' @
       ''    }\<newline>'' @
       ''  }\<newline>'' @
       ''}\<newline>''))\<close>

definition gemini_integration_handler :: "GeminiIntegrationArgs \<Rightarrow> SkillResult" where
  "gemini_integration_handler args =
     (let serviceName = GeminiIntegrationArgs.serviceName args;
          apiKeyEnvVar = GeminiIntegrationArgs.apiKeyEnvVar args;
          modelName = GeminiIntegrationArgs.modelName args;
          code = gemini_integration_code serviceName apiKeyEnvVar modelName
      in \<lparr>success = True,
          data = Some (JStr code),
          error = None,
          metadata = Some (JObj [(''dependencies'', strings [''@google/generative-ai'', ''@nestjs/config'']),
                                 (''envVar'', JStr apiKeyEnvVar)])\<rparr>)"

definition geminiIntegrationSkillDefinition :: SkillDefinition where
  \<open>geminiIntegrationSkillDefinition =
     \<lparr>SkillDefinition.name = ''gemini_integration'',
      SkillDefinition.description = ''Generates a NestJS service for Google Gemini AI integration, supporting text generation, streaming, and chat sessions.'',
      parameters = GeminiIntegrationSchema,
      handler = (\<lambda>rt v. Inr (gemini_integration_handler (GeminiIntegrationArgs_of v)))\<rparr>\<close>

subsection \<open>backend/logic/mercado\_pago\_integration.ts\<close>

text \<open>Source: \<open>src/backend/logic/mercado_pago_integration.ts\<close>, lines 1 to 171.\<close>

record MercadoPagoIntegrationArgs =
  accessTokenEnvVar :: string
  webhookPath :: string
  useNestJs :: bool
  includeItemsSample :: bool

definition MercadoPagoIntegrationSchema :: zschema where
  "MercadoPagoIntegrationSchema = ZObject
     [(''accessTokenEnvVar'', ZDefault ZString (JStr ''MERCADOPAGO_ACCESS_TOKEN'')),
      (''webhookPath'', ZDefault ZString (JStr ''/webhooks/mercadopago'')),
      (''useNestJs'', ZDefault ZBoolean (JBool True)),
      (''includeItemsSample'', ZDefault ZBoolean (JBool True))]"

definition MercadoPagoIntegrationArgs_of :: "jsval \<Rightarrow> MercadoPagoIntegrationArgs" where
  "MercadoPagoIntegrationArgs_of v = MercadoPagoIntegrationArgs.make
     (as_string (field v ''accessTokenEnvVar''))
     (as_string (field v ''webhookPath''))
     (as_boolean (field v ''useNestJs''))
     (as_boolean (field v ''includeItemsSample''))"

definition mercado_pago_integration_itemsCode :: "bool \<Rightarrow> string" where
  \<open>mercado_pago_integration_itemsCode = (\<lambda>includeItemsSample.
     if includeItemsSample then (''\<newline>'' @
        ''      items: [\<newline>'' @
        ''        {\<newline>'' @
        ''          id: '1234',\<newline>'' @
        ''          title: 'Dummy Item',\<newline>'' @
        ''          quantity: 1,\<newline>'' @
        ''          currency_id: 'ARS',\<newline>'' @
        ''          unit_price: 100.50\<newline>'' @
        ''        }\<newline>'' @
        ''      ],'')
     else ''items: [], // Populate with dynamic items from your cart/order'')\<close>

definition mercado_pago_integration_nestJsCode :: "string \<Rightarrow> string \<Rightarrow> string \<Rightarrow> string" where
  \<open>mercado_pago_integration_nestJsCode = (\<lambda>accessTokenEnvVar webhookPath itemsCode.
    (''\<newline>'' @
       ''import { Injectable, Controller, Post, Body, Get, Query, BadRequestException } from '@nestjs/common';\<newline>'' @
       ''import MercadoPagoConfig, { Preference, Payment } from 'mercadopago';\<newline>'' @
       ''\<newline>'' @
       ''@Injectable()\<newline>'' @
       ''export class MercadoPagoService {\<newline>'' @
       ''  private client: MercadoPagoConfig;\<newline>'' @
       ''\<newline>'' @
       ''  constructor() {\<newline>'' @
       ''    // SECURITY: Access Token is loaded from environment variables\<newline>'' @
       ''    this.client = new MercadoPagoConfig({ accessToken: process.env.'' @ accessTokenEnvVar @ '' || '' @ [CHR 0x27, CHR 0x27] @ '' });\<newline>'' @
       ''  }\<newline>'' @
       ''\<newline>'' @
       ''  /* \<newline>'' @
       ''   * Create a Payment Preference \<newline>'' @
       ''   * This generates the initialization link for the frontend checkout.\<newline>'' @
       ''   */\<newline>'' @
       ''  async createPreference() {\<newline>'' @
       ''    const preference = new Preference(this.client);\<newline>'' @
       ''\<newline>'' @
       ''    try {\<newline>'' @
       ''      const response = await preference.create({\<newline>'' @
       ''        body: {\<newline>'' @
       ''          '' @ itemsCode @ ''\<newline>'' @
       ''          back_urls: {\<newline>'' @
       ''            success: 'https://your-site.com/success',\<newline>'' @
       ''            failure: 'https://your-site.com/failure',\<newline>'' @
       ''            pending: 'https://your-site.com/pending',\<newline>'' @
       ''          },\<newline>'' @
       ''          auto_return: 'approved',\<newline>'' @
       ''          notification_url: `${process.env.API_URL}'' @ webhookPath @ ''` // WEBHOOK for IPN\<newline>'' @
       ''        }\<newline>'' @
       ''      });\<newline>'' @
       ''      \<newline>'' @
       ''      return { init_point: response.init_point, preference_id: response.id };\<newline>'' @
       ''    } catch (error) {\<newline>'' @
       ''      console.error('Error creating preference:', error);\<newline>'' @
       ''      throw new BadRequestException('Failed to create payment preference');\<newline>'' @
       ''    }\<newline>'' @
       ''  }\<newline>'' @
       ''\<newline>'' @
       ''  /*\<newline>'' @
       ''   * Handle Webhook (IPN)\<newline>'' @
       ''   * Listens for payment updates from Mercado Pago.\<newline>'' @
       ''   */\<newline>'' @
       ''  async handleWebhook(query: any) {\<newline>'' @
       ''    const paymentId = query['data.id'] || query['id'];\<newline>'' @
       ''    const topic = query['type'] || query['topic'];\<newline>'' @
       ''\<newline>'' @
       ''    if (topic === 'payment' && paymentId) {\<newline>'' @
       ''      const payment = new Payment(this.client);\<newline>'' @
       ''      \<newline>'' @
       ''      try {\<newline>'' @
       ''        const paymentData = await payment.get({ id: paymentId });\<newline>'' @
       ''        \<newline>'' @
       ''        // TODO: Update your database status here\<newline>'' @
       ''        console.log('Payment Status:', paymentData.status);\<newline>'' @
       ''        console.log('Payment ID:', paymentData.id);\<newline>'' @
       ''\<newline>'' @
       ''        if (paymentData.status === 'approved') {\<newline>'' @
       ''           // await this.ordersService.markAsPaid(paymentData.external_reference);\<newline>'' @
       ''        }\<newline>'' @
       ''        \<newline>'' @
       ''      } catch (error) {\<newline>'' @
       ''        console.error('Error fetching payment data:', error);\<newline>'' @
       ''      }\<newline>'' @
       ''    }\<newline>'' @
       ''  }\<newline>'' @
       ''}\<newline>'' @
       ''\<newline>'' @
       ''@Controller('mercadopago')\<newline>'' @
       ''export class MercadoPagoController {\<newline>'' @
       ''  constructor(private readonly mpService: MercadoPagoService) {}\<newline>'' @
       ''\<newline>'' @
       ''  @Post('create-preference')\<newline>'' @
       ''  async createPreference() {\<newline>'' @
       ''    return this.mpService.createPreference();\<newline>'' @
       ''  }\<newline>'' @
       ''\<newline>'' @
       ''  @Post('' @ [CHR 0x27] @ (remove_prefix ''/'' webhookPath) @ [CHR 0x27] @ '') \<newline>'' @
       ''  async handleWebhook(@Query() query: any, @Body() body: any) {\<newline>'' @
       ''    // Mercado Pago creates a mix of query params and body depending on the event type\<newline>'' @
       ''    return this.mpService.handleWebhook({ ...query, ...body });\<newline>'' @
       ''  }\<newline>'' @
       ''}\<newline>''))\<close>

definition mercado_pago_integration_genericCode :: "string \<Rightarrow> string \<Rightarrow> string \<Rightarrow> string" where
  \<open>mercado_pago_integration_genericCode = (\<lambda>accessTokenEnvVar webhookPath itemsCode.
    (''\<newline>'' @
       ''import MercadoPagoConfig, { Preference, Payment } from 'mercadopago';\<newline>'' @
       ''\<newline>'' @
       ''// Initialize Client\<newline>'' @
       ''const client = new MercadoPagoConfig({ accessToken: process.env.'' @ accessTokenEnvVar @ '' || '' @ [CHR 0x27, CHR 0x27] @ '' });\<newline>'' @
       ''\<newline>'' @
       ''// Create Preference Function\<newline>'' @
       ''export const createPreference = async () => {\<newline>'' @
       ''  const preference = new Preference(client);\<newline>'' @
       ''\<newline>'' @
       ''  const response = await preference.create({\<newline>'' @
       ''        body: {\<newline>'' @
       ''          '' @ itemsCode @ ''\<newline>'' @
       ''          back_urls: {\<newline>'' @
       ''            success: 'https://your-site.com/success',\<newline>'' @
       ''            failure: 'https://your-site.com/failure',\<newline>'' @
       ''            pending: 'https://your-site.com/pending',\<newline>'' @
       ''          },\<newline>'' @
       ''          auto_return: 'approved',\<newline>'' @
       ''          notification_url: `${process.env.API_URL}'' @ webhookPath @ ''`\<newline>'' @
       ''        }\<newline>'' @
       ''  });\<newline>'' @
       ''\<newline>'' @
       ''  return response;\<newline>'' @
       ''};\<newline>'' @
       ''\<newline>'' @
       ''// Webhook Handler Function\<newline>'' @
       ''export const handleWebhook = async (query: any) => {\<newline>'' @
       ''    const paymentId = query['data.id'] || query['id'];\<newline>'' @
       ''    const topic = query['type'] || query['topic'];\<newline>'' @
       ''\<newline>'' @
       ''    if (topic === 'payment' && paymentId) {\<newline>'' @
       ''       const payment = new Payment(client);\<newline>'' @
       ''       const paymentData = await payment.get({ id: paymentId });\<newline>'' @
       ''       \<newline>'' @
       ''       return paymentData;\<newline>'' @
       ''    }\<newline>'' @
       ''};\<newline>''))\<close>

definition mercado_pago_integration_handler :: "MercadoPagoIntegrationArgs \<Rightarrow> SkillResult" where
  "mercado_pago_integration_handler args =
     (let accessTokenEnvVar = MercadoPagoIntegrationArgs.accessTokenEnvVar args;
          webhookPath = MercadoPagoIntegrationArgs.webhookPath args;
          useNestJs = MercadoPagoIntegrationArgs.useNestJs args;
          includeItemsSample = MercadoPagoIntegrationArgs.includeItemsSample args;
          itemsCode = mercado_pago_integration_itemsCode includeItemsSample;
          nestJsCode = mercado_pago_integration_nestJsCode accessTokenEnvVar webhookPath itemsCode;
          genericCode = mercado_pago_integration_genericCode accessTokenEnvVar webhookPath itemsCode
      in \<lparr>success = True,
          data = Some (JStr (if useNestJs then trim nestJsCode else trim genericCode)),
          error = None,
          metadata = Some (JObj [(''description'', JStr ''Mercado Pago Integration Code v2''),
                                 (''type'', JStr (if useNestJs then ''NestJS Module'' else ''Generic TS'')),
                                 (''sdkVersion'', JStr ''mercadopago (v2)'')])\<rparr>)"

definition mercadoPagoIntegrationSkillDefinition :: SkillDefinition where
  \<open>mercadoPagoIntegrationSkillDefinition =
     \<lparr>SkillDefinition.name = ''generate_mercadopago_integration'',
      SkillDefinition.description = ''Generates robust Mercado Pago integration code (Preferences & Webhooks) using the v2 SDK.'',
      parameters = MercadoPagoIntegrationSchema,
      handler = (\<lambda>rt v. Inr (mercado_pago_integration_handler (MercadoPagoIntegrationArgs_of v)))\<rparr>\<close>

subsection \<open>backend/scheduling/cron\_job\_scheduler.ts\<close>

text \<open>Source: \<open>src/backend/scheduling/cron_job_scheduler.ts\<close>, lines 1 to 56.\<close>

record CronJob =
  name :: string
  cron :: string
  description :: "string option"

record CronJobSchedulerArgs =
  serviceName :: string
  jobs :: "CronJob list"
  withLocking :: bool

definition CronJobSchedulerSchema :: zschema where
  "CronJobSchedulerSchema = ZObject
     [(''serviceName'', ZDefault ZString (JStr ''Tasks'')),
      (''jobs'', ZDefault
         (ZArray (ZObject
            [(''name'', ZString),
             (''cron'', ZString),
             (''description'', ZOptional ZString)]))
         (JArr [JObj [(''name'', JStr ''cleanupExpired''), (''cron'', JStr ''0 0 * * *''),
                      (''description'', JStr ''Daily cleanup'')]])),
      (''withLocking'', ZDefault ZBoolean (JBool True))]"

definition CronJob_of :: "jsval \<Rightarrow> CronJob" where
  "CronJob_of v = CronJob.make
     (as_string (field v ''name''))
     (as_string (field v ''cron''))
     (as_optional as_string (field v ''description''))"

definition CronJobSchedulerArgs_of :: "jsval \<Rightarrow> CronJobSchedulerArgs" where
  "CronJobSchedulerArgs_of v = CronJobSchedulerArgs.make
     (as_string (field v ''serviceName''))
     (as_array CronJob_of (field v ''jobs''))
     (as_boolean (field v ''withLocking''))"

definition cron_job_scheduler_jobMethod :: "CronJob \<Rightarrow> string" where
  \<open>cron_job_scheduler_jobMethod = (\<lambda>job.
    (''\<newline>'' @
       ''  @Cron('' @ [CHR 0x27] @ (CronJob.cron job) @ [CHR 0x27] @ '')\<newline>'' @
       ''  async '' @ (CronJob.name job) @ ''() {\<newline>'' @
       ''    this.logger.log('' @ [CHR 0x27] @ (CronJob.name job) @ '': Started');\<newline>'' @
       ''    // TODO: Implement job logic\<newline>'' @
       ''  }''))\<close>

definition cron_job_scheduler_service :: "string \<Rightarrow> string \<Rightarrow> string" where
  \<open>cron_job_scheduler_service = (\<lambda>serviceName jobMethods.
    (''import { Injectable, Logger } from '@nestjs/common';\<newline>'' @
       ''import { Cron } from '@nestjs/schedule';\<newline>'' @
       ''\<newline>'' @
       ''@Injectable()\<newline>'' @
       ''export class '' @ serviceName @ ''Service {\<newline>'' @
       ''  private readonly logger = new Logger('' @ serviceName @ ''Service.name);\<newline>'' @
       ''  '' @ jobMethods @ ''\<newline>'' @
       ''}''))\<close>

definition cron_job_scheduler_module :: "string \<Rightarrow> string \<Rightarrow> string" where
  \<open>cron_job_scheduler_module = (\<lambda>serviceName lowerName.
    (''import { Module } from '@nestjs/common';\<newline>'' @
       ''import { ScheduleModule } from '@nestjs/schedule';\<newline>'' @
       ''import { '' @ serviceName @ ''Service } from './'' @ lowerName @ ''.service';\<newline>'' @
       ''\<newline>'' @
       ''@Module({\<newline>'' @
       ''  imports: [ScheduleModule.forRoot()],\<newline>'' @
       ''  providers: ['' @ serviceName @ ''Service],\<newline>'' @
       ''  exports: ['' @ serviceName @ ''Service],\<newline>'' @
       ''})\<newline>'' @
       ''export class '' @ serviceName @ ''Module {}''))\<close>

definition cron_job_scheduler_handler :: "CronJobSchedulerArgs \<Rightarrow> SkillResult" where
  \<open>cron_job_scheduler_handler args =
     (let serviceName = CronJobSchedulerArgs.serviceName args;
          jobs = CronJobSchedulerArgs.jobs args;
          withLocking = CronJobSchedulerArgs.withLocking args;
          files = [];
          lowerName = toLowerCase serviceName;
          jobMethods = join (map cron_job_scheduler_jobMethod jobs) ''\<newline>'';
          files = assign files (lowerName @ ''.service.ts'')
                    (cron_job_scheduler_service serviceName jobMethods);
          files = assign files (lowerName @ ''.module.ts'')
                    (cron_job_scheduler_module serviceName lowerName)
      in \<lparr>success = True,
          data = Some (files_data files),
          error = None,
          metadata = Some (JObj [(''serviceName'', JStr serviceName),
                                 (''jobs'', strings (map CronJob.name jobs))])\<rparr>)\<close>

definition cronJobSchedulerSkillDefinition :: SkillDefinition where
  \<open>cronJobSchedulerSkillDefinition =
     \<lparr>SkillDefinition.name = ''cron_job_scheduler'',
      SkillDefinition.description = ''Generates NestJS scheduled tasks with @nestjs/schedule.'',
      parameters = CronJobSchedulerSchema,
      handler = (\<lambda>rt v. Inr (cron_job_scheduler_handler (CronJobSchedulerArgs_of v)))\<rparr>\<close>

subsection \<open>backend/testing/e2e\_test\_builder.ts\<close>

text \<open>Source: \<open>src/backend/testing/e2e_test_builder.ts\<close>, lines 1 to 71.\<close>

record E2ETestBuilderArgs =
  targetModule :: string
  routePrefix :: string

definition E2ETestBuilderSchema :: zschema where
  "E2ETestBuilderSchema = ZObject
     [(''targetModule'', ZDefault ZString (JStr ''AppModule'')),
      (''routePrefix'', ZString)]"

definition E2ETestBuilderArgs_of :: "jsval \<Rightarrow> E2ETestBuilderArgs" where
  "E2ETestBuilderArgs_of v = E2ETestBuilderArgs.make
     (as_string (field v ''targetModule''))
     (as_string (field v ''routePrefix''))"

definition e2e_test_builder_code :: "string \<Rightarrow> string \<Rightarrow> string" where
  \<open>e2e_test_builder_code = (\<lambda>targetModule routePrefix.
    (''import { Test, TestingModule } from '@nestjs/testing';\<newline>'' @
       ''import { INestApplication } from '@nestjs/common';\<newline>'' @
       ''import * as request from 'supertest';\<newline>'' @
       ''import { '' @ targetModule @ '' } from './../src/app.module';\<newline>'' @
       ''\<newline>'' @
       ''describe('' @ [CHR 0x27] @ targetModule @ '' (e2e)', () => {\<newline>'' @
       ''  let app: INestApplication;\<newline>'' @
       ''\<newline>'' @
       ''  beforeEach(async () => {\<newline>'' @
       ''    const moduleFixture: TestingModule = await Test.createTestingModule({\<newline>'' @
       ''      imports: ['' @ targetModule @ ''],\<newline>'' @
       ''    }).compile();\<newline>'' @
       ''\<newline>'' @
       ''    app = moduleFixture.createNestApplication();\<newline>'' @
       ''    await app.init();\<newline>'' @
       ''  });\<newline>'' @
       ''\<newline>'' @
       ''  afterAll(async () => {\<newline>'' @
       ''    await app.close();\<newline>'' @
       ''  });\<newline>'' @
       ''\<newline>'' @
       ''  it('' @ [CHR 0x27] @ routePrefix @ '' (GET)', () => {\<newline>'' @
       ''    return request(app.getHttpServer())\<newline>'' @
       ''      .get('' @ [CHR 0x27] @ routePrefix @ [CHR 0x27] @ '')\<newline>'' @
       ''      .expect(200)\<newline>'' @
       ''      // .expect('Content-Type', /json/)\<newline>'' @
       ''      // .expect((res) => {\<newline>'' @
       ''      //    expect(res.body).toBeInstanceOf(Array);\<newline>'' @
       ''      // })\<newline>'' @
       ''      ;\<newline>'' @
       ''  });\<newline>'' @
       ''\<newline>'' @
       ''  it('' @ [CHR 0x27] @ routePrefix @ '' (POST) - creation', () => {\<newline>'' @
       ''    return request(app.getHttpServer())\<newline>'' @
       ''      .post('' @ [CHR 0x27] @ routePrefix @ [CHR 0x27] @ '')\<newline>'' @
       ''      .send({\<newline>'' @
       ''        // Add sample payload here\<newline>'' @
       ''        name: 'Test E2E'' @ [CHR 0x27] @ ''\<newline>'' @
       ''      })\<newline>'' @
       ''      .expect(201);\<newline>'' @
       ''  });\<newline>'' @
       ''});\<newline>''))\<close>

definition e2e_test_builder_handler :: "E2ETestBuilderArgs \<Rightarrow> SkillResult" where
  "e2e_test_builder_handler args =
     (let targetModule = E2ETestBuilderArgs.targetModule args;
          routePrefix = E2ETestBuilderArgs.routePrefix args;
          code = e2e_test_builder_code targetModule routePrefix
      in \<lparr>success = True,
          data = Some (JStr code),
          error = None,
          metadata = Some (JObj [(''type'', JStr ''e2e''), (''library'', JStr ''supertest'')])\<rparr>)"

definition e2eTestBuilderSkillDefinition :: SkillDefinition where
  \<open>e2eTestBuilderSkillDefinition =
     \<lparr>SkillDefinition.name = ''e2e_test_builder'',
      SkillDefinition.description = ''Generates NestJS Integration/E2E tests using Supertest.'',
      parameters = E2ETestBuilderSchema,
      handler = (\<lambda>rt v. Inr (e2e_test_builder_handler (E2ETestBuilderArgs_of v)))\<rparr>\<close>

subsection \<open>backend/testing/load\_test\_config.ts\<close>

text \<open>Source: \<open>src/backend/testing/load_test_config.ts\<close>, lines 1 to 51.\<close>

record LoadTestConfigArgs =
  targetUrl :: string
  vus :: number
  duration :: string

definition LoadTestConfigSchema :: zschema where
  "LoadTestConfigSchema = ZObject
     [(''targetUrl'', ZUrl),
      (''vus'', ZDefault ZNumber (JNum 10)),
      (''duration'', ZDefault ZString (JStr ''30s''))]"

definition LoadTestConfigArgs_of :: "jsval \<Rightarrow> LoadTestConfigArgs" where
  "LoadTestConfigArgs_of v = LoadTestConfigArgs.make
     (as_string (field v ''targetUrl''))
     (as_number (field v ''vus''))
     (as_string (field v ''duration''))"

definition load_test_config_code :: "runtime \<Rightarrow> string \<Rightarrow> number \<Rightarrow> string \<Rightarrow> string" where
  \<open>load_test_config_code = (\<lambda>rt targetUrl vus duration.
    (''import http from 'k6/http';\<newline>'' @
       ''import { sleep, check } from 'k6';\<newline>'' @
       ''\<newline>'' @
       ''export const options = {\<newline>'' @
       ''  vus: '' @ (number_toString rt vus) @ '',\<newline>'' @
       ''  duration: '' @ [CHR 0x27] @ duration @ [CHR 0x27] @ '',\<newline>'' @
       ''  thresholds: {\<newline>'' @
       ''    http_req_duration: ['p(95)<500'], // 95% of requests should be below 500ms\<newline>'' @
       ''  },\<newline>'' @
       ''};\<newline>'' @
       ''\<newline>'' @
       ''export default function () {\<newline>'' @
       ''  const res = http.get('' @ [CHR 0x27] @ targetUrl @ [CHR 0x27] @ '');\<newline>'' @
       ''  \<newline>'' @
       ''  check(res, {\<newline>'' @
       ''    'is status 200': (r) => r.status === 200,\<newline>'' @
       ''    'protocol is HTTP/2': (r) => r.proto === 'HTTP/2.0',\<newline>'' @
       ''  });\<newline>'' @
       ''  \<newline>'' @
       ''  sleep(1);\<newline>'' @
       ''}\<newline>''))\<close>

definition load_test_config_handler :: "runtime \<Rightarrow> LoadTestConfigArgs \<Rightarrow> SkillResult" where
  "load_test_config_handler rt args =
     (let targetUrl = LoadTestConfigArgs.targetUrl args;
          vus = LoadTestConfigArgs.vus args;
          duration = LoadTestConfigArgs.duration args;
          code = load_test_config_code rt targetUrl vus duration
      in \<lparr>success = True,
          data = Some (JStr code),
          error = None,
          metadata = Some (JObj [(''tool'', JStr ''k6''), (''scenario'', JStr ''simple-load-test'')])\<rparr>)"

definition loadTestConfigSkillDefinition :: SkillDefinition where
  \<open>loadTestConfigSkillDefinition =
     \<lparr>SkillDefinition.name = ''load_test_config'',
      SkillDefinition.description = ''Generates a K6 load testing script.'',
      parameters = LoadTestConfigSchema,
      handler = (\<lambda>rt v. Inr (load_test_config_handler rt (LoadTestConfigArgs_of v)))\<rparr>\<close>

subsection \<open>backend/testing/unit\_test\_generator.ts\<close>

text \<open>Source: \<open>src/backend/testing/unit_test_generator.ts\<close>, lines 1 to 77.\<close>

record UnitTestGeneratorArgs =
  serviceName :: string
  dependencies :: "string list"
  methods :: "string list"

definition UnitTestGeneratorSchema :: zschema where
  "UnitTestGeneratorSchema = ZObject
     [(''serviceName'', ZString),
      (''dependencies'', ZDefault (ZArray ZString) (JArr [])),
      (''methods'', ZDefault (ZArray ZString) (JArr []))]"

definition UnitTestGeneratorArgs_of :: "jsval \<Rightarrow> UnitTestGeneratorArgs" where
  "UnitTestGeneratorArgs_of v = UnitTestGeneratorArgs.make
     (as_string (field v ''serviceName''))
     (as_array as_string (field v ''dependencies''))
     (as_array as_string (field v ''methods''))"

definition unit_test_generator_mockProvider :: "string \<Rightarrow> string" where
  \<open>unit_test_generator_mockProvider = (\<lambda>dep.
    (''\<newline>'' @
       ''    {\<newline>'' @
       ''      provide: '' @ dep @ '',\<newline>'' @
       ''      useValue: {\<newline>'' @
       ''        // Mock implementation\<newline>'' @
       ''        find: jest.fn(),\<newline>'' @
       ''        create: jest.fn(),\<newline>'' @
       ''        save: jest.fn(),\<newline>'' @
       ''      },\<newline>'' @
       ''    }''))\<close>

definition unit_test_generator_methodTest :: "string \<Rightarrow> string" where
  \<open>unit_test_generator_methodTest = (\<lambda>method.
    (''\<newline>'' @
       ''  describe('' @ [CHR 0x27] @ method @ [CHR 0x27] @ '', () => {\<newline>'' @
       ''    it('should be defined', () => {\<newline>'' @
       ''      expect(service.'' @ method @ '').toBeDefined();\<newline>'' @
       ''    });\<newline>'' @
       ''    \<newline>'' @
       ''    // Add more specific tests here\<newline>'' @
       ''    // it('should return result', async () => { ... });\<newline>'' @
       ''  });''))\<close>

definition unit_test_generator_code :: "string \<Rightarrow> string list \<Rightarrow> string \<Rightarrow> string \<Rightarrow> string" where
  \<open>unit_test_generator_code = (\<lambda>serviceName dependencies mockProviders methodTests.
    (''import { Test, TestingModule } from '@nestjs/testing';\<newline>'' @
       ''import { '' @ serviceName @ '' } from './'' @ (toLowerCase (remove_suffix ''Service'' serviceName)) @ ''.service';\<newline>'' @
       (join (map (\<lambda>d. (''// import { '' @ d @ '' } from ...;'')) dependencies) ''\<newline>'') @ ''\<newline>'' @
       ''\<newline>'' @
       ''describe('' @ [CHR 0x27] @ serviceName @ [CHR 0x27] @ '', () => {\<newline>'' @
       ''  let service: '' @ serviceName @ '';\<newline>'' @
       ''  '' @ (join (map (\<lambda>d. (''let '' @ (toLowerCase d) @ '': '' @ d @ '';'')) dependencies) ''\<newline>'') @ ''\<newline>'' @
       ''\<newline>'' @
       ''  beforeEach(async () => {\<newline>'' @
       ''    const module: TestingModule = await Test.createTestingModule({\<newline>'' @
       ''      providers: [\<newline>'' @
       ''        '' @ serviceName @ '',\<newline>'' @
       ''        '' @ mockProviders @ ''\<newline>'' @
       ''      ],\<newline>'' @
       ''    }).compile();\<newline>'' @
       ''\<newline>'' @
       ''    service = module.get<'' @ serviceName @ ''>('' @ serviceName @ '');\<newline>'' @
       ''    '' @ (join (map (\<lambda>d. ((toLowerCase d) @ '' = module.get<'' @ d @ ''>('' @ d @ '');'')) dependencies) ''\<newline>'') @ ''\<newline>'' @
       ''  });\<newline>'' @
       ''\<newline>'' @
       ''  it('should be defined', () => {\<newline>'' @
       ''    expect(service).toBeDefined();\<newline>'' @
       ''  });\<newline>'' @
       ''\<newline>'' @
       methodTests @ ''\<newline>'' @
       ''});\<newline>''))\<close>

definition unit_test_generator_handler :: "UnitTestGeneratorArgs \<Rightarrow> SkillResult" where
  "unit_test_generator_handler args =
     (let serviceName = UnitTestGeneratorArgs.serviceName args;
          dependencies = UnitTestGeneratorArgs.dependencies args;
          methods = UnitTestGeneratorArgs.methods args;
          mockProviders = join (map unit_test_generator_mockProvider dependencies) '','';
          methodTests = join (map unit_test_generator_methodTest methods) ''\<newline>'';
          code = unit_test_generator_code serviceName dependencies mockProviders methodTests
      in \<lparr>success = True,
          data = Some (JStr code),
          error = None,
          metadata = Some (JObj [(''testFramework'', JStr ''jest''), (''targetService'', JStr serviceName)])\<rparr>)"

definition unitTestGeneratorSkillDefinition :: SkillDefinition where
  \<open>unitTestGeneratorSkillDefinition =
     \<lparr>SkillDefinition.name = ''unit_test_generator'',
      SkillDefinition.description = ''Generates a Jest .spec.ts file for a NestJS service with automatic mocking dependencies.'',
      parameters = UnitTestGeneratorSchema,
      handler = (\<lambda>rt v. Inr (unit_test_generator_handler (UnitTestGeneratorArgs_of v)))\<rparr>\<close>

section \<open>Frontend skills\<close>

subsection \<open>frontend/infrastructure/auth\_session\_manager.ts\<close>

text \<open>Source: \<open>src/frontend/infrastructure/auth_session_manager.ts\<close>, lines 1 to 86.\<close>

record AuthSessionManagerArgs =
  storeName :: string
  loginPath :: string
  axiosInstancePath :: "string option"
  userTypeImport :: "string option"

definition AuthSessionManagerSchema :: zschema where
  "AuthSessionManagerSchema = ZObject
     [(''storeName'', ZDefault ZString (JStr ''useAuthStore'')),
      (''loginPath'', ZDefault ZString (JStr ''/login'')),
      (''axiosInstancePath'', ZOptional ZString),
      (''userTypeImport'', ZOptional ZString)]"

definition AuthSessionManagerArgs_of :: "jsval \<Rightarrow> AuthSessionManagerArgs" where
  "AuthSessionManagerArgs_of v = AuthSessionManagerArgs.make
     (as_string (field v ''storeName''))
     (as_string (field v ''loginPath''))
     (as_optional as_string (field v ''axiosInstancePath''))
     (as_optional as_string (field v ''userTypeImport''))"

definition auth_session_manager_axiosImport :: "string option \<Rightarrow> string" where
  \<open>auth_session_manager_axiosImport = (\<lambda>axiosInstancePath.
    if truthy_optional axiosInstancePath
    then (''import api from '' @ [CHR 0x27] @ (optional_toString axiosInstancePath) @ [CHR 0x27] @ '';'')
    else [])\<close>

definition auth_session_manager_userType :: "string option \<Rightarrow> string" where
  \<open>auth_session_manager_userType = (\<lambda>userTypeImport.
    if truthy_optional userTypeImport
    then (''import { User } from '' @ [CHR 0x27] @ (optional_toString userTypeImport) @ [CHR 0x27] @ '';'')
    else ''type User = any;'')\<close>

definition auth_session_manager_code ::
  "string \<Rightarrow> string \<Rightarrow> string option \<Rightarrow> string \<Rightarrow> string \<Rightarrow> string" where
  \<open>auth_session_manager_code = (\<lambda>storeName loginPath axiosInstancePath axiosImport userType.
    (''\<newline>'' @
       ''import { create } from 'zustand';\<newline>'' @
       ''import { persist, createJSONStorage } from 'zustand/middleware';\<newline>'' @
       userType @ ''\<newline>'' @
       axiosImport @ ''\<newline>'' @
       ''\<newline>'' @
       ''interface AuthState {\<newline>'' @
       ''  user: User | null;\<newline>'' @
       ''  token: string | null;\<newline>'' @
       ''  isAuthenticated: boolean;\<newline>'' @
       ''  login: (user: User, token: string) => void;\<newline>'' @
       ''  logout: () => void;\<newline>'' @
       ''}\<newline>'' @
       ''\<newline>'' @
       ''export const '' @ storeName @ '' = create<AuthState>()(\<newline>'' @
       ''  persist(\<newline>'' @
       ''    (set) => ({\<newline>'' @
       ''      user: null,\<newline>'' @
       ''      token: null,\<newline>'' @
       ''      isAuthenticated: false,\<newline>'' @
       ''\<newline>'' @
       ''      login: (user, token) => {\<newline>'' @
       ''        set({ user, token, isAuthenticated: true });\<newline>'' @
       ''        // Set Axios Header\<newline>'' @
       ''        '' @ (if (truthy_optional axiosInstancePath) then ''api.defaults.headers.common['Authorization'] = `Bearer ${token}`;''
         else ''// NOTE: Remember to set your axios default authorization header here'') @
       ''\<newline>'' @
       ''      },\<newline>'' @
       ''\<newline>'' @
       ''      logout: () => {\<newline>'' @
       ''        // "Clean Slate" Strategy\<newline>'' @
       ''        \<newline>'' @
       ''        // 1. Clear Internal State\<newline>'' @
       ''        set({ user: null, token: null, isAuthenticated: false });\<newline>'' @
       ''\<newline>'' @
       ''        // 2. Clear Storage (Aggressive)\<newline>'' @
       ''        // This ensures no stale keys (like 'auth-storage' or others) remain.\<newline>'' @
       ''        localStorage.clear(); \<newline>'' @
       ''\<newline>'' @
       ''        // 3. Clear Axios Headers (Prevent stale token usage)\<newline>'' @
       ''        '' @ (if (truthy_optional axiosInstancePath) then ''delete api.defaults.headers.common['Authorization'];''
         else ''// NOTE: Remember to clear your axios default authorization header here'') @
       ''\<newline>'' @
       ''\<newline>'' @
       ''        // 4. Force Redirect\<newline>'' @
       ''        // Using window.location.href ensures a full page refresh, clearing any in-memory react state variables.\<newline>'' @
       ''        window.location.href = '' @ [CHR 0x27] @ loginPath @ [CHR 0x27] @ '';\<newline>'' @
       ''      }\<newline>'' @
       ''    }),\<newline>'' @
       ''    {\<newline>'' @
       ''      name: 'auth-storage', // key in localStorage\<newline>'' @
       ''      storage: createJSONStorage(() => localStorage),\<newline>'' @
       ''    }\<newline>'' @
       ''  )\<newline>'' @
       '');\<newline>''))\<close>

definition auth_session_manager_handler :: "AuthSessionManagerArgs \<Rightarrow> SkillResult" where
  "auth_session_manager_handler args =
     (let storeName = AuthSessionManagerArgs.storeName args;
          loginPath = AuthSessionManagerArgs.loginPath args;
          axiosInstancePath = AuthSessionManagerArgs.axiosInstancePath args;
          userTypeImport = AuthSessionManagerArgs.userTypeImport args;
          axiosImport = auth_session_manager_axiosImport axiosInstancePath;
          userType = auth_session_manager_userType userTypeImport;
          code = auth_session_manager_code storeName loginPath axiosInstancePath axiosImport userType
      in \<lparr>success = True,
          data = Some (JStr (trim code)),
          error = None,
          metadata = Some (JObj [(''description'', JStr ''Robust Auth Store with Clean Slate Logout Strategy''),
                                 (''technologies'', strings [''zustand'', ''localstorage'']),
                                 (''strategy'', JStr ''clean-slate'')])\<rparr>)"

definition authSessionManagerSkillDefinition :: SkillDefinition where
  \<open>authSessionManagerSkillDefinition =
     \<lparr>SkillDefinition.name = ''generate_auth_session_manager'',
      SkillDefinition.description = ''Generates a robust Zustand Auth Store implementing the "Clean Slate" logout strategy (localStorage.clear, state reset, axios cleanup, and forced redirect).'',
      parameters = AuthSessionManagerSchema,
      handler = (\<lambda>rt v. Inr (auth_session_manager_handler (AuthSessionManagerArgs_of v)))\<rparr>\<close>

subsection \<open>frontend/infrastructure/auth\_guard.ts\<close>

text \<open>Source: \<open>src/frontend/infrastructure/auth_session_manager.ts\<close>, lines 87 to 152.\<close>

record AuthGuardArgs =
  protectedRoutes :: "(string \<times> string list) list"

definition AuthGuardSchema :: zschema where
  "AuthGuardSchema = ZObject [(''protectedRoutes'', ZRecord (ZArray ZString))]"

definition AuthGuardArgs_of :: "jsval \<Rightarrow> AuthGuardArgs" where
  "AuthGuardArgs_of v = AuthGuardArgs.make
     (as_record (as_array as_string) (field v ''protectedRoutes''))"

definition auth_guard_routeCheck :: "string \<Rightarrow> string list \<Rightarrow> string" where
  \<open>auth_guard_routeCheck = (\<lambda>path roles.
    (''\<newline>'' @
       ''    if (req.nextUrl.pathname.startsWith('' @ [CHR 0x27] @ path @ [CHR 0x27] @ '')) {\<newline>'' @
       ''      if (!token || !'' @ (JSON_stringify_strings roles) @ ''.includes(token.role as string)) {\<newline>'' @
       ''         return NextResponse.redirect(new URL('/unauthorized', req.url));\<newline>'' @
       ''      }\<newline>'' @
       ''    }''))\<close>

definition auth_guard_middlewareCode :: "(string \<times> string list) list \<Rightarrow> string \<Rightarrow> string" where
  \<open>auth_guard_middlewareCode = (\<lambda>protectedRoutes routeChecks.
    (''\<newline>'' @
       ''import { withAuth } from "next-auth/middleware";\<newline>'' @
       ''import { NextResponse } from "next/server";\<newline>'' @
       ''\<newline>'' @
       ''export default withAuth(\<newline>'' @
       ''  function middleware(req) {\<newline>'' @
       ''    const token = req.nextauth.token;\<newline>'' @
       ''    const isAuth = !!token;\<newline>'' @
       ''\<newline>'' @
       ''    if (!isAuth) {\<newline>'' @
       ''        return NextResponse.redirect(new URL('/login', req.url));\<newline>'' @
       ''    }\<newline>'' @
       ''\<newline>'' @
       routeChecks @ ''\<newline>'' @
       ''\<newline>'' @
       ''    return NextResponse.next();\<newline>'' @
       ''  },\<newline>'' @
       ''  {\<newline>'' @
       ''    callbacks: {\<newline>'' @
       ''      authorized: ({ token }) => !!token,\<newline>'' @
       ''    },\<newline>'' @
       ''  }\<newline>'' @
       '');\<newline>'' @
       ''\<newline>'' @
       ''export const config = {\<newline>'' @
       ''  matcher: ['' @ (join (map (\<lambda>p. ([CHR 0x27] @ p @ ''/:path*'' @ [CHR 0x27])) (Object_keys protectedRoutes)) '', '') @ ''],\<newline>'' @
       ''};\<newline>''))\<close>

definition auth_guard_handler :: "AuthGuardArgs \<Rightarrow> SkillResult" where
  "auth_guard_handler args =
     (let protectedRoutes = AuthGuardArgs.protectedRoutes args;
          routeChecks = join (map (\<lambda>(path, roles). auth_guard_routeCheck path roles) protectedRoutes)
                             ''\<newline>'';
          middlewareCode = auth_guard_middlewareCode protectedRoutes routeChecks
      in \<lparr>success = True,
          data = Some (JStr middlewareCode),
          error = None,
          metadata = Some (JObj [(''securityLevel'', JStr ''role-based''),
                                 (''framework'', JStr ''next-auth-v4-middleware'')])\<rparr>)"

definition authGuardSkillDefinition :: SkillDefinition where
  \<open>authGuardSkillDefinition =
     \<lparr>SkillDefinition.name = ''generate_auth_guard'',
      SkillDefinition.description = ''Generates secure Next.js middleware for role-based route protection.'',
      parameters = AuthGuardSchema,
      handler = (\<lambda>rt v. Inr (auth_guard_handler (AuthGuardArgs_of v)))\<rparr>\<close>

subsection \<open>frontend/infrastructure/theme\_switcher.ts\<close>

text \<open>Source: \<open>src/frontend/infrastructure/auth_session_manager.ts\<close>, lines 153 to 260.\<close>

record ThemeSwitcherArgs =
  defaultTheme :: string
  storageKey :: string
  generateToggle :: bool

definition ThemeSwitcherSchema :: zschema where
  "ThemeSwitcherSchema = ZObject
     [(''defaultTheme'', ZDefault (ZEnum [''light'', ''dark'', ''system'']) (JStr ''system'')),
      (''storageKey'', ZDefault ZString (JStr ''theme'')),
      (''generateToggle'', ZDefault ZBoolean (JBool True))]"

definition ThemeSwitcherArgs_of :: "jsval \<Rightarrow> ThemeSwitcherArgs" where
  "ThemeSwitcherArgs_of v = ThemeSwitcherArgs.make
     (as_string (field v ''defaultTheme''))
     (as_string (field v ''storageKey''))
     (as_boolean (field v ''generateToggle''))"

definition theme_switcher_provider :: "string \<Rightarrow> string \<Rightarrow> string" where
  \<open>theme_switcher_provider = (\<lambda>defaultTheme storageKey.
    (''"use client";\<newline>'' @
       ''import { createContext, useContext, useEffect, useState } from "react";\<newline>'' @
       ''\<newline>'' @
       ''type Theme = "dark" | "light" | "system";\<newline>'' @
       ''\<newline>'' @
       ''interface ThemeContextType {\<newline>'' @
       ''  theme: Theme;\<newline>'' @
       ''  setTheme: (theme: Theme) => void;\<newline>'' @
       ''}\<newline>'' @
       ''\<newline>'' @
       ''const ThemeContext = createContext<ThemeContextType | undefined>(undefined);\<newline>'' @
       ''\<newline>'' @
       ''export function ThemeProvider({ children }: { children: React.ReactNode }) {\<newline>'' @
       ''  const [theme, setTheme] = useState<Theme>("'' @ defaultTheme @ ''");\<newline>'' @
       ''\<newline>'' @
       ''  useEffect(() => {\<newline>'' @
       ''    const stored = localStorage.getItem("'' @ storageKey @ ''") as Theme;\<newline>'' @
       ''    if (stored) setTheme(stored);\<newline>'' @
       ''  }, []);\<newline>'' @
       ''\<newline>'' @
       ''  useEffect(() => {\<newline>'' @
       ''    const root = window.document.documentElement;\<newline>'' @
       ''    root.classList.remove("light", "dark");\<newline>'' @
       ''\<newline>'' @
       ''    if (theme === "system") {\<newline>'' @
       ''      const systemTheme = window.matchMedia("(prefers-color-scheme: dark)").matches ? "dark" : "light";\<newline>'' @
       ''      root.classList.add(systemTheme);\<newline>'' @
       ''    } else {\<newline>'' @
       ''      root.classList.add(theme);\<newline>'' @
       ''    }\<newline>'' @
       ''\<newline>'' @
       ''    localStorage.setItem("'' @ storageKey @ ''", theme);\<newline>'' @
       ''  }, [theme]);\<newline>'' @
       ''\<newline>'' @
       ''  return (\<newline>'' @
       ''    <ThemeContext.Provider value={{ theme, setTheme }}>\<newline>'' @
       ''      {children}\<newline>'' @
       ''    </ThemeContext.Provider>\<newline>'' @
       ''  );\<newline>'' @
       ''}\<newline>'' @
       ''\<newline>'' @
       ''export function useTheme() {\<newline>'' @
       ''  const context = useContext(ThemeContext);\<newline>'' @
       ''  if (!context) throw new Error("useTheme must be used within ThemeProvider");\<newline>'' @
       ''  return context;\<newline>'' @
       ''}''))\<close>

definition theme_switcher_toggle :: string where
  \<open>theme_switcher_toggle =
    (''"use client";\<newline>'' @
       ''import { useTheme } from "./theme-provider";\<newline>'' @
       ''import { Button } from "@/components/ui/button";\<newline>'' @
       ''import { DropdownMenu, DropdownMenuContent, DropdownMenuItem, DropdownMenuTrigger } from "@/components/ui/dropdown-menu";\<newline>'' @
       ''import { Moon, Sun, Laptop } from "lucide-react";\<newline>'' @
       ''\<newline>'' @
       ''export function ThemeToggle() {\<newline>'' @
       ''  const { theme, setTheme } = useTheme();\<newline>'' @
       ''\<newline>'' @
       ''  return (\<newline>'' @
       ''    <DropdownMenu>\<newline>'' @
       ''      <DropdownMenuTrigger asChild>\<newline>'' @
       ''        <Button variant="outline" size="icon">\<newline>'' @
       ''          <Sun className="h-4 w-4 rotate-0 scale-100 transition-all dark:-rotate-90 dark:scale-0" />\<newline>'' @
       ''          <Moon className="absolute h-4 w-4 rotate-90 scale-0 transition-all dark:rotate-0 dark:scale-100" />\<newline>'' @
       ''          <span className="sr-only">Toggle theme</span>\<newline>'' @
       ''        </Button>\<newline>'' @
       ''      </DropdownMenuTrigger>\<newline>'' @
       ''      <DropdownMenuContent align="end">\<newline>'' @
       ''        <DropdownMenuItem onClick={() => setTheme("light")}>\<newline>'' @
       ''          <Sun className="mr-2 h-4 w-4" /> Light\<newline>'' @
       ''        </DropdownMenuItem>\<newline>'' @
       ''        <DropdownMenuItem onClick={() => setTheme("dark")}>\<newline>'' @
       ''          <Moon className="mr-2 h-4 w-4" /> Dark\<newline>'' @
       ''        </DropdownMenuItem>\<newline>'' @
       ''        <DropdownMenuItem onClick={() => setTheme("system")}>\<newline>'' @
       ''          <Laptop className="mr-2 h-4 w-4" /> System\<newline>'' @
       ''        </DropdownMenuItem>\<newline>'' @
       ''      </DropdownMenuContent>\<newline>'' @
       ''    </DropdownMenu>\<newline>'' @
       ''  );\<newline>'' @
       ''}'')\<close>

definition theme_switcher_handler :: "ThemeSwitcherArgs \<Rightarrow> SkillResult" where
  "theme_switcher_handler args =
     (let defaultTheme = ThemeSwitcherArgs.defaultTheme args;
          storageKey = ThemeSwitcherArgs.storageKey args;
          generateToggle = ThemeSwitcherArgs.generateToggle args;
          files = [];
          files = assign files ''theme-provider.tsx'' (theme_switcher_provider defaultTheme storageKey);
          files = (if generateToggle then assign files ''theme-toggle.tsx'' theme_switcher_toggle
                   else files)
      in \<lparr>success = True,
          data = Some (files_data files),
          error = None,
          metadata = Some (JObj [(''defaultTheme'', JStr defaultTheme),
                                 (''generatedFiles'', strings (Object_keys files))])\<rparr>)"

definition themeSwitcherSkillDefinition :: SkillDefinition where
  \<open>themeSwitcherSkillDefinition =
     \<lparr>SkillDefinition.name = ''theme_switcher'',
      SkillDefinition.description = ''Generates dark/light mode theme provider and toggle component.'',
      parameters = ThemeSwitcherSchema,
      handler = (\<lambda>rt v. Inr (theme_switcher_handler (ThemeSwitcherArgs_of v)))\<rparr>\<close>

subsection \<open>frontend/infrastructure/component\_optimizer.ts\<close>

text \<open>Source: \<open>src/frontend/infrastructure/auth_session_manager.ts\<close>, lines 261 to 320.\<close>

record ComponentOptimizerArgs =
  code :: string
  fileName :: string

definition ComponentOptimizerSchema :: zschema where
  "ComponentOptimizerSchema = ZObject [(''code'', ZString), (''fileName'', ZString)]"

definition ComponentOptimizerArgs_of :: "jsval \<Rightarrow> ComponentOptimizerArgs" where
  "ComponentOptimizerArgs_of v = ComponentOptimizerArgs.make
     (as_string (field v ''code''))
     (as_string (field v ''fileName''))"

definition component_optimizer_clientHooks :: "string list" where
  "component_optimizer_clientHooks =
     [''useState'', ''useEffect'', ''useCallback'', ''useContext'', ''useRef'', ''useReducer'']"

definition component_optimizer_eventHandlers :: "string list" where
  "component_optimizer_eventHandlers = [''onClick'', ''onChange'', ''onSubmit'', ''onMouseEnter'']"

definition component_optimizer_browserAPIs :: "string list" where
  "component_optimizer_browserAPIs = [''window.'', ''document.'', ''localStorage'', ''sessionStorage'']"

definition component_optimizer_handler :: "ComponentOptimizerArgs \<Rightarrow> SkillResult" where
  \<open>component_optimizer_handler args =
     (let source = ComponentOptimizerArgs.code args;
          file = ComponentOptimizerArgs.fileName args;
          hasClientHooks = list_ex (\<lambda>hook. String_includes source hook) component_optimizer_clientHooks;
          hasEventHandlers = list_ex (\<lambda>h. String_includes source h) component_optimizer_eventHandlers;
          hasBrowserAPIs = list_ex (\<lambda>api. String_includes source api) component_optimizer_browserAPIs;
          interactive = (hasClientHooks \<or> hasEventHandlers \<or> hasBrowserAPIs);
          recommendedType = (if interactive then ''client'' else ''server'');
          reasoning =
            (if interactive
             then (if hasClientHooks then [''Uses React hooks (state/effect)''] else []) @
                  (if hasEventHandlers then [''Uses event handlers (interactions)''] else []) @
                  (if hasBrowserAPIs then [''Uses Browser APIs''] else [])
             else [''No interactive logic or state detected; safe for Server Component'']);
          hasUseClient = (startsWith (trim source) ([CHR 0x27] @ ''use client'' @ [CHR 0x27])
                          \<or> startsWith (trim source) ''"use client"'');
          issues =
            (if recommendedType = ''server'' \<and> hasUseClient
             then [''Component is marked 'use client' but appears to be static. Consider removing directive for better performance.'']
             else if recommendedType = ''client'' \<and> \<not> hasUseClient
             then [''Component uses interactive features but is missing 'use client' directive.'']
             else [])
      in \<lparr>success = True,
          data = Some (JObj [(''fileName'', JStr file),
                             (''recommendedType'', JStr recommendedType),
                             (''reasoning'', strings reasoning),
                             (''issues'', strings issues)]),
          error = None,
          metadata = Some (JObj [(''optimizationLevel'', JStr ''high'')])\<rparr>)\<close>

definition componentOptimizerSkillDefinition :: SkillDefinition where
  \<open>componentOptimizerSkillDefinition =
     \<lparr>SkillDefinition.name = ''component_optimizer'',
      SkillDefinition.description = ''Analyzes React components to recommend Server vs Client rendering strategies for Next.js optimization.'',
      parameters = ComponentOptimizerSchema,
      handler = (\<lambda>rt v. Inr (component_optimizer_handler (ComponentOptimizerArgs_of v)))\<rparr>\<close>

subsection \<open>frontend/logic/data\_fetching.ts\<close>

text \<open>Source: \<open>src/frontend/logic/data_fetching.ts\<close>, lines 1 to 63.\<close>

record DataFetchingArgs =
  queryKey :: "string list"
  fetcherFunction :: string
  type :: string

definition DataFetchingSchema :: zschema where
  "DataFetchingSchema = ZObject
     [(''queryKey'', ZArray ZString),
      (''fetcherFunction'', ZString),
      (''type'', ZEnum [''query'', ''mutation''])]"

definition DataFetchingArgs_of :: "jsval \<Rightarrow> DataFetchingArgs" where
  "DataFetchingArgs_of v = DataFetchingArgs.make
     (as_array as_string (field v ''queryKey''))
     (as_string (field v ''fetcherFunction''))
     (as_string (field v ''type''))"

definition data_fetching_query :: "string list \<Rightarrow> string \<Rightarrow> string \<Rightarrow> string" where
  \<open>data_fetching_query = (\<lambda>queryKey fetcherFunction pascalFetcher.
    (''\<newline>'' @
       ''import { useQuery } from '@tanstack/react-query';\<newline>'' @
       ''import { '' @ fetcherFunction @ '' } from '@/services/api';\<newline>'' @
       ''\<newline>'' @
       ''export const use'' @ pascalFetcher @ '' = () => {\<newline>'' @
       ''  return useQuery({\<newline>'' @
       ''    queryKey: ['' @ (join (map (\<lambda>k. ([CHR 0x27] @ k @ [CHR 0x27])) queryKey) '', '') @ ''],\<newline>'' @
       ''    queryFn: '' @ fetcherFunction @ '',\<newline>'' @
       ''    staleTime: 5 * 60 * 1000, // 5 minutes\<newline>'' @
       ''  });\<newline>'' @
       ''};\<newline>''))\<close>

definition data_fetching_mutation :: "string list \<Rightarrow> string \<Rightarrow> string \<Rightarrow> string" where
  \<open>data_fetching_mutation = (\<lambda>queryKey fetcherFunction pascalFetcher.
    (''\<newline>'' @
       ''import { useMutation, useQueryClient } from '@tanstack/react-query';\<newline>'' @
       ''import { '' @ fetcherFunction @ '' } from '@/services/api';\<newline>'' @
       ''\<newline>'' @
       ''export const use'' @ pascalFetcher @ ''Mutation = () => {\<newline>'' @
       ''  const queryClient = useQueryClient();\<newline>'' @
       ''\<newline>'' @
       ''  return useMutation({\<newline>'' @
       ''    mutationFn: '' @ fetcherFunction @ '',\<newline>'' @
       ''    onSuccess: () => {\<newline>'' @
       ''      // Invalidate relevant queries to refetch fresh data\<newline>'' @
       ''      queryClient.invalidateQueries({ queryKey: ['' @ (join (map (\<lambda>k. ([CHR 0x27] @ k @ [CHR 0x27])) queryKey) '', '') @ ''] });\<newline>'' @
       ''    },\<newline>'' @
       ''  });\<newline>'' @
       ''};\<newline>''))\<close>

definition data_fetching_handler :: "DataFetchingArgs \<Rightarrow> SkillResult" where
  "data_fetching_handler args =
     (let queryKey = DataFetchingArgs.queryKey args;
          fetcherFunction = DataFetchingArgs.fetcherFunction args;
          kind = DataFetchingArgs.type args;
          pascalFetcher = toUpperCase (charAt fetcherFunction 0) @ slice fetcherFunction 1;
          hookCode = (if kind = ''query''
                      then data_fetching_query queryKey fetcherFunction pascalFetcher
                      else data_fetching_mutation queryKey fetcherFunction pascalFetcher)
      in \<lparr>success = True,
          data = Some (JStr hookCode),
          error = None,
          metadata = Some (JObj [(''cacheStrategy'',
                                   JStr (if kind = ''query'' then ''stale-while-revalidate''
                                         else ''optimistic-ui-ready'')),
                                 (''dependencies'', strings [''@tanstack/react-query''])])\<rparr>)"

definition dataFetchingSkillDefinition :: SkillDefinition where
  \<open>dataFetchingSkillDefinition =
     \<lparr>SkillDefinition.name = ''generate_react_query_hook'',
      SkillDefinition.description = ''Generates robust TanStack Query hooks for state management and caching.'',
      parameters = DataFetchingSchema,
      handler = (\<lambda>rt v. Inr (data_fetching_handler (DataFetchingArgs_of v)))\<rparr>\<close>

subsection \<open>frontend/logic/form\_factory.ts\<close>

text \<open>Source: \<open>src/frontend/logic/data_fetching.ts\<close>, lines 64 to 172.\<close>

record FormFactoryField =
  name :: string
  type :: string
  label :: string

record FormFactoryArgs =
  fields' :: "FormFactoryField list"
  submitEndpoint :: string

definition FormFactorySchema :: zschema where
  "FormFactorySchema = ZObject
     [(''fields'', ZArray (ZObject
         [(''name'', ZString),
          (''type'', ZEnum [''text'', ''number'', ''email'', ''select'']),
          (''label'', ZString)])),
      (''submitEndpoint'', ZString)]"

definition FormFactoryField_of :: "jsval \<Rightarrow> FormFactoryField" where
  "FormFactoryField_of v = FormFactoryField.make
     (as_string (field v ''name''))
     (as_string (field v ''type''))
     (as_string (field v ''label''))"

definition FormFactoryArgs_of :: "jsval \<Rightarrow> FormFactoryArgs" where
  "FormFactoryArgs_of v = FormFactoryArgs.make
     (as_array FormFactoryField_of (field v ''fields''))
     (as_string (field v ''submitEndpoint''))"

definition form_factory_zodSchemaField :: "FormFactoryField \<Rightarrow> string" where
  \<open>form_factory_zodSchemaField = (\<lambda>field.
    if FormFactoryField.type field = ''email'' then
      (''  '' @ (FormFactoryField.name field) @ '': z.string().email({ message: "Invalid email address" }),'')
    else if FormFactoryField.type field = ''number'' then
      (''  '' @ (FormFactoryField.name field) @ '': z.coerce.number().min(0, { message: "'' @ (FormFactoryField.label field) @ '' must be positive" }),'')
    else
      (''  '' @ (FormFactoryField.name field) @ '': z.string().min(2, { message: "'' @ (FormFactoryField.label field) @ '' must be at least 2 characters" }),''))\<close>

definition form_factory_formFieldJsx :: "FormFactoryField \<Rightarrow> string" where
  \<open>form_factory_formFieldJsx = (\<lambda>field.
    (''\<newline>'' @
       ''        <FormField\<newline>'' @
       ''          control={form.control}\<newline>'' @
       ''          name="'' @ (FormFactoryField.name field) @ ''"\<newline>'' @
       ''          render={({ field }) => (\<newline>'' @
       ''            <FormItem>\<newline>'' @
       ''              <FormLabel>'' @ (FormFactoryField.label field) @ ''</FormLabel>\<newline>'' @
       ''              <FormControl>\<newline>'' @
       ''                '' @ (if ((FormFactoryField.type field) = ''select'') then (''<Select onValueChange={field.onChange} defaultValue={field.value}>\<newline>'' @
         ''                        <SelectTrigger>\<newline>'' @
         ''                          <SelectValue placeholder="Select '' @ (FormFactoryField.label field) @ ''" />\<newline>'' @
         ''                        </SelectTrigger>\<newline>'' @
         ''                        <SelectContent>\<newline>'' @
         ''                          <SelectItem value="option1">Option 1</SelectItem>\<newline>'' @
         ''                        </SelectContent>\<newline>'' @
         ''                       </Select>'')
         else (''<Input type="'' @ (FormFactoryField.type field) @ ''" placeholder="'' @ (FormFactoryField.label field) @ ''" {...field} />'')) @
       ''\<newline>'' @
       ''              </FormControl>\<newline>'' @
       ''              <FormMessage />\<newline>'' @
       ''            </FormItem>\<newline>'' @
       ''          )}\<newline>'' @
       ''        />''))\<close>

definition form_factory_formSchemaCode :: "string \<Rightarrow> string" where
  \<open>form_factory_formSchemaCode = (\<lambda>zodSchemaFields.
    (''const formSchema = z.object({\<newline>'' @
       zodSchemaFields @ ''\<newline>'' @
       ''});''))\<close>

definition form_factory_fullComponent ::
  "FormFactoryField list \<Rightarrow> string \<Rightarrow> string \<Rightarrow> string \<Rightarrow> string" where
  \<open>form_factory_fullComponent = (\<lambda>fields submitEndpoint formSchemaCode formFieldsJsx.
    (''\<newline>'' @
       ''import { zodResolver } from "@hookform/resolvers/zod"\<newline>'' @
       ''import { useForm } from "react-hook-form"\<newline>'' @
       ''import { z } from "zod"\<newline>'' @
       ''import { Button } from "@/components/ui/button"\<newline>'' @
       ''import {\<newline>'' @
       ''  Form,\<newline>'' @
       ''  FormControl,\<newline>'' @
       ''  FormField,\<newline>'' @
       ''  FormItem,\<newline>'' @
       ''  FormLabel,\<newline>'' @
       ''  FormMessage,\<newline>'' @
       ''} from "@/components/ui/form"\<newline>'' @
       ''import { Input } from "@/components/ui/input"\<newline>'' @
       ''import { Select, SelectContent, SelectItem, SelectTrigger, SelectValue } from "@/components/ui/select"\<newline>'' @
       ''\<newline>'' @
       formSchemaCode @ ''\<newline>'' @
       ''\<newline>'' @
       ''export function GeneratedForm() {\<newline>'' @
       ''  const form = useForm<z.infer<typeof formSchema>>({\<newline>'' @
       ''    resolver: zodResolver(formSchema),\<newline>'' @
       ''    defaultValues: {\<newline>'' @
       ''      '' @ (join (map (\<lambda>f. ((FormFactoryField.name f) @ '': ""'')) fields) ('',\<newline>'' @ ''      '')) @ ''\<newline>'' @
       ''    },\<newline>'' @
       ''  })\<newline>'' @
       ''\<newline>'' @
       ''  function onSubmit(values: z.infer<typeof formSchema>) {\<newline>'' @
       ''    console.log("Submitting to '' @ submitEndpoint @ ''", values)\<newline>'' @
       ''  }\<newline>'' @
       ''\<newline>'' @
       ''  return (\<newline>'' @
       ''    <Form {...form}>\<newline>'' @
       ''      <form onSubmit={form.handleSubmit(onSubmit)} className="space-y-8">\<newline>'' @
       ''        '' @ formFieldsJsx @ ''\<newline>'' @
       ''        <Button type="submit">Submit</Button>\<newline>'' @
       ''      </form>\<newline>'' @
       ''    </Form>\<newline>'' @
       ''  )\<newline>'' @
       ''}\<newline>''))\<close>

definition form_factory_handler :: "FormFactoryArgs \<Rightarrow> SkillResult" where
  "form_factory_handler args =
     (let fields = FormFactoryArgs.fields' args;
          submitEndpoint = FormFactoryArgs.submitEndpoint args;
          zodSchemaFields = join (map form_factory_zodSchemaField fields) ''\<newline>'';
          formSchemaCode = form_factory_formSchemaCode zodSchemaFields;
          formFieldsJsx = join (map form_factory_formFieldJsx fields) ''\<newline>'';
          fullComponent = form_factory_fullComponent fields submitEndpoint formSchemaCode formFieldsJsx
      in \<lparr>success = True,
          data = Some (JStr fullComponent),
          error = None,
          metadata = Some (JObj [(''generatedFields'', JNum (of_nat (length fields))),
                                 (''validation'', JStr ''zod'')])\<rparr>)"

definition formFactorySkillDefinition :: SkillDefinition where
  \<open>formFactorySkillDefinition =
     \<lparr>SkillDefinition.name = ''form_factory'',
      SkillDefinition.description = ''Generates robust forms using Shadcn UI components and Zod validation automatically.'',
      parameters = FormFactorySchema,
      handler = (\<lambda>rt v. Inr (form_factory_handler (FormFactoryArgs_of v)))\<rparr>\<close>

subsection \<open>frontend/logic/infinite\_scroll.ts\<close>

text \<open>Source: \<open>src/frontend/logic/infinite_scroll.ts\<close>, lines 1 to 110.\<close>

record InfiniteScrollArgs =
  hookName :: string
  queryKey :: "string list"
  fetcherPath :: string
  pageParamName :: string

definition InfiniteScrollSchema :: zschema where
  "InfiniteScrollSchema = ZObject
     [(''hookName'', ZDefault ZString (JStr ''useInfiniteData'')),
      (''queryKey'', ZArray ZString),
      (''fetcherPath'', ZString),
      (''pageParamName'', ZDefault ZString (JStr ''page''))]"

definition InfiniteScrollArgs_of :: "jsval \<Rightarrow> InfiniteScrollArgs" where
  "InfiniteScrollArgs_of v = InfiniteScrollArgs.make
     (as_string (field v ''hookName''))
     (as_array as_string (field v ''queryKey''))
     (as_string (field v ''fetcherPath''))
     (as_string (field v ''pageParamName''))"

definition infinite_scroll_code :: "string \<Rightarrow> string list \<Rightarrow> string \<Rightarrow> string \<Rightarrow> string" where
  \<open>infinite_scroll_code = (\<lambda>hookName queryKey fetcherPath pageParamName.
    (''import { useInfiniteQuery } from "@tanstack/react-query";\<newline>'' @
       ''import { useEffect, useRef, useCallback } from "react";\<newline>'' @
       ''import { fetchData } from "'' @ fetcherPath @ ''";\<newline>'' @
       ''\<newline>'' @
       ''interface UseInfiniteOptions {\<newline>'' @
       ''  enabled?: boolean;\<newline>'' @
       ''}\<newline>'' @
       ''\<newline>'' @
       ''export function '' @ hookName @ ''(options: UseInfiniteOptions = {}) {\<newline>'' @
       ''  const observerRef = useRef<IntersectionObserver | null>(null);\<newline>'' @
       ''  const loadMoreRef = useRef<HTMLDivElement | null>(null);\<newline>'' @
       ''\<newline>'' @
       ''  const query = useInfiniteQuery({\<newline>'' @
       ''    queryKey: ['' @ (join (map (\<lambda>k. (''"'' @ k @ ''"'')) queryKey) '', '') @ ''],\<newline>'' @
       ''    queryFn: ({ pageParam = 1 }) => fetchData({ '' @ pageParamName @ '': pageParam }),\<newline>'' @
       ''    getNextPageParam: (lastPage, pages) => {\<newline>'' @
       ''      if (lastPage.hasMore) return pages.length + 1;\<newline>'' @
       ''      return undefined;\<newline>'' @
       ''    },\<newline>'' @
       ''    initialPageParam: 1,\<newline>'' @
       ''    enabled: options.enabled ?? true,\<newline>'' @
       ''  });\<newline>'' @
       ''\<newline>'' @
       ''  const { fetchNextPage, hasNextPage, isFetchingNextPage } = query;\<newline>'' @
       ''\<newline>'' @
       ''  const handleObserver = useCallback(\<newline>'' @
       ''    (entries: IntersectionObserverEntry[]) => {\<newline>'' @
       ''      const [target] = entries;\<newline>'' @
       ''      if (target.isIntersecting && hasNextPage && !isFetchingNextPage) {\<newline>'' @
       ''        fetchNextPage();\<newline>'' @
       ''      }\<newline>'' @
       ''    },\<newline>'' @
       ''    [fetchNextPage, hasNextPage, isFetchingNextPage]\<newline>'' @
       ''  );\<newline>'' @
       ''\<newline>'' @
       ''  useEffect(() => {\<newline>'' @
       ''    const element = loadMoreRef.current;\<newline>'' @
       ''    if (!element) return;\<newline>'' @
       ''\<newline>'' @
       ''    observerRef.current = new IntersectionObserver(handleObserver, {\<newline>'' @
       ''      root: null,\<newline>'' @
       ''      rootMargin: "100px",\<newline>'' @
       ''      threshold: 0.1,\<newline>'' @
       ''    });\<newline>'' @
       ''\<newline>'' @
       ''    observerRef.current.observe(element);\<newline>'' @
       ''\<newline>'' @
       ''    return () => {\<newline>'' @
       ''      if (observerRef.current) {\<newline>'' @
       ''        observerRef.current.disconnect();\<newline>'' @
       ''      }\<newline>'' @
       ''    };\<newline>'' @
       ''  }, [handleObserver]);\<newline>'' @
       ''\<newline>'' @
       ''  const data = query.data?.pages.flatMap((page) => page.items) ?? [];\<newline>'' @
       ''\<newline>'' @
       ''  return {\<newline>'' @
       ''    ...query,\<newline>'' @
       ''    data,\<newline>'' @
       ''    loadMoreRef,\<newline>'' @
       ''    hasNextPage,\<newline>'' @
       ''    isFetchingNextPage,\<newline>'' @
       ''  };\<newline>'' @
       ''}\<newline>'' @
       ''\<newline>'' @
       ''// Usage example component\<newline>'' @
       ''export function InfiniteList() {\<newline>'' @
       ''  const { data, isLoading, loadMoreRef, isFetchingNextPage } = '' @ hookName @ ''();\<newline>'' @
       ''\<newline>'' @
       ''  if (isLoading) return <div>Loading...</div>;\<newline>'' @
       ''\<newline>'' @
       ''  return (\<newline>'' @
       ''    <div className="space-y-4">\<newline>'' @
       ''      {data.map((item) => (\<newline>'' @
       ''        <div key={item.id}>{item.name}</div>\<newline>'' @
       ''      ))}\<newline>'' @
       ''      \<newline>'' @
       ''      <div ref={loadMoreRef} className="py-4 text-center">\<newline>'' @
       ''        {isFetchingNextPage && <span>Loading more...</span>}\<newline>'' @
       ''      </div>\<newline>'' @
       ''    </div>\<newline>'' @
       ''  );\<newline>'' @
       ''}''))\<close>

definition infinite_scroll_handler :: "InfiniteScrollArgs \<Rightarrow> SkillResult" where
  "infinite_scroll_handler args =
     (let hookName = InfiniteScrollArgs.hookName args;
          queryKey = InfiniteScrollArgs.queryKey args;
          fetcherPath = InfiniteScrollArgs.fetcherPath args;
          pageParamName = InfiniteScrollArgs.pageParamName args;
          code = infinite_scroll_code hookName queryKey fetcherPath pageParamName
      in \<lparr>success = True,
          data = Some (JStr code),
          error = None,
          metadata = Some (JObj [(''hookName'', JStr hookName),
                                 (''queryKey'', strings queryKey)])\<rparr>)"

definition infiniteScrollSkillDefinition :: SkillDefinition where
  \<open>infiniteScrollSkillDefinition =
     \<lparr>SkillDefinition.name = ''infinite_scroll_builder'',
      SkillDefinition.description = ''Generates infinite scroll hook with React Query and Intersection Observer.'',
      parameters = InfiniteScrollSchema,
      handler = (\<lambda>rt v. Inr (infinite_scroll_handler (InfiniteScrollArgs_of v)))\<rparr>\<close>

subsection \<open>frontend/logic/analyze\_hook\_logic.ts\<close>

text \<open>Source: \<open>src/frontend/logic/infinite_scroll.ts\<close>, lines 111 to 170.\<close>

text \<open>
  The handler uses two regular expressions. Both are deterministic from left to right (every
  greedy repetition is followed by a character it cannot consume), so each is written as a
  scanner that consumes the pattern piece by piece from a given position; the search tries
  the positions from left to right, as the regular-expression engine does.
\<close>

definition is_upper :: "char \<Rightarrow> bool" where
  "is_upper c = (let n = (of_char c :: nat) in 65 \<le> n \<and> n \<le> 90)"

definition is_alnum :: "char \<Rightarrow> bool" where
  "is_alnum c = (let n = (of_char c :: nat) in
     (48 \<le> n \<and> n \<le> 57) \<or> (65 \<le> n \<and> n \<le> 90) \<or> (97 \<le> n \<and> n \<le> 122))"

definition is_word_char :: "char \<Rightarrow> bool" where
  \<comment> \<open>\<open>\w\<close>\<close>
  "is_word_char c = (is_alnum c \<or> c = CHR ''_'')"

definition expect :: "string \<Rightarrow> string \<Rightarrow> string option" where
  \<comment> \<open>the literal text \<open>p\<close> at the head of \<open>s\<close>; what follows it\<close>
  "expect p s = (if startsWith s p then Some (drop (length p) s) else None)"

definition expect_one_of :: "string list \<Rightarrow> string \<Rightarrow> string option" where
  \<comment> \<open>an alternation of literal texts, tried in order\<close>
  "expect_one_of ps s = (case filter (startsWith s) ps of [] \<Rightarrow> None | p # _ \<Rightarrow> Some (drop (length p) s))"

definition spaces :: "string \<Rightarrow> string" where
  \<comment> \<open>\<open>\s*\<close>\<close>
  "spaces s = dropWhile is_whitespace s"

definition spaces1 :: "string \<Rightarrow> string option" where
  \<comment> \<open>\<open>\s+\<close>\<close>
  "spaces1 s = (case s of [] \<Rightarrow> None | c # cs \<Rightarrow> if is_whitespace c then Some (spaces cs) else None)"

fun match_first :: "(string \<Rightarrow> 'a option) \<Rightarrow> string \<Rightarrow> 'a option" where
  \<comment> \<open>the match at the leftmost position that has one\<close>
  "match_first m [] = m []"
| "match_first m (c # cs) = (case m (c # cs) of Some x \<Rightarrow> Some x | None \<Rightarrow> match_first m cs)"

definition hook_name_at :: "string \<Rightarrow> string option" where
  \<comment> \<open>\<open>/export\s+(?:const|function)\s+(use[A-Z][a-zA-Z0-9]*)/\<close> at the head of the text: group 1\<close>
  "hook_name_at s =
     Option.bind (expect ''export'' s) (\<lambda>s.
     Option.bind (spaces1 s) (\<lambda>s.
     Option.bind (expect_one_of [''const'', ''function''] s) (\<lambda>s.
     Option.bind (spaces1 s) (\<lambda>s.
     Option.bind (expect ''use'' s) (\<lambda>s.
       case s of [] \<Rightarrow> None
       | c # cs \<Rightarrow> if is_upper c then Some (''use'' @ c # takeWhile is_alnum cs) else None)))))"

definition effect_without_deps_at :: "string \<Rightarrow> string option" where
  \<comment> \<open>\<open>/(useEffect|useCallback|useMemo)\s*\(\s*\(\s*\)\s*=>\s*\{[^}]*\}\s*\)/\<close> at the head of
      the text: what follows the match\<close>
  "effect_without_deps_at s =
     Option.bind (expect_one_of [''useEffect'', ''useCallback'', ''useMemo''] s) (\<lambda>s.
     Option.bind (expect ''('' (spaces s)) (\<lambda>s.
     Option.bind (expect ''('' (spaces s)) (\<lambda>s.
     Option.bind (expect '')'' (spaces s)) (\<lambda>s.
     Option.bind (expect ''=>'' (spaces s)) (\<lambda>s.
     Option.bind (expect ''{'' (spaces s)) (\<lambda>s.
     Option.bind (expect ''}'' (dropWhile (\<lambda>c. c \<noteq> CHR ''}'') s)) (\<lambda>s.
       expect '')'' (spaces s))))))))"

fun regexEffects_test :: "bool \<Rightarrow> string \<Rightarrow> bool" where
  \<comment> \<open>the search for the pattern above after \<open>\b\<close>: the character before the match is not a
      word character (the flag says whether the previous character was one)\<close>
  "regexEffects_test w [] = False"
| "regexEffects_test w (c # cs) =
     ((\<not> w \<and> effect_without_deps_at (c # cs) \<noteq> None) \<or> regexEffects_test (is_word_char c) cs)"

record AnalyzeHookLogicArgs =
  code :: string
  fileName :: string
  strict :: bool

definition analyzeHookLogicSchema :: zschema where
  "analyzeHookLogicSchema = ZObject
     [(''code'', ZString),
      (''fileName'', ZString),
      (''strict'', ZDefault ZBoolean (JBool True))]"

definition AnalyzeHookLogicArgs_of :: "jsval \<Rightarrow> AnalyzeHookLogicArgs" where
  "AnalyzeHookLogicArgs_of v = AnalyzeHookLogicArgs.make
     (as_string (field v ''code''))
     (as_string (field v ''fileName''))
     (as_boolean (field v ''strict''))"

definition analyze_hook_logic_issues :: "string \<Rightarrow> string \<Rightarrow> string list" where
  \<open>analyze_hook_logic_issues source file =
     (let hookName = match_first hook_name_at source
      in (if \<not> String_includes file ''use'' \<and> hookName = None
          then [''Could not detect a valid hook definition starting with "use" exported from this file.''] else []) @
         (if regexEffects_test False source
          then [''Found useEffect/useCallback/useMemo without a dependency array. This can cause infinite loops or stale closures.''] else []) @
         (if \<not> String_includes source ''return''
          then [''Hook does not seem to return any value or controls. Ensure it returns the necessary state or handlers.''] else []))\<close>

definition analyze_hook_logic_suggestions :: "string \<Rightarrow> string list" where
  \<open>analyze_hook_logic_suggestions source =
     (if String_includes source ''.filter('' \<and> String_includes source ''.map(''
         \<and> \<not> String_includes source ''useMemo''
      then [''Chained array operations (.filter.map) found. Consider wrapping heavy computations in useMemo().''] else [])\<close>

definition analyze_hook_logic_handler :: "AnalyzeHookLogicArgs \<Rightarrow> SkillResult" where
  "analyze_hook_logic_handler args =
     (let source = AnalyzeHookLogicArgs.code args;
          file = AnalyzeHookLogicArgs.fileName args;
          hookName = match_first hook_name_at source;
          issues = analyze_hook_logic_issues source file;
          suggestions = analyze_hook_logic_suggestions source
      in \<lparr>success = (length issues = 0),
          data = Some (JObj [(''hookName'', (case hookName of None \<Rightarrow> JNull | Some h \<Rightarrow> JStr h)),
                             (''validConvention'', JBool (hookName \<noteq> None)),
                             (''issues'', strings issues),
                             (''suggestions'', strings suggestions)]),
          error = None,
          metadata = Some (JObj [(''analyzedLines'',
                                   JNum (of_nat (length (split_on (CHR 0x0A) source))))])\<rparr>)"

definition analyzeHookLogic :: SkillDefinition where
  \<open>analyzeHookLogic =
     \<lparr>SkillDefinition.name = ''analyze_hook_logic'',
      SkillDefinition.description = ''Audits custom React hooks for common pitfalls, naming conventions, and performance optimizations.'',
      parameters = analyzeHookLogicSchema,
      handler = (\<lambda>rt v. Inr (analyze_hook_logic_handler (AnalyzeHookLogicArgs_of v)))\<rparr>\<close>

subsection \<open>frontend/routing/routing\_master.ts\<close>

text \<open>Source: \<open>src/frontend/routing/routing_master.ts\<close>, lines 1 to 106.\<close>

record RoutingMasterArgs =
  routePath :: string
  isDynamic :: bool
  hasLayout :: bool

definition RoutingMasterSchema :: zschema where
  "RoutingMasterSchema = ZObject
     [(''routePath'', ZString), (''isDynamic'', ZBoolean), (''hasLayout'', ZBoolean)]"

definition RoutingMasterArgs_of :: "jsval \<Rightarrow> RoutingMasterArgs" where
  "RoutingMasterArgs_of v = RoutingMasterArgs.make
     (as_string (field v ''routePath''))
     (as_boolean (field v ''isDynamic''))
     (as_boolean (field v ''hasLayout''))"

definition routing_master_getComponentName :: "string \<Rightarrow> string" where
  \<comment> \<open>\<open>path.replace(/[\/\[\]\(\)]/g, ' ')\<close>, then the last of the parts between spaces;
      \<open>parts[parts.length - 1]\<close> of no parts is \<open>undefined\<close>, which is falsy like the empty string\<close>
  "routing_master_getComponentName p =
     (let cleanPath = trim (map (\<lambda>c. if c \<in> set ''/[]()'' then CHR '' '' else c) p);
          parts = split_on (CHR '' '') cleanPath;
          lastPart = (case rev parts of [] \<Rightarrow> ''Home'' | x # _ \<Rightarrow> if x \<noteq> [] then x else ''Home'')
      in toUpperCase (charAt lastPart 0) @ slice lastPart 1)"

definition routing_master_pageContent :: "string \<Rightarrow> string \<Rightarrow> string" where
  \<open>routing_master_pageContent = (\<lambda>routePath componentName.
    (''export default function '' @ componentName @ ''Page({ params }: { params: { [key: string]: string } }) {\<newline>'' @
       ''  return (\<newline>'' @
       ''    <div className="container mx-auto p-4">\<newline>'' @
       ''      <h1 className="text-2xl font-bold mb-4">'' @ componentName @ ''</h1>\<newline>'' @
       ''      <p>Welcome to the '' @ routePath @ '' page.</p>\<newline>'' @
       ''    </div>\<newline>'' @
       ''  );\<newline>'' @
       ''}''))\<close>

definition routing_master_layoutContent :: "string \<Rightarrow> string" where
  \<open>routing_master_layoutContent = (\<lambda>componentName.
    (''export default function '' @ componentName @ ''Layout({\<newline>'' @
       ''  children,\<newline>'' @
       ''}: {\<newline>'' @
       ''  children: React.ReactNode;\<newline>'' @
       ''}) {\<newline>'' @
       ''  return (\<newline>'' @
       ''    <section className="dashboard-section">\<newline>'' @
       ''      {/* Add sidebar or header here if needed */}\<newline>'' @
       ''      {children}\<newline>'' @
       ''    </section>\<newline>'' @
       ''  );\<newline>'' @
       ''}''))\<close>

definition routing_master_loadingContent :: string where
  \<open>routing_master_loadingContent =
    (''export default function Loading() {\<newline>'' @
       ''  return (\<newline>'' @
       ''    <div className="flex items-center justify-center p-8">\<newline>'' @
       ''      <div className="animate-spin rounded-full h-8 w-8 border-b-2 border-gray-900"></div>\<newline>'' @
       ''    </div>\<newline>'' @
       ''  );\<newline>'' @
       ''}'')\<close>

definition routing_master_errorContent :: string where
  \<open>routing_master_errorContent =
    ([CHR 0x27] @ ''use client';\<newline>'' @
       ''\<newline>'' @
       ''import { useEffect } from 'react';\<newline>'' @
       ''\<newline>'' @
       ''export default function Error({\<newline>'' @
       ''  error,\<newline>'' @
       ''  reset,\<newline>'' @
       ''}: {\<newline>'' @
       ''  error: Error & { digest?: string };\<newline>'' @
       ''  reset: () => void;\<newline>'' @
       ''}) {\<newline>'' @
       ''  useEffect(() => {\<newline>'' @
       ''    console.error(error);\<newline>'' @
       ''  }, [error]);\<newline>'' @
       ''\<newline>'' @
       ''  return (\<newline>'' @
       ''    <div className="p-4 border border-red-200 bg-red-50 rounded">\<newline>'' @
       ''      <h2 className="text-red-700 font-bold">Something went wrong!</h2>\<newline>'' @
       ''      <button\<newline>'' @
       ''        onClick={() => reset()}\<newline>'' @
       ''        className="mt-4 px-4 py-2 bg-red-600 text-white rounded hover:bg-red-700"\<newline>'' @
       ''      >\<newline>'' @
       ''        Try again\<newline>'' @
       ''      </button>\<newline>'' @
       ''    </div>\<newline>'' @
       ''  );\<newline>'' @
       ''}'')\<close>

definition routing_master_handler :: "RoutingMasterArgs \<Rightarrow> SkillResult" where
  "routing_master_handler args =
     (let routePath = RoutingMasterArgs.routePath args;
          hasLayout = RoutingMasterArgs.hasLayout args;
          componentName = routing_master_getComponentName routePath;
          files = [(''page.tsx'', routing_master_pageContent routePath componentName),
                   (''loading.tsx'', routing_master_loadingContent),
                   (''error.tsx'', routing_master_errorContent)];
          files = (if hasLayout
                   then assign files ''layout.tsx'' (routing_master_layoutContent componentName)
                   else files)
      in \<lparr>success = True,
          data = Some (files_data files),
          error = None,
          metadata = Some (JObj [(''routeStructure'', JStr routePath),
                                 (''filesGenerated'', strings (Object_keys files))])\<rparr>)"

definition routingMasterSkillDefinition :: SkillDefinition where
  \<open>routingMasterSkillDefinition =
     \<lparr>SkillDefinition.name = ''routing_master'',
      SkillDefinition.description = ''Generates directory structure and essential files (page, layout, loading, error) for Next.js App Router.'',
      parameters = RoutingMasterSchema,
      handler = (\<lambda>rt v. Inr (routing_master_handler (RoutingMasterArgs_of v)))\<rparr>\<close>

subsection \<open>frontend/routing/search\_params\_manager.ts\<close>

text \<open>Source: \<open>src/frontend/routing/search_params_manager.ts\<close>, lines 1 to 78.\<close>

record SearchParamsManagerArgs =
  paramsToUpdate :: "(string \<times> string) list option"
  behavior :: string

definition SearchParamsManagerSchema :: zschema where
  "SearchParamsManagerSchema = ZObject
     [(''paramsToUpdate'', ZOptional (ZRecord ZString)),
      (''behavior'', ZDefault (ZEnum [''push'', ''replace'']) (JStr ''replace''))]"

definition SearchParamsManagerArgs_of :: "jsval \<Rightarrow> SearchParamsManagerArgs" where
  "SearchParamsManagerArgs_of v = SearchParamsManagerArgs.make
     (as_optional (as_record as_string) (field v ''paramsToUpdate''))
     (as_string (field v ''behavior''))"

definition search_params_manager_hookCode :: "string \<Rightarrow> string" where
  \<open>search_params_manager_hookCode = (\<lambda>behavior.
    (''import { useSearchParams, usePathname, useRouter } from 'next/navigation';\<newline>'' @
       ''import { useCallback } from 'react';\<newline>'' @
       ''\<newline>'' @
       ''export function useUpdateSearchParams() {\<newline>'' @
       ''  const router = useRouter();\<newline>'' @
       ''  const pathname = usePathname();\<newline>'' @
       ''  const searchParams = useSearchParams();\<newline>'' @
       ''\<newline>'' @
       ''  // Get a specific param\<newline>'' @
       ''  const getQuery = useCallback((name: string) => {\<newline>'' @
       ''    return searchParams.get(name);\<newline>'' @
       ''  }, [searchParams]);\<newline>'' @
       ''\<newline>'' @
       ''  // Update URL params without reloading\<newline>'' @
       ''  const setQuery = useCallback((name: string, value: string | null) => {\<newline>'' @
       ''    const params = new URLSearchParams(searchParams.toString());\<newline>'' @
       ''    \<newline>'' @
       ''    if (value === null || value === '' @ [CHR 0x27, CHR 0x27] @ '') {\<newline>'' @
       ''      params.delete(name);\<newline>'' @
       ''    } else {\<newline>'' @
       ''      params.set(name, value);\<newline>'' @
       ''    }\<newline>'' @
       ''\<newline>'' @
       ''    const queryString = params.toString();\<newline>'' @
       ''    const newUrl = queryString ? `${pathname}?${queryString}` : pathname;\<newline>'' @
       ''\<newline>'' @
       ''    router.'' @ behavior @ ''(newUrl, { scroll: false });\<newline>'' @
       ''  }, [searchParams, pathname, router]);\<newline>'' @
       ''\<newline>'' @
       ''  // Batch update multiple params\<newline>'' @
       ''  const setQueries = useCallback((updates: Record<string, string | null>) => {\<newline>'' @
       ''    const params = new URLSearchParams(searchParams.toString());\<newline>'' @
       ''    \<newline>'' @
       ''    Object.entries(updates).forEach(([name, value]) => {\<newline>'' @
       ''      if (value === null || value === '' @ [CHR 0x27, CHR 0x27] @ '') {\<newline>'' @
       ''        params.delete(name);\<newline>'' @
       ''      } else {\<newline>'' @
       ''        params.set(name, value);\<newline>'' @
       ''      }\<newline>'' @
       ''    });\<newline>'' @
       ''\<newline>'' @
       ''    const queryString = params.toString();\<newline>'' @
       ''    const newUrl = queryString ? `${pathname}?${queryString}` : pathname;\<newline>'' @
       ''\<newline>'' @
       ''    router.'' @ behavior @ ''(newUrl, { scroll: false });\<newline>'' @
       ''  }, [searchParams, pathname, router]);\<newline>'' @
       ''\<newline>'' @
       ''  return { getQuery, setQuery, setQueries, searchParams };\<newline>'' @
       ''}\<newline>''))\<close>

definition search_params_manager_handler :: "SearchParamsManagerArgs \<Rightarrow> SkillResult" where
  "search_params_manager_handler args =
     (let behavior = SearchParamsManagerArgs.behavior args;
          hookCode = search_params_manager_hookCode behavior
      in \<lparr>success = True,
          data = Some (JStr hookCode),
          error = None,
          metadata = Some (JObj [(''behavior'', JStr behavior),
                                 (''hookName'', JStr ''useUpdateSearchParams'')])\<rparr>)"

definition searchParamsManagerSkillDefinition :: SkillDefinition where
  \<open>searchParamsManagerSkillDefinition =
     \<lparr>SkillDefinition.name = ''search_params_manager'',
      SkillDefinition.description = ''Generates a secure custom hook for managing URL search parameters (filtering, sorting) in Next.js.'',
      parameters = SearchParamsManagerSchema,
      handler = (\<lambda>rt v. Inr (search_params_manager_handler (SearchParamsManagerArgs_of v)))\<rparr>\<close>

subsection \<open>frontend/routing/sitemap\_generator.ts\<close>

text \<open>Source: \<open>src/unnamed/part_005\<close>, lines 1 to 83.\<close>

record SitemapGeneratorArgs =
  baseUrl :: string
  dynamicRoutes :: "string list"

definition SitemapGeneratorSchema :: zschema where
  "SitemapGeneratorSchema = ZObject
     [(''baseUrl'', ZUrl), (''dynamicRoutes'', ZArray ZString)]"

definition SitemapGeneratorArgs_of :: "jsval \<Rightarrow> SitemapGeneratorArgs" where
  "SitemapGeneratorArgs_of v = SitemapGeneratorArgs.make
     (as_string (field v ''baseUrl''))
     (as_array as_string (field v ''dynamicRoutes''))"

definition sitemap_generator_sitemapCode :: "string \<Rightarrow> string list \<Rightarrow> string" where
  \<open>sitemap_generator_sitemapCode = (\<lambda>baseUrl dynamicRoutes.
    (''import { MetadataRoute } from 'next';\<newline>'' @
       ''\<newline>'' @
       ''export default function sitemap(): MetadataRoute.Sitemap {\<newline>'' @
       ''  const baseUrl = '' @ [CHR 0x27] @ (remove_suffix ''/'' baseUrl) @ [CHR 0x27] @ '';\<newline>'' @
       ''\<newline>'' @
       ''  // Static routes\<newline>'' @
       ''  const routes = [\<newline>'' @
       ''    '' @ [CHR 0x27, CHR 0x27] @ '',\<newline>'' @
       ''    '/about',\<newline>'' @
       ''    '/contact',\<newline>'' @
       ''    // Add more static routes here\<newline>'' @
       ''  ].map((route) => ({\<newline>'' @
       ''    url: `${baseUrl}${route}`,\<newline>'' @
       ''    lastModified: new Date(),\<newline>'' @
       ''    changeFrequency: 'daily' as const,\<newline>'' @
       ''    priority: route === '' @ [CHR 0x27, CHR 0x27] @ '' ? 1 : 0.8,\<newline>'' @
       ''  }));\<newline>'' @
       ''\<newline>'' @
       ''  // Dynamic routes placeholder - in a real app, you might fetch ids from a DB\<newline>'' @
       ''  // This demonstrates how to structure the logic\<newline>'' @
       ''  const dynamicEntries = '' @ (JSON_stringify_strings dynamicRoutes) @ ''.flatMap(prefix => {\<newline>'' @
       ''     // Example: return fetch(`${baseUrl}/api${prefix}`).then(res => res.json())...\<newline>'' @
       ''     // For now, we return a generic entry\<newline>'' @
       ''     return [\<newline>'' @
       ''       {\<newline>'' @
       ''         url: `${baseUrl}${prefix}`,\<newline>'' @
       ''         lastModified: new Date(),\<newline>'' @
       ''         changeFrequency: 'weekly' as const,\<newline>'' @
       ''         priority: 0.5,\<newline>'' @
       ''       }\<newline>'' @
       ''     ];\<newline>'' @
       ''  });\<newline>'' @
       ''\<newline>'' @
       ''  return [...routes, ...dynamicEntries];\<newline>'' @
       ''}\<newline>''))\<close>

definition sitemap_generator_robotsCode :: "string \<Rightarrow> string" where
  \<open>sitemap_generator_robotsCode = (\<lambda>baseUrl.
    (''import { MetadataRoute } from 'next';\<newline>'' @
       ''\<newline>'' @
       ''export default function robots(): MetadataRoute.Robots {\<newline>'' @
       ''  const baseUrl = '' @ [CHR 0x27] @ (remove_suffix ''/'' baseUrl) @ [CHR 0x27] @ '';\<newline>'' @
       ''  \<newline>'' @
       ''  return {\<newline>'' @
       ''    rules: {\<newline>'' @
       ''      userAgent: '*',\<newline>'' @
       ''      allow: '/',\<newline>'' @
       ''      disallow: ['/private/', '/admin/'],\<newline>'' @
       ''    },\<newline>'' @
       ''    sitemap: `${baseUrl}/sitemap.xml`,\<newline>'' @
       ''  };\<newline>'' @
       ''}\<newline>''))\<close>

definition sitemap_generator_handler :: "SitemapGeneratorArgs \<Rightarrow> SkillResult" where
  "sitemap_generator_handler args =
     (let baseUrl = SitemapGeneratorArgs.baseUrl args;
          dynamicRoutes = SitemapGeneratorArgs.dynamicRoutes args;
          sitemapCode = sitemap_generator_sitemapCode baseUrl dynamicRoutes;
          robotsCode = sitemap_generator_robotsCode baseUrl
      in \<lparr>success = True,
          data = Some (files_data [(''app/sitemap.ts'', sitemapCode), (''app/robots.ts'', robotsCode)]),
          error = None,
          metadata = Some (JObj [(''baseUrl'', JStr baseUrl),
                                 (''sitemapType'', JStr ''dynamic'')])\<rparr>)"

definition sitemapGeneratorSkillDefinition :: SkillDefinition where
  \<open>sitemapGeneratorSkillDefinition =
     \<lparr>SkillDefinition.name = ''sitemap_generator'',
      SkillDefinition.description = ''Generates dynamic sitemap.ts and robots.ts files for SEO.'',
      parameters = SitemapGeneratorSchema,
      handler = (\<lambda>rt v. Inr (sitemap_generator_handler (SitemapGeneratorArgs_of v)))\<rparr>\<close>

subsection \<open>frontend/testing/component\_test\_builder.ts\<close>

text \<open>Source: \<open>src/frontend/testing/component_test_builder.ts\<close>, lines 1 to 80.\<close>

definition typeof :: "jsval \<Rightarrow> string" where
  "typeof v =
     (case v of JUndefined \<Rightarrow> ''undefined'' | JNull \<Rightarrow> ''object'' | JBool b \<Rightarrow> ''boolean''
      | JNum q \<Rightarrow> ''number'' | JStr s \<Rightarrow> ''string'' | JArr xs \<Rightarrow> ''object'' | JObj kvs \<Rightarrow> ''object'')"

record ComponentTestBuilderArgs =
  componentName :: string
  props :: "(string \<times> jsval) list"
  testScenarios :: "string list"

definition ComponentTestBuilderSchema :: zschema where
  "ComponentTestBuilderSchema = ZObject
     [(''componentName'', ZString),
      (''props'', ZDefault (ZRecord ZAny) (JObj [])),
      (''testScenarios'',
         ZDefault (ZArray (ZEnum [''render'', ''click'', ''disabled'', ''accessibility'']))
                  (strings [''render'', ''accessibility'']))]"

definition ComponentTestBuilderArgs_of :: "jsval \<Rightarrow> ComponentTestBuilderArgs" where
  "ComponentTestBuilderArgs_of v = ComponentTestBuilderArgs.make
     (as_string (field v ''componentName''))
     (as_record (\<lambda>x. x) (field v ''props''))
     (as_array as_string (field v ''testScenarios''))"

definition formatProp :: "runtime \<Rightarrow> string \<Rightarrow> jsval \<Rightarrow> string" where
  \<open>formatProp rt = (\<lambda>key val.
    if typeof val = ''string'' then (key @ ''="'' @ (ToString rt val) @ ''"'')
    else if val = JBool True then key
    else (key @ ''={'' @ (optional_toString (JSON_stringify rt val)) @ ''}''))\<close>

definition formatProps :: "runtime \<Rightarrow> (string \<times> jsval) list \<Rightarrow> string" where
  "formatProps rt = (\<lambda>props. join (map (\<lambda>(key, val). formatProp rt key val) props) '' '')"

definition component_test_builder_imports :: "string \<Rightarrow> string" where
  \<open>component_test_builder_imports = (\<lambda>componentName.
    (''import { render, screen, fireEvent } from '@testing-library/react';\<newline>'' @
       ''import { '' @ componentName @ '' } from './'' @ componentName @ [CHR 0x27] @ '';\<newline>'' @
       ''import '@testing-library/jest-dom';''))\<close>

definition component_test_builder_test ::
  "runtime \<Rightarrow> string \<Rightarrow> (string \<times> jsval) list \<Rightarrow> string \<Rightarrow> string" where
  \<open>component_test_builder_test rt = (\<lambda>componentName props scenario.
    if scenario = ''render'' then
      (''\<newline>'' @
         ''  it('renders correctly', () => {\<newline>'' @
         ''    render(<'' @ componentName @ '' '' @ (formatProps rt props) @ '' />);\<newline>'' @
         ''    expect(screen.getByRole('button')).toBeInTheDocument(); // Adjust role as needed\<newline>'' @
         ''  });'')
    else if scenario = ''click'' then
      (''\<newline>'' @
         ''  it('handles click events', () => {\<newline>'' @
         ''    const handleClick = jest.fn();\<newline>'' @
         ''    render(<'' @ componentName @ '' '' @ (formatProps rt props) @ '' onClick={handleClick} />);\<newline>'' @
         ''    fireEvent.click(screen.getByRole('button'));\<newline>'' @
         ''    expect(handleClick).toHaveBeenCalledTimes(1);\<newline>'' @
         ''  });'')
    else if scenario = ''disabled'' then
      (''\<newline>'' @
         ''  it('is disabled when prop is passed', () => {\<newline>'' @
         ''    render(<'' @ componentName @ '' '' @ (formatProps rt props) @ '' disabled />);\<newline>'' @
         ''    expect(screen.getByRole('button')).toBeDisabled();\<newline>'' @
         ''  });'')
    else if scenario = ''accessibility'' then
      (''\<newline>'' @
         ''  it('has accessible name', () => {\<newline>'' @
         ''    render(<'' @ componentName @ '' '' @ (formatProps rt props) @ '' />);\<newline>'' @
         ''    expect(screen.getByRole('button', { name: /'' @ (if ToBoolean (property props ''label'') then ToString rt (property props ''label'') else componentName) @ ''/i })).toBeInTheDocument();\<newline>'' @
         ''  });'')
    else [])\<close>

definition component_test_builder_code :: "string \<Rightarrow> string \<Rightarrow> string \<Rightarrow> string" where
  \<open>component_test_builder_code = (\<lambda>componentName imports tests.
    (imports @ ''\<newline>'' @
       ''\<newline>'' @
       ''describe('' @ [CHR 0x27] @ componentName @ [CHR 0x27] @ '', () => {\<newline>'' @
       tests @ ''\<newline>'' @
       ''});\<newline>''))\<close>

definition component_test_builder_handler :: "runtime \<Rightarrow> ComponentTestBuilderArgs \<Rightarrow> SkillResult" where
  "component_test_builder_handler rt args =
     (let componentName = ComponentTestBuilderArgs.componentName args;
          props = ComponentTestBuilderArgs.props args;
          testScenarios = ComponentTestBuilderArgs.testScenarios args;
          imports = component_test_builder_imports componentName;
          tests = join (map (component_test_builder_test rt componentName props) testScenarios) ''\<newline>'';
          code = component_test_builder_code componentName imports tests
      in \<lparr>success = True,
          data = Some (JStr code),
          error = None,
          metadata = Some (JObj [(''library'', JStr ''react-testing-library''),
                                 (''testEnvironment'', JStr ''jsdom'')])\<rparr>)"

definition componentTestBuilderSkillDefinition :: SkillDefinition where
  \<open>componentTestBuilderSkillDefinition =
     \<lparr>SkillDefinition.name = ''component_test_builder'',
      SkillDefinition.description = ''Generates React Testing Library tests for UI components.'',
      parameters = ComponentTestBuilderSchema,
      handler = (\<lambda>rt v. Inr (component_test_builder_handler rt (ComponentTestBuilderArgs_of v)))\<rparr>\<close>

subsection \<open>frontend/testing/e2e\_frontend\_builder.ts\<close>

text \<open>Source: \<open>src/frontend/testing/e2e_frontend_builder.ts\<close>, lines 1 to 56.\<close>

record E2EStep =
  action :: string
  selector :: "string option"
  "value" :: "string option"

record E2EFrontendBuilderArgs =
  testName :: string
  startUrl :: string
  steps :: "E2EStep list"

definition E2EFrontendBuilderSchema :: zschema where
  "E2EFrontendBuilderSchema = ZObject
     [(''testName'', ZString),
      (''startUrl'', ZString),
      (''steps'', ZArray (ZObject
         [(''action'', ZEnum [''click'', ''fill'', ''check'', ''assert_url'', ''assert_text'']),
          (''selector'', ZOptional ZString),
          (''value'', ZOptional ZString)]))]"

definition E2EStep_of :: "jsval \<Rightarrow> E2EStep" where
  "E2EStep_of v = E2EStep.make
     (as_string (field v ''action''))
     (as_optional as_string (field v ''selector''))
     (as_optional as_string (field v ''value''))"

definition E2EFrontendBuilderArgs_of :: "jsval \<Rightarrow> E2EFrontendBuilderArgs" where
  "E2EFrontendBuilderArgs_of v = E2EFrontendBuilderArgs.make
     (as_string (field v ''testName''))
     (as_string (field v ''startUrl''))
     (as_array E2EStep_of (field v ''steps''))"

definition e2e_frontend_builder_step :: "E2EStep \<Rightarrow> string" where
  \<open>e2e_frontend_builder_step = (\<lambda>step.
    if E2EStep.action step = ''click'' then
      (''    await page.click('' @ [CHR 0x27] @ (optional_toString (E2EStep.selector step)) @ [CHR 0x27] @ '');'')
    else if E2EStep.action step = ''fill'' then
      (''    await page.fill('' @ [CHR 0x27] @ (optional_toString (E2EStep.selector step)) @ [CHR 0x27] @ '', '' @ [CHR 0x27] @ (optional_toString (E2EStep.value step)) @ [CHR 0x27] @ '');'')
    else if E2EStep.action step = ''check'' then
      (''    await page.check('' @ [CHR 0x27] @ (optional_toString (E2EStep.selector step)) @ [CHR 0x27] @ '');'')
    else if E2EStep.action step = ''assert_url'' then
      (''    await expect(page).toHaveURL(/'' @ (optional_toString (E2EStep.value step)) @ ''/);'')
    else if E2EStep.action step = ''assert_text'' then
      (''    await expect(page.locator('' @ [CHR 0x27] @ (optional_toString (E2EStep.selector step)) @ [CHR 0x27] @ '')).toContainText('' @ [CHR 0x27] @ (optional_toString (E2EStep.value step)) @ [CHR 0x27] @ '');'')
    else [])\<close>

definition e2e_frontend_builder_code :: "string \<Rightarrow> string \<Rightarrow> string \<Rightarrow> string" where
  \<open>e2e_frontend_builder_code = (\<lambda>testName startUrl stepsCode.
    (''import { test, expect } from '@playwright/test';\<newline>'' @
       ''\<newline>'' @
       ''test('' @ [CHR 0x27] @ testName @ [CHR 0x27] @ '', async ({ page }) => {\<newline>'' @
       ''  await page.goto('' @ [CHR 0x27] @ startUrl @ [CHR 0x27] @ '');\<newline>'' @
       ''\<newline>'' @
       stepsCode @ ''\<newline>'' @
       ''});\<newline>''))\<close>

definition e2e_frontend_builder_handler :: "E2EFrontendBuilderArgs \<Rightarrow> SkillResult" where
  "e2e_frontend_builder_handler args =
     (let testName = E2EFrontendBuilderArgs.testName args;
          startUrl = E2EFrontendBuilderArgs.startUrl args;
          steps = E2EFrontendBuilderArgs.steps args;
          stepsCode = join (map e2e_frontend_builder_step steps) ''\<newline>'';
          code = e2e_frontend_builder_code testName startUrl stepsCode
      in \<lparr>success = True,
          data = Some (JStr code),
          error = None,
          metadata = Some (JObj [(''framework'', JStr ''playwright''),
                                 (''browsers'', strings [''chromium'', ''firefox'', ''webkit''])])\<rparr>)"

definition e2eFrontendBuilderSkillDefinition :: SkillDefinition where
  \<open>e2eFrontendBuilderSkillDefinition =
     \<lparr>SkillDefinition.name = ''e2e_frontend_builder'',
      SkillDefinition.description = ''Generates Playwright E2E test scripts for user flows.'',
      parameters = E2EFrontendBuilderSchema,
      handler = (\<lambda>rt v. Inr (e2e_frontend_builder_handler (E2EFrontendBuilderArgs_of v)))\<rparr>\<close>

subsection \<open>frontend/testing/hook\_test\_generator.ts\<close>

text \<open>Source: \<open>src/frontend/testing/hook_test_generator.ts\<close>, lines 1 to 51.\<close>

record HookTestGeneratorArgs =
  hookName :: string
  initialProps :: jsval
  actions :: "string list"

definition HookTestGeneratorSchema :: zschema where
  "HookTestGeneratorSchema = ZObject
     [(''hookName'', ZString),
      (''initialProps'', ZOptional ZAny),
      (''actions'', ZDefault (ZArray ZString) (JArr []))]"

definition HookTestGeneratorArgs_of :: "jsval \<Rightarrow> HookTestGeneratorArgs" where
  "HookTestGeneratorArgs_of v = HookTestGeneratorArgs.make
     (as_string (field v ''hookName''))
     (field v ''initialProps'')
     (as_array as_string (field v ''actions''))"

definition hook_test_generator_code :: "runtime \<Rightarrow> string \<Rightarrow> jsval \<Rightarrow> string list \<Rightarrow> string" where
  \<open>hook_test_generator_code rt = (\<lambda>hookName initialProps actions.
    (''import { renderHook, act } from '@testing-library/react-hooks';\<newline>'' @
       ''import { '' @ hookName @ '' } from './'' @ hookName @ [CHR 0x27] @ '';\<newline>'' @
       ''\<newline>'' @
       ''describe('' @ [CHR 0x27] @ hookName @ [CHR 0x27] @ '', () => {\<newline>'' @
       ''  it('should initialize correctly', () => {\<newline>'' @
       ''    const { result } = renderHook(() => '' @ hookName @ ''('' @ (if (ToBoolean initialProps) then (optional_toString (JSON_stringify rt initialProps))
         else []) @
       ''));\<newline>'' @
       ''    expect(result.current).toBeDefined();\<newline>'' @
       ''    // Add specific assertions here\<newline>'' @
       ''  });\<newline>'' @
       ''\<newline>'' @
       ''  '' @ (join (map (\<lambda>action. (''\<newline>'' @
           ''  it('should handle '' @ action @ '' correctly', () => {\<newline>'' @
           ''    const { result } = renderHook(() => '' @ hookName @ ''('' @ (if (ToBoolean initialProps) then (optional_toString (JSON_stringify rt initialProps))
             else []) @
           ''));\<newline>'' @
           ''    \<newline>'' @
           ''    act(() => {\<newline>'' @
           ''      result.current.'' @ action @ ''();\<newline>'' @
           ''    });\<newline>'' @
           ''\<newline>'' @
           ''    // expect(result.current.state).toBe(...);\<newline>'' @
           ''  });'')) actions) ''\<newline>'') @
       ''\<newline>'' @
       ''});\<newline>''))\<close>

definition hook_test_generator_handler :: "runtime \<Rightarrow> HookTestGeneratorArgs \<Rightarrow> SkillResult" where
  "hook_test_generator_handler rt args =
     (let hookName = HookTestGeneratorArgs.hookName args;
          initialProps = HookTestGeneratorArgs.initialProps args;
          actions = HookTestGeneratorArgs.actions args;
          code = hook_test_generator_code rt hookName initialProps actions
      in \<lparr>success = True,
          data = Some (JStr code),
          error = None,
          metadata = Some (JObj [(''library'', JStr ''react-testing-library-hooks (or v18 renderHook)''),
                                 (''note'', JStr ''If using React 18+, import renderHook from @testing-library/react'')])\<rparr>)"

definition hookTestGeneratorSkillDefinition :: SkillDefinition where
  \<open>hookTestGeneratorSkillDefinition =
     \<lparr>SkillDefinition.name = ''hook_test_generator'',
      SkillDefinition.description = ''Generates unit tests for custom React hooks.'',
      parameters = HookTestGeneratorSchema,
      handler = (\<lambda>rt v. Inr (hook_test_generator_handler rt (HookTestGeneratorArgs_of v)))\<rparr>\<close>

subsection \<open>frontend/ui/ai\_copywriter.ts\<close>

text \<open>Source: \<open>src/unnamed/part_004\<close>, lines 600 to 659.\<close>

record AiCopywriterArgs =
  componentContext :: string
  targetAudience :: string

definition AiCopywriterSchema :: zschema where
  "AiCopywriterSchema = ZObject
     [(''componentContext'', ZString),
      (''targetAudience'', ZDefault ZString (JStr ''General''))]"

definition AiCopywriterArgs_of :: "jsval \<Rightarrow> AiCopywriterArgs" where
  "AiCopywriterArgs_of v = AiCopywriterArgs.make
     (as_string (field v ''componentContext''))
     (as_string (field v ''targetAudience''))"

definition ai_copywriter_copy :: "string \<Rightarrow> string \<Rightarrow> string \<times> string \<times> string" where
  \<comment> \<open>title, description and call to action\<close>
  \<open>ai_copywriter_copy = (\<lambda>componentContext targetAudience.
     if String_includes (toLowerCase componentContext) ''empty'' then
       (if String_includes targetAudience ''Gen Z''
        then ((''Nothing to see here... yet! '' @ [CHR 0xF0, CHR 0x9F, CHR 0x91, CHR 0x80]),
              ''Start your journey by adding your first item. It's gonna be epic.'',
              (''Let's Go '' @ [CHR 0xF0, CHR 0x9F, CHR 0x9A, CHR 0x80]))
        else (''No Data Available'',
              ''It looks like you haven't created any records yet. Get started by clicking the button below.'',
              ''Create New''))
     else if String_includes (toLowerCase componentContext) ''hero'' then
       (if String_includes targetAudience ''Medical''
        then (''Advanced Care for Modern Practice'',
              ''Streamline your veterinary operations with our state-of-the-art management suite.'',
              ''Book Demo'')
        else (''Supercharge Your Workflow'',
              ''The all-in-one platform to manage your business efficiently and effectively.'',
              ''Start Free Trial''))
     else (''Welcome'',
           ''Please interact with the application.'',
           ''Click here''))\<close>

definition ai_copywriter_handler :: "AiCopywriterArgs \<Rightarrow> SkillResult" where
  "ai_copywriter_handler args =
     (let componentContext = AiCopywriterArgs.componentContext args;
          targetAudience = AiCopywriterArgs.targetAudience args
      in case ai_copywriter_copy componentContext targetAudience of
           (title, text, cta) \<Rightarrow>
             \<lparr>success = True,
              data = Some (JObj [(''title'', JStr title), (''description'', JStr text), (''cta'', JStr cta)]),
              error = None,
              metadata = Some (JObj [(''tone'', JStr targetAudience),
                                     (''context'', JStr componentContext)])\<rparr>)"

definition aiCopywriterSkillDefinition :: SkillDefinition where
  \<open>aiCopywriterSkillDefinition =
     \<lparr>SkillDefinition.name = ''ai_copywriter'',
      SkillDefinition.description = ''Generates engaging, audience-tailored UI copy for placeholders and empty states.'',
      parameters = AiCopywriterSchema,
      handler = (\<lambda>rt v. Inr (ai_copywriter_handler (AiCopywriterArgs_of v)))\<rparr>\<close>

subsection \<open>frontend/ui/feedback\_system.ts\<close>

text \<open>Source: \<open>src/frontend/ui/feedback_system.ts\<close>, lines 1 to 64.\<close>

record FeedbackSystemArgs =
  triggerAction :: string
  successMessage :: string
  errorMessage :: string

definition FeedbackSystemSchema :: zschema where
  "FeedbackSystemSchema = ZObject
     [(''triggerAction'', ZString), (''successMessage'', ZString), (''errorMessage'', ZString)]"

definition FeedbackSystemArgs_of :: "jsval \<Rightarrow> FeedbackSystemArgs" where
  "FeedbackSystemArgs_of v = FeedbackSystemArgs.make
     (as_string (field v ''triggerAction''))
     (as_string (field v ''successMessage''))
     (as_string (field v ''errorMessage''))"

definition feedback_system_wrappedHandlerCode :: "string \<Rightarrow> string \<Rightarrow> string \<Rightarrow> string" where
  \<open>feedback_system_wrappedHandlerCode = (\<lambda>triggerAction successMessage errorMessage.
    (''\<newline>'' @
       ''import { toast } from "sonner";\<newline>'' @
       ''\<newline>'' @
       ''const '' @ triggerAction @ '' = async () => {\<newline>'' @
       ''  try {\<newline>'' @
       ''    // ... await action()\<newline>'' @
       ''    toast.success("'' @ successMessage @ ''");\<newline>'' @
       ''  } catch (error) {\<newline>'' @
       ''    console.error(error);\<newline>'' @
       ''    toast.error("'' @ errorMessage @ ''", {\<newline>'' @
       ''      description: "Please check your connection and try again.",\<newline>'' @
       ''    });\<newline>'' @
       ''  }\<newline>'' @
       ''};\<newline>''))\<close>

definition feedback_system_skeletonLoader :: "string \<Rightarrow> string" where
  \<open>feedback_system_skeletonLoader = (\<lambda>triggerAction.
    (''\<newline>'' @
       ''import { Skeleton } from "@/components/ui/skeleton";\<newline>'' @
       ''\<newline>'' @
       ''export function Loading'' @ ((\<lambda>s. replace_first s ''handle'' []) triggerAction) @ ''() {\<newline>'' @
       ''  return (\<newline>'' @
       ''    <div className="flex flex-col space-y-3">\<newline>'' @
       ''      <Skeleton className="h-[125px] w-[250px] rounded-xl" />\<newline>'' @
       ''      <div className="space-y-2">\<newline>'' @
       ''        <Skeleton className="h-4 w-[250px]" />\<newline>'' @
       ''        <Skeleton className="h-4 w-[200px]" />\<newline>'' @
       ''      </div>\<newline>'' @
       ''    </div>\<newline>'' @
       ''  )\<newline>'' @
       ''}\<newline>''))\<close>

definition feedback_system_handler :: "FeedbackSystemArgs \<Rightarrow> SkillResult" where
  "feedback_system_handler args =
     (let triggerAction = FeedbackSystemArgs.triggerAction args;
          successMessage = FeedbackSystemArgs.successMessage args;
          errorMessage = FeedbackSystemArgs.errorMessage args;
          wrappedHandlerCode = feedback_system_wrappedHandlerCode triggerAction successMessage errorMessage;
          skeletonLoader = feedback_system_skeletonLoader triggerAction
      in \<lparr>success = True,
          data = Some (JObj [(''handler'', JStr wrappedHandlerCode), (''skeleton'', JStr skeletonLoader)]),
          error = None,
          metadata = Some (JObj [(''library'', JStr ''sonner + shadcn/skeleton''),
                                 (''uxOptimizations'', strings [''error-handling'', ''loading-state''])])\<rparr>)"

definition feedbackSystemSkillDefinition :: SkillDefinition where
  \<open>feedbackSystemSkillDefinition =
     \<lparr>SkillDefinition.name = ''generate_feedback_system'',
      SkillDefinition.description = ''Integrates feedback loops (Toasts) and loading states (Skeletons) for better UX.'',
      parameters = FeedbackSystemSchema,
      handler = (\<lambda>rt v. Inr (feedback_system_handler (FeedbackSystemArgs_of v)))\<rparr>\<close>

subsection \<open>frontend/ui/responsive\_ui.ts\<close>

text \<open>Source: \<open>src/unnamed/part_004\<close>, lines 317 to 349.\<close>

record ResponsiveArgs =
  componentDescription :: string
  constraints :: "string list option"

definition ResponsiveSchema :: zschema where
  "ResponsiveSchema = ZObject
     [(''componentDescription'', ZString), (''constraints'', ZOptional (ZArray ZString))]"

definition ResponsiveArgs_of :: "jsval \<Rightarrow> ResponsiveArgs" where
  "ResponsiveArgs_of v = ResponsiveArgs.make
     (as_string (field v ''componentDescription''))
     (as_optional (as_array as_string) (field v ''constraints''))"

definition responsive_result :: "string \<Rightarrow> string" where
  \<open>responsive_result = (\<lambda>componentDescription.
    (''Estructura generada con estrategia Mobile-First para: '' @ componentDescription @ ''.\<newline>'' @
       ''Se aplicaron breakpoints 'sm' y 'md' para asegurar los 60fps y legibilidad en pantallas chicas.\<newline>'' @
       ''Clases sugeridas: 'grid grid-cols-1 md:grid-cols-12 gap-4 p-4'' @ [CHR 0x27]))\<close>

definition responsiveHandler :: "ResponsiveArgs \<Rightarrow> SkillResult" where
  "responsiveHandler args =
     (let componentDescription = ResponsiveArgs.componentDescription args;
          result = responsive_result componentDescription
      in \<lparr>success = True,
          data = Some (JStr result),
          error = None,
          metadata = Some (JObj [(''strategy'', JStr ''mobile-first''),
                                 (''breakpoints'', strings [''sm'', ''md''])])\<rparr>)"

definition responsiveSkillDefinition :: SkillDefinition where
  \<open>responsiveSkillDefinition =
     \<lparr>SkillDefinition.name = ''generate_responsive_layout'',
      SkillDefinition.description = (''Crea layouts modernos con Tailwind asegurando adaptabilidad en m'' @ [CHR 0xC3, CHR 0xB3] @ ''viles y pantallas peque'' @ [CHR 0xC3, CHR 0xB1] @ ''as usando Shadcn.''),
      parameters = ResponsiveSchema,
      handler = (\<lambda>rt v. Inr (responsiveHandler (ResponsiveArgs_of v)))\<rparr>\<close>

subsection \<open>frontend/ui/shadcn\_expert.ts\<close>

text \<open>Source: \<open>src/frontend/ui/shadcn_expert.ts\<close>, lines 1 to 266.\<close>

fun remove_all :: "string list \<Rightarrow> string \<Rightarrow> string" where
  \<comment> \<open>\<open>s.replace(/p1|p2/g, '')\<close> for non-empty literal texts: every occurrence, from left to right\<close>
  "remove_all ps [] = []"
| "remove_all ps (c # cs) =
     (case filter (startsWith (c # cs)) ps of
        [] \<Rightarrow> c # remove_all ps cs
      | p # _ \<Rightarrow> remove_all ps (drop (length p - 1) cs))"

record ShadcnArgs =
  componentType :: string
  dataFields :: "string list"
  componentName :: "string option"
  includeActions :: bool
  darkMode :: bool

definition ShadcnSchema :: zschema where
  "ShadcnSchema = ZObject
     [(''componentType'', ZEnum [''card'', ''form'', ''data-table'', ''modal'']),
      (''dataFields'', ZArray ZString),
      (''componentName'', ZOptional ZString),
      (''includeActions'', ZDefault ZBoolean (JBool True)),
      (''darkMode'', ZDefault ZBoolean (JBool True))]"

definition ShadcnArgs_of :: "jsval \<Rightarrow> ShadcnArgs" where
  "ShadcnArgs_of v = ShadcnArgs.make
     (as_string (field v ''componentType''))
     (as_array as_string (field v ''dataFields''))
     (as_optional as_string (field v ''componentName''))
     (as_boolean (field v ''includeActions''))
     (as_boolean (field v ''darkMode''))"

definition shadcn_name :: "string \<Rightarrow> string option \<Rightarrow> string" where
  \<open>shadcn_name = (\<lambda>componentType componentName.
     if truthy_optional componentName then the componentName
     else (''Generated'' @ ((toUpperCase (charAt componentType 0)) @ (slice componentType 1))))\<close>

definition generateCard_fieldItem :: "string \<Rightarrow> string" where
  \<open>generateCard_fieldItem = (\<lambda>f.
    (''\<newline>'' @
       ''          <div className="flex justify-between">\<newline>'' @
       ''            <span className="text-muted-foreground">'' @ f @ ''</span>\<newline>'' @
       ''            <span className="font-medium">{data.'' @ (remove_whitespace (toLowerCase f)) @ ''}</span>\<newline>'' @
       ''          </div>''))\<close>

definition generateCard_code :: "string \<Rightarrow> string list \<Rightarrow> bool \<Rightarrow> bool \<Rightarrow> string \<Rightarrow> string" where
  \<open>generateCard_code = (\<lambda>name fields includeActions darkMode fieldItems.
    (''import { Card, CardContent, CardDescription, CardFooter, CardHeader, CardTitle } from "@/components/ui/card";\<newline>'' @
       ''import { Button } from "@/components/ui/button";\<newline>'' @
       ''import { Badge } from "@/components/ui/badge";\<newline>'' @
       (if includeActions then ''import { Edit, Trash2 } from "lucide-react";''
         else []) @
       ''\<newline>'' @
       ''\<newline>'' @
       ''interface '' @ name @ ''Props {\<newline>'' @
       ''  data: {\<newline>'' @
       ''    '' @ (join (map (\<lambda>f. ((remove_whitespace (toLowerCase f)) @ '': string;'')) fields) (''\<newline>'' @ ''    '')) @ ''\<newline>'' @
       ''  };\<newline>'' @
       ''  '' @ (if includeActions then (''onEdit?: () => void;\<newline>'' @ ''  onDelete?: () => void;'')
         else []) @
       ''\<newline>'' @
       ''}\<newline>'' @
       ''\<newline>'' @
       ''export function '' @ name @ ''({ data'' @ (if includeActions then '', onEdit, onDelete''
         else []) @
       '' }: '' @ name @ ''Props) {\<newline>'' @
       ''  return (\<newline>'' @
       ''    <Card className="'' @ (if darkMode then ''bg-card hover:bg-accent/50 transition-colors''
         else []) @
       ''">\<newline>'' @
       ''      <CardHeader>\<newline>'' @
       ''        <CardTitle className="flex items-center justify-between">\<newline>'' @
       ''          <span>{data.'' @ (case fields of [] \<Rightarrow> ''title'' | f # _ \<Rightarrow> (if remove_whitespace (toLowerCase f) \<noteq> [] then remove_whitespace (toLowerCase f) else ''title'')) @ ''}</span>\<newline>'' @
       ''          <Badge variant="secondary">Active</Badge>\<newline>'' @
       ''        </CardTitle>\<newline>'' @
       ''        <CardDescription>Card description</CardDescription>\<newline>'' @
       ''      </CardHeader>\<newline>'' @
       ''      <CardContent className="space-y-2">\<newline>'' @
       ''        '' @ fieldItems @ ''\<newline>'' @
       ''      </CardContent>\<newline>'' @
       ''      '' @ (if includeActions then (''<CardFooter className="flex justify-end gap-2">\<newline>'' @
         ''        <Button variant="outline" size="sm" onClick={onEdit}>\<newline>'' @
         ''          <Edit className="h-4 w-4 mr-1" /> Edit\<newline>'' @
         ''        </Button>\<newline>'' @
         ''        <Button variant="destructive" size="sm" onClick={onDelete}>\<newline>'' @
         ''          <Trash2 className="h-4 w-4 mr-1" /> Delete\<newline>'' @
         ''        </Button>\<newline>'' @
         ''      </CardFooter>'')
         else []) @
       ''\<newline>'' @
       ''    </Card>\<newline>'' @
       ''  );\<newline>'' @
       ''}''))\<close>

definition generateCard :: "string \<Rightarrow> string list \<Rightarrow> bool \<Rightarrow> bool \<Rightarrow> string" where
  "generateCard = (\<lambda>name fields includeActions darkMode.
     let fieldItems = join (map generateCard_fieldItem fields) ''\<newline>''
     in generateCard_code name fields includeActions darkMode fieldItems)"

definition generateDataTable_column :: "string \<Rightarrow> string" where
  \<open>generateDataTable_column = (\<lambda>f.
    (''\<newline>'' @
       ''  {\<newline>'' @
       ''    accessorKey: "'' @ (remove_whitespace (toLowerCase f)) @ ''",\<newline>'' @
       ''    header: ({ column }) => (\<newline>'' @
       ''      <Button variant="ghost" onClick={() => column.toggleSorting(column.getIsSorted() === "asc")}>\<newline>'' @
       ''        '' @ f @ ''\<newline>'' @
       ''        <ArrowUpDown className="ml-2 h-4 w-4" />\<newline>'' @
       ''      </Button>\<newline>'' @
       ''    ),\<newline>'' @
       ''  },''))\<close>

definition generateDataTable_code :: "string \<Rightarrow> string list \<Rightarrow> bool \<Rightarrow> string \<Rightarrow> string" where
  \<open>generateDataTable_code = (\<lambda>name fields includeActions columns.
    (''import { ColumnDef } from "@tanstack/react-table";\<newline>'' @
       ''import { Button } from "@/components/ui/button";\<newline>'' @
       ''import { ArrowUpDown, MoreHorizontal } from "lucide-react";\<newline>'' @
       ''import {\<newline>'' @
       ''  DropdownMenu,\<newline>'' @
       ''  DropdownMenuContent,\<newline>'' @
       ''  DropdownMenuItem,\<newline>'' @
       ''  DropdownMenuTrigger,\<newline>'' @
       ''} from "@/components/ui/dropdown-menu";\<newline>'' @
       ''\<newline>'' @
       ''export type '' @ name @ ''Data = {\<newline>'' @
       ''  id: string;\<newline>'' @
       ''  '' @ (join (map (\<lambda>f. ((remove_whitespace (toLowerCase f)) @ '': string;'')) fields) (''\<newline>'' @ ''  '')) @ ''\<newline>'' @
       ''};\<newline>'' @
       ''\<newline>'' @
       ''export const '' @ (toLowerCase name) @ ''Columns: ColumnDef<'' @ name @ ''Data>[] = [\<newline>'' @
       ''  '' @ columns @ ''\<newline>'' @
       ''  '' @ (if includeActions then (''{\<newline>'' @
         ''    id: "actions",\<newline>'' @
         ''    cell: ({ row }) => {\<newline>'' @
         ''      const item = row.original;\<newline>'' @
         ''      return (\<newline>'' @
         ''        <DropdownMenu>\<newline>'' @
         ''          <DropdownMenuTrigger asChild>\<newline>'' @
         ''            <Button variant="ghost" className="h-8 w-8 p-0">\<newline>'' @
         ''              <MoreHorizontal className="h-4 w-4" />\<newline>'' @
         ''            </Button>\<newline>'' @
         ''          </DropdownMenuTrigger>\<newline>'' @
         ''          <DropdownMenuContent align="end">\<newline>'' @
         ''            <DropdownMenuItem onClick={() => navigator.clipboard.writeText(item.id)}>\<newline>'' @
         ''              Copy ID\<newline>'' @
         ''            </DropdownMenuItem>\<newline>'' @
         ''            <DropdownMenuItem>Edit</DropdownMenuItem>\<newline>'' @
         ''            <DropdownMenuItem className="text-destructive">Delete</DropdownMenuItem>\<newline>'' @
         ''          </DropdownMenuContent>\<newline>'' @
         ''        </DropdownMenu>\<newline>'' @
         ''      );\<newline>'' @
         ''    },\<newline>'' @
         ''  },'')
         else []) @
       ''\<newline>'' @
       ''];''))\<close>

definition generateDataTable :: "string \<Rightarrow> string list \<Rightarrow> bool \<Rightarrow> string" where
  "generateDataTable = (\<lambda>name fields includeActions.
     let columns = join (map generateDataTable_column fields) []
     in generateDataTable_code name fields includeActions columns)"

definition generateModal_formField :: "string \<Rightarrow> string" where
  \<open>generateModal_formField = (\<lambda>f.
    (''\<newline>'' @
       ''        <div className="grid gap-2">\<newline>'' @
       ''          <Label htmlFor="'' @ (remove_whitespace (toLowerCase f)) @ ''">'' @ f @ ''</Label>\<newline>'' @
       ''          <Input id="'' @ (remove_whitespace (toLowerCase f)) @ ''" placeholder="Enter '' @ (toLowerCase f) @ ''" />\<newline>'' @
       ''        </div>''))\<close>

definition generateModal_code :: "string \<Rightarrow> string \<Rightarrow> string" where
  \<open>generateModal_code = (\<lambda>name formFields.
    (''import { Dialog, DialogContent, DialogDescription, DialogFooter, DialogHeader, DialogTitle, DialogTrigger } from "@/components/ui/dialog";\<newline>'' @
       ''import { Button } from "@/components/ui/button";\<newline>'' @
       ''import { Input } from "@/components/ui/input";\<newline>'' @
       ''import { Label } from "@/components/ui/label";\<newline>'' @
       ''import { useState } from "react";\<newline>'' @
       ''\<newline>'' @
       ''interface '' @ name @ ''Props {\<newline>'' @
       ''  trigger?: React.ReactNode;\<newline>'' @
       ''  onSubmit?: (data: Record<string, string>) => void;\<newline>'' @
       ''}\<newline>'' @
       ''\<newline>'' @
       ''export function '' @ name @ ''({ trigger, onSubmit }: '' @ name @ ''Props) {\<newline>'' @
       ''  const [open, setOpen] = useState(false);\<newline>'' @
       ''\<newline>'' @
       ''  const handleSubmit = (e: React.FormEvent) => {\<newline>'' @
       ''    e.preventDefault();\<newline>'' @
       ''    const formData = new FormData(e.target as HTMLFormElement);\<newline>'' @
       ''    const data = Object.fromEntries(formData);\<newline>'' @
       ''    onSubmit?.(data as Record<string, string>);\<newline>'' @
       ''    setOpen(false);\<newline>'' @
       ''  };\<newline>'' @
       ''\<newline>'' @
       ''  return (\<newline>'' @
       ''    <Dialog open={open} onOpenChange={setOpen}>\<newline>'' @
       ''      <DialogTrigger asChild>\<newline>'' @
       ''        {trigger || <Button>Open</Button>}\<newline>'' @
       ''      </DialogTrigger>\<newline>'' @
       ''      <DialogContent className="sm:max-w-[425px]">\<newline>'' @
       ''        <form onSubmit={handleSubmit}>\<newline>'' @
       ''          <DialogHeader>\<newline>'' @
       ''            <DialogTitle>'' @ (remove_all [''Modal'', ''Dialog''] name) @ ''</DialogTitle>\<newline>'' @
       ''            <DialogDescription>\<newline>'' @
       ''              Fill in the details below and click save when you're done.\<newline>'' @
       ''            </DialogDescription>\<newline>'' @
       ''          </DialogHeader>\<newline>'' @
       ''          <div className="grid gap-4 py-4">\<newline>'' @
       ''            '' @ formFields @ ''\<newline>'' @
       ''          </div>\<newline>'' @
       ''          <DialogFooter>\<newline>'' @
       ''            <Button type="button" variant="outline" onClick={() => setOpen(false)}>\<newline>'' @
       ''              Cancel\<newline>'' @
       ''            </Button>\<newline>'' @
       ''            <Button type="submit">Save</Button>\<newline>'' @
       ''          </DialogFooter>\<newline>'' @
       ''        </form>\<newline>'' @
       ''      </DialogContent>\<newline>'' @
       ''    </Dialog>\<newline>'' @
       ''  );\<newline>'' @
       ''}''))\<close>

definition generateModal :: "string \<Rightarrow> string list \<Rightarrow> string" where
  "generateModal = (\<lambda>name fields.
     let formFields = join (map generateModal_formField fields) []
     in generateModal_code name formFields)"

definition generateForm_formField :: "string \<Rightarrow> string" where
  \<open>generateForm_formField = (\<lambda>f.
    (''\<newline>'' @
       ''        <FormField\<newline>'' @
       ''          control={form.control}\<newline>'' @
       ''          name="'' @ (remove_whitespace (toLowerCase f)) @ ''"\<newline>'' @
       ''          render={({ field }) => (\<newline>'' @
       ''            <FormItem>\<newline>'' @
       ''              <FormLabel>'' @ f @ ''</FormLabel>\<newline>'' @
       ''              <FormControl>\<newline>'' @
       ''                <Input placeholder="'' @ f @ ''" {...field} />\<newline>'' @
       ''              </FormControl>\<newline>'' @
       ''              <FormMessage />\<newline>'' @
       ''            </FormItem>\<newline>'' @
       ''          )}\<newline>'' @
       ''        />''))\<close>

definition generateForm_zodField :: "string \<Rightarrow> string" where
  \<open>generateForm_zodField = (\<lambda>f.
    (''  '' @ (remove_whitespace (toLowerCase f)) @ '': z.string().min(1, "'' @ f @ '' is required"),''))\<close>

definition generateForm_code :: "string \<Rightarrow> string list \<Rightarrow> string \<Rightarrow> string \<Rightarrow> string" where
  \<open>generateForm_code = (\<lambda>name fields formFields zodFields.
    (''import { zodResolver } from "@hookform/resolvers/zod";\<newline>'' @
       ''import { useForm } from "react-hook-form";\<newline>'' @
       ''import { z } from "zod";\<newline>'' @
       ''import { Button } from "@/components/ui/button";\<newline>'' @
       ''import { Form, FormControl, FormField, FormItem, FormLabel, FormMessage } from "@/components/ui/form";\<newline>'' @
       ''import { Input } from "@/components/ui/input";\<newline>'' @
       ''\<newline>'' @
       ''const formSchema = z.object({\<newline>'' @
       zodFields @ ''\<newline>'' @
       ''});\<newline>'' @
       ''\<newline>'' @
       ''type FormValues = z.infer<typeof formSchema>;\<newline>'' @
       ''\<newline>'' @
       ''interface '' @ name @ ''Props {\<newline>'' @
       ''  onSubmit: (values: FormValues) => void;\<newline>'' @
       ''  defaultValues?: Partial<FormValues>;\<newline>'' @
       ''  isLoading?: boolean;\<newline>'' @
       ''}\<newline>'' @
       ''\<newline>'' @
       ''export function '' @ name @ ''({ onSubmit, defaultValues, isLoading }: '' @ name @ ''Props) {\<newline>'' @
       ''  const form = useForm<FormValues>({\<newline>'' @
       ''    resolver: zodResolver(formSchema),\<newline>'' @
       ''    defaultValues: defaultValues || {\<newline>'' @
       ''      '' @ (join (map (\<lambda>f. ((remove_whitespace (toLowerCase f)) @ '': ""'')) fields) ('',\<newline>'' @ ''      '')) @ ''\<newline>'' @
       ''    },\<newline>'' @
       ''  });\<newline>'' @
       ''\<newline>'' @
       ''  return (\<newline>'' @
       ''    <Form {...form}>\<newline>'' @
       ''      <form onSubmit={form.handleSubmit(onSubmit)} className="space-y-4">\<newline>'' @
       ''        '' @ formFields @ ''\<newline>'' @
       ''        <Button type="submit" disabled={isLoading} className="w-full">\<newline>'' @
       ''          {isLoading ? "Saving..." : "Submit"}\<newline>'' @
       ''        </Button>\<newline>'' @
       ''      </form>\<newline>'' @
       ''    </Form>\<newline>'' @
       ''  );\<newline>'' @
       ''}''))\<close>

definition generateForm :: "string \<Rightarrow> string list \<Rightarrow> string" where
  "generateForm = (\<lambda>name fields.
     let formFields = join (map generateForm_formField fields) [];
         zodFields = join (map generateForm_zodField fields) ''\<newline>''
     in generateForm_code name fields formFields zodFields)"

definition shadcn_code :: "string \<Rightarrow> string \<Rightarrow> string list \<Rightarrow> bool \<Rightarrow> bool \<Rightarrow> string" where
  \<comment> \<open>the \<open>switch\<close> on the component type; \<open>code\<close> starts as the empty string\<close>
  "shadcn_code = (\<lambda>componentType name dataFields includeActions darkMode.
     if componentType = ''card'' then generateCard name dataFields includeActions darkMode
     else if componentType = ''data-table'' then generateDataTable name dataFields includeActions
     else if componentType = ''modal'' then generateModal name dataFields
     else if componentType = ''form'' then generateForm name dataFields
     else [])"

definition shadcnHandler :: "ShadcnArgs \<Rightarrow> SkillResult" where
  "shadcnHandler args =
     (let componentType = ShadcnArgs.componentType args;
          dataFields = ShadcnArgs.dataFields args;
          componentName = ShadcnArgs.componentName args;
          includeActions = ShadcnArgs.includeActions args;
          darkMode = ShadcnArgs.darkMode args;
          name = shadcn_name componentType componentName;
          code = shadcn_code componentType name dataFields includeActions darkMode
      in \<lparr>success = True,
          data = Some (JStr code),
          error = None,
          metadata = Some (JObj [(''style'', JStr ''shadcn/ui''),
                                 (''component'', JStr componentType),
                                 (''generatedName'', JStr name)])\<rparr>)"

definition shadcnSkillDefinition :: SkillDefinition where
  \<open>shadcnSkillDefinition =
     \<lparr>SkillDefinition.name = ''apply_shadcn_style'',
      SkillDefinition.description = ''Generates fully functional Shadcn UI components (Cards, Dialogs, DataTables, Forms) with dark mode support and actions.'',
      parameters = ShadcnSchema,
      handler = (\<lambda>rt v. Inr (shadcnHandler (ShadcnArgs_of v)))\<rparr>\<close>

subsection \<open>frontend/shadcn\_expert.ts (the earlier module of the same name)\<close>

text \<open>Source: \<open>src/frontend/ui/ui_polish.ts\<close>, lines 46 to 75.\<close>

text \<open>
  The sources hold a second module that exports a \<open>shadcnSkillDefinition\<close> with the same skill
  name; the index of the frontend skills imports the one above (\<open>./ui/shadcn_expert\<close>).
\<close>

record ShadcnPlaceholderArgs =
  componentType :: string
  dataFields :: "string list"

definition ShadcnPlaceholderSchema :: zschema where
  "ShadcnPlaceholderSchema = ZObject
     [(''componentType'', ZEnum [''card'', ''form'', ''data-table'', ''modal'']),
      (''dataFields'', ZArray ZString)]"

definition ShadcnPlaceholderArgs_of :: "jsval \<Rightarrow> ShadcnPlaceholderArgs" where
  "ShadcnPlaceholderArgs_of v = ShadcnPlaceholderArgs.make
     (as_string (field v ''componentType''))
     (as_array as_string (field v ''dataFields''))"

definition shadcn_placeholder_codeSnippet :: "string \<Rightarrow> string list \<Rightarrow> string" where
  \<open>shadcn_placeholder_codeSnippet = (\<lambda>componentType dataFields.
    (''// Shadcn '' @ componentType @ '' component\<newline>'' @
       ''// Fields: '' @ (join dataFields '', '') @ ''\<newline>'' @
       ''// Implementation pending actual AST manipulation''))\<close>

definition shadcn_placeholder_handler :: "ShadcnPlaceholderArgs \<Rightarrow> SkillResult" where
  "shadcn_placeholder_handler args =
     (let componentType = ShadcnPlaceholderArgs.componentType args;
          dataFields = ShadcnPlaceholderArgs.dataFields args;
          codeSnippet = shadcn_placeholder_codeSnippet componentType dataFields
      in \<lparr>success = True,
          data = Some (JStr codeSnippet),
          error = None,
          metadata = Some (JObj [(''style'', JStr ''shadcn/ui''),
                                 (''component'', JStr componentType)])\<rparr>)"

definition shadcnPlaceholderSkillDefinition :: SkillDefinition where
  \<open>shadcnPlaceholderSkillDefinition =
     \<lparr>SkillDefinition.name = ''apply_shadcn_style'',
      SkillDefinition.description = (''Aplica componentes de Shadcn UI (Cards, Dialogs, Tables) siguiendo el sistema de dise'' @ [CHR 0xC3, CHR 0xB1] @ ''o moderno y dark mode.''),
      parameters = ShadcnPlaceholderSchema,
      handler = (\<lambda>rt v. Inr (shadcn_placeholder_handler (ShadcnPlaceholderArgs_of v)))\<rparr>\<close>

subsection \<open>frontend/ui/skeleton\_loader.ts\<close>

text \<open>Source: \<open>src/unnamed/part_004\<close>, lines 350 to 438.\<close>

definition valid_array_length :: "number \<Rightarrow> bool" where
  \<comment> \<open>\<open>Array(n)\<close> of a number raises a \<open>RangeError\<close> unless \<open>n\<close> is an integer from 0 to \<open>2^32 - 1\<close>\<close>
  "valid_array_length n = (is_integer n \<and> 0 \<le> n \<and> n < 2 ^ 32)"

definition Array_fill :: "number \<Rightarrow> 'a \<Rightarrow> 'a list" where
  \<comment> \<open>\<open>Array(n).fill(x)\<close> for a valid length\<close>
  "Array_fill n x = replicate (nat \<lfloor>n\<rfloor>) x"

record SkeletonLoaderArgs =
  componentName :: string
  layout :: string
  itemCount :: number
  animated :: bool

definition SkeletonLoaderSchema :: zschema where
  "SkeletonLoaderSchema = ZObject
     [(''componentName'', ZString),
      (''layout'', ZDefault (ZEnum [''card'', ''table'', ''list'', ''profile'', ''form'']) (JStr ''card'')),
      (''itemCount'', ZDefault ZNumber (JNum 3)),
      (''animated'', ZDefault ZBoolean (JBool True))]"

definition SkeletonLoaderArgs_of :: "jsval \<Rightarrow> SkeletonLoaderArgs" where
  "SkeletonLoaderArgs_of v = SkeletonLoaderArgs.make
     (as_string (field v ''componentName''))
     (as_string (field v ''layout''))
     (as_number (field v ''itemCount''))
     (as_boolean (field v ''animated''))"

definition skeleton_loader_layouts :: "number \<Rightarrow> string \<Rightarrow> (string \<times> string) list" where
  \<open>skeleton_loader_layouts = (\<lambda>itemCount animationClass.
    [(''card'',
      (''<div className="rounded-lg border p-4 space-y-3">\<newline>'' @
         ''      <div className="h-4 w-3/4 bg-muted rounded '' @ animationClass @ ''" />\<newline>'' @
         ''      <div className="h-3 w-1/2 bg-muted rounded '' @ animationClass @ ''" />\<newline>'' @
         ''      <div className="h-20 bg-muted rounded '' @ animationClass @ ''" />\<newline>'' @
         ''    </div>'')),
     (''table'',
      (''<div className="space-y-2">\<newline>'' @
         ''      <div className="h-10 bg-muted rounded '' @ animationClass @ ''" />\<newline>'' @
         ''      '' @ (join (Array_fill itemCount (''<div className="h-12 bg-muted/50 rounded '' @ animationClass @ ''" />'')) (''\<newline>'' @ ''      '')) @ ''\<newline>'' @
         ''    </div>'')),
     (''list'',
      (''<div className="space-y-3">\<newline>'' @
         ''      '' @ (join (Array_fill itemCount (''<div className="flex gap-3">\<newline>'' @
             ''        <div className="h-10 w-10 rounded-full bg-muted '' @ animationClass @ ''" />\<newline>'' @
             ''        <div className="flex-1 space-y-2">\<newline>'' @
             ''          <div className="h-4 w-3/4 bg-muted rounded '' @ animationClass @ ''" />\<newline>'' @
             ''          <div className="h-3 w-1/2 bg-muted rounded '' @ animationClass @ ''" />\<newline>'' @
             ''        </div>\<newline>'' @
             ''      </div>'')) (''\<newline>'' @ ''      '')) @
         ''\<newline>'' @
         ''    </div>'')),
     (''profile'',
      (''<div className="flex flex-col items-center gap-4">\<newline>'' @
         ''      <div className="h-24 w-24 rounded-full bg-muted '' @ animationClass @ ''" />\<newline>'' @
         ''      <div className="h-5 w-32 bg-muted rounded '' @ animationClass @ ''" />\<newline>'' @
         ''      <div className="h-3 w-48 bg-muted rounded '' @ animationClass @ ''" />\<newline>'' @
         ''    </div>'')),
     (''form'',
      (''<div className="space-y-4">\<newline>'' @
         ''      '' @ (join (Array_fill itemCount (''<div className="space-y-2">\<newline>'' @
             ''        <div className="h-4 w-20 bg-muted rounded '' @ animationClass @ ''" />\<newline>'' @
             ''        <div className="h-10 w-full bg-muted rounded '' @ animationClass @ ''" />\<newline>'' @
             ''      </div>'')) (''\<newline>'' @ ''      '')) @
         ''\<newline>'' @
         ''      <div className="h-10 w-24 bg-muted rounded '' @ animationClass @ ''" />\<newline>'' @
         ''    </div>''))])\<close>

definition skeleton_loader_code ::
  "runtime \<Rightarrow> string \<Rightarrow> string \<Rightarrow> number \<Rightarrow> string \<Rightarrow> (string \<times> string) list \<Rightarrow> string" where
  \<open>skeleton_loader_code rt = (\<lambda>componentName layout itemCount animationClass layouts.
    (''import { cn } from "@/lib/utils";\<newline>'' @
       ''\<newline>'' @
       ''interface '' @ componentName @ ''Props {\<newline>'' @
       ''  className?: string;\<newline>'' @
       ''  count?: number;\<newline>'' @
       ''}\<newline>'' @
       ''\<newline>'' @
       ''export function '' @ componentName @ ''({ className, count = '' @ (number_toString rt itemCount) @ '' }: '' @ componentName @ ''Props) {\<newline>'' @
       ''  return (\<newline>'' @
       ''    <div className={cn("w-full", className)}>\<newline>'' @
       ''      '' @ (case lookup layouts layout of None \<Rightarrow> ''undefined'' | Some t \<Rightarrow> t) @ ''\<newline>'' @
       ''    </div>\<newline>'' @
       ''  );\<newline>'' @
       ''}\<newline>'' @
       ''\<newline>'' @
       ''// Reusable skeleton primitives\<newline>'' @
       ''export function SkeletonLine({ className }: { className?: string }) {\<newline>'' @
       ''  return <div className={cn("h-4 bg-muted rounded '' @ animationClass @ ''", className)} />;\<newline>'' @
       ''}\<newline>'' @
       ''\<newline>'' @
       ''export function SkeletonCircle({ className }: { className?: string }) {\<newline>'' @
       ''  return <div className={cn("h-10 w-10 rounded-full bg-muted '' @ animationClass @ ''", className)} />;\<newline>'' @
       ''}\<newline>'' @
       ''\<newline>'' @
       ''export function SkeletonBox({ className }: { className?: string }) {\<newline>'' @
       ''  return <div className={cn("h-20 bg-muted rounded '' @ animationClass @ ''", className)} />;\<newline>'' @
       ''}''))\<close>

definition skeleton_loader_handler :: "runtime \<Rightarrow> SkeletonLoaderArgs \<Rightarrow> js_error + SkillResult" where
  \<comment> \<open>the object literal \<open>layouts\<close> evaluates its five templates whatever the layout asked for;
      the first \<open>Array(itemCount)\<close> in it (layout \<open>table\<close>) raises on an invalid length\<close>
  "skeleton_loader_handler rt args =
     (let componentName = SkeletonLoaderArgs.componentName args;
          layout = SkeletonLoaderArgs.layout args;
          itemCount = SkeletonLoaderArgs.itemCount args;
          animated = SkeletonLoaderArgs.animated args;
          animationClass = (if animated then ''animate-pulse'' else [])
      in if \<not> valid_array_length itemCount then Inl (RangeError ''Invalid array length'')
         else
           (let layouts = skeleton_loader_layouts itemCount animationClass;
                code = skeleton_loader_code rt componentName layout itemCount animationClass layouts
            in Inr \<lparr>success = True,
                    data = Some (JStr code),
                    error = None,
                    metadata = Some (JObj [(''componentName'', JStr componentName),
                                           (''layout'', JStr layout),
                                           (''animated'', JBool animated)])\<rparr>))"

definition skeletonLoaderSkillDefinition :: SkillDefinition where
  \<open>skeletonLoaderSkillDefinition =
     \<lparr>SkillDefinition.name = ''skeleton_loader_builder'',
      SkillDefinition.description = ''Generates skeleton loading states for various layouts.'',
      parameters = SkeletonLoaderSchema,
      handler = (\<lambda>rt v. skeleton_loader_handler rt (SkeletonLoaderArgs_of v))\<rparr>\<close>

subsection \<open>frontend/ui/table\_generator.ts\<close>

text \<open>Source: \<open>src/unnamed/part_004\<close>, lines 439 to 599.\<close>

record TableColumn =
  key :: string
  label :: string
  sortable :: bool

record TableGeneratorArgs =
  tableName :: string
  columns :: "TableColumn list"
  withPagination :: bool
  withSearch :: bool
  withRowActions :: bool

definition TableGeneratorSchema :: zschema where
  "TableGeneratorSchema = ZObject
     [(''tableName'', ZString),
      (''columns'', ZArray (ZObject
         [(''key'', ZString),
          (''label'', ZString),
          (''sortable'', ZDefault ZBoolean (JBool True))])),
      (''withPagination'', ZDefault ZBoolean (JBool True)),
      (''withSearch'', ZDefault ZBoolean (JBool True)),
      (''withRowActions'', ZDefault ZBoolean (JBool True))]"

definition TableColumn_of :: "jsval \<Rightarrow> TableColumn" where
  "TableColumn_of v = TableColumn.make
     (as_string (field v ''key''))
     (as_string (field v ''label''))
     (as_boolean (field v ''sortable''))"

definition TableGeneratorArgs_of :: "jsval \<Rightarrow> TableGeneratorArgs" where
  "TableGeneratorArgs_of v = TableGeneratorArgs.make
     (as_string (field v ''tableName''))
     (as_array TableColumn_of (field v ''columns''))
     (as_boolean (field v ''withPagination''))
     (as_boolean (field v ''withSearch''))
     (as_boolean (field v ''withRowActions''))"

definition table_generator_columnDef :: "TableColumn \<Rightarrow> string" where
  \<open>table_generator_columnDef = (\<lambda>col.
    (''\<newline>'' @
       ''  {\<newline>'' @
       ''    accessorKey: "'' @ (TableColumn.key col) @ ''",\<newline>'' @
       ''    header: '' @ (if (TableColumn.sortable col) then (''({ column }) => (\<newline>'' @
         ''      <Button variant="ghost" onClick={() => column.toggleSorting(column.getIsSorted() === "asc")}>\<newline>'' @
         ''        '' @ (TableColumn.label col) @ ''\<newline>'' @
         ''        <ArrowUpDown className="ml-2 h-4 w-4" />\<newline>'' @
         ''      </Button>\<newline>'' @
         ''    )'')
         else (''"'' @ (TableColumn.label col) @ ''"'')) @
       '',\<newline>'' @
       ''  },''))\<close>

definition table_generator_code ::
  "string \<Rightarrow> TableColumn list \<Rightarrow> bool \<Rightarrow> bool \<Rightarrow> bool \<Rightarrow> string \<Rightarrow> string" where
  \<open>table_generator_code = (\<lambda>tableName columns withPagination withSearch withRowActions columnDefs.
    (''"use client";\<newline>'' @
       ''import { useState } from "react";\<newline>'' @
       ''import {\<newline>'' @
       ''  ColumnDef,\<newline>'' @
       ''  flexRender,\<newline>'' @
       ''  getCoreRowModel,\<newline>'' @
       ''  getSortedRowModel,\<newline>'' @
       ''  getFilteredRowModel,\<newline>'' @
       ''  getPaginationRowModel,\<newline>'' @
       ''  useReactTable,\<newline>'' @
       ''  SortingState,\<newline>'' @
       ''} from "@tanstack/react-table";\<newline>'' @
       ''import { Table, TableBody, TableCell, TableHead, TableHeader, TableRow } from "@/components/ui/table";\<newline>'' @
       ''import { Button } from "@/components/ui/button";\<newline>'' @
       ''import { Input } from "@/components/ui/input";\<newline>'' @
       ''import { ArrowUpDown, MoreHorizontal } from "lucide-react";\<newline>'' @
       ''import { DropdownMenu, DropdownMenuContent, DropdownMenuItem, DropdownMenuTrigger } from "@/components/ui/dropdown-menu";\<newline>'' @
       ''\<newline>'' @
       ''export type '' @ tableName @ ''Row = {\<newline>'' @
       ''  id: string;\<newline>'' @
       ''  '' @ (join (map (\<lambda>c. ((TableColumn.key c) @ '': string;'')) columns) (''\<newline>'' @ ''  '')) @ ''\<newline>'' @
       ''};\<newline>'' @
       ''\<newline>'' @
       ''const columns: ColumnDef<'' @ tableName @ ''Row>[] = [\<newline>'' @
       ''  '' @ columnDefs @ ''\<newline>'' @
       ''  '' @ (if withRowActions then (''{\<newline>'' @
         ''    id: "actions",\<newline>'' @
         ''    cell: ({ row }) => (\<newline>'' @
         ''      <DropdownMenu>\<newline>'' @
         ''        <DropdownMenuTrigger asChild>\<newline>'' @
         ''          <Button variant="ghost" className="h-8 w-8 p-0">\<newline>'' @
         ''            <MoreHorizontal className="h-4 w-4" />\<newline>'' @
         ''          </Button>\<newline>'' @
         ''        </DropdownMenuTrigger>\<newline>'' @
         ''        <DropdownMenuContent align="end">\<newline>'' @
         ''          <DropdownMenuItem>Edit</DropdownMenuItem>\<newline>'' @
         ''          <DropdownMenuItem className="text-destructive">Delete</DropdownMenuItem>\<newline>'' @
         ''        </DropdownMenuContent>\<newline>'' @
         ''      </DropdownMenu>\<newline>'' @
         ''    ),\<newline>'' @
         ''  },'')
         else []) @
       ''\<newline>'' @
       ''];\<newline>'' @
       ''\<newline>'' @
       ''interface '' @ tableName @ ''Props {\<newline>'' @
       ''  data: '' @ tableName @ ''Row[];\<newline>'' @
       ''}\<newline>'' @
       ''\<newline>'' @
       ''export function '' @ tableName @ ''({ data }: '' @ tableName @ ''Props) {\<newline>'' @
       ''  const [sorting, setSorting] = useState<SortingState>([]);\<newline>'' @
       ''  const [globalFilter, setGlobalFilter] = useState("");\<newline>'' @
       ''\<newline>'' @
       ''  const table = useReactTable({\<newline>'' @
       ''    data,\<newline>'' @
       ''    columns,\<newline>'' @
       ''    getCoreRowModel: getCoreRowModel(),\<newline>'' @
       ''    getSortedRowModel: getSortedRowModel(),\<newline>'' @
       ''    getFilteredRowModel: getFilteredRowModel(),\<newline>'' @
       ''    '' @ (if withPagination then ''getPaginationRowModel: getPaginationRowModel(),''
         else []) @
       ''\<newline>'' @
       ''    onSortingChange: setSorting,\<newline>'' @
       ''    onGlobalFilterChange: setGlobalFilter,\<newline>'' @
       ''    state: { sorting, globalFilter },\<newline>'' @
       ''  });\<newline>'' @
       ''\<newline>'' @
       ''  return (\<newline>'' @
       ''    <div className="space-y-4">\<newline>'' @
       ''      '' @ (if withSearch then (''<Input\<newline>'' @
         ''        placeholder="Search..."\<newline>'' @
         ''        value={globalFilter}\<newline>'' @
         ''        onChange={(e) => setGlobalFilter(e.target.value)}\<newline>'' @
         ''        className="max-w-sm"\<newline>'' @
         ''      />'')
         else []) @
       ''\<newline>'' @
       ''      \<newline>'' @
       ''      <div className="rounded-md border">\<newline>'' @
       ''        <Table>\<newline>'' @
       ''          <TableHeader>\<newline>'' @
       ''            {table.getHeaderGroups().map((hg) => (\<newline>'' @
       ''              <TableRow key={hg.id}>\<newline>'' @
       ''                {hg.headers.map((h) => (\<newline>'' @
       ''                  <TableHead key={h.id}>\<newline>'' @
       ''                    {h.isPlaceholder ? null : flexRender(h.column.columnDef.header, h.getContext())}\<newline>'' @
       ''                  </TableHead>\<newline>'' @
       ''                ))}\<newline>'' @
       ''              </TableRow>\<newline>'' @
       ''            ))}\<newline>'' @
       ''          </TableHeader>\<newline>'' @
       ''          <TableBody>\<newline>'' @
       ''            {table.getRowModel().rows?.length ? (\<newline>'' @
       ''              table.getRowModel().rows.map((row) => (\<newline>'' @
       ''                <TableRow key={row.id}>\<newline>'' @
       ''                  {row.getVisibleCells().map((cell) => (\<newline>'' @
       ''                    <TableCell key={cell.id}>\<newline>'' @
       ''                      {flexRender(cell.column.columnDef.cell, cell.getContext())}\<newline>'' @
       ''                    </TableCell>\<newline>'' @
       ''                  ))}\<newline>'' @
       ''                </TableRow>\<newline>'' @
       ''              ))\<newline>'' @
       ''            ) : (\<newline>'' @
       ''              <TableRow>\<newline>'' @
       ''                <TableCell colSpan={columns.length} className="h-24 text-center">\<newline>'' @
       ''                  No results.\<newline>'' @
       ''                </TableCell>\<newline>'' @
       ''              </TableRow>\<newline>'' @
       ''            )}\<newline>'' @
       ''          </TableBody>\<newline>'' @
       ''        </Table>\<newline>'' @
       ''      </div>\<newline>'' @
       ''\<newline>'' @
       ''      '' @ (if withPagination then (''<div className="flex items-center justify-end gap-2">\<newline>'' @
         ''        <Button variant="outline" size="sm" onClick={() => table.previousPage()} disabled={!table.getCanPreviousPage()}>\<newline>'' @
         ''          Previous\<newline>'' @
         ''        </Button>\<newline>'' @
         ''        <Button variant="outline" size="sm" onClick={() => table.nextPage()} disabled={!table.getCanNextPage()}>\<newline>'' @
         ''          Next\<newline>'' @
         ''        </Button>\<newline>'' @
         ''      </div>'')
         else []) @
       ''\<newline>'' @
       ''    </div>\<newline>'' @
       ''  );\<newline>'' @
       ''}''))\<close>

definition table_generator_handler :: "TableGeneratorArgs \<Rightarrow> SkillResult" where
  "table_generator_handler args =
     (let tableName = TableGeneratorArgs.tableName args;
          columns = TableGeneratorArgs.columns args;
          withPagination = TableGeneratorArgs.withPagination args;
          withSearch = TableGeneratorArgs.withSearch args;
          withRowActions = TableGeneratorArgs.withRowActions args;
          columnDefs = join (map table_generator_columnDef columns) [];
          code = table_generator_code tableName columns withPagination withSearch withRowActions columnDefs
      in \<lparr>success = True,
          data = Some (JStr code),
          error = None,
          metadata = Some (JObj [(''tableName'', JStr tableName),
                                 (''columns'', JNum (of_nat (length columns))),
                                 (''features'', JObj [(''withPagination'', JBool withPagination),
                                                      (''withSearch'', JBool withSearch),
                                                      (''withRowActions'', JBool withRowActions)])])\<rparr>)"

definition tableGeneratorSkillDefinition :: SkillDefinition where
  \<open>tableGeneratorSkillDefinition =
     \<lparr>SkillDefinition.name = ''table_generator'',
      SkillDefinition.description = ''Generates TanStack Table with sorting, filtering, pagination, and row actions.'',
      parameters = TableGeneratorSchema,
      handler = (\<lambda>rt v. Inr (table_generator_handler (TableGeneratorArgs_of v)))\<rparr>\<close>

subsection \<open>frontend/ui/toast\_notification.ts\<close>

text \<open>Source: \<open>src/frontend/ui/toast_notification.ts\<close>, lines 1 to 164.\<close>

record ToastNotificationArgs =
  provider :: string
  withCustomStyles :: bool
  generateHook :: bool

definition ToastNotificationSchema :: zschema where
  "ToastNotificationSchema = ZObject
     [(''provider'', ZDefault (ZEnum [''sonner'', ''react-hot-toast'']) (JStr ''sonner'')),
      (''withCustomStyles'', ZDefault ZBoolean (JBool True)),
      (''generateHook'', ZDefault ZBoolean (JBool True))]"

definition ToastNotificationArgs_of :: "jsval \<Rightarrow> ToastNotificationArgs" where
  "ToastNotificationArgs_of v = ToastNotificationArgs.make
     (as_string (field v ''provider''))
     (as_boolean (field v ''withCustomStyles''))
     (as_boolean (field v ''generateHook''))"

definition toast_notification_sonner_provider :: "bool \<Rightarrow> string" where
  \<open>toast_notification_sonner_provider = (\<lambda>withCustomStyles.
    (''"use client";\<newline>'' @
       ''import { Toaster } from "sonner";\<newline>'' @
       ''\<newline>'' @
       ''export function ToastProvider() {\<newline>'' @
       ''  return (\<newline>'' @
       ''    <Toaster\<newline>'' @
       ''      position="top-right"\<newline>'' @
       ''      toastOptions={{\<newline>'' @
       ''        '' @ (if withCustomStyles then (''classNames: {\<newline>'' @
         ''          toast: "bg-background border-border",\<newline>'' @
         ''          title: "text-foreground",\<newline>'' @
         ''          description: "text-muted-foreground",\<newline>'' @
         ''          success: "!bg-green-500/10 !border-green-500/20",\<newline>'' @
         ''          error: "!bg-destructive/10 !border-destructive/20",\<newline>'' @
         ''          warning: "!bg-yellow-500/10 !border-yellow-500/20",\<newline>'' @
         ''          info: "!bg-blue-500/10 !border-blue-500/20",\<newline>'' @
         ''        },'')
         else []) @
       ''\<newline>'' @
       ''        duration: 4000,\<newline>'' @
       ''      }}\<newline>'' @
       ''      richColors\<newline>'' @
       ''      closeButton\<newline>'' @
       ''    />\<newline>'' @
       ''  );\<newline>'' @
       ''}''))\<close>

definition toast_notification_sonner_hook :: string where
  \<open>toast_notification_sonner_hook =
    (''import { toast } from "sonner";\<newline>'' @
       ''\<newline>'' @
       ''interface ToastOptions {\<newline>'' @
       ''  description?: string;\<newline>'' @
       ''  duration?: number;\<newline>'' @
       ''  action?: { label: string; onClick: () => void };\<newline>'' @
       ''}\<newline>'' @
       ''\<newline>'' @
       ''export function useToast() {\<newline>'' @
       ''  const success = (message: string, options?: ToastOptions) => {\<newline>'' @
       ''    toast.success(message, {\<newline>'' @
       ''      description: options?.description,\<newline>'' @
       ''      duration: options?.duration,\<newline>'' @
       ''      action: options?.action ? {\<newline>'' @
       ''        label: options.action.label,\<newline>'' @
       ''        onClick: options.action.onClick,\<newline>'' @
       ''      } : undefined,\<newline>'' @
       ''    });\<newline>'' @
       ''  };\<newline>'' @
       ''\<newline>'' @
       ''  const error = (message: string, options?: ToastOptions) => {\<newline>'' @
       ''    toast.error(message, {\<newline>'' @
       ''      description: options?.description,\<newline>'' @
       ''      duration: options?.duration || 5000,\<newline>'' @
       ''    });\<newline>'' @
       ''  };\<newline>'' @
       ''\<newline>'' @
       ''  const warning = (message: string, options?: ToastOptions) => {\<newline>'' @
       ''    toast.warning(message, { description: options?.description });\<newline>'' @
       ''  };\<newline>'' @
       ''\<newline>'' @
       ''  const info = (message: string, options?: ToastOptions) => {\<newline>'' @
       ''    toast.info(message, { description: options?.description });\<newline>'' @
       ''  };\<newline>'' @
       ''\<newline>'' @
       ''  const loading = (message: string) => {\<newline>'' @
       ''    return toast.loading(message);\<newline>'' @
       ''  };\<newline>'' @
       ''\<newline>'' @
       ''  const dismiss = (toastId?: string | number) => {\<newline>'' @
       ''    toast.dismiss(toastId);\<newline>'' @
       ''  };\<newline>'' @
       ''\<newline>'' @
       ''  const promise = <T>(\<newline>'' @
       ''    promise: Promise<T>,\<newline>'' @
       ''    messages: { loading: string; success: string; error: string }\<newline>'' @
       ''  ) => {\<newline>'' @
       ''    return toast.promise(promise, messages);\<newline>'' @
       ''  };\<newline>'' @
       ''\<newline>'' @
       ''  return { success, error, warning, info, loading, dismiss, promise };\<newline>'' @
       ''}'')\<close>

definition toast_notification_hot_toast_provider :: "bool \<Rightarrow> string" where
  \<open>toast_notification_hot_toast_provider = (\<lambda>withCustomStyles.
    (''"use client";\<newline>'' @
       ''import { Toaster } from "react-hot-toast";\<newline>'' @
       ''\<newline>'' @
       ''export function ToastProvider() {\<newline>'' @
       ''  return (\<newline>'' @
       ''    <Toaster\<newline>'' @
       ''      position="top-right"\<newline>'' @
       ''      toastOptions={{\<newline>'' @
       ''        duration: 4000,\<newline>'' @
       ''        '' @ (if withCustomStyles then (''style: {\<newline>'' @
         ''          background: "hsl(var(--background))",\<newline>'' @
         ''          color: "hsl(var(--foreground))",\<newline>'' @
         ''          border: "1px solid hsl(var(--border))",\<newline>'' @
         ''        },\<newline>'' @
         ''        success: { iconTheme: { primary: "#22c55e", secondary: "#fff" } },\<newline>'' @
         ''        error: { iconTheme: { primary: "#ef4444", secondary: "#fff" } },'')
         else []) @
       ''\<newline>'' @
       ''      }}\<newline>'' @
       ''    />\<newline>'' @
       ''  );\<newline>'' @
       ''}''))\<close>

definition toast_notification_hot_toast_hook :: string where
  \<open>toast_notification_hot_toast_hook =
    (''import toast from "react-hot-toast";\<newline>'' @
       ''\<newline>'' @
       ''export function useToast() {\<newline>'' @
       ''  return {\<newline>'' @
       ''    success: (message: string) => toast.success(message),\<newline>'' @
       ''    error: (message: string) => toast.error(message),\<newline>'' @
       ''    loading: (message: string) => toast.loading(message),\<newline>'' @
       ''    dismiss: (id?: string) => toast.dismiss(id),\<newline>'' @
       ''    promise: <T>(promise: Promise<T>, msgs: { loading: string; success: string; error: string }) =>\<newline>'' @
       ''      toast.promise(promise, msgs),\<newline>'' @
       ''  };\<newline>'' @
       ''}'')\<close>

definition toast_notification_usage_example :: string where
  \<open>toast_notification_usage_example =
    (''import { useToast } from "./use-toast";\<newline>'' @
       ''\<newline>'' @
       ''function MyComponent() {\<newline>'' @
       ''  const toast = useToast();\<newline>'' @
       ''\<newline>'' @
       ''  const handleSave = async () => {\<newline>'' @
       ''    toast.promise(saveData(), {\<newline>'' @
       ''      loading: "Saving...",\<newline>'' @
       ''      success: "Saved successfully!",\<newline>'' @
       ''      error: "Failed to save",\<newline>'' @
       ''    });\<newline>'' @
       ''  };\<newline>'' @
       ''\<newline>'' @
       ''  const handleDelete = () => {\<newline>'' @
       ''    toast.error("Item deleted", { description: "This action cannot be undone" });\<newline>'' @
       ''  };\<newline>'' @
       ''\<newline>'' @
       ''  return <button onClick={handleSave}>Save</button>;\<newline>'' @
       ''}'')\<close>

definition toast_notification_handler :: "ToastNotificationArgs \<Rightarrow> SkillResult" where
  "toast_notification_handler args =
     (let provider = ToastNotificationArgs.provider args;
          withCustomStyles = ToastNotificationArgs.withCustomStyles args;
          generateHook = ToastNotificationArgs.generateHook args;
          files = [];
          files =
            (if provider = ''sonner''
             then (let files = assign files ''toast-provider.tsx''
                                 (toast_notification_sonner_provider withCustomStyles)
                   in if generateHook then assign files ''use-toast.ts'' toast_notification_sonner_hook
                      else files)
             else (let files = assign files ''toast-provider.tsx''
                                 (toast_notification_hot_toast_provider withCustomStyles)
                   in if generateHook then assign files ''use-toast.ts'' toast_notification_hot_toast_hook
                      else files));
          files = assign files ''usage-example.tsx'' toast_notification_usage_example
      in \<lparr>success = True,
          data = Some (files_data files),
          error = None,
          metadata = Some (JObj [(''provider'', JStr provider),
                                 (''generatedFiles'', strings (Object_keys files))])\<rparr>)"

definition toastNotificationSkillDefinition :: SkillDefinition where
  \<open>toastNotificationSkillDefinition =
     \<lparr>SkillDefinition.name = ''toast_notification_system'',
      SkillDefinition.description = ''Generates toast notification system with Sonner or react-hot-toast.'',
      parameters = ToastNotificationSchema,
      handler = (\<lambda>rt v. Inr (toast_notification_handler (ToastNotificationArgs_of v)))\<rparr>\<close>

subsection \<open>frontend/ui/ui\_polish.ts\<close>

text \<open>Source: \<open>src/frontend/ui/ui_polish.ts\<close>, lines 1 to 45.\<close>

definition className_at :: "string \<Rightarrow> string option" where
  \<comment> \<open>\<open>/className="([^"]+)"/\<close> at the head of the text: group 1\<close>
  \<open>className_at s =
     Option.bind (expect ''className="'' s) (\<lambda>r.
       let g = takeWhile (\<lambda>c. c \<noteq> CHR 0x22) r
       in if g \<noteq> [] \<and> startsWith (dropWhile (\<lambda>c. c \<noteq> CHR 0x22) r) ''"'' then Some g else None)\<close>

fun add_hover_classes :: "nat \<Rightarrow> string \<Rightarrow> string" where
  \<comment> \<open>\<open>s.replace(/className="([^"]+)"/g, 'className="$1 hover:opacity-90 transition-opacity"')\<close>:
      the matches from left to right; the number counts the characters of the last match that
      are still to be skipped\<close>
  \<open>add_hover_classes n [] = []\<close>
| \<open>add_hover_classes (Suc n) (c # cs) = add_hover_classes n cs\<close>
| \<open>add_hover_classes 0 (c # cs) =
     (case className_at (c # cs) of
        None \<Rightarrow> c # add_hover_classes 0 cs
      | Some g \<Rightarrow> ''className="'' @ g @ '' hover:opacity-90 transition-opacity"'' @
                  add_hover_classes (length ''className="'' + length g) cs)\<close>

record UiPolishArgs =
  componentCode :: string
  "context" :: string

definition UiPolishSchema :: zschema where
  "UiPolishSchema = ZObject [(''componentCode'', ZString), (''context'', ZString)]"

definition UiPolishArgs_of :: "jsval \<Rightarrow> UiPolishArgs" where
  "UiPolishArgs_of v = UiPolishArgs.make
     (as_string (field v ''componentCode''))
     (as_string (field v ''context''))"

definition ui_polish_icons_import :: string where
  \<open>ui_polish_icons_import = ''import { Sparkles, ArrowRight } from 'lucide-react';\<newline>''\<close>

definition ui_polish_handler :: "UiPolishArgs \<Rightarrow> SkillResult" where
  \<open>ui_polish_handler args =
     (let componentCode = UiPolishArgs.componentCode args;
          polishedCode = componentCode;
          improvements = [];
          icons = \<not> String_includes polishedCode ''lucide-react'';
          polishedCode = (if icons then ui_polish_icons_import @ polishedCode else polishedCode);
          improvements = (if icons then improvements @ [''Added Lucide React icons import''] else improvements);
          hover = (String_includes polishedCode ''className="'' \<and> \<not> String_includes polishedCode ''hover:'');
          polishedCode = (if hover then add_hover_classes 0 polishedCode else polishedCode);
          improvements = (if hover then improvements @ [''Added hover transition effects to elements''] else improvements)
      in \<lparr>success = True,
          data = Some (JStr polishedCode),
          error = None,
          metadata = Some (JObj [(''context'', JStr (UiPolishArgs.context args)),
                                 (''improvements'', strings improvements)])\<rparr>)\<close>

definition uiPolishSkillDefinition :: SkillDefinition where
  \<open>uiPolishSkillDefinition =
     \<lparr>SkillDefinition.name = ''ui_polish'',
      SkillDefinition.description = ''Enhances UI components with Lucide icons, hover states, and micro-interactions for a premium feel.'',
      parameters = UiPolishSchema,
      handler = (\<lambda>rt v. Inr (ui_polish_handler (UiPolishArgs_of v)))\<rparr>\<close>

subsection \<open>frontend/index.ts\<close>

text \<open>Source: \<open>src/unnamed/part_004\<close>, lines 239 to 316.\<close>

definition object_literal :: "(string \<times> 'v) list \<Rightarrow> (string \<times> 'v) list" where
  \<comment> \<open>\<open>{ k1: v1, k2: v2, ... }\<close>: the properties are defined in order, a repeated key keeps its
      first place and takes the later value\<close>
  "object_literal kvs = foldl (\<lambda>obj (k, v). assign obj k v) [] kvs"

record SkillRegistry =
  definitions :: "SkillDefinition list"
  handlers :: "(string \<times> (runtime \<Rightarrow> jsval \<Rightarrow> js_error + SkillResult)) list"

definition frontend_exports :: "SkillDefinition list" where
  \<comment> \<open>the skill definitions of the modules that the index re-exports (\<open>export * from ...\<close>), in
      the order of those lines\<close>
  "frontend_exports =
     [analyzeHookLogic,
      responsiveSkillDefinition,
      shadcnSkillDefinition,
      componentOptimizerSkillDefinition,
      formFactorySkillDefinition,
      uiPolishSkillDefinition,
      dataFetchingSkillDefinition,
      feedbackSystemSkillDefinition,
      authGuardSkillDefinition,
      aiCopywriterSkillDefinition,
      routingMasterSkillDefinition,
      searchParamsManagerSkillDefinition,
      sitemapGeneratorSkillDefinition,
      authSessionManagerSkillDefinition,
      themeSwitcherSkillDefinition,
      componentTestBuilderSkillDefinition,
      e2eFrontendBuilderSkillDefinition,
      hookTestGeneratorSkillDefinition,
      tableGeneratorSkillDefinition,
      toastNotificationSkillDefinition,
      skeletonLoaderSkillDefinition,
      infiniteScrollSkillDefinition]"

definition frontendSkills :: SkillRegistry where
  "frontendSkills =
     \<lparr>definitions =
        [analyzeHookLogic,
         responsiveSkillDefinition,
         shadcnSkillDefinition,
         componentOptimizerSkillDefinition,
         formFactorySkillDefinition,
         uiPolishSkillDefinition,
         dataFetchingSkillDefinition,
         feedbackSystemSkillDefinition,
         authGuardSkillDefinition,
         aiCopywriterSkillDefinition,
         routingMasterSkillDefinition,
         searchParamsManagerSkillDefinition,
         sitemapGeneratorSkillDefinition,
         authSessionManagerSkillDefinition],
      handlers = object_literal
        [(SkillDefinition.name analyzeHookLogic, handler analyzeHookLogic),
         (''generate_responsive_layout'', (\<lambda>rt v. Inr (responsiveHandler (ResponsiveArgs_of v)))),
         (''apply_shadcn_style'', (\<lambda>rt v. Inr (shadcnHandler (ShadcnArgs_of v)))),
         (SkillDefinition.name componentOptimizerSkillDefinition, handler componentOptimizerSkillDefinition),
         (SkillDefinition.name formFactorySkillDefinition, handler formFactorySkillDefinition),
         (SkillDefinition.name uiPolishSkillDefinition, handler uiPolishSkillDefinition),
         (SkillDefinition.name dataFetchingSkillDefinition, handler dataFetchingSkillDefinition),
         (SkillDefinition.name feedbackSystemSkillDefinition, handler feedbackSystemSkillDefinition),
         (SkillDefinition.name authGuardSkillDefinition, handler authGuardSkillDefinition),
         (SkillDefinition.name aiCopywriterSkillDefinition, handler aiCopywriterSkillDefinition),
         (SkillDefinition.name routingMasterSkillDefinition, handler routingMasterSkillDefinition),
         (SkillDefinition.name searchParamsManagerSkillDefinition, handler searchParamsManagerSkillDefinition),
         (SkillDefinition.name sitemapGeneratorSkillDefinition, handler sitemapGeneratorSkillDefinition),
         (SkillDefinition.name authSessionManagerSkillDefinition, handler authSessionManagerSkillDefinition)]\<rparr>"

definition registered :: "SkillRegistry \<Rightarrow> SkillDefinition \<Rightarrow> bool" where
  \<comment> \<open>the registry lists a definition of that name and has a handler under that name\<close>
  "registered registry d =
     (SkillDefinition.name d \<in> set (map SkillDefinition.name (definitions registry))
      \<and> SkillDefinition.name d \<in> set (Object_keys (handlers registry)))"

section \<open>The catalogue\<close>

definition backend_skills :: "SkillDefinition list" where
  "backend_skills =
     [roleGuardGeneratorSkillDefinition,
      accessListManagerSkillDefinition,
      tokenBlacklistSkillDefinition,
      rateLimitSetupSkillDefinition,
      swaggerDocHelperSkillDefinition,
      versioningManagerSkillDefinition,
      generateNestResource,
      migrationExpertSkillDefinition,
      entityCreatorSkillDefinition,
      cacheManagerSkillDefinition,
      emailServiceSkillDefinition,
      healthCheckBuilderSkillDefinition,
      loggerProviderSkillDefinition,
      websocketGatewaySkillDefinition,
      googleOAuthSkillDefinition,
      s3UploadSkillDefinition,
      fileUploadManagerSkillDefinition,
      geminiIntegrationSkillDefinition,
      mercadoPagoIntegrationSkillDefinition,
      cronJobSchedulerSkillDefinition,
      e2eTestBuilderSkillDefinition,
      loadTestConfigSkillDefinition,
      unitTestGeneratorSkillDefinition]"

definition all_skills :: "SkillDefinition list" where
  \<comment> \<open>every skill definition of the sources\<close>
  "all_skills = backend_skills @ frontend_exports @ [shadcnPlaceholderSkillDefinition]"

section \<open>Notions used in the statements\<close>

subsection \<open>Results\<close>




definition returned_file :: "outcome \<Rightarrow> string \<Rightarrow> string option" where
  \<comment> \<open>the text of a file in the output of an invocation that returned files\<close>
  "returned_file out file =
     (case out of
        Returned r \<Rightarrow>
          (case data r of
             Some (JObj files) \<Rightarrow> (case lookup files file of Some (JStr s) \<Rightarrow> Some s | _ \<Rightarrow> None)
           | _ \<Rightarrow> None)
      | _ \<Rightarrow> None)"

subsection \<open>Inputs that break a declared constraint\<close>



subsection \<open>The pieces of the table template\<close>






section \<open>Properties\<close>

subsection \<open>The runtime\<close>

text \<open>
  The clock is read by nothing but \<open>Date_now\<close>: printing numbers, printing values and
  validating do not depend on it.
\<close>

lemma number_toString_clock [simp]:
  "number_toString (rt\<lparr>Date_now := t\<rparr>) = number_toString rt"
  by (rule ext) (simp add: number_toString_def)

lemma json_text_clock [simp]:
  "json_text (rt\<lparr>Date_now := t\<rparr>) v = json_text rt v"
  "json_elements (rt\<lparr>Date_now := t\<rparr>) vs = json_elements rt vs"
  "json_members (rt\<lparr>Date_now := t\<rparr>) kvs = json_members rt kvs"
  by (induction rt v and rt vs and rt kvs rule: json_text_json_elements_json_members.induct) simp_all

lemma JSON_stringify_clock [simp]:
  "JSON_stringify (rt\<lparr>Date_now := t\<rparr>) = JSON_stringify rt"
  by (intro ext) (simp add: JSON_stringify_def)

lemma ToString_clock [simp]:
  "ToString (rt\<lparr>Date_now := t\<rparr>) v = ToString rt v"
  "ToString_elements (rt\<lparr>Date_now := t\<rparr>) vs = ToString_elements rt vs"
  by (induction rt v and rt vs rule: ToString_ToString_elements.induct) simp_all

lemma ToString_fun_clock: "ToString (rt\<lparr>Date_now := t\<rparr>) = ToString rt"
  by (rule ext) simp

lemmas printing_clock = number_toString_clock JSON_stringify_clock ToString_fun_clock

lemma zparse_clock [simp]: "zparse (rt\<lparr>Date_now := t\<rparr>) s v = zparse rt s v"
proof (induction rt s v rule: zparse.induct)
  case (8 rt element v)
  show ?case
  proof (cases v)
    case (JArr xs)
    have E: "map (\<lambda>(i, x). at_path (nat_toString i) (zparse (rt\<lparr>Date_now := t\<rparr>) element x)) (enumerate 0 xs)
           = map (\<lambda>(i, x). at_path (nat_toString i) (zparse rt element x)) (enumerate 0 xs)"
      using 8 JArr by (intro map_cong refl) auto
    show ?thesis by (simp only: JArr zparse.simps jsval.case E)
  qed simp_all
next
  case (9 rt element v)
  show ?case
  proof (cases v)
    case (JObj obj)
    have E: "map (\<lambda>(k, x). keyed k (zparse (rt\<lparr>Date_now := t\<rparr>) element x)) obj
           = map (\<lambda>(k, x). keyed k (zparse rt element x)) obj"
      using 9 JObj by (intro map_cong refl) auto
    show ?thesis by (simp only: JObj zparse.simps jsval.case E)
  qed simp_all
next
  case (10 rt shape v)
  show ?case
  proof (cases v)
    case (JObj obj)
    have E: "map (\<lambda>(k, s). keyed k (zparse (rt\<lparr>Date_now := t\<rparr>) s (property obj k))) shape
           = map (\<lambda>(k, s). keyed k (zparse rt s (property obj k))) shape"
      using 10 JObj by (intro map_cong refl) auto
    show ?thesis by (simp only: JObj zparse.simps jsval.case E)
  qed simp_all
next
  case (13 rt options v)
  have E: "map (\<lambda>s. zparse (rt\<lparr>Date_now := t\<rparr>) s v) options = map (\<lambda>s. zparse rt s v) options"
    using 13 by (intro map_cong refl) auto
  show ?case by (simp only: zparse.simps E)
qed (auto split: jsval.splits)

subsection \<open>Strings\<close>


lemma startsWith_append [simp]: "startsWith (p @ s) p"
  by (induction p) simp_all

lemma String_includes_here: "startsWith s sub \<Longrightarrow> String_includes s sub"
  by (cases s) (auto elim: startsWith.elims)

lemma String_includes_append [simp]: "String_includes (a @ sub @ b) sub"
proof (induction a)
  case Nil
  show ?case by (simp add: String_includes_here)
next
  case (Cons c a)
  then show ?case by simp
qed

lemma String_includes_append2 [simp]: "String_includes (a @ sub) sub"
  using String_includes_append [of a sub "[]"] by simp



subsection \<open>Validation\<close>

lemma collect_Inr: "collect rs = Inr xs \<Longrightarrow> rs = map Inr xs"
  by (induction rs arbitrary: xs) (auto split: sum.splits)






lemma at_path_fails [simp]: "(\<exists>issues. at_path k r = Inl issues) = (\<exists>e. r = Inl e)"
  by (auto simp: at_path_def split: sum.splits)

lemma at_path_Inr [simp]: "(at_path k r = Inr a) = (r = Inr a)"
  by (auto simp: at_path_def split: sum.splits)


lemma keyed_fails [simp]: "(\<exists>issues. keyed k r = Inl issues) = (\<exists>e. r = Inl e)"
  by (auto simp: keyed_def at_path_def split: sum.splits)

lemma keyed_Inr [simp]: "(keyed k r = Inr kv) = (\<exists>v. r = Inr v \<and> kv = (k, v))"
  by (auto simp: keyed_def at_path_def split: sum.splits)

lemma at_path_Nil [simp]:
  "(at_path k r = Inl []) = (r = Inl [])"
  "(Inl [] = at_path k r) = (r = Inl [])"
  by (auto simp: at_path_def split: sum.splits)

lemma keyed_Nil [simp]:
  "(keyed k r = Inl []) = (r = Inl [])"
  "(Inl [] = keyed k r) = (r = Inl [])"
  by (auto simp: keyed_def at_path_def split: sum.splits)

lemma wrong_type_Inl [simp]: "wrong_type e v \<noteq> Inr a"
  by (simp add: wrong_type_def)





text \<open>
  What a handler reads from a validated object: the field of a key of the shape is the
  validated value of that key.
\<close>

lemma collect_keyed:
  "collect (map (\<lambda>(k, s). keyed k (g k s)) shape) = Inr kvs \<Longrightarrow>
     map fst kvs = map fst shape \<and> (\<forall>(k, s) \<in> set shape. \<exists>y. g k s = Inr y \<and> (k, y) \<in> set kvs)"
proof (induction shape arbitrary: kvs)
  case Nil
  then show ?case by simp
next
  case (Cons p shape)
  obtain k s where p: "p = (k, s)" by (cases p)
  from Cons.prems p obtain y kvs' where y: "g k s = Inr y"
    and rest: "collect (map (\<lambda>(k, s). keyed k (g k s)) shape) = Inr kvs'"
    and kvs: "kvs = (k, y) # kvs'"
    by (auto simp: keyed_def at_path_def split: sum.splits)
  from Cons.IH [OF rest] show ?case
    using p y kvs by auto
qed

lemma property_present:
  "distinct (map fst kvs) \<Longrightarrow> (k, y) \<in> set kvs \<Longrightarrow> property (present kvs) k = y"
proof (induction kvs)
  case Nil
  then show ?case by simp
next
  case (Cons p kvs)
  obtain k' y' where p: "p = (k', y')" by (cases p)
  show ?case
  proof (cases "k' = k")
    case True
    with Cons.prems p have "y' = y"
      by (auto simp: image_iff)
    moreover have "lookup (filter (\<lambda>kv. snd kv \<noteq> JUndefined) kvs) k = None"
      using Cons.prems p True
      by (induction kvs) (auto simp: image_iff)
    ultimately show ?thesis
      using p True by (simp add: property_def present_def)
  next
    case False
    with Cons p show ?thesis
      by (auto simp: property_def present_def)
  qed
qed

lemma zparse_object_field:
  assumes "zparse rt (ZObject shape) input = Inr v"
    and "distinct (map fst shape)"
    and "(k, s) \<in> set shape"
  shows "\<exists>obj. input = JObj obj \<and> zparse rt s (property obj k) = Inr (field v k)"
proof -
  from assms(1) obtain obj kvs where input: "input = JObj obj"
    and kvs: "collect (map (\<lambda>(k, s). keyed k (zparse rt s (property obj k))) shape) = Inr kvs"
    and v: "v = JObj (present kvs)"
    by (auto split: jsval.splits sum.splits)
  from collect_keyed [OF kvs] assms(3) obtain y where y: "zparse rt s (property obj k) = Inr y"
    and "(k, y) \<in> set kvs" and "map fst kvs = map fst shape"
    by auto
  with assms(2) have "property (present kvs) k = y"
    by (intro property_present) auto
  with input y v show ?thesis
    by (simp add: field_def)
qed


lemma zparse_default_enum:
  "zparse rt (ZDefault (ZEnum values) d) x = Inr y \<Longrightarrow> as_string y \<in> set values"
  by (auto simp: as_string_def split: jsval.splits if_splits)

subsection \<open>The templates are not empty\<close>

text \<open>
  Every template below starts with literal text or holds some, whatever it interpolates.
\<close>

lemma role_guard_generator_templates_nonempty [simp]:
  "role_guard_generator_decoratorCode a1 \<noteq> []"
  "role_guard_generator_enumCode b1 b2 \<noteq> []"
  "role_guard_generator_guardCode c1 c2 \<noteq> []"
  by (simp_all add: role_guard_generator_decoratorCode_def role_guard_generator_enumCode_def
      role_guard_generator_guardCode_def)

lemma access_list_manager_templates_nonempty [simp]:
  "access_list_manager_code a1 a2 a3 a4 \<noteq> []"
  by (simp_all add: access_list_manager_code_def)

lemma token_blacklist_templates_nonempty [simp]:
  "token_blacklist_serviceCode a1 a2 \<noteq> []"
  "token_blacklist_guardCode \<noteq> []"
  "token_blacklist_moduleSetup c1 c2 c3 \<noteq> []"
  by (simp_all add: token_blacklist_serviceCode_def token_blacklist_guardCode_def
      token_blacklist_moduleSetup_def)

lemma rate_limit_setup_templates_nonempty [simp]:
  "rate_limit_setup_code a1 a2 a3 \<noteq> []"
  by (simp_all add: rate_limit_setup_code_def)

lemma swagger_doc_helper_templates_nonempty [simp]:
  "swagger_doc_helper_code a1 a2 \<noteq> []"
  by (simp_all add: swagger_doc_helper_code_def)

lemma versioning_manager_templates_nonempty [simp]:
  "versioning_manager_code a1 a2 \<noteq> []"
  by (simp_all add: versioning_manager_code_def)

lemma generate_nest_resource_templates_nonempty [simp]:
  "generate_nest_resource_basePath a1 a2 \<noteq> []"
  "generate_nest_resource_controller b1 b2 b3 b4 \<noteq> []"
  "generate_nest_resource_service c1 c2 c3 c4 \<noteq> []"
  "generate_nest_resource_module d1 d2 \<noteq> []"
  by (simp_all add: generate_nest_resource_basePath_def generate_nest_resource_controller_def
      generate_nest_resource_service_def generate_nest_resource_module_def)

lemma migration_expert_templates_nonempty [simp]:
  "migration_expert_code a1 \<noteq> []"
  by (simp_all add: migration_expert_code_def)

lemma entity_creator_templates_nonempty [simp]:
  "entity_creator_importString a1 \<noteq> []"
  "entity_creator_tsType b1 \<noteq> []"
  "entity_creator_code c1 c2 c3 c4 c5 \<noteq> []"
  by (simp_all add: entity_creator_importString_def entity_creator_tsType_def
      entity_creator_code_def)

lemma cache_manager_templates_nonempty [simp]:
  "cache_manager_module a1 a2 a3 \<noteq> []"
  "cache_manager_service b1 b2 b3 \<noteq> []"
  "cache_manager_decorator \<noteq> []"
  "cache_manager_interceptor \<noteq> []"
  "cache_manager_example \<noteq> []"
  by (simp_all add: cache_manager_module_def cache_manager_service_def
      cache_manager_decorator_def cache_manager_interceptor_def cache_manager_example_def)

lemma email_service_templates_nonempty [simp]:
  "email_service_module a1 \<noteq> []"
  "email_service_nodemailer b1 b2 \<noteq> []"
  "email_service_resend \<noteq> []"
  "email_service_sendgrid \<noteq> []"
  "email_service_processor \<noteq> []"
  "email_service_welcome \<noteq> []"
  "email_service_password_reset \<noteq> []"
  "email_service_order_confirmation \<noteq> []"
  by (simp_all add: email_service_module_def email_service_nodemailer_def
      email_service_resend_def email_service_sendgrid_def email_service_processor_def
      email_service_welcome_def email_service_password_reset_def
      email_service_order_confirmation_def)

lemma health_check_builder_templates_nonempty [simp]:
  "health_check_builder_code a1 a2 a3 \<noteq> []"
  by (simp_all add: health_check_builder_code_def)

lemma logger_provider_templates_nonempty [simp]:
  "logger_provider_winston a1 \<noteq> []"
  "logger_provider_pino b1 \<noteq> []"
  by (simp_all add: logger_provider_winston_def logger_provider_pino_def)

lemma websocket_gateway_templates_nonempty [simp]:
  "websocket_gateway_eventHandler a1 a2 a3 \<noteq> []"
  "websocket_gateway_gateway b1 b2 b3 b4 b5 \<noteq> []"
  "websocket_gateway_guard \<noteq> []"
  "websocket_gateway_module d1 d2 d3 \<noteq> []"
  "websocket_gateway_hook e1 \<noteq> []"
  by (simp_all add: websocket_gateway_eventHandler_def websocket_gateway_gateway_def
      websocket_gateway_guard_def websocket_gateway_module_def websocket_gateway_hook_def)

lemma google_oauth_templates_nonempty [simp]:
  "google_oauth_strategy a1 a2 a3 \<noteq> []"
  "google_oauth_guard b1 \<noteq> []"
  "google_oauth_controller c1 \<noteq> []"
  "google_oauth_service \<noteq> []"
  "google_oauth_module \<noteq> []"
  by (simp_all add: google_oauth_strategy_def google_oauth_guard_def google_oauth_controller_def
      google_oauth_service_def google_oauth_module_def)

lemma s3_upload_templates_nonempty [simp]:
  "s3_upload_module \<noteq> []"
  "s3_upload_service b1 b2 b3 b4 \<noteq> []"
  "s3_upload_controller c1 \<noteq> []"
  by (simp_all add: s3_upload_module_def s3_upload_service_def s3_upload_controller_def)

lemma file_upload_manager_templates_nonempty [simp]:
  "file_upload_manager_cloudinary a1 \<noteq> []"
  "file_upload_manager_s3 \<noteq> []"
  by (simp_all add: file_upload_manager_cloudinary_def file_upload_manager_s3_def)

lemma gemini_integration_templates_nonempty [simp]:
  "gemini_integration_code a1 a2 a3 \<noteq> []"
  by (simp_all add: gemini_integration_code_def)

lemma mercado_pago_integration_templates_nonempty [simp]:
  "mercado_pago_integration_itemsCode a1 \<noteq> []"
  "mercado_pago_integration_nestJsCode b1 b2 b3 \<noteq> []"
  "mercado_pago_integration_genericCode c1 c2 c3 \<noteq> []"
  by (simp_all add: mercado_pago_integration_itemsCode_def
      mercado_pago_integration_nestJsCode_def mercado_pago_integration_genericCode_def)

lemma cron_job_scheduler_templates_nonempty [simp]:
  "cron_job_scheduler_jobMethod a1 \<noteq> []"
  "cron_job_scheduler_service b1 b2 \<noteq> []"
  "cron_job_scheduler_module c1 c2 \<noteq> []"
  by (simp_all add: cron_job_scheduler_jobMethod_def cron_job_scheduler_service_def
      cron_job_scheduler_module_def)

lemma e2e_test_builder_templates_nonempty [simp]:
  "e2e_test_builder_code a1 a2 \<noteq> []"
  by (simp_all add: e2e_test_builder_code_def)

lemma load_test_config_templates_nonempty [simp]:
  "load_test_config_code a1 a2 a3 a4 \<noteq> []"
  by (simp_all add: load_test_config_code_def)

lemma unit_test_generator_templates_nonempty [simp]:
  "unit_test_generator_mockProvider a1 \<noteq> []"
  "unit_test_generator_methodTest b1 \<noteq> []"
  "unit_test_generator_code c1 c2 c3 c4 \<noteq> []"
  by (simp_all add: unit_test_generator_mockProvider_def unit_test_generator_methodTest_def
      unit_test_generator_code_def)

lemma auth_session_manager_templates_nonempty [simp]:
  "auth_session_manager_userType a1 \<noteq> []"
  "auth_session_manager_code b1 b2 b3 b4 b5 \<noteq> []"
  by (simp_all add: auth_session_manager_userType_def auth_session_manager_code_def)

lemma auth_guard_templates_nonempty [simp]:
  "auth_guard_routeCheck a1 a2 \<noteq> []"
  "auth_guard_middlewareCode b1 b2 \<noteq> []"
  by (simp_all add: auth_guard_routeCheck_def auth_guard_middlewareCode_def)

lemma theme_switcher_templates_nonempty [simp]:
  "theme_switcher_provider a1 a2 \<noteq> []"
  "theme_switcher_toggle \<noteq> []"
  by (simp_all add: theme_switcher_provider_def theme_switcher_toggle_def)

lemma data_fetching_templates_nonempty [simp]:
  "data_fetching_query a1 a2 a3 \<noteq> []"
  "data_fetching_mutation b1 b2 b3 \<noteq> []"
  by (simp_all add: data_fetching_query_def data_fetching_mutation_def)

lemma form_factory_templates_nonempty [simp]:
  "form_factory_zodSchemaField a1 \<noteq> []"
  "form_factory_formFieldJsx b1 \<noteq> []"
  "form_factory_formSchemaCode c1 \<noteq> []"
  "form_factory_fullComponent d1 d2 d3 d4 \<noteq> []"
  by (simp_all add: form_factory_zodSchemaField_def form_factory_formFieldJsx_def
      form_factory_formSchemaCode_def form_factory_fullComponent_def)

lemma infinite_scroll_templates_nonempty [simp]:
  "infinite_scroll_code a1 a2 a3 a4 \<noteq> []"
  by (simp_all add: infinite_scroll_code_def)

lemma routing_master_templates_nonempty [simp]:
  "routing_master_pageContent a1 a2 \<noteq> []"
  "routing_master_layoutContent b1 \<noteq> []"
  "routing_master_loadingContent \<noteq> []"
  "routing_master_errorContent \<noteq> []"
  by (simp_all add: routing_master_pageContent_def routing_master_layoutContent_def
      routing_master_loadingContent_def routing_master_errorContent_def)

lemma search_params_manager_templates_nonempty [simp]:
  "search_params_manager_hookCode a1 \<noteq> []"
  by (simp_all add: search_params_manager_hookCode_def)

lemma sitemap_generator_templates_nonempty [simp]:
  "sitemap_generator_sitemapCode a1 a2 \<noteq> []"
  "sitemap_generator_robotsCode b1 \<noteq> []"
  by (simp_all add: sitemap_generator_sitemapCode_def sitemap_generator_robotsCode_def)

lemma component_test_builder_templates_nonempty [simp]:
  "component_test_builder_imports a1 \<noteq> []"
  "component_test_builder_code b1 b2 b3 \<noteq> []"
  by (simp_all add: component_test_builder_imports_def component_test_builder_code_def)

lemma e2e_frontend_builder_templates_nonempty [simp]:
  "e2e_frontend_builder_code a1 a2 a3 \<noteq> []"
  by (simp_all add: e2e_frontend_builder_code_def)

lemma hook_test_generator_templates_nonempty [simp]:
  "hook_test_generator_code a1 a2 a3 a4 \<noteq> []"
  by (simp_all add: hook_test_generator_code_def)

lemma feedback_system_templates_nonempty [simp]:
  "feedback_system_wrappedHandlerCode a1 a2 a3 \<noteq> []"
  "feedback_system_skeletonLoader b1 \<noteq> []"
  by (simp_all add: feedback_system_wrappedHandlerCode_def feedback_system_skeletonLoader_def)

lemma responsive_ui_templates_nonempty [simp]:
  "responsive_result a1 \<noteq> []"
  by (simp_all add: responsive_result_def)

lemma shadcn_expert_templates_nonempty [simp]:
  "generateCard_fieldItem a1 \<noteq> []"
  "generateCard_code b1 b2 b3 b4 b5 \<noteq> []"
  "generateCard c1 c2 c3 c4 \<noteq> []"
  "generateDataTable_column d1 \<noteq> []"
  "generateDataTable_code e1 e2 e3 e4 \<noteq> []"
  "generateDataTable f1 f2 f3 \<noteq> []"
  "generateModal_formField g1 \<noteq> []"
  "generateModal_code h1 h2 \<noteq> []"
  "generateModal i1 i2 \<noteq> []"
  "generateForm_formField j1 \<noteq> []"
  "generateForm_zodField k1 \<noteq> []"
  "generateForm_code l1 l2 l3 l4 \<noteq> []"
  "generateForm m1 m2 \<noteq> []"
  by (simp_all add: generateCard_fieldItem_def generateCard_code_def generateCard_def
      generateDataTable_column_def generateDataTable_code_def generateDataTable_def
      generateModal_formField_def generateModal_code_def generateModal_def
      generateForm_formField_def generateForm_zodField_def generateForm_code_def
      generateForm_def)

lemma shadcn_placeholder_templates_nonempty [simp]:
  "shadcn_placeholder_codeSnippet a1 a2 \<noteq> []"
  by (simp_all add: shadcn_placeholder_codeSnippet_def)

lemma skeleton_loader_templates_nonempty [simp]:
  "skeleton_loader_code a1 a2 a3 a4 a5 a6 \<noteq> []"
  by (simp_all add: skeleton_loader_code_def)

lemma table_generator_templates_nonempty [simp]:
  "table_generator_columnDef a1 \<noteq> []"
  "table_generator_code b1 b2 b3 b4 b5 b6 \<noteq> []"
  by (simp_all add: table_generator_columnDef_def table_generator_code_def)

lemma toast_notification_templates_nonempty [simp]:
  "toast_notification_sonner_provider a1 \<noteq> []"
  "toast_notification_sonner_hook \<noteq> []"
  "toast_notification_hot_toast_provider c1 \<noteq> []"
  "toast_notification_hot_toast_hook \<noteq> []"
  "toast_notification_usage_example \<noteq> []"
  by (simp_all add: toast_notification_sonner_provider_def toast_notification_sonner_hook_def
      toast_notification_hot_toast_provider_def toast_notification_hot_toast_hook_def
      toast_notification_usage_example_def)

subsection \<open>What the handlers return\<close>




































text \<open>
  Two handlers trim their template; the text that remains is not empty.
\<close>

lemma list_ex_append_literal [simp]:
  "list_ex P (xs @ ys) = (list_ex P xs \<or> list_ex P ys)"
  by (auto simp: list_ex_iff)






lemma ui_polish_icons_import_nonempty [simp]: "ui_polish_icons_import \<noteq> []"
  by (simp add: ui_polish_icons_import_def)





lemma skeleton_loader_handler_throws:
  "(\<exists>e. skeleton_loader_handler rt a = Inl e) = (\<not> valid_array_length (SkeletonLoaderArgs.itemCount a))"
  by (simp add: skeleton_loader_handler_def Let_def)






subsection \<open>Invocations\<close>

text \<open>
  An invocation of a skill of the catalogue, by its schema and its handler.
\<close>

lemma roleGuardGeneratorSkillDefinition_invoke:
  "invoke rt roleGuardGeneratorSkillDefinition input =
     (case zparse rt RoleGuardGeneratorSchema input of
        Inl issues \<Rightarrow> Rejected issues
      | Inr v \<Rightarrow> Returned (role_guard_generator_handler (RoleGuardGeneratorArgs_of v)))"
  by (simp add: invoke_def roleGuardGeneratorSkillDefinition_def split: sum.splits)

lemma accessListManagerSkillDefinition_invoke:
  "invoke rt accessListManagerSkillDefinition input =
     (case zparse rt AccessListManagerSchema input of
        Inl issues \<Rightarrow> Rejected issues
      | Inr v \<Rightarrow> Returned (access_list_manager_handler (AccessListManagerArgs_of v)))"
  by (simp add: invoke_def accessListManagerSkillDefinition_def split: sum.splits)

lemma tokenBlacklistSkillDefinition_invoke:
  "invoke rt tokenBlacklistSkillDefinition input =
     (case zparse rt TokenBlacklistSchema input of
        Inl issues \<Rightarrow> Rejected issues
      | Inr v \<Rightarrow> Returned (token_blacklist_handler rt (TokenBlacklistArgs_of v)))"
  by (simp add: invoke_def tokenBlacklistSkillDefinition_def split: sum.splits)

lemma rateLimitSetupSkillDefinition_invoke:
  "invoke rt rateLimitSetupSkillDefinition input =
     (case zparse rt RateLimitSetupSchema input of
        Inl issues \<Rightarrow> Rejected issues
      | Inr v \<Rightarrow> Returned (rate_limit_setup_handler rt (RateLimitSetupArgs_of v)))"
  by (simp add: invoke_def rateLimitSetupSkillDefinition_def split: sum.splits)

lemma swaggerDocHelperSkillDefinition_invoke:
  "invoke rt swaggerDocHelperSkillDefinition input =
     (case zparse rt SwaggerDocHelperSchema input of
        Inl issues \<Rightarrow> Rejected issues
      | Inr v \<Rightarrow> Returned (swagger_doc_helper_handler rt (SwaggerDocHelperArgs_of v)))"
  by (simp add: invoke_def swaggerDocHelperSkillDefinition_def split: sum.splits)

lemma versioningManagerSkillDefinition_invoke:
  "invoke rt versioningManagerSkillDefinition input =
     (case zparse rt VersioningManagerSchema input of
        Inl issues \<Rightarrow> Rejected issues
      | Inr v \<Rightarrow> Returned (versioning_manager_handler (VersioningManagerArgs_of v)))"
  by (simp add: invoke_def versioningManagerSkillDefinition_def split: sum.splits)

lemma generateNestResource_invoke:
  "invoke rt generateNestResource input =
     (case zparse rt generateNestResourceSchema input of
        Inl issues \<Rightarrow> Rejected issues
      | Inr v \<Rightarrow> Returned (generate_nest_resource_handler (GenerateNestResourceArgs_of v)))"
  by (simp add: invoke_def generateNestResource_def split: sum.splits)

lemma migrationExpertSkillDefinition_invoke:
  "invoke rt migrationExpertSkillDefinition input =
     (case zparse rt MigrationExpertSchema input of
        Inl issues \<Rightarrow> Rejected issues
      | Inr v \<Rightarrow> Returned (migration_expert_handler rt (MigrationExpertArgs_of v)))"
  by (simp add: invoke_def migrationExpertSkillDefinition_def split: sum.splits)

lemma entityCreatorSkillDefinition_invoke:
  "invoke rt entityCreatorSkillDefinition input =
     (case zparse rt EntityCreatorSchema input of
        Inl issues \<Rightarrow> Rejected issues
      | Inr v \<Rightarrow> Returned (entity_creator_handler rt (EntityCreatorArgs_of v)))"
  by (simp add: invoke_def entityCreatorSkillDefinition_def split: sum.splits)

lemma cacheManagerSkillDefinition_invoke:
  "invoke rt cacheManagerSkillDefinition input =
     (case zparse rt CacheManagerSchema input of
        Inl issues \<Rightarrow> Rejected issues
      | Inr v \<Rightarrow> Returned (cache_manager_handler rt (CacheManagerArgs_of v)))"
  by (simp add: invoke_def cacheManagerSkillDefinition_def split: sum.splits)

lemma emailServiceSkillDefinition_invoke:
  "invoke rt emailServiceSkillDefinition input =
     (case zparse rt EmailServiceSchema input of
        Inl issues \<Rightarrow> Rejected issues
      | Inr v \<Rightarrow> Returned (email_service_handler (EmailServiceArgs_of v)))"
  by (simp add: invoke_def emailServiceSkillDefinition_def split: sum.splits)

lemma healthCheckBuilderSkillDefinition_invoke:
  "invoke rt healthCheckBuilderSkillDefinition input =
     (case zparse rt HealthCheckBuilderSchema input of
        Inl issues \<Rightarrow> Rejected issues
      | Inr v \<Rightarrow> Returned (health_check_builder_handler rt (HealthCheckBuilderArgs_of v)))"
  by (simp add: invoke_def healthCheckBuilderSkillDefinition_def split: sum.splits)

lemma loggerProviderSkillDefinition_invoke:
  "invoke rt loggerProviderSkillDefinition input =
     (case zparse rt LoggerProviderSchema input of
        Inl issues \<Rightarrow> Rejected issues
      | Inr v \<Rightarrow> Returned (logger_provider_handler (LoggerProviderArgs_of v)))"
  by (simp add: invoke_def loggerProviderSkillDefinition_def split: sum.splits)

lemma websocketGatewaySkillDefinition_invoke:
  "invoke rt websocketGatewaySkillDefinition input =
     (case zparse rt WebSocketGatewaySchema input of
        Inl issues \<Rightarrow> Rejected issues
      | Inr v \<Rightarrow> Returned (websocket_gateway_handler (WebSocketGatewayArgs_of v)))"
  by (simp add: invoke_def websocketGatewaySkillDefinition_def split: sum.splits)

lemma googleOAuthSkillDefinition_invoke:
  "invoke rt googleOAuthSkillDefinition input =
     (case zparse rt GoogleOAuthSchema input of
        Inl issues \<Rightarrow> Rejected issues
      | Inr v \<Rightarrow> Returned (google_oauth_handler (GoogleOAuthArgs_of v)))"
  by (simp add: invoke_def googleOAuthSkillDefinition_def split: sum.splits)

lemma s3UploadSkillDefinition_invoke:
  "invoke rt s3UploadSkillDefinition input =
     (case zparse rt S3UploadSchema input of
        Inl issues \<Rightarrow> Rejected issues
      | Inr v \<Rightarrow> Returned (s3_upload_handler (S3UploadArgs_of v)))"
  by (simp add: invoke_def s3UploadSkillDefinition_def split: sum.splits)

lemma fileUploadManagerSkillDefinition_invoke:
  "invoke rt fileUploadManagerSkillDefinition input =
     (case zparse rt FileUploadManagerSchema input of
        Inl issues \<Rightarrow> Rejected issues
      | Inr v \<Rightarrow> Returned (file_upload_manager_handler (FileUploadManagerArgs_of v)))"
  by (simp add: invoke_def fileUploadManagerSkillDefinition_def split: sum.splits)

lemma geminiIntegrationSkillDefinition_invoke:
  "invoke rt geminiIntegrationSkillDefinition input =
     (case zparse rt GeminiIntegrationSchema input of
        Inl issues \<Rightarrow> Rejected issues
      | Inr v \<Rightarrow> Returned (gemini_integration_handler (GeminiIntegrationArgs_of v)))"
  by (simp add: invoke_def geminiIntegrationSkillDefinition_def split: sum.splits)

lemma mercadoPagoIntegrationSkillDefinition_invoke:
  "invoke rt mercadoPagoIntegrationSkillDefinition input =
     (case zparse rt MercadoPagoIntegrationSchema input of
        Inl issues \<Rightarrow> Rejected issues
      | Inr v \<Rightarrow> Returned (mercado_pago_integration_handler (MercadoPagoIntegrationArgs_of v)))"
  by (simp add: invoke_def mercadoPagoIntegrationSkillDefinition_def split: sum.splits)

lemma cronJobSchedulerSkillDefinition_invoke:
  "invoke rt cronJobSchedulerSkillDefinition input =
     (case zparse rt CronJobSchedulerSchema input of
        Inl issues \<Rightarrow> Rejected issues
      | Inr v \<Rightarrow> Returned (cron_job_scheduler_handler (CronJobSchedulerArgs_of v)))"
  by (simp add: invoke_def cronJobSchedulerSkillDefinition_def split: sum.splits)

lemma e2eTestBuilderSkillDefinition_invoke:
  "invoke rt e2eTestBuilderSkillDefinition input =
     (case zparse rt E2ETestBuilderSchema input of
        Inl issues \<Rightarrow> Rejected issues
      | Inr v \<Rightarrow> Returned (e2e_test_builder_handler (E2ETestBuilderArgs_of v)))"
  by (simp add: invoke_def e2eTestBuilderSkillDefinition_def split: sum.splits)

lemma loadTestConfigSkillDefinition_invoke:
  "invoke rt loadTestConfigSkillDefinition input =
     (case zparse rt LoadTestConfigSchema input of
        Inl issues \<Rightarrow> Rejected issues
      | Inr v \<Rightarrow> Returned (load_test_config_handler rt (LoadTestConfigArgs_of v)))"
  by (simp add: invoke_def loadTestConfigSkillDefinition_def split: sum.splits)

lemma unitTestGeneratorSkillDefinition_invoke:
  "invoke rt unitTestGeneratorSkillDefinition input =
     (case zparse rt UnitTestGeneratorSchema input of
        Inl issues \<Rightarrow> Rejected issues
      | Inr v \<Rightarrow> Returned (unit_test_generator_handler (UnitTestGeneratorArgs_of v)))"
  by (simp add: invoke_def unitTestGeneratorSkillDefinition_def split: sum.splits)

lemma authSessionManagerSkillDefinition_invoke:
  "invoke rt authSessionManagerSkillDefinition input =
     (case zparse rt AuthSessionManagerSchema input of
        Inl issues \<Rightarrow> Rejected issues
      | Inr v \<Rightarrow> Returned (auth_session_manager_handler (AuthSessionManagerArgs_of v)))"
  by (simp add: invoke_def authSessionManagerSkillDefinition_def split: sum.splits)

lemma authGuardSkillDefinition_invoke:
  "invoke rt authGuardSkillDefinition input =
     (case zparse rt AuthGuardSchema input of
        Inl issues \<Rightarrow> Rejected issues
      | Inr v \<Rightarrow> Returned (auth_guard_handler (AuthGuardArgs_of v)))"
  by (simp add: invoke_def authGuardSkillDefinition_def split: sum.splits)

lemma themeSwitcherSkillDefinition_invoke:
  "invoke rt themeSwitcherSkillDefinition input =
     (case zparse rt ThemeSwitcherSchema input of
        Inl issues \<Rightarrow> Rejected issues
      | Inr v \<Rightarrow> Returned (theme_switcher_handler (ThemeSwitcherArgs_of v)))"
  by (simp add: invoke_def themeSwitcherSkillDefinition_def split: sum.splits)

lemma componentOptimizerSkillDefinition_invoke:
  "invoke rt componentOptimizerSkillDefinition input =
     (case zparse rt ComponentOptimizerSchema input of
        Inl issues \<Rightarrow> Rejected issues
      | Inr v \<Rightarrow> Returned (component_optimizer_handler (ComponentOptimizerArgs_of v)))"
  by (simp add: invoke_def componentOptimizerSkillDefinition_def split: sum.splits)

lemma dataFetchingSkillDefinition_invoke:
  "invoke rt dataFetchingSkillDefinition input =
     (case zparse rt DataFetchingSchema input of
        Inl issues \<Rightarrow> Rejected issues
      | Inr v \<Rightarrow> Returned (data_fetching_handler (DataFetchingArgs_of v)))"
  by (simp add: invoke_def dataFetchingSkillDefinition_def split: sum.splits)

lemma formFactorySkillDefinition_invoke:
  "invoke rt formFactorySkillDefinition input =
     (case zparse rt FormFactorySchema input of
        Inl issues \<Rightarrow> Rejected issues
      | Inr v \<Rightarrow> Returned (form_factory_handler (FormFactoryArgs_of v)))"
  by (simp add: invoke_def formFactorySkillDefinition_def split: sum.splits)

lemma infiniteScrollSkillDefinition_invoke:
  "invoke rt infiniteScrollSkillDefinition input =
     (case zparse rt InfiniteScrollSchema input of
        Inl issues \<Rightarrow> Rejected issues
      | Inr v \<Rightarrow> Returned (infinite_scroll_handler (InfiniteScrollArgs_of v)))"
  by (simp add: invoke_def infiniteScrollSkillDefinition_def split: sum.splits)

lemma analyzeHookLogic_invoke:
  "invoke rt analyzeHookLogic input =
     (case zparse rt analyzeHookLogicSchema input of
        Inl issues \<Rightarrow> Rejected issues
      | Inr v \<Rightarrow> Returned (analyze_hook_logic_handler (AnalyzeHookLogicArgs_of v)))"
  by (simp add: invoke_def analyzeHookLogic_def split: sum.splits)

lemma routingMasterSkillDefinition_invoke:
  "invoke rt routingMasterSkillDefinition input =
     (case zparse rt RoutingMasterSchema input of
        Inl issues \<Rightarrow> Rejected issues
      | Inr v \<Rightarrow> Returned (routing_master_handler (RoutingMasterArgs_of v)))"
  by (simp add: invoke_def routingMasterSkillDefinition_def split: sum.splits)

lemma searchParamsManagerSkillDefinition_invoke:
  "invoke rt searchParamsManagerSkillDefinition input =
     (case zparse rt SearchParamsManagerSchema input of
        Inl issues \<Rightarrow> Rejected issues
      | Inr v \<Rightarrow> Returned (search_params_manager_handler (SearchParamsManagerArgs_of v)))"
  by (simp add: invoke_def searchParamsManagerSkillDefinition_def split: sum.splits)

lemma sitemapGeneratorSkillDefinition_invoke:
  "invoke rt sitemapGeneratorSkillDefinition input =
     (case zparse rt SitemapGeneratorSchema input of
        Inl issues \<Rightarrow> Rejected issues
      | Inr v \<Rightarrow> Returned (sitemap_generator_handler (SitemapGeneratorArgs_of v)))"
  by (simp add: invoke_def sitemapGeneratorSkillDefinition_def split: sum.splits)

lemma componentTestBuilderSkillDefinition_invoke:
  "invoke rt componentTestBuilderSkillDefinition input =
     (case zparse rt ComponentTestBuilderSchema input of
        Inl issues \<Rightarrow> Rejected issues
      | Inr v \<Rightarrow> Returned (component_test_builder_handler rt (ComponentTestBuilderArgs_of v)))"
  by (simp add: invoke_def componentTestBuilderSkillDefinition_def split: sum.splits)

lemma e2eFrontendBuilderSkillDefinition_invoke:
  "invoke rt e2eFrontendBuilderSkillDefinition input =
     (case zparse rt E2EFrontendBuilderSchema input of
        Inl issues \<Rightarrow> Rejected issues
      | Inr v \<Rightarrow> Returned (e2e_frontend_builder_handler (E2EFrontendBuilderArgs_of v)))"
  by (simp add: invoke_def e2eFrontendBuilderSkillDefinition_def split: sum.splits)

lemma hookTestGeneratorSkillDefinition_invoke:
  "invoke rt hookTestGeneratorSkillDefinition input =
     (case zparse rt HookTestGeneratorSchema input of
        Inl issues \<Rightarrow> Rejected issues
      | Inr v \<Rightarrow> Returned (hook_test_generator_handler rt (HookTestGeneratorArgs_of v)))"
  by (simp add: invoke_def hookTestGeneratorSkillDefinition_def split: sum.splits)

lemma aiCopywriterSkillDefinition_invoke:
  "invoke rt aiCopywriterSkillDefinition input =
     (case zparse rt AiCopywriterSchema input of
        Inl issues \<Rightarrow> Rejected issues
      | Inr v \<Rightarrow> Returned (ai_copywriter_handler (AiCopywriterArgs_of v)))"
  by (simp add: invoke_def aiCopywriterSkillDefinition_def split: sum.splits)

lemma feedbackSystemSkillDefinition_invoke:
  "invoke rt feedbackSystemSkillDefinition input =
     (case zparse rt FeedbackSystemSchema input of
        Inl issues \<Rightarrow> Rejected issues
      | Inr v \<Rightarrow> Returned (feedback_system_handler (FeedbackSystemArgs_of v)))"
  by (simp add: invoke_def feedbackSystemSkillDefinition_def split: sum.splits)

lemma responsiveSkillDefinition_invoke:
  "invoke rt responsiveSkillDefinition input =
     (case zparse rt ResponsiveSchema input of
        Inl issues \<Rightarrow> Rejected issues
      | Inr v \<Rightarrow> Returned (responsiveHandler (ResponsiveArgs_of v)))"
  by (simp add: invoke_def responsiveSkillDefinition_def split: sum.splits)

lemma shadcnSkillDefinition_invoke:
  "invoke rt shadcnSkillDefinition input =
     (case zparse rt ShadcnSchema input of
        Inl issues \<Rightarrow> Rejected issues
      | Inr v \<Rightarrow> Returned (shadcnHandler (ShadcnArgs_of v)))"
  by (simp add: invoke_def shadcnSkillDefinition_def split: sum.splits)

lemma shadcnPlaceholderSkillDefinition_invoke:
  "invoke rt shadcnPlaceholderSkillDefinition input =
     (case zparse rt ShadcnPlaceholderSchema input of
        Inl issues \<Rightarrow> Rejected issues
      | Inr v \<Rightarrow> Returned (shadcn_placeholder_handler (ShadcnPlaceholderArgs_of v)))"
  by (simp add: invoke_def shadcnPlaceholderSkillDefinition_def split: sum.splits)

lemma skeletonLoaderSkillDefinition_invoke:
  "invoke rt skeletonLoaderSkillDefinition input =
     (case zparse rt SkeletonLoaderSchema input of
        Inl issues \<Rightarrow> Rejected issues
      | Inr v \<Rightarrow> (case skeleton_loader_handler rt (SkeletonLoaderArgs_of v) of Inl e \<Rightarrow> Threw e | Inr r \<Rightarrow> Returned r))"
  by (simp add: invoke_def skeletonLoaderSkillDefinition_def split: sum.splits)

lemma tableGeneratorSkillDefinition_invoke:
  "invoke rt tableGeneratorSkillDefinition input =
     (case zparse rt TableGeneratorSchema input of
        Inl issues \<Rightarrow> Rejected issues
      | Inr v \<Rightarrow> Returned (table_generator_handler (TableGeneratorArgs_of v)))"
  by (simp add: invoke_def tableGeneratorSkillDefinition_def split: sum.splits)

lemma toastNotificationSkillDefinition_invoke:
  "invoke rt toastNotificationSkillDefinition input =
     (case zparse rt ToastNotificationSchema input of
        Inl issues \<Rightarrow> Rejected issues
      | Inr v \<Rightarrow> Returned (toast_notification_handler (ToastNotificationArgs_of v)))"
  by (simp add: invoke_def toastNotificationSkillDefinition_def split: sum.splits)

lemma uiPolishSkillDefinition_invoke:
  "invoke rt uiPolishSkillDefinition input =
     (case zparse rt UiPolishSchema input of
        Inl issues \<Rightarrow> Rejected issues
      | Inr v \<Rightarrow> Returned (ui_polish_handler (UiPolishArgs_of v)))"
  by (simp add: invoke_def uiPolishSkillDefinition_def split: sum.splits)

lemmas invoke_skill =
  roleGuardGeneratorSkillDefinition_invoke accessListManagerSkillDefinition_invoke
  tokenBlacklistSkillDefinition_invoke rateLimitSetupSkillDefinition_invoke
  swaggerDocHelperSkillDefinition_invoke versioningManagerSkillDefinition_invoke
  generateNestResource_invoke migrationExpertSkillDefinition_invoke
  entityCreatorSkillDefinition_invoke cacheManagerSkillDefinition_invoke
  emailServiceSkillDefinition_invoke healthCheckBuilderSkillDefinition_invoke
  loggerProviderSkillDefinition_invoke websocketGatewaySkillDefinition_invoke
  googleOAuthSkillDefinition_invoke s3UploadSkillDefinition_invoke
  fileUploadManagerSkillDefinition_invoke geminiIntegrationSkillDefinition_invoke
  mercadoPagoIntegrationSkillDefinition_invoke cronJobSchedulerSkillDefinition_invoke
  e2eTestBuilderSkillDefinition_invoke loadTestConfigSkillDefinition_invoke
  unitTestGeneratorSkillDefinition_invoke authSessionManagerSkillDefinition_invoke
  authGuardSkillDefinition_invoke themeSwitcherSkillDefinition_invoke
  componentOptimizerSkillDefinition_invoke dataFetchingSkillDefinition_invoke
  formFactorySkillDefinition_invoke infiniteScrollSkillDefinition_invoke analyzeHookLogic_invoke
  routingMasterSkillDefinition_invoke searchParamsManagerSkillDefinition_invoke
  sitemapGeneratorSkillDefinition_invoke componentTestBuilderSkillDefinition_invoke
  e2eFrontendBuilderSkillDefinition_invoke hookTestGeneratorSkillDefinition_invoke
  aiCopywriterSkillDefinition_invoke feedbackSystemSkillDefinition_invoke
  responsiveSkillDefinition_invoke shadcnSkillDefinition_invoke
  shadcnPlaceholderSkillDefinition_invoke skeletonLoaderSkillDefinition_invoke
  tableGeneratorSkillDefinition_invoke toastNotificationSkillDefinition_invoke
  uiPolishSkillDefinition_invoke

text \<open>The names of the skills.\<close>

lemma skill_names [simp]:
  "SkillDefinition.name roleGuardGeneratorSkillDefinition = ''role_guard_generator''"
  "SkillDefinition.name accessListManagerSkillDefinition = ''access_list_manager''"
  "SkillDefinition.name tokenBlacklistSkillDefinition = ''token_blacklist''"
  "SkillDefinition.name rateLimitSetupSkillDefinition = ''rate_limit_setup''"
  "SkillDefinition.name swaggerDocHelperSkillDefinition = ''swagger_doc_helper''"
  "SkillDefinition.name versioningManagerSkillDefinition = ''versioning_manager''"
  "SkillDefinition.name generateNestResource = ''generate_nest_resource''"
  "SkillDefinition.name migrationExpertSkillDefinition = ''migration_expert''"
  "SkillDefinition.name entityCreatorSkillDefinition = ''entity_creator''"
  "SkillDefinition.name cacheManagerSkillDefinition = ''cache_manager''"
  "SkillDefinition.name emailServiceSkillDefinition = ''email_service_generator''"
  "SkillDefinition.name healthCheckBuilderSkillDefinition = ''health_check_builder''"
  "SkillDefinition.name loggerProviderSkillDefinition = ''logger_provider''"
  "SkillDefinition.name websocketGatewaySkillDefinition = ''websocket_gateway_generator''"
  "SkillDefinition.name googleOAuthSkillDefinition = ''google_oauth_generator''"
  "SkillDefinition.name s3UploadSkillDefinition = ''s3_upload_manager''"
  "SkillDefinition.name fileUploadManagerSkillDefinition = ''file_upload_manager''"
  "SkillDefinition.name geminiIntegrationSkillDefinition = ''gemini_integration''"
  "SkillDefinition.name mercadoPagoIntegrationSkillDefinition = ''generate_mercadopago_integration''"
  "SkillDefinition.name cronJobSchedulerSkillDefinition = ''cron_job_scheduler''"
  "SkillDefinition.name e2eTestBuilderSkillDefinition = ''e2e_test_builder''"
  "SkillDefinition.name loadTestConfigSkillDefinition = ''load_test_config''"
  "SkillDefinition.name unitTestGeneratorSkillDefinition = ''unit_test_generator''"
  "SkillDefinition.name authSessionManagerSkillDefinition = ''generate_auth_session_manager''"
  "SkillDefinition.name authGuardSkillDefinition = ''generate_auth_guard''"
  "SkillDefinition.name themeSwitcherSkillDefinition = ''theme_switcher''"
  "SkillDefinition.name componentOptimizerSkillDefinition = ''component_optimizer''"
  "SkillDefinition.name dataFetchingSkillDefinition = ''generate_react_query_hook''"
  "SkillDefinition.name formFactorySkillDefinition = ''form_factory''"
  "SkillDefinition.name infiniteScrollSkillDefinition = ''infinite_scroll_builder''"
  "SkillDefinition.name analyzeHookLogic = ''analyze_hook_logic''"
  "SkillDefinition.name routingMasterSkillDefinition = ''routing_master''"
  "SkillDefinition.name searchParamsManagerSkillDefinition = ''search_params_manager''"
  "SkillDefinition.name sitemapGeneratorSkillDefinition = ''sitemap_generator''"
  "SkillDefinition.name componentTestBuilderSkillDefinition = ''component_test_builder''"
  "SkillDefinition.name e2eFrontendBuilderSkillDefinition = ''e2e_frontend_builder''"
  "SkillDefinition.name hookTestGeneratorSkillDefinition = ''hook_test_generator''"
  "SkillDefinition.name aiCopywriterSkillDefinition = ''ai_copywriter''"
  "SkillDefinition.name feedbackSystemSkillDefinition = ''generate_feedback_system''"
  "SkillDefinition.name responsiveSkillDefinition = ''generate_responsive_layout''"
  "SkillDefinition.name shadcnSkillDefinition = ''apply_shadcn_style''"
  "SkillDefinition.name shadcnPlaceholderSkillDefinition = ''apply_shadcn_style''"
  "SkillDefinition.name skeletonLoaderSkillDefinition = ''skeleton_loader_builder''"
  "SkillDefinition.name tableGeneratorSkillDefinition = ''table_generator''"
  "SkillDefinition.name toastNotificationSkillDefinition = ''toast_notification_system''"
  "SkillDefinition.name uiPolishSkillDefinition = ''ui_polish''"
  by (simp_all add: roleGuardGeneratorSkillDefinition_def accessListManagerSkillDefinition_def
      tokenBlacklistSkillDefinition_def rateLimitSetupSkillDefinition_def
      swaggerDocHelperSkillDefinition_def versioningManagerSkillDefinition_def
      generateNestResource_def migrationExpertSkillDefinition_def
      entityCreatorSkillDefinition_def cacheManagerSkillDefinition_def
      emailServiceSkillDefinition_def healthCheckBuilderSkillDefinition_def
      loggerProviderSkillDefinition_def websocketGatewaySkillDefinition_def
      googleOAuthSkillDefinition_def s3UploadSkillDefinition_def
      fileUploadManagerSkillDefinition_def geminiIntegrationSkillDefinition_def
      mercadoPagoIntegrationSkillDefinition_def cronJobSchedulerSkillDefinition_def
      e2eTestBuilderSkillDefinition_def loadTestConfigSkillDefinition_def
      unitTestGeneratorSkillDefinition_def authSessionManagerSkillDefinition_def
      authGuardSkillDefinition_def themeSwitcherSkillDefinition_def
      componentOptimizerSkillDefinition_def dataFetchingSkillDefinition_def
      formFactorySkillDefinition_def infiniteScrollSkillDefinition_def analyzeHookLogic_def
      routingMasterSkillDefinition_def searchParamsManagerSkillDefinition_def
      sitemapGeneratorSkillDefinition_def componentTestBuilderSkillDefinition_def
      e2eFrontendBuilderSkillDefinition_def hookTestGeneratorSkillDefinition_def
      aiCopywriterSkillDefinition_def feedbackSystemSkillDefinition_def
      responsiveSkillDefinition_def shadcnSkillDefinition_def
      shadcnPlaceholderSkillDefinition_def skeletonLoaderSkillDefinition_def
      tableGeneratorSkillDefinition_def toastNotificationSkillDefinition_def
      uiPolishSkillDefinition_def)

text \<open>The schemas of the skills.\<close>

lemma skill_parameters [simp]:
  "parameters roleGuardGeneratorSkillDefinition = RoleGuardGeneratorSchema"
  "parameters accessListManagerSkillDefinition = AccessListManagerSchema"
  "parameters tokenBlacklistSkillDefinition = TokenBlacklistSchema"
  "parameters rateLimitSetupSkillDefinition = RateLimitSetupSchema"
  "parameters swaggerDocHelperSkillDefinition = SwaggerDocHelperSchema"
  "parameters versioningManagerSkillDefinition = VersioningManagerSchema"
  "parameters generateNestResource = generateNestResourceSchema"
  "parameters migrationExpertSkillDefinition = MigrationExpertSchema"
  "parameters entityCreatorSkillDefinition = EntityCreatorSchema"
  "parameters cacheManagerSkillDefinition = CacheManagerSchema"
  "parameters emailServiceSkillDefinition = EmailServiceSchema"
  "parameters healthCheckBuilderSkillDefinition = HealthCheckBuilderSchema"
  "parameters loggerProviderSkillDefinition = LoggerProviderSchema"
  "parameters websocketGatewaySkillDefinition = WebSocketGatewaySchema"
  "parameters googleOAuthSkillDefinition = GoogleOAuthSchema"
  "parameters s3UploadSkillDefinition = S3UploadSchema"
  "parameters fileUploadManagerSkillDefinition = FileUploadManagerSchema"
  "parameters geminiIntegrationSkillDefinition = GeminiIntegrationSchema"
  "parameters mercadoPagoIntegrationSkillDefinition = MercadoPagoIntegrationSchema"
  "parameters cronJobSchedulerSkillDefinition = CronJobSchedulerSchema"
  "parameters e2eTestBuilderSkillDefinition = E2ETestBuilderSchema"
  "parameters loadTestConfigSkillDefinition = LoadTestConfigSchema"
  "parameters unitTestGeneratorSkillDefinition = UnitTestGeneratorSchema"
  "parameters authSessionManagerSkillDefinition = AuthSessionManagerSchema"
  "parameters authGuardSkillDefinition = AuthGuardSchema"
  "parameters themeSwitcherSkillDefinition = ThemeSwitcherSchema"
  "parameters componentOptimizerSkillDefinition = ComponentOptimizerSchema"
  "parameters dataFetchingSkillDefinition = DataFetchingSchema"
  "parameters formFactorySkillDefinition = FormFactorySchema"
  "parameters infiniteScrollSkillDefinition = InfiniteScrollSchema"
  "parameters analyzeHookLogic = analyzeHookLogicSchema"
  "parameters routingMasterSkillDefinition = RoutingMasterSchema"
  "parameters searchParamsManagerSkillDefinition = SearchParamsManagerSchema"
  "parameters sitemapGeneratorSkillDefinition = SitemapGeneratorSchema"
  "parameters componentTestBuilderSkillDefinition = ComponentTestBuilderSchema"
  "parameters e2eFrontendBuilderSkillDefinition = E2EFrontendBuilderSchema"
  "parameters hookTestGeneratorSkillDefinition = HookTestGeneratorSchema"
  "parameters aiCopywriterSkillDefinition = AiCopywriterSchema"
  "parameters feedbackSystemSkillDefinition = FeedbackSystemSchema"
  "parameters responsiveSkillDefinition = ResponsiveSchema"
  "parameters shadcnSkillDefinition = ShadcnSchema"
  "parameters shadcnPlaceholderSkillDefinition = ShadcnPlaceholderSchema"
  "parameters skeletonLoaderSkillDefinition = SkeletonLoaderSchema"
  "parameters tableGeneratorSkillDefinition = TableGeneratorSchema"
  "parameters toastNotificationSkillDefinition = ToastNotificationSchema"
  "parameters uiPolishSkillDefinition = UiPolishSchema"
  by (simp_all add: roleGuardGeneratorSkillDefinition_def accessListManagerSkillDefinition_def
      tokenBlacklistSkillDefinition_def rateLimitSetupSkillDefinition_def
      swaggerDocHelperSkillDefinition_def versioningManagerSkillDefinition_def
      generateNestResource_def migrationExpertSkillDefinition_def
      entityCreatorSkillDefinition_def cacheManagerSkillDefinition_def
      emailServiceSkillDefinition_def healthCheckBuilderSkillDefinition_def
      loggerProviderSkillDefinition_def websocketGatewaySkillDefinition_def
      googleOAuthSkillDefinition_def s3UploadSkillDefinition_def
      fileUploadManagerSkillDefinition_def geminiIntegrationSkillDefinition_def
      mercadoPagoIntegrationSkillDefinition_def cronJobSchedulerSkillDefinition_def
      e2eTestBuilderSkillDefinition_def loadTestConfigSkillDefinition_def
      unitTestGeneratorSkillDefinition_def authSessionManagerSkillDefinition_def
      authGuardSkillDefinition_def themeSwitcherSkillDefinition_def
      componentOptimizerSkillDefinition_def dataFetchingSkillDefinition_def
      formFactorySkillDefinition_def infiniteScrollSkillDefinition_def analyzeHookLogic_def
      routingMasterSkillDefinition_def searchParamsManagerSkillDefinition_def
      sitemapGeneratorSkillDefinition_def componentTestBuilderSkillDefinition_def
      e2eFrontendBuilderSkillDefinition_def hookTestGeneratorSkillDefinition_def
      aiCopywriterSkillDefinition_def feedbackSystemSkillDefinition_def
      responsiveSkillDefinition_def shadcnSkillDefinition_def
      shadcnPlaceholderSkillDefinition_def skeletonLoaderSkillDefinition_def
      tableGeneratorSkillDefinition_def toastNotificationSkillDefinition_def
      uiPolishSkillDefinition_def)

subsection \<open>The clock\<close>

text \<open>
  Of the handlers that take the runtime (they print numbers or values), only
  \<open>migration_expert\<close> reads the clock.
\<close>

lemma token_blacklist_handler_clock [simp]:
  "token_blacklist_handler (rt\<lparr>Date_now := t\<rparr>) a = token_blacklist_handler rt a"
  unfolding token_blacklist_handler_def token_blacklist_serviceCode_def
      token_blacklist_moduleSetup_def printing_clock
  by (rule refl)

lemma rate_limit_setup_handler_clock [simp]:
  "rate_limit_setup_handler (rt\<lparr>Date_now := t\<rparr>) a = rate_limit_setup_handler rt a"
  unfolding rate_limit_setup_handler_def rate_limit_setup_code_def printing_clock
  by (rule refl)

lemma swagger_doc_helper_handler_clock [simp]:
  "swagger_doc_helper_handler (rt\<lparr>Date_now := t\<rparr>) a = swagger_doc_helper_handler rt a"
  unfolding swagger_doc_helper_handler_def swagger_doc_helper_apiPropOptions_def
      swagger_doc_helper_propertyCode_def printing_clock
  by (rule refl)

lemma entity_creator_handler_clock [simp]:
  "entity_creator_handler (rt\<lparr>Date_now := t\<rparr>) a = entity_creator_handler rt a"
  unfolding entity_creator_handler_def entity_creator_optionsParts_def
      entity_creator_columnDefinition_def printing_clock
  by (rule refl)

lemma cache_manager_handler_clock [simp]:
  "cache_manager_handler (rt\<lparr>Date_now := t\<rparr>) a = cache_manager_handler rt a"
  unfolding cache_manager_handler_def cache_manager_module_def cache_manager_service_def printing_clock
  by (rule refl)

lemma health_check_builder_handler_clock [simp]:
  "health_check_builder_handler (rt\<lparr>Date_now := t\<rparr>) a = health_check_builder_handler rt a"
  unfolding health_check_builder_handler_def health_check_builder_checks_def printing_clock
  by (rule refl)

lemma load_test_config_handler_clock [simp]:
  "load_test_config_handler (rt\<lparr>Date_now := t\<rparr>) a = load_test_config_handler rt a"
  unfolding load_test_config_handler_def load_test_config_code_def printing_clock
  by (rule refl)

lemma component_test_builder_handler_clock [simp]:
  "component_test_builder_handler (rt\<lparr>Date_now := t\<rparr>) a = component_test_builder_handler rt a"
  unfolding component_test_builder_handler_def formatProp_def formatProps_def
      component_test_builder_test_def printing_clock
  by (rule refl)

lemma hook_test_generator_handler_clock [simp]:
  "hook_test_generator_handler (rt\<lparr>Date_now := t\<rparr>) a = hook_test_generator_handler rt a"
  unfolding hook_test_generator_handler_def hook_test_generator_code_def printing_clock
  by (rule refl)

lemma skeleton_loader_handler_clock [simp]:
  "skeleton_loader_handler (rt\<lparr>Date_now := t\<rparr>) a = skeleton_loader_handler rt a"
  unfolding skeleton_loader_handler_def skeleton_loader_code_def printing_clock
  by (rule refl)



















































text \<open>
  The layout that \<open>skeleton_loader\<close> reads from a validated input is one of the five of the
  schema's enum, and \<open>layouts\<close> has a template under each of them.
\<close>

lemma skeleton_loader_layout:
  assumes "zparse rt SkeletonLoaderSchema input = Inr v"
  shows "SkeletonLoaderArgs.layout (SkeletonLoaderArgs_of v) \<in> set [''card'', ''table'', ''list'', ''profile'', ''form'']"
proof -
  have "\<exists>obj. input = JObj obj \<and>
      zparse rt (ZDefault (ZEnum [''card'', ''table'', ''list'', ''profile'', ''form'']) (JStr ''card''))
        (property obj ''layout'') = Inr (field v ''layout'')"
    by (rule zparse_object_field [OF assms [unfolded SkeletonLoaderSchema_def]]) simp_all
  then obtain obj where
    "zparse rt (ZDefault (ZEnum [''card'', ''table'', ''list'', ''profile'', ''form'']) (JStr ''card''))
       (property obj ''layout'') = Inr (field v ''layout'')"
    by blast
  then have "as_string (field v ''layout'') \<in> set [''card'', ''table'', ''list'', ''profile'', ''form'']"
    by (rule zparse_default_enum)
  then show ?thesis
    by (simp add: SkeletonLoaderArgs_of_def SkeletonLoaderArgs.make_def)
qed

lemma skeleton_loader_layouts_defined:
  "l \<in> set [''card'', ''table'', ''list'', ''profile'', ''form''] \<Longrightarrow>
     lookup (skeleton_loader_layouts n c) l \<noteq> None"
  by (auto simp: skeleton_loader_layouts_def)

section \<open>The claims\<close>

lemmas validation =
  property_def keyed_def at_path_def present_def strings_def wrong_type_def issue_def field_def
  as_string_def as_number_def as_boolean_def as_array_def as_record_def as_optional_def

text \<open>
  Claim C1.  The registry does not aggregate every exported frontend definition.
  \<open>frontendSkills\<close> lists fourteen definitions and has handlers under the same fourteen
  names; eight definitions that the index re-exports are in neither, among them the five
  that it imports by name (\<open>table_generator\<close>, \<open>toast_notification\<close>, \<open>skeleton_loader\<close>,
  \<open>theme_switcher\<close>, \<open>infinite_scroll\<close>).
\<close>

theorem frontend_registry_omits_exports:
  "map SkillDefinition.name (definitions frontendSkills)
     = [''analyze_hook_logic'', ''generate_responsive_layout'', ''apply_shadcn_style'',
        ''component_optimizer'', ''form_factory'', ''ui_polish'', ''generate_react_query_hook'',
        ''generate_feedback_system'', ''generate_auth_guard'', ''ai_copywriter'', ''routing_master'',
        ''search_params_manager'', ''sitemap_generator'', ''generate_auth_session_manager'']
   \<and> Object_keys (handlers frontendSkills) = map SkillDefinition.name (definitions frontendSkills)
   \<and> map SkillDefinition.name (filter (\<lambda>d. \<not> registered frontendSkills d) frontend_exports)
     = [''theme_switcher'', ''component_test_builder'', ''e2e_frontend_builder'', ''hook_test_generator'',
        ''table_generator'', ''toast_notification_system'', ''skeleton_loader_builder'',
        ''infinite_scroll_builder'']
   \<and> lookup (handlers frontendSkills) ''table_generator'' = None"
  by (simp add: frontendSkills_def frontend_exports_def registered_def object_literal_def Object_keys_def)




text \<open>
  Claim C3.  An invocation is a function of the runtime and the input: the handlers read
  nothing else.  Of the runtime, the clock matters to \<open>migration_expert\<close> only: for every
  other skill of the catalogue, invocations on the same input at different times end the
  same.  Invocations of \<open>migration_expert\<close> on the same input at different times are either
  all rejected with the same issues, or return results that are equal but for the time
  stamp: the same template around the same migration name, with the time of the call in
  the class name and in the metadata.
\<close>

theorem results_independent_of_clock:
  "(\<forall>d \<in> set all_skills. SkillDefinition.name d \<noteq> ''migration_expert'' \<longrightarrow>
      (\<forall>rt t input. invoke (rt\<lparr>Date_now := t\<rparr>) d input = invoke rt d input))
   \<and> (\<forall>rt input.
        (\<exists>issues. \<forall>t. invoke (rt\<lparr>Date_now := t\<rparr>) migrationExpertSkillDefinition input = Rejected issues)
        \<or> (\<exists>m. \<forall>t. invoke (rt\<lparr>Date_now := t\<rparr>) migrationExpertSkillDefinition input
              = Returned
                  \<lparr>success = True,
                   data = Some (JStr (migration_expert_code (m @ number_toString rt (of_int t)))),
                   error = None,
                   metadata = Some (JObj [(''migrationClass'', JStr (m @ number_toString rt (of_int t))),
                                          (''timestamp'', JNum (of_int t))])\<rparr>))"
proof
  show "\<forall>d \<in> set all_skills. SkillDefinition.name d \<noteq> ''migration_expert'' \<longrightarrow>
      (\<forall>rt t input. invoke (rt\<lparr>Date_now := t\<rparr>) d input = invoke rt d input)"
    unfolding all_skills_def backend_skills_def frontend_exports_def
    by (simp add: invoke_skill cong: sum.case_cong)
  show "\<forall>rt input.
        (\<exists>issues. \<forall>t. invoke (rt\<lparr>Date_now := t\<rparr>) migrationExpertSkillDefinition input = Rejected issues)
        \<or> (\<exists>m. \<forall>t. invoke (rt\<lparr>Date_now := t\<rparr>) migrationExpertSkillDefinition input
              = Returned
                  \<lparr>success = True,
                   data = Some (JStr (migration_expert_code (m @ number_toString rt (of_int t)))),
                   error = None,
                   metadata = Some (JObj [(''migrationClass'', JStr (m @ number_toString rt (of_int t))),
                                          (''timestamp'', JNum (of_int t))])\<rparr>)"
  proof (intro allI)
    fix rt input
    show "(\<exists>issues. \<forall>t. invoke (rt\<lparr>Date_now := t\<rparr>) migrationExpertSkillDefinition input = Rejected issues)
        \<or> (\<exists>m. \<forall>t. invoke (rt\<lparr>Date_now := t\<rparr>) migrationExpertSkillDefinition input
              = Returned
                  \<lparr>success = True,
                   data = Some (JStr (migration_expert_code (m @ number_toString rt (of_int t)))),
                   error = None,
                   metadata = Some (JObj [(''migrationClass'', JStr (m @ number_toString rt (of_int t))),
                                          (''timestamp'', JNum (of_int t))])\<rparr>)"
    proof (cases "zparse rt MigrationExpertSchema input")
      case (Inl issues)
      then show ?thesis
        by (simp add: migrationExpertSkillDefinition_invoke)
    next
      case (Inr v)
      then show ?thesis
        by (simp add: migrationExpertSkillDefinition_invoke migration_expert_handler_def Let_def
            migration_expert_className_def)
    qed
  qed
qed

theorem results_independent_of_clock_witness:
  "\<forall>rt t. invoke (rt\<lparr>Date_now := t\<rparr>) cacheManagerSkillDefinition (JObj [])
         = invoke rt cacheManagerSkillDefinition (JObj [])"
proof (intro allI)
  fix rt t
  have "cacheManagerSkillDefinition \<in> set all_skills"
    by (simp add: all_skills_def backend_skills_def)
  moreover have "SkillDefinition.name cacheManagerSkillDefinition \<noteq> ''migration_expert''"
    by simp
  ultimately show "invoke (rt\<lparr>Date_now := t\<rparr>) cacheManagerSkillDefinition (JObj [])
         = invoke rt cacheManagerSkillDefinition (JObj [])"
    using results_independent_of_clock by blast
qed

text \<open>
  Claim C4.  Invoking \<open>role_guard_generator\<close> with
  \<open>{rolesEnumName: "UserRole", defaultRoles: ["admin", "user"]}\<close> returns a result with
  \<open>success\<close> true whose file \<open>roles.enum.ts\<close> is the declaration of the enum \<open>UserRole\<close> with
  the two members \<open>ADMIN = 'admin'\<close> and \<open>USER = 'user'\<close>, and nothing else.
\<close>

theorem role_guard_example_enum:
  \<open>\<exists>r. invoke rt roleGuardGeneratorSkillDefinition
          (JObj [(''rolesEnumName'', JStr ''UserRole''), (''defaultRoles'', strings [''admin'', ''user''])])
        = Returned r
      \<and> success r
      \<and> returned_file (Returned r) ''roles.enum.ts''
          = Some (''export enum UserRole {\<newline>'' @ ''  ADMIN = 'admin',\<newline>'' @ ''  USER = 'user',\<newline>'' @ ''}'')\<close>
  by (simp add: roleGuardGeneratorSkillDefinition_invoke RoleGuardGeneratorSchema_def validation
      RoleGuardGeneratorArgs_of_def RoleGuardGeneratorArgs.make_def role_guard_generator_handler_def Let_def
      role_guard_generator_enumCode_def returned_file_def toUpperCase_def toUpperCase_char_def)






text \<open>
  Claim C8.  A handler can throw on an input that its schema accepts: the schema of
  \<open>skeleton_loader\<close> takes any number as \<open>itemCount\<close>, and the handler evaluates
  \<open>Array(itemCount)\<close>, which throws a \<open>RangeError\<close> for \<open>-1\<close>.
\<close>

theorem skeleton_loader_negative_count_throws:
  "invoke rt skeletonLoaderSkillDefinition (JObj [(''componentName'', JStr ''S''), (''itemCount'', JNum (- 1))])
     = Threw (RangeError ''Invalid array length'')"
  by (simp add: skeletonLoaderSkillDefinition_invoke SkeletonLoaderSchema_def validation
      SkeletonLoaderArgs_of_def SkeletonLoaderArgs.make_def skeleton_loader_handler_def Let_def
      valid_array_length_def)

text \<open>
  Claim C9.  The empty input \<open>{}\<close> is accepted by \<open>RoleGuardGeneratorSchema\<close>, and invoking
  \<open>role_guard_generator\<close> on it returns exactly the result of invoking it on the explicit
  input \<open>{rolesEnumName: 'UserRole', defaultRoles: ['admin', 'user'], jwtPayloadType: 'JwtPayload'}\<close>.
\<close>

theorem role_guard_defaults_equal_explicit:
  "(\<exists>v. zparse rt RoleGuardGeneratorSchema (JObj []) = Inr v)
   \<and> (\<exists>r. invoke rt roleGuardGeneratorSkillDefinition (JObj []) = Returned r)
   \<and> invoke rt roleGuardGeneratorSkillDefinition (JObj [])
       = invoke rt roleGuardGeneratorSkillDefinition
           (JObj [(''rolesEnumName'', JStr ''UserRole''),
                  (''defaultRoles'', strings [''admin'', ''user'']),
                  (''jwtPayloadType'', JStr ''JwtPayload'')])"
  by (simp add: roleGuardGeneratorSkillDefinition_invoke RoleGuardGeneratorSchema_def validation)




end
